(* ===== verification/Prelude.thy ===== *)
theory Prelude
  imports Main "HOL-Library.Word" "HOL-Library.Finite_Map" "HOL-Library.List_Lexorder" "HOL-Library.Char_ord"
begin

text \<open>
  Shared vocabulary of the development: the outcome type of Go code (a value, an error value or
  a run-time panic), machine integers, slices and maps as the Go code uses them, and the generic
  lemmas the component theories rely on.

  \<^item> Unsigned machine integers are words (\<open>u8\<close>, \<open>u32\<close>, \<open>u64\<close>).  A Go \<open>int64\<close> is an
    \<open>int\<close> whose every arithmetic result is wrapped by \<open>wrap64\<close>.
  \<^item> A byte slice is a list of \<open>u8\<close>; a Go string is a list of bytes too and is written as a
    \<open>string\<close> (a list of 8-bit characters).
  \<^item> A Go map is a finite map (\<open>fmap\<close>); the order in which Go ranges over a map is
    unspecified, so a loop over a map takes that order as an argument.
\<close>

named_theorems go_split \<open>case splits of outcomes\<close>

subsection \<open>Machine integers\<close>

type_synonym u8 = "8 word"
type_synonym u32 = "32 word"
type_synonym u64 = "64 word"
type_synonym bytes = "u8 list"

definition in_i64 :: "int \<Rightarrow> bool" where
  "in_i64 x \<longleftrightarrow> - (2 ^ 63) \<le> x \<and> x < 2 ^ 63"

definition wrap64 :: "int \<Rightarrow> int" where
  "wrap64 x = (x + 2 ^ 63) mod 2 ^ 64 - 2 ^ 63"

lemma wrap64_in_i64 [simp, intro]: "in_i64 (wrap64 x)"
proof -
  have "0 \<le> (x + 2 ^ 63) mod 2 ^ 64" "(x + 2 ^ 63) mod 2 ^ 64 < 2 ^ 64"
    by (rule pos_mod_sign, simp) (rule pos_mod_bound, simp)
  then show ?thesis by (simp add: in_i64_def wrap64_def)
qed

lemma wrap64_id [simp]: "in_i64 x \<Longrightarrow> wrap64 x = x"
  by (simp add: in_i64_def wrap64_def)

lemma wrap64_cong: "wrap64 x = wrap64 y \<longleftrightarrow> x mod 2 ^ 64 = y mod 2 ^ 64"
proof -
  have "wrap64 x = wrap64 y \<longleftrightarrow> (x + 2 ^ 63) mod 2 ^ 64 = (y + 2 ^ 63) mod 2 ^ 64"
    by (simp add: wrap64_def)
  also have "\<dots> \<longleftrightarrow> x mod 2 ^ 64 = y mod 2 ^ 64"
    by (simp add: mod_eq_dvd_iff)
  finally show ?thesis .
qed

lemma wrap64_mod: "wrap64 x mod 2 ^ 64 = x mod 2 ^ 64"
  by (metis wrap64_cong wrap64_id wrap64_in_i64)

lemma wrap64_add_left [simp]: "wrap64 (wrap64 x + y) = wrap64 (x + y)"
  unfolding wrap64_cong by (metis mod_add_left_eq wrap64_mod)

lemma wrap64_add_right [simp]: "wrap64 (x + wrap64 y) = wrap64 (x + y)"
  by (metis add.commute wrap64_add_left)

lemma in_i64_0 [simp]: "in_i64 0"
  by (simp add: in_i64_def)

subsection \<open>Outcomes\<close>

text \<open>
  A Go function that returns an \<open>error\<close> or that can panic returns an outcome.  An error is the
  sentinel \<open>io.EOF\<close>, the sentinel \<open>redis.Nil\<close>, or an error with a message.
\<close>

datatype go_error = ErrEOF | ErrNil | ErrMsg string

datatype 'a go = Ok 'a | Fail go_error | Panic string

primrec bindG :: "'a go \<Rightarrow> ('a \<Rightarrow> 'b go) \<Rightarrow> 'b go" where
  "bindG (Ok x) f = f x"
| "bindG (Fail e) f = Fail e"
| "bindG (Panic p) f = Panic p"

lemma bindG_cong [fundef_cong]:
  "m = m' \<Longrightarrow> (\<And>x. m' = Ok x \<Longrightarrow> f x = f' x) \<Longrightarrow> bindG m f = bindG m' f'"
  by (cases m') auto

lemma bindG_Ok_iff: "bindG m f = Ok y \<longleftrightarrow> (\<exists>x. m = Ok x \<and> f x = Ok y)"
  by (cases m) auto

lemma bindG_assoc [simp]: "bindG (bindG m f) g = bindG m (\<lambda>x. bindG (f x) g)"
  by (cases m) auto

lemma bindG_Ok_right [simp]: "bindG m Ok = m"
  by (cases m) auto

lemma bindG_split [go_split]:
  "P (bindG m f) \<longleftrightarrow>
     (\<forall>x. m = Ok x \<longrightarrow> P (f x)) \<and> (\<forall>e. m = Fail e \<longrightarrow> P (Fail e)) \<and>
     (\<forall>p. m = Panic p \<longrightarrow> P (Panic p))"
  by (cases m) auto

fun is_panic :: "'a go \<Rightarrow> bool" where
  "is_panic (Panic _) = True"
| "is_panic _ = False"

lemma is_panic_bindG: "is_panic (bindG m f) \<longleftrightarrow> is_panic m \<or> (\<exists>x. m = Ok x \<and> is_panic (f x))"
  by (cases m) auto

text \<open>A loop that appends one result per element and stops at the first error or panic.\<close>

fun mapG :: "('a \<Rightarrow> 'b go) \<Rightarrow> 'a list \<Rightarrow> 'b list go" where
  "mapG f [] = Ok []"
| "mapG f (x # xs) = bindG (f x) (\<lambda>y. bindG (mapG f xs) (\<lambda>ys. Ok (y # ys)))"

lemma mapG_Ok: "(\<And>x. x \<in> set xs \<Longrightarrow> f x = Ok (g x)) \<Longrightarrow> mapG f xs = Ok (map g xs)"
  by (induction xs) auto

lemma mapG_Ok_iff: "mapG f xs = Ok ys \<longleftrightarrow> list_all2 (\<lambda>x y. f x = Ok y) xs ys"
  by (induction xs arbitrary: ys) (auto simp: bindG_Ok_iff list_all2_Cons1)

lemma mapG_Ok_in: "mapG f xs = Ok ys \<Longrightarrow> y \<in> set ys \<Longrightarrow> \<exists>x \<in> set xs. f x = Ok y"
  by (induction xs arbitrary: ys) (auto simp: bindG_Ok_iff)

text \<open>\<open>xs[i]\<close> for a constant index panics past the end.\<close>

definition index_go :: "'a list \<Rightarrow> nat \<Rightarrow> 'a go" where
  "index_go xs i = (if i < length xs then Ok (xs ! i) else Panic ''index out of range'')"

lemma index_go_simps [simp]:
  "index_go [] i = Panic ''index out of range''"
  "index_go (x # xs) 0 = Ok x"
  "index_go (x # xs) (Suc i) = index_go xs i"
  "index_go (x # xs) (numeral n) = index_go xs (pred_numeral n)"
  by (simp_all add: index_go_def numeral_eq_Suc)

lemma index_go_panic_iff: "is_panic (index_go xs i) \<longleftrightarrow> length xs \<le> i"
  by (simp add: index_go_def)

text \<open>Steps on a state that end with an outcome; the state of a failed step stays.\<close>

definition bindS :: "'s \<times> 'a go \<Rightarrow> ('s \<Rightarrow> 'a \<Rightarrow> 's \<times> 'b go) \<Rightarrow> 's \<times> 'b go" where
  "bindS m f =
     (case m of (s, Ok x) \<Rightarrow> f s x | (s, Fail e) \<Rightarrow> (s, Fail e) | (s, Panic p) \<Rightarrow> (s, Panic p))"

lemma bindS_simps [simp]:
  "bindS (s, Ok x) f = f s x" "bindS (s, Fail e) f = (s, Fail e)" "bindS (s, Panic p) f = (s, Panic p)"
  by (simp_all add: bindS_def)

lemma bindS_Ok_iff: "bindS m f = (s', Ok y) \<longleftrightarrow> (\<exists>s x. m = (s, Ok x) \<and> f s x = (s', Ok y))"
  by (cases m; cases "snd m") auto

subsection \<open>Slices\<close>

text \<open>
  \<open>copy(dst, src)\<close> overwrites a prefix of \<open>dst\<close> with as much of \<open>src\<close> as fits.
  \<open>copy(dst[off:], src)\<close> panics when \<open>off\<close> is past the end of \<open>dst\<close>, and
  \<open>copy(dst[lo:hi], src)\<close> also when \<open>hi\<close> is.
\<close>

definition go_copy :: "'a list \<Rightarrow> 'a list \<Rightarrow> 'a list" where
  "go_copy dst src = take (length dst) src @ drop (length src) dst"

lemma length_go_copy [simp]: "length (go_copy dst src) = length dst"
  by (auto simp: go_copy_def)

lemma go_copy_same [simp]: "length src = length dst \<Longrightarrow> go_copy dst src = src"
  by (simp add: go_copy_def)

definition copy_from :: "'a list \<Rightarrow> int \<Rightarrow> 'a list \<Rightarrow> 'a list go" where
  "copy_from dst off src =
     (if 0 \<le> off \<and> off \<le> int (length dst)
      then Ok (take (nat off) dst @ go_copy (drop (nat off) dst) src)
      else Panic ''slice bounds out of range'')"

definition copy_range :: "'a list \<Rightarrow> int \<Rightarrow> int \<Rightarrow> 'a list \<Rightarrow> 'a list go" where
  "copy_range dst lo hi src =
     (if 0 \<le> lo \<and> lo \<le> hi \<and> hi \<le> int (length dst)
      then Ok (take (nat lo) dst @ go_copy (take (nat (hi - lo)) (drop (nat lo) dst)) src
               @ drop (nat hi) dst)
      else Panic ''slice bounds out of range'')"

lemma length_copy_from: "copy_from dst off src = Ok r \<Longrightarrow> length r = length dst"
  by (auto simp: copy_from_def split: if_splits)

lemma length_copy_range: "copy_range dst lo hi src = Ok r \<Longrightarrow> length r = length dst"
  by (auto simp: copy_range_def split: if_splits)

text \<open>
  \<open>make([]T, n)\<close> panics when \<open>n\<close> is negative or the array would pass the address space
  (2^48 bytes on linux/amd64).  Allocations below that limit are taken to succeed.
\<close>

definition max_alloc :: int where
  "max_alloc = 2 ^ 48"

definition make_slice :: "int \<Rightarrow> int \<Rightarrow> unit go" where
  "make_slice elem_size n =
     (if n < 0 \<or> max_alloc < n * elem_size then Panic ''makeslice: len out of range'' else Ok ())"

text \<open>The conversion \<open>int(r)\<close> of a \<open>uint64\<close>.\<close>

definition int_of_u64 :: "u64 \<Rightarrow> int" where
  "int_of_u64 r = sint r"

lemma int_of_u64_in_i64 [simp]: "in_i64 (int_of_u64 r)"
  using sint_greater_eq [of r] sint_less [of r] by (simp add: int_of_u64_def in_i64_def)

lemma int_of_u64_small: "uint r < 2 ^ 63 \<Longrightarrow> int_of_u64 r = uint r"
  by (simp add: int_of_u64_def sint_uint signed_take_bit_int_eq_self_iff)
    (rule order_trans [of _ 0], simp_all)

lemma uint_of_nat_64 [simp]: "n < 2 ^ 64 \<Longrightarrow> uint (of_nat n :: u64) = int n"
  by (simp add: unsigned_of_nat take_bit_nat_eq_self)

lemma int_of_u64_of_nat [simp]: "n < 2 ^ 63 \<Longrightarrow> int_of_u64 (of_nat n) = int n"
  by (subst int_of_u64_small) auto

subsection \<open>Ranging over maps\<close>

text \<open>
  \<open>for k, v := range m\<close> visits every entry of a map once, in an order Go leaves open.  A
  function \<open>rng\<close> gives that order; \<open>range_law\<close> is what Go promises of it.
\<close>

definition range_law :: "(('k, 'v) fmap \<Rightarrow> ('k \<times> 'v) list) \<Rightarrow> bool" where
  "range_law rng \<longleftrightarrow> (\<forall>f. distinct (map fst (rng f)) \<and> map_of (rng f) = fmlookup f)"

lemma range_law_set: "range_law rng \<Longrightarrow> (k, v) \<in> set (rng f) \<longleftrightarrow> fmlookup f k = Some v"
  by (metis map_of_eq_Some_iff range_law_def)

lemma range_law_distinct: "range_law rng \<Longrightarrow> distinct (map fst (rng f))"
  by (simp add: range_law_def)

lemma range_law_keys: "range_law rng \<Longrightarrow> set (map fst (rng f)) = fset (fmdom f)"
proof (rule set_eqI)
  fix k
  assume r: "range_law rng"
  have "k \<in> set (map fst (rng f)) \<longleftrightarrow> (\<exists>v. (k, v) \<in> set (rng f))" by force
  then show "k \<in> set (map fst (rng f)) \<longleftrightarrow> k \<in> fset (fmdom f)"
    by (simp add: range_law_set [OF r] fmlookup_dom_iff)
qed

lemma range_sum:
  assumes "range_law rng"
  shows "(\<Sum>(k, v) \<leftarrow> rng f. g k v) = (\<Sum>k \<in> fset (fmdom f). g k (the (fmlookup f k)))"
proof -
  let ?h = "\<lambda>k. g k (the (fmlookup f k))"
  have "(\<Sum>(k, v) \<leftarrow> rng f. g k v) = (\<Sum>k \<leftarrow> map fst (rng f). ?h k)"
    using range_law_set [OF assms]
    by (simp add: comp_def split_beta) (rule arg_cong [where f = sum_list], auto)
  also have "\<dots> = (\<Sum>k \<in> set (map fst (rng f)). ?h k)"
    by (rule sum_list_distinct_conv_sum_set) (rule range_law_distinct [OF assms])
  finally show ?thesis by (simp only: range_law_keys [OF assms])
qed

text \<open>An instance for keys with a linear order: ascending.\<close>

definition ascending :: "('k :: linorder, 'v) fmap \<Rightarrow> ('k \<times> 'v) list" where
  "ascending f = map (\<lambda>k. (k, the (fmlookup f k))) (sorted_list_of_fset (fmdom f))"

lemma ascending_empty [simp]: "ascending fmempty = []"
  by (simp add: ascending_def sorted_list_of_fset.rep_eq)

lemma range_law_ascending: "range_law ascending"
  unfolding range_law_def
proof (intro allI conjI ext)
  fix f :: "('k :: linorder, 'v) fmap"
  show "distinct (map fst (ascending f))"
    by (simp add: ascending_def comp_def sorted_list_of_fset.rep_eq)
  fix k
  show "map_of (ascending f) k = fmlookup f k"
  proof (cases "fmlookup f k")
    case None
    then show ?thesis by (auto simp: ascending_def map_of_eq_None_iff image_iff fmlookup_dom_iff)
  next
    case (Some v)
    then show ?thesis
      by (auto simp: ascending_def comp_def sorted_list_of_fset.rep_eq intro!: map_of_is_SomeI image_eqI [of _ _ k] fmdomI)
  qed
qed

text \<open>Totals of \<open>int64\<close> values, added up one by one.\<close>

definition sum64 :: "int list \<Rightarrow> int" where
  "sum64 xs = foldl (\<lambda>t x. wrap64 (t + x)) 0 xs"

lemma sum64_from: "foldl (\<lambda>t x. wrap64 (t + x)) (wrap64 a) xs = wrap64 (a + sum_list xs)"
  by (induction xs arbitrary: a) (simp_all add: add.assoc)

lemma sum64_eq: "sum64 xs = wrap64 (sum_list xs)"
  using sum64_from [of 0 xs] by (simp add: sum64_def)

end
