(* ===== verification/GoStd.thy ===== *)
theory GoStd
  imports Prelude
begin

text \<open>
  The parts of Go's standard library the program calls, written out as their documentation and
  sources define them: \<open>encoding/hex\<close>, \<open>strconv\<close>, \<open>strings\<close>, \<open>bytes.Buffer\<close>,
  \<open>encoding/binary\<close> and the text forms of \<open>math/big\<close>.  A Go string is a list of bytes; the
  case conversions are those of the ASCII letters, the only letters that occur where the program
  uses them.
\<close>

subsection \<open>encoding/hex\<close>

definition hex_digit :: "nat \<Rightarrow> char" where
  "hex_digit n = char_of (if n < 10 then 48 + n else 87 + n)"

definition from_hex :: "char \<Rightarrow> nat option" where
  "from_hex c = (let k = (of_char c :: nat) in
     if 48 \<le> k \<and> k \<le> 57 then Some (k - 48)
     else if 97 \<le> k \<and> k \<le> 102 then Some (k - 87)
     else if 65 \<le> k \<and> k \<le> 70 then Some (k - 55)
     else None)"

definition hex_byte :: "u8 \<Rightarrow> string" where
  "hex_byte b = [hex_digit (unat b div 16), hex_digit (unat b mod 16)]"

definition hex_encode :: "bytes \<Rightarrow> string" where
  "hex_encode bs = concat (map hex_byte bs)"

text \<open>\<open>hex.DecodeString\<close> returns the bytes before the first malformed pair together with the error.\<close>

fun hex_decode :: "string \<Rightarrow> bytes \<times> go_error option" where
  "hex_decode [] = ([], None)"
| "hex_decode [c] =
     ([], Some (ErrMsg (case from_hex c of None \<Rightarrow> ''encoding/hex: invalid byte''
                        | Some _ \<Rightarrow> ''encoding/hex: odd length hex string'')))"
| "hex_decode (p # q # cs) =
     (case (from_hex p, from_hex q) of
        (Some a, Some b) \<Rightarrow>
          (let (bs, e) = hex_decode cs in (of_nat (16 * a + b) # bs, e))
      | _ \<Rightarrow> ([], Some (ErrMsg ''encoding/hex: invalid byte'')))"

lemma from_hex_digit [simp]: "n < 16 \<Longrightarrow> from_hex (hex_digit n) = Some n"
  by (auto simp: from_hex_def hex_digit_def Let_def)

lemma unat_u8_less [simp]: "unat (b :: u8) < 256"
  by (rule order_less_le_trans [OF unsigned_less]) simp

lemma hex_decode_encode [simp]: "hex_decode (hex_encode bs) = (bs, None)"
proof (induction bs)
  case (Cons b bs)
  have "unat b div 16 < 16" using unat_u8_less [of b] by linarith
  with Cons show ?case by (simp add: hex_encode_def hex_byte_def)
qed (simp add: hex_encode_def)

lemma length_hex_encode [simp]: "length (hex_encode bs) = 2 * length bs"
  by (induction bs) (auto simp: hex_encode_def hex_byte_def)

lemma hex_encode_inj: "hex_encode as = hex_encode bs \<Longrightarrow> as = bs"
  by (metis fst_conv hex_decode_encode)

lemma hex_encode_append: "hex_encode (as @ bs) = hex_encode as @ hex_encode bs"
  by (simp add: hex_encode_def)

subsection \<open>strconv\<close>

definition dec_digit :: "nat \<Rightarrow> char" where
  "dec_digit n = char_of (48 + n)"

fun show_nat :: "nat \<Rightarrow> string" where
  "show_nat n = (if n < 10 then [dec_digit n] else show_nat (n div 10) @ [dec_digit (n mod 10)])"

declare show_nat.simps [simp del]

text \<open>\<open>strconv.FormatInt(i, 10)\<close>, \<open>strconv.FormatUint\<close> and \<open>big.Int.String\<close>.\<close>

definition format_int :: "int \<Rightarrow> string" where
  "format_int i = (if i < 0 then CHR ''-'' # show_nat (nat (- i)) else show_nat (nat i))"

definition digit_value :: "char \<Rightarrow> nat option" where
  "digit_value c = (let k = (of_char c :: nat) in if 48 \<le> k \<and> k \<le> 57 then Some (k - 48) else None)"

datatype num_error = NumOk | NumSyntax | NumRange

text \<open>The loop of \<open>strconv.ParseUint(s, 10, 64)\<close> over the accumulated value.\<close>

fun parse_uint_loop :: "nat \<Rightarrow> string \<Rightarrow> nat \<times> num_error" where
  "parse_uint_loop n [] = (n, NumOk)"
| "parse_uint_loop n (c # cs) =
     (case digit_value c of
        None \<Rightarrow> (0, NumSyntax)
      | Some d \<Rightarrow>
          if (2 ^ 64 - 1) div 10 + 1 \<le> n \<or> 2 ^ 64 \<le> n * 10 + d then (2 ^ 64 - 1, NumRange)
          else parse_uint_loop (n * 10 + d) cs)"

definition parse_uint :: "string \<Rightarrow> nat \<times> num_error" where
  "parse_uint s = (if s = [] then (0, NumSyntax) else parse_uint_loop 0 s)"

text \<open>\<open>strconv.ParseInt(s, 10, 64)\<close>: a syntax error gives 0, a range error the nearest bound.\<close>

definition parse_int :: "string \<Rightarrow> int \<times> num_error" where
  "parse_int s =
     (if s = [] then (0, NumSyntax)
      else
        let neg = (hd s = CHR ''-'');
            body = (if hd s = CHR ''+'' \<or> hd s = CHR ''-'' then tl s else s);
            (un, err) = parse_uint body
        in if err = NumSyntax then (0, NumSyntax)
           else if \<not> neg \<and> 2 ^ 63 \<le> un then (2 ^ 63 - 1, NumRange)
           else if neg \<and> 2 ^ 63 < un then (- (2 ^ 63), NumRange)
           else (if neg then - int un else int un, NumOk))"

lemma digit_value_dec_digit [simp]: "d < 10 \<Longrightarrow> digit_value (dec_digit d) = Some d"
  by (auto simp: digit_value_def dec_digit_def Let_def)

lemma parse_uint_loop_append_digit:
  assumes "parse_uint_loop n s = (m, NumOk)" and "d < 10" and "m * 10 + d < 2 ^ 64"
  shows "parse_uint_loop n (s @ [dec_digit d]) = (m * 10 + d, NumOk)"
  using assms(1)
proof (induction n s rule: parse_uint_loop.induct)
  case (1 n)
  with assms(2,3) show ?case by simp
next
  case (2 n c cs)
  then show ?case by (auto split: option.splits if_splits)
qed

lemma parse_uint_loop_show_nat: "n < 2 ^ 64 \<Longrightarrow> parse_uint_loop 0 (show_nat n) = (n, NumOk)"
proof (induction n rule: show_nat.induct)
  case (1 n)
  show ?case
  proof (cases "n < 10")
    case True
    then show ?thesis by (simp add: show_nat.simps [of n])
  next
    case False
    with 1 have "parse_uint_loop 0 (show_nat (n div 10)) = (n div 10, NumOk)" by simp
    moreover have "n div 10 * 10 + n mod 10 = n" by simp
    ultimately show ?thesis
      using False 1(2) parse_uint_loop_append_digit [of 0 "show_nat (n div 10)" "n div 10" "n mod 10"]
      by (simp add: show_nat.simps [of n])
  qed
qed

lemma show_nat_nonempty [simp]: "show_nat n \<noteq> []"
  by (subst show_nat.simps) simp

lemma set_show_nat: "c \<in> set (show_nat n) \<Longrightarrow> \<exists>d < 10. c = dec_digit d"
proof (induction n rule: show_nat.induct)
  case (1 n)
  then show ?case
    by (cases "n < 10") (auto simp: show_nat.simps [of n] intro: exI [of _ "n mod 10"])
qed

lemma dec_digit_not_sign [simp]:
  "d < 10 \<Longrightarrow> dec_digit d \<noteq> CHR ''-''" "d < 10 \<Longrightarrow> dec_digit d \<noteq> CHR ''+''"
  "d < 10 \<Longrightarrow> dec_digit d \<noteq> CHR '':''"
  by (auto dest!: arg_cong [of _ _ "of_char :: char \<Rightarrow> nat"] simp: dec_digit_def)

lemma hd_show_nat: "hd (show_nat n) \<noteq> CHR ''-''" "hd (show_nat n) \<noteq> CHR ''+''"
  using set_show_nat [of "hd (show_nat n)" n] by (auto simp: hd_in_set dest: sym)

lemma parse_int_format_int [simp]:
  assumes "in_i64 i"
  shows "parse_int (format_int i) = (i, NumOk)"
proof (cases "i < 0")
  case True
  with assms have b: "nat (- i) < 2 ^ 64" "nat (- i) \<le> 2 ^ 63"
    by (auto simp: in_i64_def nat_less_iff nat_le_iff)
  have "parse_uint (show_nat (nat (- i))) = (nat (- i), NumOk)"
    using parse_uint_loop_show_nat [OF b(1)] by (simp add: parse_uint_def)
  with True b(2) show ?thesis by (simp add: parse_int_def format_int_def Let_def)
next
  case False
  with assms have b: "nat i < 2 ^ 64" "nat i < 2 ^ 63"
    by (auto simp: in_i64_def nat_less_iff)
  have "parse_uint (show_nat (nat i)) = (nat i, NumOk)"
    using parse_uint_loop_show_nat [OF b(1)] by (simp add: parse_uint_def)
  with False b(2) show ?thesis
    by (simp add: parse_int_def format_int_def Let_def hd_show_nat)
qed

lemma parse_uint_loop_bound: "n < 2 ^ 64 \<Longrightarrow> fst (parse_uint_loop n s) < 2 ^ 64"
  by (induction n s rule: parse_uint_loop.induct) (auto split: option.splits)

lemma parse_int_in_i64: "in_i64 (fst (parse_int s))"
proof -
  have "fst (parse_uint b) < 2 ^ 64" for b
    using parse_uint_loop_bound [of 0 b] by (simp add: parse_uint_def)
  then show ?thesis
    by (auto simp: parse_int_def in_i64_def Let_def split: prod.splits)
qed

text \<open>\<open>new(big.Int).SetString(s, 10)\<close>: no bound on the value, \<open>nil\<close> when malformed.\<close>

fun parse_digits :: "nat \<Rightarrow> string \<Rightarrow> nat option" where
  "parse_digits n [] = Some n"
| "parse_digits n (c # cs) =
     (case digit_value c of None \<Rightarrow> None | Some d \<Rightarrow> parse_digits (n * 10 + d) cs)"

definition big_set_string :: "string \<Rightarrow> int option" where
  "big_set_string s =
     (let neg = (s \<noteq> [] \<and> hd s = CHR ''-'');
          body = (if s \<noteq> [] \<and> (hd s = CHR ''+'' \<or> hd s = CHR ''-'') then tl s else s)
      in if body = [] then None
         else map_option (\<lambda>n. if neg then - int n else int n) (parse_digits 0 body))"

lemma parse_digits_append:
  "parse_digits n (s @ t) = Option.bind (parse_digits n s) (\<lambda>m. parse_digits m t)"
  by (induction n s rule: parse_digits.induct) (auto split: option.splits)

lemma parse_digits_show_nat [simp]: "parse_digits 0 (show_nat n) = Some n"
proof (induction n rule: show_nat.induct)
  case (1 n)
  then show ?case
    by (cases "n < 10") (auto simp: show_nat.simps [of n] parse_digits_append)
qed

lemma big_set_string_format_int [simp]: "big_set_string (format_int i) = Some i"
  by (auto simp: big_set_string_def format_int_def Let_def hd_show_nat)


subsection \<open>strings\<close>

text \<open>\<open>strings.Split\<close> and \<open>strings.Join\<close> for a separator of one byte.\<close>

fun split_on :: "char \<Rightarrow> string \<Rightarrow> string list" where
  "split_on c [] = [[]]"
| "split_on c (x # xs) =
     (if x = c then [] # split_on c xs
      else case split_on c xs of [] \<Rightarrow> [[x]] | h # t \<Rightarrow> (x # h) # t)"

fun join_on :: "char \<Rightarrow> string list \<Rightarrow> string" where
  "join_on c [] = []"
| "join_on c [s] = s"
| "join_on c (s # t # ss) = s @ c # join_on c (t # ss)"

text \<open>\<open>strings.SplitN(s, sep, 2)\<close>: the text before the first separator and the text after it.\<close>

fun split_n2 :: "char \<Rightarrow> string \<Rightarrow> string list" where
  "split_n2 c [] = [[]]"
| "split_n2 c (x # xs) =
     (if x = c then [[], xs]
      else case split_n2 c xs of [] \<Rightarrow> [[x]] | h # t \<Rightarrow> (x # h) # t)"

lemma split_on_nonempty [simp]: "split_on c s \<noteq> []"
  by (induction s) (auto split: list.splits)

lemma split_on_no_sep [simp]: "c \<notin> set s \<Longrightarrow> split_on c s = [s]"
  by (induction s) auto

lemma split_on_append: "c \<notin> set s \<Longrightarrow> split_on c (s @ c # t) = s # split_on c t"
  by (induction s) auto

lemma split_on_join_on:
  "ss \<noteq> [] \<Longrightarrow> \<forall>s \<in> set ss. c \<notin> set s \<Longrightarrow> split_on c (join_on c ss) = ss"
  by (induction c ss rule: join_on.induct) (auto simp: split_on_append)

lemma join_on_inj:
  assumes "ss \<noteq> []" "ts \<noteq> []" "\<forall>s \<in> set ss. c \<notin> set s" "\<forall>s \<in> set ts. c \<notin> set s"
    and "join_on c ss = join_on c ts"
  shows "ss = ts"
  using assms by (metis split_on_join_on)

lemma join_on_split_on: "join_on c (split_on c s) = s"
proof (induction s)
  case (Cons x xs)
  obtain h t where ht: "split_on c xs = h # t" by (cases "split_on c xs") auto
  with Cons show ?case by (cases t) auto
qed simp

lemma split_n2_no_sep: "c \<notin> set s \<Longrightarrow> split_n2 c s = [s]"
  by (induction s) auto

lemma split_n2_sep: "c \<notin> set s \<Longrightarrow> split_n2 c (s @ c # t) = [s, t]"
  by (induction s) auto

definition to_lower_char :: "char \<Rightarrow> char" where
  "to_lower_char ch = (let k = (of_char ch :: nat) in if 65 \<le> k \<and> k \<le> 90 then char_of (k + 32) else ch)"

definition to_lower :: "string \<Rightarrow> string" where
  "to_lower s = map to_lower_char s"

definition equal_fold :: "string \<Rightarrow> string \<Rightarrow> bool" where
  "equal_fold s t \<longleftrightarrow> to_lower s = to_lower t"

lemma to_lower_char_idem [simp]: "to_lower_char (to_lower_char ch) = to_lower_char ch"
  by (auto simp: to_lower_char_def Let_def)

lemma to_lower_idem [simp]: "to_lower (to_lower s) = to_lower s"
  by (simp add: to_lower_def)

lemma to_lower_hex_digit: "n < 16 \<Longrightarrow> to_lower_char (hex_digit n) = hex_digit n"
  by (auto simp: to_lower_char_def hex_digit_def Let_def)

lemma to_lower_hex_encode [simp]: "to_lower (hex_encode bs) = hex_encode bs"
proof (induction bs)
  case (Cons b bs)
  have "unat b div 16 < 16" using unat_u8_less [of b] by linarith
  with Cons show ?case
    by (simp add: hex_encode_def hex_byte_def to_lower_def to_lower_hex_digit)
qed (simp add: hex_encode_def to_lower_def)

lemma no_colon_format_int [simp]: "CHR '':'' \<notin> set (format_int i)"
  by (auto simp: format_int_def dest!: set_show_nat) (metis dec_digit_not_sign(3))+

lemma hex_colon: "from_hex CHR '':'' = None"
  by (simp add: from_hex_def Let_def)

lemma hex_digit_not_colon [simp]: "n < 16 \<Longrightarrow> hex_digit n \<noteq> CHR '':''"
  by (metis from_hex_digit [of n] option.distinct(1) hex_colon)

lemma hex_byte_no_colon: "CHR '':'' \<notin> set (hex_byte b)"
proof -
  have "unat b div 16 < 16" using unat_u8_less [of b] by linarith
  then have "CHR '':'' \<noteq> hex_digit (unat b div 16)" "CHR '':'' \<noteq> hex_digit (unat b mod 16)"
    by (simp_all add: hex_digit_not_colon [symmetric])
  then show ?thesis by (auto simp: hex_byte_def)
qed

lemma no_colon_hex_encode [simp]: "CHR '':'' \<notin> set (hex_encode bs)"
  by (auto simp: hex_encode_def hex_byte_no_colon)

subsection \<open>bytes.Buffer and io.Writer\<close>

text \<open>
  \<open>Read(p)\<close> of a \<open>bytes.Buffer\<close> whose unread part is \<open>buf\<close>, with \<open>len(p) = n\<close>: an empty
  buffer gives \<open>io.EOF\<close> unless \<open>n = 0\<close>; otherwise at most \<open>n\<close> bytes are read, fewer when the
  buffer holds fewer, and that is no error.
\<close>

definition buf_read :: "bytes \<Rightarrow> nat \<Rightarrow> (bytes \<times> bytes) go" where
  "buf_read buf n = (if buf = [] \<and> n \<noteq> 0 then Fail ErrEOF else Ok (take n buf, drop n buf))"

lemma buf_read_enough [simp]: "length xs = n \<Longrightarrow> n \<noteq> 0 \<Longrightarrow> buf_read (xs @ r) n = Ok (xs, r)"
  by (auto simp: buf_read_def)

lemma buf_read_zero [simp]: "buf_read buf 0 = Ok ([], buf)"
  by (simp add: buf_read_def)

text \<open>
  The packing functions write through an \<open>io.Writer\<close>, an interface: any \<open>Write\<close> method, which
  takes the writer's state and returns the new one or an error.  A \<open>bytes.Buffer\<close> appends.
\<close>

type_synonym 'w writer = "'w \<Rightarrow> bytes \<Rightarrow> 'w go"

definition buf_write :: "bytes writer" where
  "buf_write buf p = Ok (buf @ p)"

subsection \<open>encoding/binary\<close>

text \<open>\<open>binary.Write(buf, binary.BigEndian, x)\<close> for a \<open>uint32\<close>.\<close>

definition big_endian32 :: "u32 \<Rightarrow> bytes" where
  "big_endian32 x = [ucast (drop_bit 24 x), ucast (drop_bit 16 x), ucast (drop_bit 8 x), ucast x]"

lemma length_big_endian32 [simp]: "length (big_endian32 x) = 4"
  by (simp add: big_endian32_def)

end
