(* ===== verification/Serialize.thy ===== *)
theory Serialize
  imports GoStd
begin

unbundle bit_operations_syntax

text \<open>
  The wire primitives of \<open>blocktemplate/serialize.go\<close>: the fixed-size byte arrays \<open>CryptoHash\<close>
  and \<open>CryptoPubKey\<close> and CryptoNote's variable-length integers.  A packing function takes the
  \<open>Write\<close> method and the state of an \<open>io.Writer\<close>; an unpacking function takes the unread part
  of a \<open>bytes.Buffer\<close>, the only reader the program passes, and returns the rest of it.
\<close>

subsection \<open>Fixed-size arrays\<close>

definition CRYPTOHASHSIZE :: nat where "CRYPTOHASHSIZE = 32"
definition CRYPTOPUBKEYSIZE :: nat where "CRYPTOPUBKEYSIZE = 33"

record CryptoHash =
  HashData :: bytes

record CryptoPubKey =
  PubKeyData :: bytes

definition wf_hash :: "CryptoHash \<Rightarrow> bool" where
  "wf_hash c \<longleftrightarrow> length (HashData c) = CRYPTOHASHSIZE"

definition wf_pubkey :: "CryptoPubKey \<Rightarrow> bool" where
  "wf_pubkey c \<longleftrightarrow> length (PubKeyData c) = CRYPTOPUBKEYSIZE"

definition zero_hash :: CryptoHash where
  "zero_hash = \<lparr>HashData = replicate CRYPTOHASHSIZE 0\<rparr>"

definition zero_pubkey :: CryptoPubKey where
  "zero_pubkey = \<lparr>PubKeyData = replicate CRYPTOPUBKEYSIZE 0\<rparr>"

lemma wf_zero [simp]: "wf_hash zero_hash" "wf_pubkey zero_pubkey"
  by (simp_all add: wf_hash_def wf_pubkey_def zero_hash_def zero_pubkey_def)

definition CryptoHash_Pack :: "'w writer \<Rightarrow> CryptoHash \<Rightarrow> 'w \<Rightarrow> 'w go" where
  "CryptoHash_Pack wr c w = wr w (HashData c)"

definition CryptoHash_UnPack :: "CryptoHash \<Rightarrow> bytes \<Rightarrow> (CryptoHash \<times> bytes) go" where
  "CryptoHash_UnPack c buf =
     bindG (buf_read buf CRYPTOHASHSIZE)
       (\<lambda>(d, buf'). Ok (c\<lparr>HashData := go_copy (HashData c) d\<rparr>, buf'))"

definition CryptoHash_ToHex :: "CryptoHash \<Rightarrow> string" where
  "CryptoHash_ToHex c = hex_encode (HashData c)"

definition CryptoHash_FromHex :: "CryptoHash \<Rightarrow> string \<Rightarrow> CryptoHash go" where
  "CryptoHash_FromHex c hexStr =
     (if length hexStr \<noteq> 2 * CRYPTOHASHSIZE
      then Fail (ErrMsg ''CryptoHash FromHex: invalid hex string len'')
      else case hex_decode hexStr of
             (b, Some e) \<Rightarrow> Fail e
           | (b, None) \<Rightarrow> Ok (c\<lparr>HashData := go_copy (HashData c) b\<rparr>))"

definition CryptoPubKey_Pack :: "'w writer \<Rightarrow> CryptoPubKey \<Rightarrow> 'w \<Rightarrow> 'w go" where
  "CryptoPubKey_Pack wr c w = wr w (PubKeyData c)"

definition CryptoPubKey_UnPack :: "CryptoPubKey \<Rightarrow> bytes \<Rightarrow> (CryptoPubKey \<times> bytes) go" where
  "CryptoPubKey_UnPack c buf =
     bindG (buf_read buf CRYPTOPUBKEYSIZE)
       (\<lambda>(d, buf'). Ok (c\<lparr>PubKeyData := go_copy (PubKeyData c) d\<rparr>, buf'))"

definition CryptoPubKey_ToHex :: "CryptoPubKey \<Rightarrow> string" where
  "CryptoPubKey_ToHex c = hex_encode (PubKeyData c)"

definition CryptoPubKey_FromHex :: "CryptoPubKey \<Rightarrow> string \<Rightarrow> CryptoPubKey go" where
  "CryptoPubKey_FromHex c hexStr =
     (if length hexStr \<noteq> 2 * CRYPTOPUBKEYSIZE
      then Fail (ErrMsg ''CryptoPubKey FromHex: invalid hex string len'')
      else case hex_decode hexStr of
             (b, Some e) \<Rightarrow> Fail e
           | (b, None) \<Rightarrow> Ok (c\<lparr>PubKeyData := go_copy (PubKeyData c) b\<rparr>))"

subsection \<open>Variable-length integers\<close>

text \<open>
  \<open>PackVarInt\<close> writes seven bits at a time, lowest first, one \<open>Write\<close> per byte, with the top
  bit set on every byte but the last.
\<close>

function PackVarInt :: "'w writer \<Rightarrow> u64 \<Rightarrow> 'w \<Rightarrow> 'w go" where
  "PackVarInt wr varInt w =
     (if varInt < 0x80 then wr w [ucast varInt]
      else bindG (wr w [ucast ((varInt AND 0x7f) OR 0x80)])
                 (PackVarInt wr (drop_bit 7 varInt)))"
  by pat_completeness auto
termination
proof (relation "measure (\<lambda>(wr, v, w). unat v)")
  fix wr :: "'w writer" and v :: u64 and w x :: 'w
  assume "\<not> v < 0x80"
  then have "128 \<le> unat v" by (simp add: word_less_nat_alt not_less)
  then have "unat (drop_bit 7 v) < unat v"
    by (simp add: drop_bit_eq_div unat_div)
  then show "((wr, drop_bit 7 v, x), wr, v, w) \<in> measure (\<lambda>(wr, v, w). unat v)"
    by simp
qed simp

declare PackVarInt.simps [simp del]

text \<open>
  \<open>UnPackVarInt\<close> collects the seven-bit groups of one byte after the other, up to and including
  the first byte below 0x80, and then sums them with shifts; a shift by 64 or more gives 0.
\<close>

fun read_groups :: "bytes \<Rightarrow> bytes \<Rightarrow> (bytes \<times> bytes) go" where
  "read_groups acc [] = Fail ErrEOF"
| "read_groups acc (b # buf) =
     (if b < 0x80 then Ok (acc @ [b AND 0x7f], buf) else read_groups (acc @ [b AND 0x7f]) buf)"

fun sum_groups :: "nat \<Rightarrow> u64 \<Rightarrow> bytes \<Rightarrow> u64" where
  "sum_groups i result [] = result"
| "sum_groups i result (b # bs) = sum_groups (Suc i) (result + push_bit (i * 7) (ucast b)) bs"

definition UnPackVarInt :: "bytes \<Rightarrow> (u64 \<times> bytes) go" where
  "UnPackVarInt buf =
     bindG (read_groups [] buf) (\<lambda>(varIntBytes, buf'). Ok (sum_groups 0 0 varIntBytes, buf'))"

subsection \<open>The encoding as a function on numbers\<close>

fun groups :: "nat \<Rightarrow> nat list" where
  "groups n = (if n < 128 then [n] else n mod 128 # groups (n div 128))"

declare groups.simps [simp del]

fun mark_groups :: "nat list \<Rightarrow> bytes" where
  "mark_groups [] = []"
| "mark_groups [d] = [of_nat d]"
| "mark_groups (d # ds) = of_nat (128 + d) # mark_groups ds"

definition varint :: "u64 \<Rightarrow> bytes" where
  "varint v = mark_groups (groups (unat v))"

lemma groups_nonempty [simp]: "groups n \<noteq> []"
  by (subst groups.simps) simp

lemma groups_less: "\<forall>d \<in> set (groups n). d < 128"
proof (induction n rule: groups.induct)
  case (1 n)
  then show ?case by (cases "n < 128") (auto simp: groups.simps [of n])
qed

lemma mark_groups_Cons [simp]: "ds \<noteq> [] \<Longrightarrow> mark_groups (d # ds) = of_nat (128 + d) # mark_groups ds"
  by (cases ds) auto

lemma length_mark_groups [simp]: "length (mark_groups ds) = length ds"
  by (induction ds rule: mark_groups.induct) auto

lemma u8_of_nat_less: "n < 256 \<Longrightarrow> unat (of_nat n :: u8) = n"
  by (simp add: unat_of_nat)

lemma and_0x7f: "unat (b AND 0x7f :: u8) = unat b mod 128"
proof -
  have "b AND 0x7f = take_bit 7 b" by (simp add: take_bit_eq_mask mask_eq_exp_minus_1)
  then show ?thesis by (simp add: take_bit_eq_mod unat_mod)
qed

lemma and_0x7f_small: "d < 128 \<Longrightarrow> (of_nat d :: u8) AND 0x7f = of_nat d"
  by (rule word_unat_eq_iff [THEN iffD2]) (simp add: and_0x7f u8_of_nat_less)

lemma and_0x7f_marked: "d < 128 \<Longrightarrow> (of_nat (128 + d) :: u8) AND 0x7f = of_nat d"
proof (rule word_unat_eq_iff [THEN iffD2])
  assume "d < 128"
  moreover have "unat (of_nat (128 + d) :: u8) = 128 + d"
    by (rule u8_of_nat_less) (use \<open>d < 128\<close> in simp)
  ultimately show "unat ((of_nat (128 + d) :: u8) AND 0x7f) = unat (of_nat d :: u8)"
    by (simp only: and_0x7f u8_of_nat_less) simp
qed

lemma read_groups_mark:
  "ds \<noteq> [] \<Longrightarrow> \<forall>d \<in> set ds. d < 128 \<Longrightarrow>
   read_groups acc (mark_groups ds @ r) = Ok (acc @ map of_nat ds, r)"
proof (induction ds arbitrary: acc)
  case (Cons d ds)
  show ?case
  proof (cases "ds = []")
    case True
    with Cons.prems show ?thesis
      by (simp add: word_less_nat_alt u8_of_nat_less and_0x7f_small)
  next
    case False
    have "\<not> (of_nat (128 + d) :: u8) < 0x80"
      using Cons.prems u8_of_nat_less [of "128 + d"] by (simp add: word_less_nat_alt)
    moreover have "(of_nat (128 + d) :: u8) AND 0x7f = of_nat d"
      using Cons.prems by (simp only: and_0x7f_marked list.set_intros)
    ultimately show ?thesis using False Cons by simp
  qed
qed simp

lemma ucast_of_nat_u8: "d < 128 \<Longrightarrow> (ucast (of_nat d :: u8) :: u64) = of_nat d"
  by (rule word_unat_eq_iff [THEN iffD2]) (simp add: unsigned_ucast_eq u8_of_nat_less unat_of_nat take_bit_nat_eq_self)

lemma sum_groups_groups:
  "sum_groups i a (map of_nat (groups n)) = a + of_nat (n * 128 ^ i)"
proof (induction n arbitrary: i a rule: groups.induct)
  case (1 n)
  have push: "push_bit (i * 7) (of_nat d :: u64) = of_nat (d * 128 ^ i)" for d
    by (simp add: push_bit_eq_mult power_mult mult.commute [of i])
  show ?case
  proof (cases "n < 128")
    case True
    then show ?thesis by (simp add: groups.simps [of n] ucast_of_nat_u8 push del: of_nat_mult of_nat_power)
  next
    case False
    have "n mod 128 * 128 ^ i + n div 128 * 128 ^ Suc i = (n mod 128 + 128 * (n div 128)) * 128 ^ i"
      by (simp only: distrib_left distrib_right power_Suc ac_simps)
    also have "\<dots> = n * 128 ^ i" by (simp only: mod_mult_div_eq)
    finally have eq: "n mod 128 * 128 ^ i + n div 128 * 128 ^ Suc i = n * 128 ^ i" .
    have "sum_groups i a (map of_nat (groups n)) =
        a + of_nat (n mod 128 * 128 ^ i) + of_nat (n div 128 * 128 ^ Suc i)"
      using False 1 by (simp add: groups.simps [of n] ucast_of_nat_u8 push del: of_nat_mult of_nat_power)
    also have "\<dots> = a + of_nat (n mod 128 * 128 ^ i + n div 128 * 128 ^ Suc i)"
      by (simp only: of_nat_add add.assoc)
    finally show ?thesis by (simp only: eq)
  qed
qed

lemma UnPackVarInt_varint [simp]: "UnPackVarInt (varint v @ r) = Ok (v, r)"
  using read_groups_mark [of "groups (unat v)" "[]" r] groups_less [of "unat v"]
    sum_groups_groups [of 0 0 "unat v"]
  by (simp add: UnPackVarInt_def varint_def)

lemma varint_small: "v < 0x80 \<Longrightarrow> varint v = [ucast v]"
proof -
  assume "v < 0x80"
  then have "unat v < 128" by (simp add: word_less_nat_alt)
  then show ?thesis
    by (simp add: varint_def groups.simps [of "unat v"])
qed

lemma varint_large: "\<not> v < 0x80 \<Longrightarrow> varint v = ucast ((v AND 0x7f) OR 0x80) # varint (drop_bit 7 v)"
proof -
  assume "\<not> v < 0x80"
  then have ge: "\<not> unat v < 128" by (simp add: word_less_nat_alt)
  have d: "unat (drop_bit 7 v) = unat v div 128" by (simp add: drop_bit_eq_div unat_div)
  have disj: "(v AND 0x7f) AND 0x80 = 0" by (simp add: and.assoc)
  have "(v AND 0x7f) OR 0x80 = (v AND 0x7f) + 0x80"
    using disj by (simp add: disjunctive_add_eq_or)
  moreover have "v AND 0x7f = of_nat (unat v mod 128)"
  proof -
    have "v AND 0x7f = take_bit 7 v" by (simp add: take_bit_eq_mask mask_eq_exp_minus_1)
    then have "v AND 0x7f = v mod 128" by (simp add: take_bit_eq_mod)
    then have "unat (v AND 0x7f) = unat v mod 128" by (simp add: unat_mod)
    then show ?thesis by (metis of_nat_unat ucast_id)
  qed
  ultimately have e: "(v AND 0x7f) OR 0x80 = of_nat (128 + unat v mod 128)" by simp
  have u: "(ucast (of_nat n :: u64) :: u8) = of_nat n" if "n < 256" for n
    using that by (simp add: unsigned_of_nat take_bit_nat_eq_self)
  have "128 + unat v mod 128 < 256" using mod_less_divisor [of 128 "unat v"] by linarith
  then have "ucast ((v AND 0x7f) OR 0x80) = (of_nat (128 + unat v mod 128) :: u8)"
    unfolding e by (rule u)
  then show ?thesis
    using ge by (simp add: varint_def d groups.simps [of "unat v"])
qed

lemma length_varint_pos [simp]: "varint v \<noteq> []"
  by (metis groups_nonempty length_0_conv length_mark_groups varint_def)

lemma groups_length: "n < 128 ^ Suc k \<Longrightarrow> length (groups n) \<le> Suc k"
proof (induction k arbitrary: n)
  case 0
  then show ?case by (simp add: groups.simps [of n])
next
  case (Suc k)
  have "n div 128 < 128 ^ Suc k" using Suc.prems by (simp add: less_mult_imp_div_less)
  with Suc.IH show ?case by (cases "n < 128") (auto simp: groups.simps [of n])
qed

lemma length_varint_le: "length (varint v) \<le> 10"
proof -
  have "unat v < 2 ^ 64" by (rule order_less_le_trans [OF unsigned_less]) simp
  also have "(2 :: nat) ^ 64 < 128 ^ Suc 9" by simp
  finally have "length (groups (unat v)) \<le> Suc 9" by (rule groups_length)
  then show ?thesis by (simp add: varint_def)
qed

subsection \<open>Writers\<close>

text \<open>
  What the packing functions rely on in an \<open>io.Writer\<close>: a \<open>Write\<close> that reports no error has
  appended all its bytes.  A writer that never fails makes packing total.
\<close>

locale io_writer =
  fixes wr :: "'w writer" and contents :: "'w \<Rightarrow> bytes"
  assumes write_ok: "wr w p = Ok w' \<Longrightarrow> contents w' = contents w @ p"
begin

lemma PackVarInt_appends: "PackVarInt wr v w = Ok w' \<Longrightarrow> contents w' = contents w @ varint v"
proof (induction v arbitrary: w rule: wf_induct_rule [OF wf_measure [of unat]])
  case (1 v)
  show ?case
  proof (cases "v < 0x80")
    case True
    with 1 show ?thesis by (simp add: PackVarInt.simps [of wr v] write_ok varint_small)
  next
    case False
    then have "unat (drop_bit 7 v) < unat v"
      by (simp add: drop_bit_eq_div unat_div word_less_nat_alt)
    with 1 False show ?thesis
      by (auto simp: PackVarInt.simps [of wr v] bindG_Ok_iff write_ok varint_large)
  qed
qed

lemma CryptoHash_Pack_appends:
  "CryptoHash_Pack wr c w = Ok w' \<Longrightarrow> contents w' = contents w @ HashData c"
  by (simp add: CryptoHash_Pack_def write_ok)

lemma CryptoPubKey_Pack_appends:
  "CryptoPubKey_Pack wr c w = Ok w' \<Longrightarrow> contents w' = contents w @ PubKeyData c"
  by (simp add: CryptoPubKey_Pack_def write_ok)

end

locale total_writer = io_writer +
  assumes write_total: "\<exists>w'. wr w p = Ok w'"
begin

lemma PackVarInt_total: "\<exists>w'. PackVarInt wr v w = Ok w'"
proof (induction v arbitrary: w rule: wf_induct_rule [OF wf_measure [of unat]])
  case (1 v)
  show ?case
  proof (cases "v < 0x80")
    case True
    then show ?thesis by (simp add: PackVarInt.simps [of wr v] write_total)
  next
    case False
    then have "unat (drop_bit 7 v) < unat v"
      by (simp add: drop_bit_eq_div unat_div word_less_nat_alt)
    moreover obtain w1 where "wr w [ucast ((v AND 0x7f) OR 0x80)] = Ok w1"
      using write_total by blast
    ultimately show ?thesis
      using 1 False by (simp add: PackVarInt.simps [of wr v])
  qed
qed

end

interpretation buffer: total_writer buf_write "\<lambda>b. b"
  by unfold_locales (auto simp: buf_write_def)

lemma PackVarInt_buffer [simp]: "PackVarInt buf_write v w = Ok (w @ varint v)"
  using buffer.PackVarInt_total [of v w] buffer.PackVarInt_appends by auto

lemma CryptoHash_Pack_buffer [simp]: "CryptoHash_Pack buf_write c w = Ok (w @ HashData c)"
  by (simp add: CryptoHash_Pack_def buf_write_def)

lemma CryptoPubKey_Pack_buffer [simp]: "CryptoPubKey_Pack buf_write c w = Ok (w @ PubKeyData c)"
  by (simp add: CryptoPubKey_Pack_def buf_write_def)

lemma CryptoHash_UnPack_full [simp]:
  "wf_hash c0 \<Longrightarrow> wf_hash c \<Longrightarrow> CryptoHash_UnPack c0 (HashData c @ r) = Ok (c, r)"
  by (simp add: CryptoHash_UnPack_def wf_hash_def CRYPTOHASHSIZE_def)

lemma CryptoPubKey_UnPack_full [simp]:
  "wf_pubkey c0 \<Longrightarrow> wf_pubkey c \<Longrightarrow> CryptoPubKey_UnPack c0 (PubKeyData c @ r) = Ok (c, r)"
  by (simp add: CryptoPubKey_UnPack_def wf_pubkey_def CRYPTOPUBKEYSIZE_def)

end
