(* ===== verification/Transaction.thy ===== *)
theory Transaction
  imports Serialize
begin

text \<open>
  The miner transaction of \<open>blocktemplate/transaction.go\<close>: its inputs, outputs and extra bytes,
  packed through a writer and unpacked from a buffer.  \<open>enc_\<dots>\<close> are the reference encodings:
  what a packed value looks like as bytes.
\<close>

subsection \<open>Loops over slices\<close>

fun pack_list :: "('a \<Rightarrow> 'w \<Rightarrow> 'w go) \<Rightarrow> 'a list \<Rightarrow> 'w \<Rightarrow> 'w go" where
  "pack_list pk [] w = Ok w"
| "pack_list pk (x # xs) w = bindG (pk x w) (pack_list pk xs)"

text \<open>\<open>for i := 0; i < n; i++ { err = xs[i].UnPack(reader); \<dots> }\<close> over \<open>n\<close> zero values.\<close>

fun unpack_list ::
  "('a \<Rightarrow> bytes \<Rightarrow> ('a \<times> bytes) go) \<Rightarrow> 'a \<Rightarrow> nat \<Rightarrow> bytes \<Rightarrow> ('a list \<times> bytes) go" where
  "unpack_list up z 0 buf = Ok ([], buf)"
| "unpack_list up z (Suc n) buf =
     bindG (up z buf) (\<lambda>(x, buf1).
     bindG (unpack_list up z n buf1) (\<lambda>(xs, buf2). Ok (x # xs, buf2)))"

lemma unpack_list_enc:
  assumes "\<And>x r. x \<in> set xs \<Longrightarrow> up z (enc x @ r) = Ok (x, r)"
  shows "unpack_list up z (length xs) (concat (map enc xs) @ r) = Ok (xs, r)"
  using assms by (induction xs) simp_all

lemma pack_list_buffer:
  assumes "\<And>x w. pk x w = Ok (w @ enc x)"
  shows "pack_list pk xs w = Ok (w @ concat (map enc xs))"
  using assms by (induction xs arbitrary: w) simp_all

lemma pack_list_appends:
  assumes "\<And>x w w'. pk x w = Ok w' \<Longrightarrow> contents w' = contents w @ enc x"
    and "pack_list pk xs w = Ok w'"
  shows "contents w' = contents w @ concat (map enc xs)"
  using assms by (induction xs arbitrary: w) (auto simp: bindG_Ok_iff)

lemma length_unpack_list:
  "unpack_list up z n buf = Ok (xs, r) \<Longrightarrow> length xs = n"
  by (induction n arbitrary: buf xs) (auto simp: bindG_Ok_iff)

subsection \<open>Inputs\<close>

record TxInGen =
  TxIn_Height :: u32

definition zero_txin :: TxInGen where
  "zero_txin = \<lparr>TxIn_Height = 0\<rparr>"

definition TxInGen_Pack :: "'w writer \<Rightarrow> TxInGen \<Rightarrow> 'w \<Rightarrow> 'w go" where
  "TxInGen_Pack wr t w = PackVarInt wr (ucast (TxIn_Height t)) w"

definition TxInGen_UnPack :: "TxInGen \<Rightarrow> bytes \<Rightarrow> (TxInGen \<times> bytes) go" where
  "TxInGen_UnPack t buf =
     bindG (UnPackVarInt buf) (\<lambda>(r, buf'). Ok (t\<lparr>TxIn_Height := ucast r\<rparr>, buf'))"

definition enc_txin :: "TxInGen \<Rightarrow> bytes" where
  "enc_txin t = varint (ucast (TxIn_Height t))"

lemma TxInGen_UnPack_enc: "TxInGen_UnPack t0 (enc_txin t @ r) = Ok (t, r)"
  by (simp add: TxInGen_UnPack_def enc_txin_def unsigned_ucast_eq take_bit_word_eq_self)

subsection \<open>Outputs\<close>

record TxOutGen =
  Amount :: u64
  PubKey :: CryptoPubKey
  ViewTag :: u8

definition zero_txout :: TxOutGen where
  "zero_txout = \<lparr>Amount = 0, PubKey = zero_pubkey, ViewTag = 0\<rparr>"

definition TxOutGen_Pack :: "'w writer \<Rightarrow> TxOutGen \<Rightarrow> 'w \<Rightarrow> 'w go" where
  "TxOutGen_Pack wr t w =
     bindG (PackVarInt wr (Amount t) w) (\<lambda>w.
     bindG (CryptoPubKey_Pack wr (PubKey t) w) (\<lambda>w.
     wr w [ViewTag t]))"

definition TxOutGen_UnPack :: "TxOutGen \<Rightarrow> bytes \<Rightarrow> (TxOutGen \<times> bytes) go" where
  "TxOutGen_UnPack t buf =
     bindG (UnPackVarInt buf) (\<lambda>(r, buf).
     bindG (CryptoPubKey_UnPack (PubKey t) buf) (\<lambda>(k, buf).
     bindG (buf_read buf 1) (\<lambda>(s, buf).
     Ok (t\<lparr>Amount := r, PubKey := k, ViewTag := go_copy [0] s ! 0\<rparr>, buf))))"

definition enc_txout :: "TxOutGen \<Rightarrow> bytes" where
  "enc_txout t = varint (Amount t) @ PubKeyData (PubKey t) @ [ViewTag t]"

lemma TxOutGen_UnPack_enc:
  assumes "wf_pubkey (PubKey t0)" "wf_pubkey (PubKey t)"
  shows "TxOutGen_UnPack t0 (enc_txout t @ r) = Ok (t, r)"
  using assms buf_read_enough [of "[ViewTag t]" 1 r]
  by (simp add: TxOutGen_UnPack_def enc_txout_def)

subsection \<open>The miner transaction\<close>

record MinerTransaction =
  Version :: u64
  UnlockTime :: u64
  Vin :: "TxInGen list"
  Vout :: "TxOutGen list"
  Extra :: bytes
  RctSigType :: u8

definition zero_minertx :: MinerTransaction where
  "zero_minertx = \<lparr>Version = 0, UnlockTime = 0, Vin = [], Vout = [], Extra = [], RctSigType = 0\<rparr>"

definition MinerTransaction_Pack :: "'w writer \<Rightarrow> MinerTransaction \<Rightarrow> 'w \<Rightarrow> 'w go" where
  "MinerTransaction_Pack wr m w =
     bindG (PackVarInt wr (Version m) w) (\<lambda>w.
     bindG (PackVarInt wr (UnlockTime m) w) (\<lambda>w.
     bindG (PackVarInt wr (of_nat (length (Vin m))) w) (\<lambda>w.
     bindG (pack_list (TxInGen_Pack wr) (Vin m) w) (\<lambda>w.
     bindG (PackVarInt wr (of_nat (length (Vout m))) w) (\<lambda>w.
     bindG (pack_list (TxOutGen_Pack wr) (Vout m) w) (\<lambda>w.
     bindG (PackVarInt wr (of_nat (length (Extra m))) w) (\<lambda>w.
     bindG (wr w (Extra m)) (\<lambda>w.
     PackVarInt wr (ucast (RctSigType m)) w))))))))"

text \<open>
  The elements of the two slices take 4 and 48 bytes in memory.  A length read from the wire is
  converted to \<open>int\<close> for \<open>Vin\<close> and \<open>Vout\<close> and used as the \<open>uint64\<close> it is for
  \<open>Extra\<close>; a short read of \<open>Extra\<close> leaves zero bytes at its end.
\<close>

definition MinerTransaction_UnPack ::
  "MinerTransaction \<Rightarrow> bytes \<Rightarrow> (MinerTransaction \<times> bytes) go" where
  "MinerTransaction_UnPack m buf =
     bindG (UnPackVarInt buf) (\<lambda>(version, buf).
     bindG (UnPackVarInt buf) (\<lambda>(unlock, buf).
     bindG (UnPackVarInt buf) (\<lambda>(r, buf).
     bindG (make_slice 4 (int_of_u64 r)) (\<lambda>_.
     bindG (unpack_list TxInGen_UnPack zero_txin (nat (int_of_u64 r)) buf) (\<lambda>(vin, buf).
     bindG (UnPackVarInt buf) (\<lambda>(r, buf).
     bindG (make_slice 48 (int_of_u64 r)) (\<lambda>_.
     bindG (unpack_list TxOutGen_UnPack zero_txout (nat (int_of_u64 r)) buf) (\<lambda>(vout, buf).
     bindG (UnPackVarInt buf) (\<lambda>(r, buf).
     bindG (make_slice 1 (uint r)) (\<lambda>_.
     bindG (buf_read buf (unat r)) (\<lambda>(d, buf).
     let extra = go_copy (replicate (unat r) 0) d in
     bindG (UnPackVarInt buf) (\<lambda>(r, buf).
     Ok (m\<lparr>Version := version, UnlockTime := unlock, Vin := vin, Vout := vout, Extra := extra,
           RctSigType := ucast r\<rparr>, buf)))))))))))))"

definition enc_minertx :: "MinerTransaction \<Rightarrow> bytes" where
  "enc_minertx m =
     varint (Version m) @ varint (UnlockTime m) @
     varint (of_nat (length (Vin m))) @ concat (map enc_txin (Vin m)) @
     varint (of_nat (length (Vout m))) @ concat (map enc_txout (Vout m)) @
     varint (of_nat (length (Extra m))) @ Extra m @ varint (ucast (RctSigType m))"

text \<open>A miner transaction whose arrays have their sizes and whose slices fit the address space.\<close>

definition wf_minertx :: "MinerTransaction \<Rightarrow> bool" where
  "wf_minertx m \<longleftrightarrow>
     int (length (Vin m)) * 4 \<le> max_alloc \<and> int (length (Vout m)) * 48 \<le> max_alloc \<and>
     int (length (Extra m)) \<le> max_alloc \<and> list_all (\<lambda>t. wf_pubkey (PubKey t)) (Vout m)"

lemma make_slice_fits [simp]: "int n * k \<le> max_alloc \<Longrightarrow> make_slice k (int n) = Ok ()"
  by (simp add: make_slice_def)

lemma ucast_u8_u64 [simp]: "(ucast (ucast (b :: u8) :: u64) :: u8) = b"
  by (simp add: unsigned_ucast_eq take_bit_word_eq_self)

lemma buf_read_exact [simp]: "length xs = n \<Longrightarrow> buf_read (xs @ r) n = Ok (xs, r)"
  by (cases "n = 0") auto

lemma MinerTransaction_UnPack_enc:
  assumes "wf_minertx m"
  shows "MinerTransaction_UnPack m0 (enc_minertx m @ r) = Ok (m, r)"
proof -
  have vin: "unpack_list TxInGen_UnPack zero_txin (length (Vin m)) (concat (map enc_txin (Vin m)) @ x)
      = Ok (Vin m, x)" for x
    by (rule unpack_list_enc) (rule TxInGen_UnPack_enc)
  have vout: "unpack_list TxOutGen_UnPack zero_txout (length (Vout m)) (concat (map enc_txout (Vout m)) @ x)
      = Ok (Vout m, x)" for x
    by (rule unpack_list_enc, rule TxOutGen_UnPack_enc)
      (use assms in \<open>auto simp: wf_minertx_def list_all_iff zero_txout_def\<close>)
  from assms have len: "length (Vin m) < 2 ^ 63" "length (Vout m) < 2 ^ 63" "length (Extra m) < 2 ^ 63"
    by (auto simp: wf_minertx_def max_alloc_def)
  then have ext: "unat (of_nat (length (Extra m)) :: u64) = length (Extra m)"
    "uint (of_nat (length (Extra m)) :: u64) = int (length (Extra m))"
    by (simp_all add: unat_of_nat)
  show ?thesis
    using assms len
    by (simp add: MinerTransaction_UnPack_def enc_minertx_def vin vout ext wf_minertx_def)
qed

context io_writer
begin

lemma TxInGen_Pack_appends: "TxInGen_Pack wr t w = Ok w' \<Longrightarrow> contents w' = contents w @ enc_txin t"
  by (simp add: TxInGen_Pack_def enc_txin_def PackVarInt_appends)

lemma TxOutGen_Pack_appends:
  "TxOutGen_Pack wr t w = Ok w' \<Longrightarrow> contents w' = contents w @ enc_txout t"
  by (auto simp: TxOutGen_Pack_def enc_txout_def bindG_Ok_iff PackVarInt_appends write_ok
      CryptoPubKey_Pack_appends)

lemma pack_vin_appends:
  "pack_list (TxInGen_Pack wr) xs w = Ok w' \<Longrightarrow> contents w' = contents w @ concat (map enc_txin xs)"
  by (rule pack_list_appends [where pk = "TxInGen_Pack wr"]) (rule TxInGen_Pack_appends)

lemma pack_vout_appends:
  "pack_list (TxOutGen_Pack wr) xs w = Ok w' \<Longrightarrow> contents w' = contents w @ concat (map enc_txout xs)"
  by (rule pack_list_appends [where pk = "TxOutGen_Pack wr"]) (rule TxOutGen_Pack_appends)

lemma MinerTransaction_Pack_appends:
  "MinerTransaction_Pack wr m w = Ok w' \<Longrightarrow> contents w' = contents w @ enc_minertx m"
  by (auto simp: MinerTransaction_Pack_def enc_minertx_def bindG_Ok_iff PackVarInt_appends write_ok
      pack_vin_appends pack_vout_appends)

end

lemma TxInGen_Pack_buffer [simp]: "TxInGen_Pack buf_write t w = Ok (w @ enc_txin t)"
  by (simp add: TxInGen_Pack_def enc_txin_def)

lemma TxOutGen_Pack_buffer [simp]: "TxOutGen_Pack buf_write t w = Ok (w @ enc_txout t)"
  by (simp add: TxOutGen_Pack_def enc_txout_def) (simp add: buf_write_def)

lemma MinerTransaction_Pack_buffer [simp]:
  "MinerTransaction_Pack buf_write m w = Ok (w @ enc_minertx m)"
  by (simp add: MinerTransaction_Pack_def enc_minertx_def pack_list_buffer [OF TxInGen_Pack_buffer]
      pack_list_buffer [OF TxOutGen_Pack_buffer]) (simp add: buf_write_def)

end
