(* ===== verification/Block.thy ===== *)
theory Block
  imports Transaction
begin

text \<open>
  Block headers, blocks, the block template blob a daemon sends and the hashing blob a miner
  hashes (\<open>blocktemplate/block.go\<close>, \<open>blocktemplateblob.go\<close>, \<open>blockhashingblob.go\<close>).  The
  nonce is written with the byte-order functions of the external package
  \<open>bitcoin-lib/src/utility\<close>, which are a parameter (the record \<open>btc_utility\<close>); \<open>btc_laws\<close>
  says what the code relies on: the conversions undo each other and a dump has four bytes.
\<close>

subsection \<open>The external byte-order functions\<close>

record btc_utility =
  DumpUint32ToBytes :: "u32 \<Rightarrow> bytes"
  LoadUint32FromBytes :: "bytes \<Rightarrow> u32"
  ConvertUint32ToLittleEndian :: "u32 \<Rightarrow> u32"
  ConvertUint32FromLittleEndian :: "u32 \<Rightarrow> u32"

definition btc_laws :: "btc_utility \<Rightarrow> bool" where
  "btc_laws u \<longleftrightarrow>
     (\<forall>x. length (DumpUint32ToBytes u x) = 4) \<and>
     (\<forall>x. LoadUint32FromBytes u (DumpUint32ToBytes u x) = x) \<and>
     (\<forall>x. ConvertUint32FromLittleEndian u (ConvertUint32ToLittleEndian u x) = x)"

text \<open>An instance for a little-endian host: memory order dumps, identity conversions.\<close>

definition le_bytes32 :: "u32 \<Rightarrow> bytes" where
  "le_bytes32 x = [ucast x, ucast (drop_bit 8 x), ucast (drop_bit 16 x), ucast (drop_bit 24 x)]"

definition le_load32 :: "bytes \<Rightarrow> u32" where
  "le_load32 bs = foldr (\<lambda>b acc. ucast b + 256 * acc) (take 4 bs) 0"

definition le_utility :: btc_utility where
  "le_utility = \<lparr>DumpUint32ToBytes = le_bytes32, LoadUint32FromBytes = le_load32,
     ConvertUint32ToLittleEndian = (\<lambda>x. x), ConvertUint32FromLittleEndian = (\<lambda>x. x)\<rparr>"

lemma unat_u32_less: "unat (x :: u32) < 4294967296"
  by (rule order_less_le_trans [OF unsigned_less]) simp

lemma drop_byte: "(ucast (ucast (drop_bit n (x :: u32)) :: u8) :: u32) = of_nat (unat x div 2 ^ n mod 256)"
proof -
  have t: "take_bit 32 (unat x) = unat x"
    using unat_u32_less [of x] by (simp add: take_bit_nat_eq_self)
  have "unat (ucast (ucast (drop_bit n x) :: u8) :: u32) = take_bit 32 (take_bit 8 (drop_bit n (unat x)))"
    by (simp only: unsigned_ucast_eq unsigned_drop_bit_eq unsigned_take_bit_eq) (simp add: t)
  also have "\<dots> = unat x div 2 ^ n mod 256"
    by (simp add: take_bit_eq_mod drop_bit_eq_div)
  finally show ?thesis by (metis of_nat_unat ucast_id)
qed

lemma base256_digits:
  fixes m :: nat
  assumes "m < 4294967296"
  shows "m mod 256 + 256 * (m div 256 mod 256 + 256 * (m div 65536 mod 256 + 256 * (m div 16777216 mod 256))) = m"
proof -
  have "m div 65536 = m div 256 div 256" "m div 16777216 = m div 256 div 256 div 256"
    by (simp_all add: div_mult2_eq [symmetric])
  moreover have "m div 256 div 256 div 256 < 256" using assms by linarith
  ultimately show ?thesis by (simp only: mod_less mod_mult_div_eq)
qed

lemma le_load_bytes: "le_load32 (le_bytes32 x) = x"
proof -
  let ?m = "unat x"
  have "le_load32 (le_bytes32 x) = of_nat (?m mod 256 + 256 * (?m div 256 mod 256 +
      256 * (?m div 65536 mod 256 + 256 * (?m div 16777216 mod 256))))"
    using drop_byte [of 0 x] drop_byte [of 8 x] drop_byte [of 16 x] drop_byte [of 24 x]
    by (simp add: le_load32_def le_bytes32_def)
  also have "\<dots> = of_nat ?m" by (subst base256_digits [OF unat_u32_less]) (rule refl)
  finally show ?thesis by simp
qed

lemma rev_big_endian32: "rev (big_endian32 x) = le_bytes32 x"
  by (simp add: big_endian32_def le_bytes32_def)

lemma big_endian32_inject [simp]: "big_endian32 x = big_endian32 y \<longleftrightarrow> x = y"
  by (metis rev_big_endian32 le_load_bytes)

lemma btc_laws_le_utility: "btc_laws le_utility"
  by (simp add: btc_laws_def le_utility_def le_load_bytes) (simp add: le_bytes32_def)

definition packU32 :: "btc_utility \<Rightarrow> 'w writer \<Rightarrow> u32 \<Rightarrow> 'w \<Rightarrow> 'w go" where
  "packU32 u wr data32 w =
     (let bs = DumpUint32ToBytes u (ConvertUint32ToLittleEndian u data32)
      in if length bs = 4 then wr w bs else Panic ''incorrect bytes length, not 4'')"

definition unpackU32 :: "btc_utility \<Rightarrow> bytes \<Rightarrow> (u32 \<times> bytes) go" where
  "unpackU32 u buf =
     bindG (buf_read buf 4) (\<lambda>(d, buf).
     Ok (ConvertUint32FromLittleEndian u (LoadUint32FromBytes u (go_copy [0, 0, 0, 0] d)), buf))"

definition enc_u32 :: "btc_utility \<Rightarrow> u32 \<Rightarrow> bytes" where
  "enc_u32 u x = DumpUint32ToBytes u (ConvertUint32ToLittleEndian u x)"

lemma unpackU32_enc: "btc_laws u \<Longrightarrow> unpackU32 u (enc_u32 u x @ r) = Ok (x, r)"
  by (simp add: unpackU32_def enc_u32_def btc_laws_def)

subsection \<open>Block headers\<close>

record BlockHeader =
  MajorVersion :: u8
  MinorVersion :: u8
  Timestamp :: u64
  PrevId :: CryptoHash
  Nonce :: u32

definition zero_header :: BlockHeader where
  "zero_header = \<lparr>MajorVersion = 0, MinorVersion = 0, Timestamp = 0, PrevId = zero_hash, Nonce = 0\<rparr>"

definition BlockHeader_Pack :: "btc_utility \<Rightarrow> 'w writer \<Rightarrow> BlockHeader \<Rightarrow> 'w \<Rightarrow> 'w go" where
  "BlockHeader_Pack u wr b w =
     bindG (PackVarInt wr (ucast (MajorVersion b)) w) (\<lambda>w.
     bindG (PackVarInt wr (ucast (MinorVersion b)) w) (\<lambda>w.
     bindG (PackVarInt wr (Timestamp b) w) (\<lambda>w.
     bindG (CryptoHash_Pack wr (PrevId b) w) (\<lambda>w.
     packU32 u wr (Nonce b) w))))"

definition BlockHeader_UnPack :: "btc_utility \<Rightarrow> BlockHeader \<Rightarrow> bytes \<Rightarrow> (BlockHeader \<times> bytes) go" where
  "BlockHeader_UnPack u b buf =
     bindG (UnPackVarInt buf) (\<lambda>(major, buf).
     bindG (UnPackVarInt buf) (\<lambda>(minor, buf).
     bindG (UnPackVarInt buf) (\<lambda>(timestamp, buf).
     bindG (CryptoHash_UnPack (PrevId b) buf) (\<lambda>(prev, buf).
     bindG (unpackU32 u buf) (\<lambda>(nonce, buf).
     Ok (b\<lparr>MajorVersion := ucast major, MinorVersion := ucast minor, Timestamp := timestamp,
           PrevId := prev, Nonce := nonce\<rparr>, buf))))))"

definition enc_header :: "btc_utility \<Rightarrow> BlockHeader \<Rightarrow> bytes" where
  "enc_header u b =
     varint (ucast (MajorVersion b)) @ varint (ucast (MinorVersion b)) @ varint (Timestamp b) @
     HashData (PrevId b) @ enc_u32 u (Nonce b)"

definition wf_header :: "BlockHeader \<Rightarrow> bool" where
  "wf_header b \<longleftrightarrow> wf_hash (PrevId b)"

lemma BlockHeader_UnPack_enc:
  assumes "btc_laws u" "wf_header b0" "wf_header b"
  shows "BlockHeader_UnPack u b0 (enc_header u b @ r) = Ok (b, r)"
  using assms by (simp add: BlockHeader_UnPack_def enc_header_def wf_header_def unpackU32_enc)

subsection \<open>Blocks and the block template blob\<close>

record Block =
  Block_BlockHeader :: BlockHeader
  MinerTx :: MinerTransaction
  TxHashes :: "CryptoHash list"

definition zero_block :: Block where
  "zero_block = \<lparr>Block_BlockHeader = zero_header, MinerTx = zero_minertx, TxHashes = []\<rparr>"

definition Block_Pack :: "btc_utility \<Rightarrow> 'w writer \<Rightarrow> Block \<Rightarrow> 'w \<Rightarrow> 'w go" where
  "Block_Pack u wr b w =
     bindG (BlockHeader_Pack u wr (Block_BlockHeader b) w) (\<lambda>w.
     bindG (MinerTransaction_Pack wr (MinerTx b) w) (\<lambda>w.
     bindG (PackVarInt wr (of_nat (length (TxHashes b))) w) (\<lambda>w.
     pack_list (CryptoHash_Pack wr) (TxHashes b) w)))"

definition Block_UnPack :: "btc_utility \<Rightarrow> Block \<Rightarrow> bytes \<Rightarrow> (Block \<times> bytes) go" where
  "Block_UnPack u b buf =
     bindG (BlockHeader_UnPack u (Block_BlockHeader b) buf) (\<lambda>(hdr, buf).
     bindG (MinerTransaction_UnPack (MinerTx b) buf) (\<lambda>(mtx, buf).
     bindG (UnPackVarInt buf) (\<lambda>(r, buf).
     bindG (make_slice 32 (int_of_u64 r)) (\<lambda>_.
     bindG (unpack_list CryptoHash_UnPack zero_hash (nat (int_of_u64 r)) buf) (\<lambda>(hs, buf).
     Ok (b\<lparr>Block_BlockHeader := hdr, MinerTx := mtx, TxHashes := hs\<rparr>, buf))))))"

definition enc_block :: "btc_utility \<Rightarrow> Block \<Rightarrow> bytes" where
  "enc_block u b =
     enc_header u (Block_BlockHeader b) @ enc_minertx (MinerTx b) @
     varint (of_nat (length (TxHashes b))) @ concat (map HashData (TxHashes b))"

definition wf_block :: "Block \<Rightarrow> bool" where
  "wf_block b \<longleftrightarrow>
     wf_header (Block_BlockHeader b) \<and> wf_minertx (MinerTx b) \<and>
     int (length (TxHashes b)) * 32 \<le> max_alloc \<and> list_all wf_hash (TxHashes b)"

lemma Block_UnPack_enc:
  assumes "btc_laws u" "wf_header (Block_BlockHeader b0)" "wf_block b"
  shows "Block_UnPack u b0 (enc_block u b @ r) = Ok (b, r)"
proof -
  have hs: "unpack_list CryptoHash_UnPack zero_hash (length (TxHashes b))
      (concat (map HashData (TxHashes b)) @ x) = Ok (TxHashes b, x)" for x
    by (rule unpack_list_enc, rule CryptoHash_UnPack_full)
      (use assms in \<open>auto simp: wf_block_def list_all_iff\<close>)
  from assms have "length (TxHashes b) < 2 ^ 63"
    by (auto simp: wf_block_def max_alloc_def)
  with assms show ?thesis
    by (simp add: Block_UnPack_def enc_block_def hs wf_block_def BlockHeader_UnPack_enc
        MinerTransaction_UnPack_enc)
qed

record BlockTemplateBlob =
  BTB_Block :: Block

definition zero_btb :: BlockTemplateBlob where
  "zero_btb = \<lparr>BTB_Block = zero_block\<rparr>"

definition BlockTemplateBlob_Pack :: "btc_utility \<Rightarrow> 'w writer \<Rightarrow> BlockTemplateBlob \<Rightarrow> 'w \<Rightarrow> 'w go" where
  "BlockTemplateBlob_Pack u wr b w = Block_Pack u wr (BTB_Block b) w"

definition BlockTemplateBlob_UnPack ::
  "btc_utility \<Rightarrow> BlockTemplateBlob \<Rightarrow> bytes \<Rightarrow> (BlockTemplateBlob \<times> bytes) go" where
  "BlockTemplateBlob_UnPack u b buf =
     bindG (Block_UnPack u (BTB_Block b) buf) (\<lambda>(blk, buf). Ok (b\<lparr>BTB_Block := blk\<rparr>, buf))"

subsection \<open>The hashing blob\<close>

record BlockHashingBlob =
  BHB_BlockHeader :: BlockHeader
  TreeRootHash :: CryptoHash
  TxHashSize :: u64

definition BlockHashingBlob_Pack :: "btc_utility \<Rightarrow> 'w writer \<Rightarrow> BlockHashingBlob \<Rightarrow> 'w \<Rightarrow> 'w go" where
  "BlockHashingBlob_Pack u wr b w =
     bindG (BlockHeader_Pack u wr (BHB_BlockHeader b) w) (\<lambda>w.
     bindG (CryptoHash_Pack wr (TreeRootHash b) w) (\<lambda>w.
     PackVarInt wr (TxHashSize b) w))"

definition BlockHashingBlob_UnPack ::
  "btc_utility \<Rightarrow> BlockHashingBlob \<Rightarrow> bytes \<Rightarrow> (BlockHashingBlob \<times> bytes) go" where
  "BlockHashingBlob_UnPack u b buf =
     bindG (BlockHeader_UnPack u (BHB_BlockHeader b) buf) (\<lambda>(hdr, buf).
     bindG (CryptoHash_UnPack (TreeRootHash b) buf) (\<lambda>(root, buf).
     bindG (UnPackVarInt buf) (\<lambda>(n, buf).
     Ok (b\<lparr>BHB_BlockHeader := hdr, TreeRootHash := root, TxHashSize := n\<rparr>, buf))))"

definition enc_hashing_blob :: "btc_utility \<Rightarrow> BlockHashingBlob \<Rightarrow> bytes" where
  "enc_hashing_blob u b =
     enc_header u (BHB_BlockHeader b) @ HashData (TreeRootHash b) @ varint (TxHashSize b)"

definition wf_hashing_blob :: "BlockHashingBlob \<Rightarrow> bool" where
  "wf_hashing_blob b \<longleftrightarrow> wf_header (BHB_BlockHeader b) \<and> wf_hash (TreeRootHash b)"

lemma BlockHashingBlob_UnPack_enc:
  assumes "btc_laws u" "wf_hashing_blob b0" "wf_hashing_blob b"
  shows "BlockHashingBlob_UnPack u b0 (enc_hashing_blob u b @ r) = Ok (b, r)"
  using assms
  by (simp add: BlockHashingBlob_UnPack_def enc_hashing_blob_def wf_hashing_blob_def
      BlockHeader_UnPack_enc)

subsection \<open>Packing writes the reference encoding\<close>

context io_writer
begin

lemma BlockHeader_Pack_appends:
  "BlockHeader_Pack u wr b w = Ok w' \<Longrightarrow> contents w' = contents w @ enc_header u b"
  by (auto simp: BlockHeader_Pack_def enc_header_def bindG_Ok_iff PackVarInt_appends
      CryptoHash_Pack_appends packU32_def enc_u32_def Let_def write_ok split: if_splits)

lemma pack_hashes_appends:
  "pack_list (CryptoHash_Pack wr) xs w = Ok w' \<Longrightarrow> contents w' = contents w @ concat (map HashData xs)"
  by (rule pack_list_appends [where pk = "CryptoHash_Pack wr"]) (rule CryptoHash_Pack_appends)

lemma Block_Pack_appends:
  "Block_Pack u wr b w = Ok w' \<Longrightarrow> contents w' = contents w @ enc_block u b"
  by (auto simp: Block_Pack_def enc_block_def bindG_Ok_iff PackVarInt_appends
      BlockHeader_Pack_appends MinerTransaction_Pack_appends pack_hashes_appends)

lemma BlockTemplateBlob_Pack_appends:
  "BlockTemplateBlob_Pack u wr b w = Ok w' \<Longrightarrow> contents w' = contents w @ enc_block u (BTB_Block b)"
  by (simp add: BlockTemplateBlob_Pack_def Block_Pack_appends)

lemma BlockHashingBlob_Pack_appends:
  "BlockHashingBlob_Pack u wr b w = Ok w' \<Longrightarrow> contents w' = contents w @ enc_hashing_blob u b"
  by (auto simp: BlockHashingBlob_Pack_def enc_hashing_blob_def bindG_Ok_iff PackVarInt_appends
      BlockHeader_Pack_appends CryptoHash_Pack_appends)

end

lemma BlockHeader_Pack_buffer:
  "btc_laws u \<Longrightarrow> BlockHeader_Pack u buf_write b w = Ok (w @ enc_header u b)"
  by (simp add: BlockHeader_Pack_def enc_header_def packU32_def enc_u32_def btc_laws_def)
    (simp add: buf_write_def)

lemma Block_Pack_buffer:
  "btc_laws u \<Longrightarrow> Block_Pack u buf_write b w = Ok (w @ enc_block u b)"
  by (simp add: Block_Pack_def enc_block_def BlockHeader_Pack_buffer
      pack_list_buffer [OF CryptoHash_Pack_buffer])

lemma BlockHashingBlob_Pack_buffer:
  "btc_laws u \<Longrightarrow> BlockHashingBlob_Pack u buf_write b w = Ok (w @ enc_hashing_blob u b)"
  by (simp add: BlockHashingBlob_Pack_def enc_hashing_blob_def BlockHeader_Pack_buffer)

end
