(* ===== verification/Hashing.thy ===== *)
theory Hashing
  imports GoStd
begin

text \<open>
  The Go side of \<open>cnutil/cnutil.go\<close> and \<open>hashing/hashing.go\<close>.  The C functions behind it are
  parameters: what each writes to its output buffer.  The wrappers allocate that buffer, pass the
  address of the first byte of each slice, which panics on an empty slice, and return the buffer.
  A C function that writes past the buffer is outside the model; the copy keeps what fits.
\<close>

record c_library =
  convert_blob :: "bytes \<Rightarrow> bytes"
  validate_address :: "string \<Rightarrow> bool"
  cryptonight_hash :: "bytes \<Rightarrow> u64 \<Rightarrow> bytes"
  cryptonight_fast_hash :: "bytes \<Rightarrow> bytes"
  randomx_slow_hash :: "bytes \<Rightarrow> bytes \<Rightarrow> bytes"

definition c_call :: "nat \<Rightarrow> bytes list \<Rightarrow> bytes \<Rightarrow> bytes go" where
  "c_call n inputs output =
     (if [] \<in> set inputs then Panic ''index out of range'' else Ok (go_copy (replicate n 0) output))"

definition ConvertBlob :: "c_library \<Rightarrow> bytes \<Rightarrow> bytes go" where
  "ConvertBlob c blob = c_call 76 [blob] (convert_blob c blob)"

definition ValidateAddress :: "c_library \<Rightarrow> string \<Rightarrow> bool" where
  "ValidateAddress c addr = validate_address c addr"

definition Hash :: "c_library \<Rightarrow> bytes \<Rightarrow> bool \<Rightarrow> int \<Rightarrow> bytes go" where
  "Hash c blob fast height =
     c_call 32 [blob]
       (if fast then cryptonight_fast_hash c blob else cryptonight_hash c blob (word_of_int height))"

definition FastHash :: "c_library \<Rightarrow> bytes \<Rightarrow> bytes go" where
  "FastHash c blob = Hash c (of_nat (length blob) # blob) True 0"

definition RxHash :: "c_library \<Rightarrow> bytes \<Rightarrow> bytes \<Rightarrow> bytes go" where
  "RxHash c blob seedHash = c_call 32 [seedHash, blob] (randomx_slow_hash c seedHash blob)"

lemma c_call_Ok: "c_call n inputs out = Ok r \<Longrightarrow> length r = n"
  by (auto simp: c_call_def split: if_splits)

lemma length_ConvertBlob: "ConvertBlob c blob = Ok r \<Longrightarrow> length r = 76"
  unfolding ConvertBlob_def by (rule c_call_Ok)

lemma length_RxHash: "RxHash c blob seed = Ok r \<Longrightarrow> length r = 32"
  unfolding RxHash_def by (rule c_call_Ok)

text \<open>The one-byte length prefix is never empty, so the fast hash never panics.\<close>

lemma FastHash_Ok: "\<exists>r. FastHash c blob = Ok r \<and> length r = 32"
  by (simp add: FastHash_def Hash_def c_call_def)

end
