(* ===== verification/Format_Correct.thy ===== *)
theory Format_Correct
  imports Block Hashing
begin

text \<open>
  What the parsers and printers of \<open>blocktemplate/\<close> guarantee: round trips over every writer, the
  size and form of variable-length integers, and the inputs on which unpacking panics, accepts
  truncated data or reads a field that is not the one it is named after.
\<close>

subsection \<open>Variable-length integers\<close>

lemma groups_length_eq: "length (groups n) = Suc k \<longleftrightarrow> (if k = 0 then 0 else 128 ^ k) \<le> n \<and> n < 128 ^ Suc k"
proof (induction k arbitrary: n)
  case 0
  then show ?case by (auto simp: groups.simps [of n])
next
  case (Suc k)
  show ?case
  proof (cases "n < 128")
    case True
    then have "n < 128 ^ Suc k" by (rule order_less_le_trans) simp
    with True show ?thesis by (simp add: groups.simps [of n])
  next
    case False
    then have "length (groups n) = Suc (Suc k) \<longleftrightarrow> length (groups (n div 128)) = Suc k"
      by (simp add: groups.simps [of n])
    also have "\<dots> \<longleftrightarrow> 128 ^ Suc k \<le> n \<and> n < 128 ^ Suc (Suc k)"
      unfolding Suc.IH using False
      by (auto simp: less_eq_div_iff_mult_less_eq div_less_iff_less_mult mult.commute)
    finally show ?thesis by simp
  qed
qed

lemma length_varint_eq:
  "length (varint v) = Suc k \<longleftrightarrow> (if k = 0 then 0 else 128 ^ k) \<le> unat v \<and> unat v < 128 ^ Suc k"
  unfolding varint_def length_mark_groups by (rule groups_length_eq)

text \<open>C37: A variable-length integer packed into a buffer takes at most ten bytes (a 64-bit value
  in groups of seven), is read back as the value it was, whatever follows it, and two values never
  have the same packed form.\<close>

theorem varint_correct:
  "PackVarInt buf_write v w = Ok (w @ varint v) \<and> length (varint v) \<le> 10 \<and>
   UnPackVarInt (varint v @ r) = Ok (v, r) \<and> (varint v = varint v' \<longleftrightarrow> v = v')"
proof -
  have "v = v'" if "varint v = varint v'"
    using UnPackVarInt_varint [of v "[]"] UnPackVarInt_varint [of v' "[]"] that by simp
  then show ?thesis using length_varint_le by auto
qed

subsection \<open>Round trips\<close>

text \<open>C15: Whatever writer the block template blob is packed into, as long as a write that reports
  no error appends all its bytes, unpacking what the writer received gives the blob back and leaves
  the rest of the input untouched.\<close>

theorem template_roundtrip:
  assumes "\<And>w p w'. wr w p = Ok w' \<Longrightarrow> contents w' = contents w @ p"
    and "btc_laws u" "wf_block (BTB_Block b)" "BlockTemplateBlob_Pack u wr b w = Ok w'"
  shows "\<exists>enc. contents w' = contents w @ enc \<and> (\<forall>r. BlockTemplateBlob_UnPack u zero_btb (enc @ r) = Ok (b, r))"
proof -
  have "contents w' = contents w @ enc_block u (BTB_Block b)"
    by (rule io_writer.BlockTemplateBlob_Pack_appends [OF io_writer.intro, OF assms(1,4)])
  moreover have "BlockTemplateBlob_UnPack u zero_btb (enc_block u (BTB_Block b) @ r) = Ok (b, r)" for r
    using Block_UnPack_enc [OF assms(2) _ assms(3), of zero_block r]
    by (simp add: BlockTemplateBlob_UnPack_def zero_btb_def zero_block_def zero_header_def wf_header_def)
  ultimately show ?thesis by blast
qed

definition sample_txout :: TxOutGen where
  "sample_txout = \<lparr>Amount = 600000000000, PubKey = zero_pubkey, ViewTag = 7\<rparr>"

definition sample_block :: "CryptoHash list \<Rightarrow> Block" where
  "sample_block hs =
     \<lparr>Block_BlockHeader = \<lparr>MajorVersion = 16, MinorVersion = 16, Timestamp = 1700000000, PrevId = zero_hash, Nonce = 42\<rparr>,
      MinerTx = \<lparr>Version = 2, UnlockTime = 60, Vin = [\<lparr>TxIn_Height = 3000000\<rparr>], Vout = [sample_txout],
                 Extra = [1, 2, 3], RctSigType = 0\<rparr>,
      TxHashes = hs\<rparr>"

lemma wf_sample_block: "list_all wf_hash hs \<Longrightarrow> int (length hs) * 32 \<le> max_alloc \<Longrightarrow> wf_block (sample_block hs)"
  by (simp add: wf_block_def sample_block_def wf_header_def wf_minertx_def max_alloc_def sample_txout_def)

lemma template_roundtrip_witness:
  "\<exists>enc. [9] @ enc_block le_utility (sample_block [zero_hash, zero_hash]) = [9] @ enc \<and>
     (\<forall>r. BlockTemplateBlob_UnPack le_utility zero_btb (enc @ r) = Ok (\<lparr>BTB_Block = sample_block [zero_hash, zero_hash]\<rparr>, r))"
  by (rule template_roundtrip [where wr = buf_write and contents = "\<lambda>b. b" and u = le_utility
        and b = "\<lparr>BTB_Block = sample_block [zero_hash, zero_hash]\<rparr>"])
    (simp_all add: buf_write_def [abs_def] btc_laws_le_utility wf_sample_block max_alloc_def
      BlockTemplateBlob_Pack_def Block_Pack_buffer [unfolded buf_write_def [abs_def]])

text \<open>A block hashing blob packed into a buffer is read back as it was.\<close>

theorem hashing_blob_roundtrip:
  assumes "btc_laws u" "wf_hashing_blob b0" "wf_hashing_blob b"
  shows "\<exists>enc. BlockHashingBlob_Pack u buf_write b w = Ok (w @ enc) \<and>
    (\<forall>r. BlockHashingBlob_UnPack u b0 (enc @ r) = Ok (b, r))"
  using BlockHashingBlob_Pack_buffer [OF assms(1), of b w] BlockHashingBlob_UnPack_enc [OF assms] by blast

definition sample_hashing_blob :: "u64 \<Rightarrow> BlockHashingBlob" where
  "sample_hashing_blob n =
     \<lparr>BHB_BlockHeader = Block_BlockHeader (sample_block []), TreeRootHash = zero_hash, TxHashSize = n\<rparr>"

lemma wf_sample_hashing_blob [simp]: "wf_hashing_blob (sample_hashing_blob n)"
  by (simp add: wf_hashing_blob_def sample_hashing_blob_def sample_block_def wf_header_def)

lemma hashing_blob_roundtrip_witness:
  "\<exists>enc. BlockHashingBlob_Pack le_utility buf_write (sample_hashing_blob 3) [] = Ok ([] @ enc) \<and>
    (\<forall>r. BlockHashingBlob_UnPack le_utility (sample_hashing_blob 0) (enc @ r) = Ok (sample_hashing_blob 3, r))"
  by (rule hashing_blob_roundtrip) (simp_all add: btc_laws_le_utility)

subsection \<open>Malformed and oversized blobs\<close>

lemma unpack_list_last:
  assumes "\<And>x r. x \<in> set xs \<Longrightarrow> up z (enc x @ r) = Ok (x, r)" "up z end1 = Ok (y, [])"
  shows "unpack_list up z (Suc (length xs)) (concat (map enc xs) @ end1) = Ok (xs @ [y], [])"
  using assms(1)
proof (induction xs)
  case (Cons a xs)
  have "unpack_list up z (Suc (Suc (length xs))) (enc a @ concat (map enc xs) @ end1) =
      bindG (unpack_list up z (Suc (length xs)) (concat (map enc xs) @ end1)) (\<lambda>(xs, r). Ok (a # xs, r))"
    using Cons.prems by (subst unpack_list.simps(2)) (simp del: unpack_list.simps)
  then show ?case using Cons by (simp del: unpack_list.simps)
qed (use assms(2) in simp)

text \<open>A block template blob that is cut inside its last transaction hash is accepted: short
  reads are not noticed, and the missing bytes of the hash are read as zeros.\<close>

theorem truncated_template_accepted:
  assumes "btc_laws u" "wf_block b" "TxHashes b = hs @ [h]" "HashData h = kept @ lost" "kept \<noteq> []"
    and "enc_block u b = front @ lost"
  shows "BlockTemplateBlob_UnPack u zero_btb front =
    Ok (\<lparr>BTB_Block = b\<lparr>TxHashes := hs @ [\<lparr>HashData = kept @ replicate (length lost) 0\<rparr>]\<rparr>\<rparr>, [])"
proof -
  have front: "front = enc_header u (Block_BlockHeader b) @ enc_minertx (MinerTx b) @
      varint (of_nat (Suc (length hs))) @ concat (map HashData hs) @ kept"
    using assms(3,4,6) by (simp add: enc_block_def)
  have wf: "wf_header (Block_BlockHeader b)" "wf_minertx (MinerTx b)" "list_all wf_hash hs" "wf_hash h"
      "int (Suc (length hs)) * 32 \<le> max_alloc"
    using assms(2,3) by (auto simp: wf_block_def)
  have n: "Suc (length hs) < 2 ^ 63" using wf(5) by (auto simp: max_alloc_def)
  have "length kept + length lost = 32"
    using wf(4) assms(4) by (simp add: wf_hash_def CRYPTOHASHSIZE_def)
  then have last: "CryptoHash_UnPack zero_hash kept = Ok (\<lparr>HashData = kept @ replicate (length lost) 0\<rparr>, [])"
    using assms(5) by (auto simp: CryptoHash_UnPack_def buf_read_def zero_hash_def CRYPTOHASHSIZE_def go_copy_def)
  have "unpack_list CryptoHash_UnPack zero_hash (Suc (length hs)) (concat (map HashData hs) @ kept) =
      Ok (hs @ [\<lparr>HashData = kept @ replicate (length lost) 0\<rparr>], [])"
    using wf(3) by (intro unpack_list_last last CryptoHash_UnPack_full) (auto simp: list_all_iff)
  moreover have "make_slice 32 (int (Suc (length hs))) = Ok ()" using wf(5) by (rule make_slice_fits)
  ultimately show ?thesis
    using wf(1,2) n BlockHeader_UnPack_enc [OF assms(1) _ wf(1), of zero_header]
    by (simp add: front BlockTemplateBlob_UnPack_def Block_UnPack_def zero_btb_def zero_block_def
        zero_header_def wf_header_def MinerTransaction_UnPack_enc del: of_nat_Suc unpack_list.simps)
qed

definition last_hash :: "u8 \<Rightarrow> CryptoHash" where
  "last_hash x = \<lparr>HashData = replicate 31 1 @ [x]\<rparr>"

lemma truncated_template_accepted_witness:
  "BlockTemplateBlob_UnPack le_utility zero_btb
     (butlast (enc_block le_utility (sample_block [zero_hash, last_hash 2]))) =
   Ok (\<lparr>BTB_Block = sample_block [zero_hash, last_hash 0]\<rparr>, [])"
proof -
  let ?enc = "enc_block le_utility (sample_block [zero_hash, last_hash 2])"
  have "?enc \<noteq> []" "last ?enc = 2" by (simp_all add: enc_block_def sample_block_def last_hash_def)
  then have "?enc = butlast ?enc @ [2]" by (metis append_butlast_last_id)
  moreover have "wf_hash (last_hash 2)" by (simp add: wf_hash_def last_hash_def CRYPTOHASHSIZE_def)
  moreover have "TxHashes (sample_block hs) = hs" "(sample_block hs)\<lparr>TxHashes := hs'\<rparr> = sample_block hs'" for hs hs'
    by (simp_all add: sample_block_def)
  ultimately show ?thesis
    using truncated_template_accepted [of le_utility "sample_block [zero_hash, last_hash 2]" "[zero_hash]"
        "last_hash 2" "replicate 31 1" "[2]" "butlast ?enc"]
    by (simp add: btc_laws_le_utility wf_sample_block max_alloc_def) (simp add: last_hash_def numeral_eq_Suc)
qed

text \<open>The input of a miner transaction starts with the tag 0xff of a generated input, which
  the code has no field for: it becomes the lowest seven bits of the height, so a blob with height
  \<open>h\<close> is unpacked as the height 128 * h + 127 (modulo 2^32).\<close>

theorem txin_height_absorbs_tag:
  assumes "0 < h" "h < 2 ^ 57"
  shows "TxInGen_UnPack t (0xff # varint (of_nat h) @ r) = Ok (t\<lparr>TxIn_Height := of_nat (128 * h + 127)\<rparr>, r)"
proof -
  let ?v = "of_nat (128 * h + 127) :: u64"
  have lt: "128 * h + 127 < 2 ^ 64" using assms(2) by simp
  then have v: "unat ?v = 128 * h + 127" unfolding unsigned_of_nat by (simp add: take_bit_nat_eq_self)
  have h: "unat (of_nat h :: u64) = h" using assms(2) by (simp add: unsigned_of_nat take_bit_nat_eq_self)
  have "groups (128 * h + 127) = 127 # groups h" using assms(1) by (subst groups.simps) simp
  then have "varint ?v = 0xff # varint (of_nat h)" by (simp only: varint_def v h) simp
  then have "UnPackVarInt (0xff # varint (of_nat h) @ r) = Ok (?v, r)"
    using UnPackVarInt_varint [of ?v r] by simp
  moreover have "(ucast ?v :: u32) = of_nat (128 * h + 127)" 
    unfolding unsigned_of_nat using lt by (simp add: take_bit_nat_eq_self)
  ultimately show ?thesis by (simp add: TxInGen_UnPack_def)
qed

lemma txin_height_absorbs_tag_witness:
  "TxInGen_UnPack zero_txin (0xff # varint (of_nat 3000000) @ [1]) =
     Ok (\<lparr>TxIn_Height = of_nat (128 * 3000000 + 127)\<rparr>, [1])"
  using txin_height_absorbs_tag [of 3000000 zero_txin "[1]"] by (simp add: zero_txin_def)

text \<open>The blob that is hashed takes 76 bytes only while it counts fewer than 128 transactions:
  with a timestamp of the coming centuries and one-byte versions, it is longer than the 76-byte
  buffer that \<open>ConvertBlob\<close> passes to the C library exactly from 128 transactions on.\<close>

theorem hashing_blob_length:
  assumes "btc_laws u" "wf_hashing_blob b" "MajorVersion (BHB_BlockHeader b) < 128"
    and "MinorVersion (BHB_BlockHeader b) < 128"
    and "2 ^ 28 \<le> unat (Timestamp (BHB_BlockHeader b))" "unat (Timestamp (BHB_BlockHeader b)) < 2 ^ 35"
    and "BlockHashingBlob_Pack u buf_write b [] = Ok blob"
  shows "76 < length blob \<longleftrightarrow> 128 \<le> unat (TxHashSize b)"
proof -
  have small: "length (varint (ucast v)) = Suc 0" if "v < 128" for v :: u8
    using that by (subst length_varint_eq) (simp add: word_less_nat_alt unsigned_ucast_eq take_bit_nat_eq_self)
  have ts: "length (varint (Timestamp (BHB_BlockHeader b))) = Suc 4"
    using assms(5,6) by (subst length_varint_eq) simp
  have n: "length (varint (TxHashSize b)) = Suc 0 \<longleftrightarrow> unat (TxHashSize b) < 128"
    by (subst length_varint_eq) simp
  have "length (varint (TxHashSize b)) \<noteq> 0" by simp
  have "blob = enc_hashing_blob u b"
    using assms(7) BlockHashingBlob_Pack_buffer [OF assms(1), of b "[]"] by simp
  then have "length blob = 75 + length (varint (TxHashSize b))"
    using assms(1,2) small [OF assms(3)] small [OF assms(4)] ts
    by (simp add: enc_hashing_blob_def enc_header_def enc_u32_def btc_laws_def wf_hashing_blob_def
        wf_header_def wf_hash_def CRYPTOHASHSIZE_def)
  with n \<open>length (varint (TxHashSize b)) \<noteq> 0\<close> show ?thesis by linarith
qed

lemma hashing_blob_length_witness:
  "76 < length (enc_hashing_blob le_utility (sample_hashing_blob 128)) \<longleftrightarrow>
     128 \<le> unat (TxHashSize (sample_hashing_blob 128))"
  by (rule hashing_blob_length [of le_utility])
    (simp_all add: btc_laws_le_utility BlockHashingBlob_Pack_buffer, simp_all add: sample_hashing_blob_def sample_block_def)

text \<open>A number of inputs or outputs or a length of the extra bytes that is negative as an
  \<open>int\<close> or needs more memory than the address space has makes unpacking a miner transaction panic
  instead of reporting an error.\<close>

theorem minertx_unpack_panics:
  assumes "int_of_u64 n < 0 \<or> max_alloc < int_of_u64 n * 4"
  shows "is_panic (MinerTransaction_UnPack m (varint v @ varint t @ varint n @ r))"
  using assms by (auto simp: MinerTransaction_UnPack_def make_slice_def)

lemma minertx_unpack_panics_witness:
  "is_panic (MinerTransaction_UnPack zero_minertx (varint 2 @ varint 60 @ varint (2 ^ 63) @ []))"
  by (rule minertx_unpack_panics) (simp add: int_of_u64_def)

end
