(* ===== verification/Float64.thy ===== *)
theory Float64
  imports GoStd Complex_Main
begin

text \<open>
  Go's \<open>float64\<close> as far as the program computes with it: conversions from and to \<open>int64\<close>, sums,
  quotients and comparisons, each correctly rounded (53 significant bits, halves to even, fewer
  bits below the normal range).  A finite value is the rational it denotes; the sign of zero is not
  kept, since every zero here comes from an integer.
\<close>

subsection \<open>Integers\<close>

text \<open>An integer as a score: exact up to 2^53 and rounded to 53 bits, halves to even, beyond.\<close>

fun bit_len :: "nat \<Rightarrow> nat" where
  "bit_len n = (if n = 0 then 0 else Suc (bit_len (n div 2)))"

declare bit_len.simps [simp del]

definition round53 :: "nat \<Rightarrow> nat" where
  "round53 n =
     (if n < 2 ^ 53 then n
      else let u = 2 ^ (bit_len n - 53); q = n div u; r = n mod u
           in (if 2 * r < u \<or> (2 * r = u \<and> even q) then q else q + 1) * u)"

definition f64 :: "int \<Rightarrow> int" where
  "f64 i = sgn i * int (round53 (nat \<bar>i\<bar>))"

text \<open>\<open>int64(f)\<close>, with the result of linux/amd64 when the value is out of range.\<close>

definition i64_of_f64 :: "int \<Rightarrow> int" where
  "i64_of_f64 x = (if in_i64 x then x else - (2 ^ 63))"

lemma f64_exact [simp]: "\<bar>i\<bar> < 2 ^ 53 \<Longrightarrow> f64 i = i"
  by (auto simp: f64_def round53_def nat_less_iff sgn_if)

lemma i64_of_f64_id [simp]: "in_i64 x \<Longrightarrow> i64_of_f64 x = x"
  by (simp add: i64_of_f64_def)

subsection \<open>Rounding\<close>

definition pow2 :: "int \<Rightarrow> rat" where
  "pow2 k = (if 0 \<le> k then 2 ^ nat k else 1 / 2 ^ nat (- k))"

definition round_half_even :: "rat \<Rightarrow> int" where
  "round_half_even x =
     (let q = \<lfloor>x\<rfloor>; r = x - of_int q
      in if r < 1 / 2 \<or> (r = 1 / 2 \<and> even q) then q else q + 1)"

definition f64_rat :: "rat \<Rightarrow> rat" where
  "f64_rat x =
     (if x = 0 then 0
      else let (p, q) = quotient_of \<bar>x\<bar>;
               k = int (bit_len (nat p)) - int (bit_len (nat q)) - 53;
               k = (if 2 ^ 53 \<le> \<bar>x\<bar> / pow2 k then k + 1 else k);
               k = max k (- 1074)
           in (if x < 0 then - 1 else 1) * of_int (round_half_even (\<bar>x\<bar> / pow2 k)) * pow2 k)"

subsection \<open>Values and operations\<close>

datatype float64 = Fin rat | PosInfinity | NegInfinity | NotANumber

definition fl_round :: "rat \<Rightarrow> float64" where
  "fl_round x =
     (let y = f64_rat x
      in if \<bar>y\<bar> < 2 ^ 1024 then Fin y else if 0 < y then PosInfinity else NegInfinity)"

definition fl_of_int :: "int \<Rightarrow> float64" where
  "fl_of_int i = fl_round (of_int i)"

fun fl_add :: "float64 \<Rightarrow> float64 \<Rightarrow> float64" where
  "fl_add (Fin a) (Fin b) = fl_round (a + b)"
| "fl_add NotANumber _ = NotANumber"
| "fl_add _ NotANumber = NotANumber"
| "fl_add PosInfinity NegInfinity = NotANumber"
| "fl_add NegInfinity PosInfinity = NotANumber"
| "fl_add PosInfinity _ = PosInfinity"
| "fl_add _ PosInfinity = PosInfinity"
| "fl_add NegInfinity _ = NegInfinity"
| "fl_add _ NegInfinity = NegInfinity"

fun fl_div :: "float64 \<Rightarrow> float64 \<Rightarrow> float64" where
  "fl_div (Fin a) (Fin b) =
     (if b \<noteq> 0 then fl_round (a / b) else if a = 0 then NotANumber else if 0 < a then PosInfinity else NegInfinity)"
| "fl_div NotANumber _ = NotANumber"
| "fl_div _ NotANumber = NotANumber"
| "fl_div (Fin a) _ = Fin 0"
| "fl_div PosInfinity (Fin b) = (if b < 0 then NegInfinity else PosInfinity)"
| "fl_div NegInfinity (Fin b) = (if b < 0 then PosInfinity else NegInfinity)"
| "fl_div _ _ = NotANumber"

fun is_finite :: "float64 \<Rightarrow> bool" where
  "is_finite (Fin _) = True"
| "is_finite _ = False"

lemma f64_rat_0 [simp]: "f64_rat 0 = 0"
  by (simp add: f64_rat_def)

lemma fl_of_int_0 [simp]: "fl_of_int 0 = Fin 0"
  by (simp add: fl_of_int_def fl_round_def)

end
