(* ===== verification/Redis.thy ===== *)
theory Redis
  imports Float64
begin

text \<open>
  The Redis side of \<open>storage/redis.go\<close>: how keys and members are built, the commands the code
  issues and the replies it reads.  The server and its client package are not part of the
  repository; a record \<open>redis\<close> of functions over an abstract database stands for them.
\<close>

subsection \<open>Keys and members\<close>

text \<open>
  The argument types \<open>join\<close> converts and its callers pass (its type switch also formats floats
  and panics on any other type; no caller passes one).  A nil \<open>*big.Int\<close> is written as 0.
\<close>

datatype join_arg = JStr string | JInt int | JUint u64 | JBool bool | JBig "int option"

fun join_arg_string :: "join_arg \<Rightarrow> string" where
  "join_arg_string (JStr s) = s"
| "join_arg_string (JInt i) = format_int i"
| "join_arg_string (JUint u) = show_nat (unat u)"
| "join_arg_string (JBool b) = (if b then ''1'' else ''0'')"
| "join_arg_string (JBig (Some n)) = format_int n"
| "join_arg_string (JBig None) = ''0''"

definition join :: "join_arg list \<Rightarrow> string" where
  "join args = join_on CHR '':'' (map join_arg_string args)"

definition formatKey :: "string \<Rightarrow> join_arg list \<Rightarrow> string" where
  "formatKey prefix args = join [JStr prefix, JStr (join args)]"

definition formatRound :: "string \<Rightarrow> int \<Rightarrow> string \<Rightarrow> string" where
  "formatRound prefix height nonce =
     formatKey prefix [JStr ''shares'', JStr (''round'' @ format_int height), JStr nonce]"

lemma no_colon_show_nat [simp]: "CHR '':'' \<notin> set (show_nat n)"
  using no_colon_format_int [of "int n"] by (simp add: format_int_def)

text \<open>An argument that holds no separator: any but a string that contains one.\<close>

fun plain_arg :: "join_arg \<Rightarrow> bool" where
  "plain_arg (JStr s) = (CHR '':'' \<notin> set s)"
| "plain_arg _ = True"

lemma plain_arg_string: "plain_arg a \<Longrightarrow> CHR '':'' \<notin> set (join_arg_string a)"
  by (cases a rule: join_arg_string.cases) auto

lemma split_join:
  "args \<noteq> [] \<Longrightarrow> list_all plain_arg args \<Longrightarrow>
   split_on CHR '':'' (join args) = map join_arg_string args"
  unfolding join_def
  by (rule split_on_join_on) (auto simp: list_all_iff plain_arg_string)

lemma join_on_append:
  "ss \<noteq> [] \<Longrightarrow> ts \<noteq> [] \<Longrightarrow> join_on c (ss @ ts) = join_on c ss @ c # join_on c ts"
  by (induction c ss rule: join_on.induct) (auto simp: neq_Nil_conv)

lemma join_nested:
  "as \<noteq> [] \<Longrightarrow> bs \<noteq> [] \<Longrightarrow> join (JStr (join as) # bs) = join (as @ bs)"
  by (simp add: join_def join_on_append neq_Nil_conv) (auto simp: neq_Nil_conv join_on_append)

lemma formatKey_eq: "args \<noteq> [] \<Longrightarrow> formatKey p args = p @ CHR '':'' # join args"
  by (simp add: formatKey_def join_def)

subsection \<open>Commands and replies\<close>

text \<open>Scores are \<open>float64\<close> values converted from integers (\<open>f64\<close>).\<close>

text \<open>A score bound: \<open>-inf\<close>, \<open>(n\<close> (exclusive) or \<open>n\<close>, as the text the code sends.\<close>

datatype redis_cmd =
    Ping
  | BgSave
  | SMembers string
  | Exists string
  | Get string
  | SetNX string string
  | Del string
  | Rename string string
  | Expire string int
  | HSet string string string
  | HSetNX string string string
  | HDel string string
  | HIncrBy string string int
  | HGet string string
  | HGetAllMap string
  | ZAdd string int string
  | ZIncrBy string int string
  | ZRem string string
  | ZCard string
  | ZRemRangeByScore string string string
  | ZRangeByScoreWithScores string string string
  | ZRangeWithScores string int int
  | ZRevRangeWithScores string int int
  | Scan int string int

datatype redis_reply =
    RErr go_error
  | RInt int
  | RBool bool
  | RStr string
  | RStrs "string list"
  | RMap "(string, string) fmap"
  | RZ "(int \<times> string) list"
  | RScan int "string list"

text \<open>
  The typed results of the client package: the value and the error, with the type's zero value
  when the command failed.
\<close>

fun reply_err :: "redis_reply \<Rightarrow> go_error option" where
  "reply_err (RErr e) = Some e"
| "reply_err _ = None"

fun int_val :: "redis_reply \<Rightarrow> int" where
  "int_val (RInt i) = i"
| "int_val _ = 0"

fun bool_val :: "redis_reply \<Rightarrow> bool" where
  "bool_val (RBool b) = b"
| "bool_val _ = False"

fun str_val :: "redis_reply \<Rightarrow> string" where
  "str_val (RStr s) = s"
| "str_val _ = []"

fun strs_val :: "redis_reply \<Rightarrow> string list" where
  "strs_val (RStrs ss) = ss"
| "strs_val _ = []"

fun map_val :: "redis_reply \<Rightarrow> (string, string) fmap" where
  "map_val (RMap m) = m"
| "map_val _ = fmempty"

fun z_val :: "redis_reply \<Rightarrow> (int \<times> string) list" where
  "z_val (RZ zs) = zs"
| "z_val _ = []"

fun scan_val :: "redis_reply \<Rightarrow> int \<times> string list" where
  "scan_val (RScan c ks) = (c, ks)"
| "scan_val _ = (0, [])"

text \<open>
  The service: one command, one \<open>MULTI\<close>/\<open>EXEC\<close> transaction (all replies, or the error the
  client reports) and \<open>WATCH\<close>.  \<open>ExecAll\<close> is the transaction with both its results, the replies
  and the error; the code looks at the replies after an error in one place only.
\<close>

record 'db redis =
  Do :: "'db \<Rightarrow> redis_cmd \<Rightarrow> redis_reply \<times> 'db"
  Exec :: "'db \<Rightarrow> redis_cmd list \<Rightarrow> (go_error + redis_reply list) \<times> 'db"
  ExecAll :: "'db \<Rightarrow> redis_cmd list \<Rightarrow> (redis_reply list \<times> go_error option) \<times> 'db"
  Watch :: "'db \<Rightarrow> string \<Rightarrow> go_error option \<times> 'db"

text \<open>
  The backend as its users see it: the service, the key prefix and the orders in which Go ranges
  over the maps it reads.
\<close>

record 'db backend =
  Rd :: "'db redis"
  Prefix :: string
  RngS :: "(string, string) fmap \<Rightarrow> (string \<times> string) list"
  RngI :: "(string, int) fmap \<Rightarrow> (string \<times> int) list"

end
