(* ===== verification/Storage.thy ===== *)
theory Storage
  imports Redis
begin

text \<open>
  \<open>storage/redis.go\<close>, the part that records shares, blocks, credits and payments.  An operation
  takes the service, the key prefix and the database, builds the commands the code builds in the
  order it builds them, and returns its result and the new database.  \<open>now\<close> is the clock in
  milliseconds (\<open>MakeTimestamp()\<close>).  \<open>\<dots>_cmds\<close> are the bodies of the functions passed to
  \<open>tx.Exec\<close>.
\<close>

subsection \<open>Blocks\<close>

record BlockData =
  BD_Height :: int
  BD_Timestamp :: int
  BD_Difficulty :: int
  BD_TotalShares :: int
  BD_Uncle :: bool
  BD_UncleHeight :: int
  BD_Orphan :: bool
  BD_Hash :: string
  BD_Nonce :: string
  BD_ENonce1 :: string
  BD_ENonce2 :: string
  BD_CoinBaseValue :: "int option"
  BD_BlkTotalFee :: "int option"
  BD_Reward :: "int option"
  BD_ExtraReward :: "int option"
  BD_ImmatureReward :: string
  BD_RewardString :: string
  BD_RoundHeight :: int
  candidateKey :: string
  immatureKey :: string

definition zero_block_data :: BlockData where
  "zero_block_data =
     \<lparr>BD_Height = 0, BD_Timestamp = 0, BD_Difficulty = 0, BD_TotalShares = 0, BD_Uncle = False,
      BD_UncleHeight = 0, BD_Orphan = False, BD_Hash = [], BD_Nonce = [], BD_ENonce1 = [],
      BD_ENonce2 = [], BD_CoinBaseValue = None, BD_BlkTotalFee = None, BD_Reward = None,
      BD_ExtraReward = None, BD_ImmatureReward = [], BD_RewardString = [], BD_RoundHeight = 0,
      candidateKey = [], immatureKey = []\<rparr>"

text \<open>\<open>big.Int.Int64\<close>: the low 64 bits; on a nil pointer it panics.\<close>

definition big_int64 :: "int option \<Rightarrow> int go" where
  "big_int64 x = (case x of None \<Rightarrow> Panic ''nil pointer dereference'' | Some n \<Rightarrow> Ok (wrap64 n))"

definition RewardInSatoshi :: "BlockData \<Rightarrow> int go" where
  "RewardInSatoshi b = big_int64 (BD_Reward b)"

definition serializeHash :: "BlockData \<Rightarrow> string" where
  "serializeHash b = (if 0 < length (BD_Hash b) then BD_Hash b else ''0x0'')"

definition RoundKey :: "BlockData \<Rightarrow> string" where
  "RoundKey b = join [JInt (BD_RoundHeight b), JStr (BD_Hash b)]"

definition block_key :: "BlockData \<Rightarrow> string" where
  "block_key b =
     join [JInt (BD_UncleHeight b), JBool (BD_Orphan b), JStr (BD_Nonce b), JStr (serializeHash b),
       JInt (BD_Timestamp b), JInt (BD_Difficulty b), JInt (BD_TotalShares b),
       JBig (BD_CoinBaseValue b), JBig (BD_BlkTotalFee b), JBig (BD_Reward b)]"

subsection \<open>Shares\<close>

text \<open>
  \<open>checkPoWExist\<close>: forget the work of heights below \<open>height - 3\<close> (an unsigned subtraction), then
  add this one; \<open>ZADD\<close> answers 0 when the member was there.  The first reply is not looked at.
\<close>

definition checkPoWExist ::
  "'db redis \<Rightarrow> string \<Rightarrow> 'db \<Rightarrow> u64 \<Rightarrow> string list \<Rightarrow> (bool \<times> go_error option) \<times> 'db" where
  "checkPoWExist rd p db height params =
     (let (_, db) = Do rd db (ZRemRangeByScore (formatKey p [JStr ''pow'']) ''-inf''
                               (''('' @ show_nat (unat (height - 3))));
          (val, db) = Do rd db (ZAdd (formatKey p [JStr ''pow'']) (f64 (uint height))
                                 (join_on CHR '':'' params))
      in ((int_val val = 0, reply_err val), db))"

definition writeShare ::
  "string \<Rightarrow> int \<Rightarrow> int \<Rightarrow> string \<Rightarrow> string \<Rightarrow> int \<Rightarrow> int \<Rightarrow> redis_cmd list" where
  "writeShare p ms ts login wid diff expire =
     [HIncrBy (formatKey p [JStr ''shares'', JStr ''roundCurrent'']) login diff,
      ZAdd (formatKey p [JStr ''hashrate'']) (f64 ts) (join [JInt diff, JStr login, JStr wid, JInt ms]),
      ZAdd (formatKey p [JStr ''hashrate'', JStr login]) (f64 ts) (join [JInt diff, JStr wid, JInt ms]),
      Expire (formatKey p [JStr ''hashrate'', JStr login]) expire,
      HSet (formatKey p [JStr ''miners'', JStr login]) ''lastShare'' (format_int ts)]"

definition WriteShare_cmds ::
  "string \<Rightarrow> int \<Rightarrow> string \<Rightarrow> string \<Rightarrow> int \<Rightarrow> int \<Rightarrow> redis_cmd list" where
  "WriteShare_cmds p ms login wid diff window =
     writeShare p ms (ms div 1000) login wid diff window @
     [HIncrBy (formatKey p [JStr ''stats'']) ''roundShares'' diff]"

text \<open>The clock is positive, so Go's truncating division by 1000 is \<open>div\<close>.\<close>

definition WriteShare ::
  "'db redis \<Rightarrow> string \<Rightarrow> int \<Rightarrow> 'db \<Rightarrow> string \<Rightarrow> string \<Rightarrow> string list \<Rightarrow> int \<Rightarrow> u64 \<Rightarrow> int \<Rightarrow>
   (bool \<times> go_error option) \<times> 'db" where
  "WriteShare rd p now db login wid params diff height window =
     (case checkPoWExist rd p db height params of
        ((_, Some e), db) \<Rightarrow> ((False, Some e), db)
      | ((True, None), db) \<Rightarrow> ((True, None), db)
      | ((False, None), db) \<Rightarrow>
          (case Exec rd db (WriteShare_cmds p now login wid diff window) of
             (Inl e, db) \<Rightarrow> ((False, Some e), db)
           | (Inr _, db) \<Rightarrow> ((False, None), db)))"

definition WriteInvalidShare ::
  "'db redis \<Rightarrow> string \<Rightarrow> 'db \<Rightarrow> int \<Rightarrow> int \<Rightarrow> string \<Rightarrow> string \<Rightarrow> int \<Rightarrow> go_error option \<times> 'db" where
  "WriteInvalidShare rd p db ms ts login wid diff =
     (let (r, db) = Do rd db (ZAdd (formatKey p [JStr ''invalidhashrate'']) (f64 ts)
                               (join [JInt diff, JStr login, JStr wid, JInt ms]))
      in (reply_err r, db))"

definition WriteRejectShare ::
  "'db redis \<Rightarrow> string \<Rightarrow> 'db \<Rightarrow> int \<Rightarrow> int \<Rightarrow> string \<Rightarrow> string \<Rightarrow> int \<Rightarrow> go_error option \<times> 'db" where
  "WriteRejectShare rd p db ms ts login wid diff =
     (let (r, db) = Do rd db (ZAdd (formatKey p [JStr ''rejecthashrate'']) (f64 ts)
                               (join [JInt diff, JStr login, JStr wid, JInt ms]))
      in (reply_err r, db))"

text \<open>
  \<open>WriteBlock\<close>: the transaction records the share, renames the current round to the block's round
  and reads it back; reply number 10 is the round's shares.  \<open>params[0]\<close> panics when there are no
  parameters, the reply index when the transaction gave fewer replies.
\<close>

definition WriteBlock_cmds ::
  "string \<Rightarrow> int \<Rightarrow> int \<Rightarrow> string \<Rightarrow> string \<Rightarrow> string \<Rightarrow> int \<Rightarrow> u64 \<Rightarrow> int \<Rightarrow> redis_cmd list" where
  "WriteBlock_cmds p ms ts login wid nonce diff height window =
     writeShare p ms ts login wid diff window @
     [HSet (formatKey p [JStr ''stats'']) ''lastBlockFound'' (format_int ts),
      HDel (formatKey p [JStr ''stats'']) ''roundShares'',
      ZIncrBy (formatKey p [JStr ''finders'']) 1 login,
      HIncrBy (formatKey p [JStr ''miners'', JStr login]) ''blocksFound'' 1,
      Rename (formatKey p [JStr ''shares'', JStr ''roundCurrent'']) (formatRound p (int_of_u64 height) nonce),
      HGetAllMap (formatRound p (int_of_u64 height) nonce)]"

definition total_shares :: "((string, string) fmap \<Rightarrow> (string \<times> string) list) \<Rightarrow> (string, string) fmap \<Rightarrow> int" where
  "total_shares rng m = sum64 (map (\<lambda>(_, v). fst (parse_int v)) (rng m))"

definition candidate_member :: "string list \<Rightarrow> int \<Rightarrow> int \<Rightarrow> int \<Rightarrow> int \<Rightarrow> int \<Rightarrow> string" where
  "candidate_member params ts roundDiff totalShares coinBaseValue blkTotalFee =
     join [JStr (join_on CHR '':'' params), JInt ts, JInt roundDiff, JInt totalShares,
       JInt coinBaseValue, JInt blkTotalFee]"

definition WriteBlock ::
  "'db redis \<Rightarrow> ((string, string) fmap \<Rightarrow> (string \<times> string) list) \<Rightarrow> string \<Rightarrow> int \<Rightarrow> 'db \<Rightarrow>
   string \<Rightarrow> string \<Rightarrow> string list \<Rightarrow> int \<Rightarrow> int \<Rightarrow> u64 \<Rightarrow> int \<Rightarrow> int \<Rightarrow> int \<Rightarrow>
   (bool \<times> go_error option) go \<times> 'db" where
  "WriteBlock rd rng p now db login wid params diff roundDiff height coinBaseValue blkTotalFee window =
     (case checkPoWExist rd p db height params of
        ((_, Some e), db) \<Rightarrow> (Ok (False, Some e), db)
      | ((True, None), db) \<Rightarrow> (Ok (True, None), db)
      | ((False, None), db) \<Rightarrow>
          (case params of
             [] \<Rightarrow> (Panic ''index out of range'', db)
           | nonce # _ \<Rightarrow>
               let ts = now div 1000 in
               (case Exec rd db (WriteBlock_cmds p now ts login wid nonce diff height window) of
                  (Inl e, db) \<Rightarrow> (Ok (False, Some e), db)
                | (Inr cmds, db) \<Rightarrow>
                    if length cmds \<le> 10 then (Panic ''index out of range'', db)
                    else
                      let totalShares = total_shares rng (map_val (cmds ! 10));
                          (r, db) = Do rd db (ZAdd (formatKey p [JStr ''blocks'', JStr ''candidates''])
                            (f64 (uint height))
                            (candidate_member params ts roundDiff totalShares coinBaseValue blkTotalFee))
                      in (Ok (False, reply_err r), db))))"

subsection \<open>Balances\<close>

definition exec_err :: "go_error + redis_reply list \<Rightarrow> unit go" where
  "exec_err out = (case out of Inl e \<Rightarrow> Fail e | Inr _ \<Rightarrow> Ok ())"

definition UpdateBalance_cmds :: "string \<Rightarrow> int \<Rightarrow> string \<Rightarrow> int \<Rightarrow> redis_cmd list" where
  "UpdateBalance_cmds p ts login amount =
     [HIncrBy (formatKey p [JStr ''miners'', JStr login]) ''balance'' (wrap64 (amount * -1)),
      HIncrBy (formatKey p [JStr ''miners'', JStr login]) ''pending'' amount,
      HIncrBy (formatKey p [JStr ''finances'']) ''balance'' (wrap64 (amount * -1)),
      HIncrBy (formatKey p [JStr ''finances'']) ''pending'' amount,
      ZAdd (formatKey p [JStr ''payments'', JStr ''pending'']) (f64 ts) (join [JStr login, JInt amount])]"

definition UpdateBalance :: "'db redis \<Rightarrow> string \<Rightarrow> int \<Rightarrow> 'db \<Rightarrow> string \<Rightarrow> int \<Rightarrow> unit go \<times> 'db" where
  "UpdateBalance rd p now db login amount =
     (let (out, db) = Exec rd db (UpdateBalance_cmds p (now div 1000) login amount)
      in (exec_err out, db))"

definition RollbackBalance_cmds :: "string \<Rightarrow> string \<Rightarrow> int \<Rightarrow> redis_cmd list" where
  "RollbackBalance_cmds p login amount =
     [HIncrBy (formatKey p [JStr ''miners'', JStr login]) ''balance'' amount,
      HIncrBy (formatKey p [JStr ''miners'', JStr login]) ''pending'' (wrap64 (amount * -1)),
      HIncrBy (formatKey p [JStr ''finances'']) ''balance'' amount,
      HIncrBy (formatKey p [JStr ''finances'']) ''pending'' (wrap64 (amount * -1)),
      ZRem (formatKey p [JStr ''payments'', JStr ''pending'']) (join [JStr login, JInt amount])]"

definition RollbackBalance :: "'db redis \<Rightarrow> string \<Rightarrow> 'db \<Rightarrow> string \<Rightarrow> int \<Rightarrow> unit go \<times> 'db" where
  "RollbackBalance rd p db login amount =
     (let (out, db) = Exec rd db (RollbackBalance_cmds p login amount) in (exec_err out, db))"

definition WritePayment_cmds :: "string \<Rightarrow> int \<Rightarrow> string \<Rightarrow> string \<Rightarrow> int \<Rightarrow> redis_cmd list" where
  "WritePayment_cmds p ts login txHash amount =
     [HIncrBy (formatKey p [JStr ''miners'', JStr login]) ''pending'' (wrap64 (amount * -1)),
      HIncrBy (formatKey p [JStr ''miners'', JStr login]) ''paid'' amount,
      HIncrBy (formatKey p [JStr ''finances'']) ''pending'' (wrap64 (amount * -1)),
      HIncrBy (formatKey p [JStr ''finances'']) ''paid'' amount,
      ZAdd (formatKey p [JStr ''payments'', JStr ''all'']) (f64 ts)
        (join [JStr txHash, JStr login, JInt amount]),
      ZAdd (formatKey p [JStr ''payments'', JStr login]) (f64 ts) (join [JStr txHash, JInt amount]),
      ZRem (formatKey p [JStr ''payments'', JStr ''pending'']) (join [JStr login, JInt amount]),
      Del (formatKey p [JStr ''payments'', JStr ''lock''])]"

definition WritePayment ::
  "'db redis \<Rightarrow> string \<Rightarrow> int \<Rightarrow> 'db \<Rightarrow> string \<Rightarrow> string \<Rightarrow> int \<Rightarrow> unit go \<times> 'db" where
  "WritePayment rd p now db login txHash amount =
     (let (out, db) = Exec rd db (WritePayment_cmds p (now div 1000) login txHash amount)
      in (exec_err out, db))"

subsection \<open>Credits\<close>

definition writeImmatureBlock :: "string \<Rightarrow> BlockData \<Rightarrow> redis_cmd list" where
  "writeImmatureBlock p block =
     (if BD_Height block \<noteq> BD_RoundHeight block
      then [Rename (formatRound p (BD_RoundHeight block) (BD_Nonce block))
              (formatRound p (BD_Height block) (BD_Nonce block))]
      else []) @
     [ZRem (formatKey p [JStr ''blocks'', JStr ''candidates'']) (candidateKey block),
      ZAdd (formatKey p [JStr ''blocks'', JStr ''immature'']) (f64 (BD_Height block)) (block_key block)]"

definition writeMaturedBlock :: "string \<Rightarrow> BlockData \<Rightarrow> redis_cmd list" where
  "writeMaturedBlock p block =
     [Del (formatRound p (BD_RoundHeight block) (BD_Nonce block)),
      ZRem (formatKey p [JStr ''blocks'', JStr ''immature'']) (immatureKey block),
      ZAdd (formatKey p [JStr ''blocks'', JStr ''matured'']) (f64 (BD_Height block)) (block_key block)]"

text \<open>The rewards and the credit log are given in the order Go ranges over them.\<close>

definition WriteImmatureBlock_cmds :: "string \<Rightarrow> BlockData \<Rightarrow> (string \<times> int) list \<Rightarrow> redis_cmd list" where
  "WriteImmatureBlock_cmds p block rewards =
     writeImmatureBlock p block @
     concat (map (\<lambda>(login, amount).
       [HIncrBy (formatKey p [JStr ''miners'', JStr login]) ''immature'' amount,
        HSetNX (formatKey p [JStr ''credits'', JStr ''immature'', JInt (BD_Height block), JStr (BD_Hash block)])
          login (format_int amount)]) rewards) @
     [HIncrBy (formatKey p [JStr ''finances'']) ''immature'' (sum64 (map snd rewards))]"

definition WriteImmatureBlock ::
  "'db redis \<Rightarrow> ((string, int) fmap \<Rightarrow> (string \<times> int) list) \<Rightarrow> string \<Rightarrow> 'db \<Rightarrow> BlockData \<Rightarrow>
   (string, int) fmap \<Rightarrow> unit go \<times> 'db" where
  "WriteImmatureBlock rd rng p db block roundRewards =
     (let (out, db) = Exec rd db (WriteImmatureBlock_cmds p block (rng roundRewards))
      in (exec_err out, db))"

definition creditKey :: "string \<Rightarrow> BlockData \<Rightarrow> string" where
  "creditKey p block =
     formatKey p [JStr ''credits'', JStr ''immature'', JInt (BD_RoundHeight block), JStr (BD_Hash block)]"

text \<open>The decrements of the immature balances, from the log entries in range order.\<close>

definition immature_decrements :: "string \<Rightarrow> (string \<times> string) list \<Rightarrow> redis_cmd list" where
  "immature_decrements p credits =
     map (\<lambda>(login, s).
       HIncrBy (formatKey p [JStr ''miners'', JStr login]) ''immature''
         (wrap64 (fst (parse_int s) * -1))) credits"

definition total_immature :: "(string \<times> string) list \<Rightarrow> int" where
  "total_immature credits = sum64 (map (\<lambda>(_, s). fst (parse_int s)) credits)"

definition WriteMaturedBlock_cmds ::
  "string \<Rightarrow> int \<Rightarrow> BlockData \<Rightarrow> (string \<times> string) list \<Rightarrow> (string \<times> int) list \<Rightarrow> redis_cmd list go" where
  "WriteMaturedBlock_cmds p ts block credits rewards =
     bindG (RewardInSatoshi block) (\<lambda>mined. Ok (
       writeMaturedBlock p block @
       [ZAdd (formatKey p [JStr ''credits'', JStr ''all'']) (f64 (BD_Height block))
          (join [JStr (BD_Hash block), JInt ts, JBig (BD_Reward block)])] @
       immature_decrements p credits @
       concat (map (\<lambda>(login, amount).
         [HIncrBy (formatKey p [JStr ''miners'', JStr login]) ''balance'' amount,
          HSetNX (formatKey p [JStr ''credits'', JInt (BD_Height block), JStr (BD_Hash block)])
            login (format_int amount)]) rewards) @
       [Del (creditKey p block),
        HIncrBy (formatKey p [JStr ''finances'']) ''balance'' (sum64 (map snd rewards)),
        HIncrBy (formatKey p [JStr ''finances'']) ''immature'' (wrap64 (total_immature credits * -1)),
        HSet (formatKey p [JStr ''finances'']) ''lastCreditHeight'' (format_int (BD_Height block)),
        HSet (formatKey p [JStr ''finances'']) ''lastCreditHash'' (BD_Hash block),
        HIncrBy (formatKey p [JStr ''finances'']) ''totalMined'' mined]))"

text \<open>
  The credit log is read on the watched connection before the error of \<open>Watch\<close> is looked at, and
  the error of the read is not looked at: a failed read counts as an empty log.
\<close>

definition WriteMaturedBlock ::
  "'db redis \<Rightarrow> ((string, string) fmap \<Rightarrow> (string \<times> string) list) \<Rightarrow>
   ((string, int) fmap \<Rightarrow> (string \<times> int) list) \<Rightarrow> string \<Rightarrow> int \<Rightarrow> 'db \<Rightarrow> BlockData \<Rightarrow>
   (string, int) fmap \<Rightarrow> unit go \<times> 'db" where
  "WriteMaturedBlock rd rngs rng p now db block roundRewards =
     (let (w, db) = Watch rd db (creditKey p block);
          (r, db) = Do rd db (HGetAllMap (creditKey p block))
      in case w of
           Some e \<Rightarrow> (Fail e, db)
         | None \<Rightarrow>
             (case WriteMaturedBlock_cmds p (now div 1000) block (rngs (map_val r)) (rng roundRewards) of
                Ok cmds \<Rightarrow> (let (out, db) = Exec rd db cmds in (exec_err out, db))
              | Fail e \<Rightarrow> (Fail e, db)
              | Panic q \<Rightarrow> (Panic q, db)))"

definition WriteOrphan_cmds :: "string \<Rightarrow> BlockData \<Rightarrow> (string \<times> string) list \<Rightarrow> redis_cmd list" where
  "WriteOrphan_cmds p block credits =
     writeMaturedBlock p block @
     immature_decrements p credits @
     [Del (creditKey p block),
      HIncrBy (formatKey p [JStr ''finances'']) ''immature'' (wrap64 (total_immature credits * -1))]"

definition WriteOrphan ::
  "'db redis \<Rightarrow> ((string, string) fmap \<Rightarrow> (string \<times> string) list) \<Rightarrow> string \<Rightarrow> 'db \<Rightarrow> BlockData \<Rightarrow>
   unit go \<times> 'db" where
  "WriteOrphan rd rngs p db block =
     (let (w, db) = Watch rd db (creditKey p block);
          (r, db) = Do rd db (HGetAllMap (creditKey p block))
      in case w of
           Some e \<Rightarrow> (Fail e, db)
         | None \<Rightarrow>
             (let (out, db) = Exec rd db (WriteOrphan_cmds p block (rngs (map_val r)))
              in (exec_err out, db)))"

definition WritePendingOrphans_cmds :: "string \<Rightarrow> BlockData list \<Rightarrow> redis_cmd list" where
  "WritePendingOrphans_cmds p blocks = concat (map (writeImmatureBlock p) blocks)"

definition WritePendingOrphans :: "'db redis \<Rightarrow> string \<Rightarrow> 'db \<Rightarrow> BlockData list \<Rightarrow> unit go \<times> 'db" where
  "WritePendingOrphans rd p db blocks =
     (let (out, db) = Exec rd db (WritePendingOrphans_cmds p blocks) in (exec_err out, db))"

end
