(* ===== verification/Readers.thy ===== *)
theory Readers
  imports Storage
begin

text \<open>
  \<open>storage/redis.go\<close>, the part that reads the database back: candidates and blocks from their
  members, round shares, balances, the payout lock and the pending payments.  A member with fewer
  fields than the code indexes makes it panic.
\<close>

subsection \<open>Members back to blocks\<close>

definition parse64 :: "string \<Rightarrow> int" where
  "parse64 s = fst (parse_int s)"

text \<open>\<open>strconv.ParseBool\<close> with the error ignored.\<close>

definition parse_bool :: "string \<Rightarrow> bool" where
  "parse_bool s = (s \<in> {''1'', ''t'', ''T'', ''TRUE'', ''true'', ''True''})"

definition convertCandidate :: "int \<times> string \<Rightarrow> BlockData go" where
  "convertCandidate v =
     (let height = i64_of_f64 (fst v);
          fields = split_on CHR '':'' (snd v)
      in bindG (index_go fields 0) (\<lambda>nonce.
         bindG (index_go fields 1) (\<lambda>eNonce1.
         bindG (index_go fields 2) (\<lambda>eNonce2.
         bindG (index_go fields 3) (\<lambda>ts.
         bindG (index_go fields 4) (\<lambda>diff.
         bindG (index_go fields 5) (\<lambda>shares.
         bindG (index_go fields 6) (\<lambda>coinBase.
         bindG (index_go fields 7) (\<lambda>fee.
         Ok (zero_block_data\<lparr>BD_Height := height, BD_RoundHeight := height, BD_Nonce := nonce,
           BD_ENonce1 := eNonce1, BD_ENonce2 := eNonce2, BD_Timestamp := parse64 ts,
           BD_Difficulty := parse64 diff, BD_TotalShares := parse64 shares,
           BD_CoinBaseValue := Some (parse64 coinBase), BD_BlkTotalFee := Some (parse64 fee),
           candidateKey := snd v\<rparr>))))))))))"

definition convertCandidateResults :: "(int \<times> string) list \<Rightarrow> BlockData list go" where
  "convertCandidateResults raw = mapG convertCandidate raw"

text \<open>An amount that is no decimal number becomes a nil \<open>*big.Int\<close>.\<close>

definition convertBlock :: "int \<times> string \<Rightarrow> BlockData go" where
  "convertBlock v =
     (let height = i64_of_f64 (fst v);
          fields = split_on CHR '':'' (snd v)
      in bindG (index_go fields 1) (\<lambda>orphan.
         bindG (index_go fields 2) (\<lambda>nonce.
         bindG (index_go fields 3) (\<lambda>hash.
         bindG (index_go fields 4) (\<lambda>ts.
         bindG (index_go fields 5) (\<lambda>diff.
         bindG (index_go fields 6) (\<lambda>shares.
         bindG (index_go fields 7) (\<lambda>coinBase.
         bindG (index_go fields 8) (\<lambda>fee.
         bindG (index_go fields 9) (\<lambda>reward.
         Ok (zero_block_data\<lparr>BD_Height := height, BD_RoundHeight := height, BD_UncleHeight := 0,
           BD_Uncle := False, BD_Orphan := parse_bool orphan, BD_Nonce := nonce, BD_Hash := hash,
           BD_Timestamp := parse64 ts, BD_Difficulty := parse64 diff, BD_TotalShares := parse64 shares,
           BD_CoinBaseValue := big_set_string coinBase, BD_BlkTotalFee := big_set_string fee,
           BD_RewardString := reward, BD_ImmatureReward := reward,
           immatureKey := snd v\<rparr>)))))))))))"

definition convertBlockResults :: "(int \<times> string) list list \<Rightarrow> BlockData list go" where
  "convertBlockResults rows = mapG convertBlock (concat rows)"

text \<open>The keys and scores the writers store are read back as they were written.\<close>

lemma join_map_JStr: "join (map JStr ss) = join_on CHR '':'' ss"
  by (simp add: join_def comp_def)

lemma parse64_format_int [simp]: "in_i64 i \<Longrightarrow> parse64 (format_int i) = i"
  by (simp add: parse64_def)

lemma split_candidate_member:
  assumes "params \<noteq> []" "\<forall>s \<in> set params. CHR '':'' \<notin> set s"
  shows "split_on CHR '':'' (candidate_member params ts diff tot cb fee) =
    params @ [format_int ts, format_int diff, format_int tot, format_int cb, format_int fee]"
proof -
  have "candidate_member params ts diff tot cb fee =
      join (map JStr params @ [JInt ts, JInt diff, JInt tot, JInt cb, JInt fee])"
    using assms(1) by (simp add: candidate_member_def flip: join_map_JStr) (subst join_nested; simp)
  moreover have "list_all plain_arg (map JStr params @ [JInt ts, JInt diff, JInt tot, JInt cb, JInt fee])"
    using assms(2) by (auto simp: list_all_iff)
  ultimately show ?thesis
    using assms(1) by (simp add: split_join comp_def)
qed

lemma convertCandidate_member:
  assumes "CHR '':'' \<notin> set nonce" "CHR '':'' \<notin> set e1" "CHR '':'' \<notin> set e2"
    and "in_i64 ts" "in_i64 diff" "in_i64 tot" "in_i64 cb" "in_i64 fee" "\<bar>h\<bar> < 2 ^ 53"
  shows "convertCandidate (f64 h, candidate_member [nonce, e1, e2] ts diff tot cb fee) =
    Ok (zero_block_data\<lparr>BD_Height := h, BD_RoundHeight := h, BD_Nonce := nonce, BD_ENonce1 := e1,
      BD_ENonce2 := e2, BD_Timestamp := ts, BD_Difficulty := diff, BD_TotalShares := tot,
      BD_CoinBaseValue := Some cb, BD_BlkTotalFee := Some fee,
      candidateKey := candidate_member [nonce, e1, e2] ts diff tot cb fee\<rparr>)"
proof -
  have "in_i64 h" using assms(9) by (auto simp: in_i64_def)
  then show ?thesis
    using assms by (simp add: convertCandidate_def split_candidate_member)
qed

definition readable :: "BlockData \<Rightarrow> bool" where
  "readable b \<longleftrightarrow>
     CHR '':'' \<notin> set (BD_Nonce b) \<and> CHR '':'' \<notin> set (BD_Hash b) \<and> BD_Hash b \<noteq> [] \<and>
     in_i64 (BD_Timestamp b) \<and> in_i64 (BD_Difficulty b) \<and> in_i64 (BD_TotalShares b) \<and>
     \<bar>BD_Height b\<bar> < 2 ^ 53 \<and> BD_CoinBaseValue b \<noteq> None \<and> BD_BlkTotalFee b \<noteq> None"

lemma split_block_key:
  assumes "readable b"
  shows "split_on CHR '':'' (block_key b) =
    [format_int (BD_UncleHeight b), if BD_Orphan b then ''1'' else ''0'', BD_Nonce b, BD_Hash b,
     format_int (BD_Timestamp b), format_int (BD_Difficulty b), format_int (BD_TotalShares b),
     format_int (the (BD_CoinBaseValue b)), format_int (the (BD_BlkTotalFee b)),
     join_arg_string (JBig (BD_Reward b))]"
  using assms
  by (auto simp: block_key_def split_join readable_def serializeHash_def)

lemma convertBlock_key:
  assumes "readable b"
  shows "convertBlock (f64 (BD_Height b), block_key b) =
    Ok (zero_block_data\<lparr>BD_Height := BD_Height b, BD_RoundHeight := BD_Height b,
      BD_Orphan := BD_Orphan b, BD_Nonce := BD_Nonce b, BD_Hash := BD_Hash b,
      BD_Timestamp := BD_Timestamp b, BD_Difficulty := BD_Difficulty b,
      BD_TotalShares := BD_TotalShares b, BD_CoinBaseValue := BD_CoinBaseValue b,
      BD_BlkTotalFee := BD_BlkTotalFee b,
      BD_RewardString := join_arg_string (JBig (BD_Reward b)),
      BD_ImmatureReward := join_arg_string (JBig (BD_Reward b)), immatureKey := block_key b\<rparr>)"
proof -
  have "in_i64 (BD_Height b)" using assms by (auto simp: in_i64_def readable_def)
  then show ?thesis
    using assms split_block_key [OF assms]
    by (auto simp: convertBlock_def readable_def parse_bool_def zero_block_data_def Let_def)
qed

subsection \<open>Queries\<close>

definition on_reply :: "redis_reply \<times> 'db \<Rightarrow> (redis_reply \<Rightarrow> 'a go) \<Rightarrow> 'a go \<times> 'db" where
  "on_reply out f =
     (let (r, db) = out in (case reply_err r of Some e \<Rightarrow> Fail e | None \<Rightarrow> f r, db))"

definition GetCandidates :: "'db redis \<Rightarrow> string \<Rightarrow> 'db \<Rightarrow> int \<Rightarrow> BlockData list go \<times> 'db" where
  "GetCandidates rd p db maxHeight =
     on_reply (Do rd db (ZRangeByScoreWithScores (formatKey p [JStr ''blocks'', JStr ''candidates''])
                 ''0'' (format_int maxHeight)))
       (\<lambda>r. convertCandidateResults (z_val r))"

definition GetImmatureBlocks :: "'db redis \<Rightarrow> string \<Rightarrow> 'db \<Rightarrow> int \<Rightarrow> BlockData list go \<times> 'db" where
  "GetImmatureBlocks rd p db maxHeight =
     on_reply (Do rd db (ZRangeByScoreWithScores (formatKey p [JStr ''blocks'', JStr ''immature''])
                 ''0'' (format_int maxHeight)))
       (\<lambda>r. convertBlockResults [z_val r])"

definition GetRoundShares ::
  "'db redis \<Rightarrow> string \<Rightarrow> 'db \<Rightarrow> int \<Rightarrow> string \<Rightarrow> (string, int) fmap go \<times> 'db" where
  "GetRoundShares rd p db height nonce =
     on_reply (Do rd db (HGetAllMap (formatRound p height nonce)))
       (\<lambda>r. Ok (fmmap parse64 (map_val r)))"

text \<open>The logins found so far, the cursor of the scan; the server may never answer cursor 0.\<close>

fun payees_of :: "string list \<Rightarrow> string fset \<Rightarrow> string fset go" where
  "payees_of [] payees = Ok payees"
| "payees_of (row # keys) payees =
     bindG (index_go (split_on CHR '':'' row) 2) (\<lambda>login. payees_of keys (finsert login payees))"

partial_function (option) payees_loop ::
  "'db redis \<Rightarrow> string \<Rightarrow> 'db \<Rightarrow> int \<Rightarrow> string fset \<Rightarrow> (string fset go \<times> 'db) option" where
  [code]: "payees_loop rd p db c payees =
     (let (r, db) = Do rd db (Scan c (formatKey p [JStr ''miners'', JStr ''*'']) 100)
      in case reply_err r of
           Some e \<Rightarrow> Some (Fail e, db)
         | None \<Rightarrow>
             (case payees_of (snd (scan_val r)) payees of
                Ok payees \<Rightarrow>
                  if fst (scan_val r) = 0 then Some (Ok payees, db)
                  else payees_loop rd p db (fst (scan_val r)) payees
              | out \<Rightarrow> Some (out, db)))"

definition GetPayees ::
  "'db redis \<Rightarrow> (string fset \<Rightarrow> string list) \<Rightarrow> string \<Rightarrow> 'db \<Rightarrow> (string list go \<times> 'db) option" where
  "GetPayees rd rng p db =
     map_option (\<lambda>(out, db). (bindG out (\<lambda>ps. Ok (rng ps)), db)) (payees_loop rd p db 0 {||})"

text \<open>\<open>cmd.Int64()\<close>: the text of a reply as a number, or the error of \<open>strconv\<close>.\<close>

definition reply_int64 :: "string \<Rightarrow> int go" where
  "reply_int64 s =
     (case parse_int s of
        (n, NumOk) \<Rightarrow> Ok n
      | (n, NumSyntax) \<Rightarrow> Fail (ErrMsg (''strconv.ParseInt: parsing '' @ s @ '': invalid syntax''))
      | (n, NumRange) \<Rightarrow> Fail (ErrMsg (''strconv.ParseInt: parsing '' @ s @ '': value out of range'')))"

definition GetBalance :: "'db redis \<Rightarrow> string \<Rightarrow> 'db \<Rightarrow> string \<Rightarrow> int go \<times> 'db" where
  "GetBalance rd p db login =
     (let (r, db) = Do rd db (HGet (formatKey p [JStr ''miners'', JStr login]) ''balance'')
      in (case reply_err r of
            Some ErrNil \<Rightarrow> Ok 0
          | Some e \<Rightarrow> Fail e
          | None \<Rightarrow> reply_int64 (str_val r), db))"

definition LockPayouts :: "'db redis \<Rightarrow> string \<Rightarrow> 'db \<Rightarrow> string \<Rightarrow> int \<Rightarrow> unit go \<times> 'db" where
  "LockPayouts rd p db login amount =
     (let key = formatKey p [JStr ''payments'', JStr ''lock''];
          (r, db) = Do rd db (SetNX key (join [JStr login, JInt amount]))
      in (if bool_val r then Ok () else Fail (ErrMsg (''Unable to acquire lock '' @ key)), db))"

definition UnlockPayouts :: "'db redis \<Rightarrow> string \<Rightarrow> 'db \<Rightarrow> unit go \<times> 'db" where
  "UnlockPayouts rd p db =
     on_reply (Do rd db (Del (formatKey p [JStr ''payments'', JStr ''lock'']))) (\<lambda>_. Ok ())"

definition IsPayoutsLocked :: "'db redis \<Rightarrow> string \<Rightarrow> 'db \<Rightarrow> bool go \<times> 'db" where
  "IsPayoutsLocked rd p db =
     (let (r, db) = Do rd db (redis_cmd.Get (formatKey p [JStr ''payments'', JStr ''lock'']))
      in (case reply_err r of
            Some ErrNil \<Rightarrow> Ok False
          | Some e \<Rightarrow> Fail e
          | None \<Rightarrow> Ok True, db))"

record PendingPayment =
  PP_Timestamp :: int
  PP_Amount :: int
  PP_Address :: string

definition pending_payment :: "int \<times> string \<Rightarrow> PendingPayment go" where
  "pending_payment v =
     (let fields = split_on CHR '':'' (snd v)
      in bindG (index_go fields 0) (\<lambda>address.
         bindG (index_go fields 1) (\<lambda>amount.
         Ok \<lparr>PP_Timestamp = i64_of_f64 (fst v), PP_Amount = parse64 amount, PP_Address = address\<rparr>)))"

definition GetPendingPayments :: "'db redis \<Rightarrow> string \<Rightarrow> 'db \<Rightarrow> PendingPayment list go \<times> 'db" where
  "GetPendingPayments rd p db =
     (let (raw, db) = Do rd db (ZRevRangeWithScores (formatKey p [JStr ''payments'', JStr ''pending'']) 0 (-1))
      in (mapG pending_payment (z_val raw), db))"

definition GetBlacklist :: "'db redis \<Rightarrow> string \<Rightarrow> 'db \<Rightarrow> (string list \<times> go_error option) \<times> 'db" where
  "GetBlacklist rd p db =
     (let (r, db) = Do rd db (SMembers (formatKey p [JStr ''blacklist'']))
      in (case reply_err r of Some e \<Rightarrow> ([], Some e) | None \<Rightarrow> (strs_val r, None), db))"

definition GetWhitelist :: "'db redis \<Rightarrow> string \<Rightarrow> 'db \<Rightarrow> (string list \<times> go_error option) \<times> 'db" where
  "GetWhitelist rd p db =
     (let (r, db) = Do rd db (SMembers (formatKey p [JStr ''whitelist'']))
      in (case reply_err r of Some e \<Rightarrow> ([], Some e) | None \<Rightarrow> (strs_val r, None), db))"

definition IsMinerExists :: "'db redis \<Rightarrow> string \<Rightarrow> 'db \<Rightarrow> string \<Rightarrow> bool go \<times> 'db" where
  "IsMinerExists rd p db login =
     on_reply (Do rd db (Exists (formatKey p [JStr ''miners'', JStr login]))) (\<lambda>r. Ok (bool_val r))"

definition WriteNodeState_cmds :: "string \<Rightarrow> int \<Rightarrow> string \<Rightarrow> u32 \<Rightarrow> int \<Rightarrow> redis_cmd list" where
  "WriteNodeState_cmds p now name height diff =
     [HSet (formatKey p [JStr ''nodes'']) (join [JStr name, JStr ''name'']) name,
      HSet (formatKey p [JStr ''nodes'']) (join [JStr name, JStr ''height'']) (show_nat (unat height)),
      HSet (formatKey p [JStr ''nodes'']) (join [JStr name, JStr ''difficulty'']) (format_int diff),
      HSet (formatKey p [JStr ''nodes'']) (join [JStr name, JStr ''lastBeat'']) (format_int now)]"

definition WriteNodeState ::
  "'db redis \<Rightarrow> string \<Rightarrow> int \<Rightarrow> 'db \<Rightarrow> string \<Rightarrow> u32 \<Rightarrow> int \<Rightarrow> unit go \<times> 'db" where
  "WriteNodeState rd p now db name height diff =
     (let (out, db) = Exec rd db (WriteNodeState_cmds p (now div 1000) name height diff)
      in (exec_err out, db))"

text \<open>Fields \<open>node:attribute\<close> are gathered into one map per node.\<close>

type_synonym node_states = "(string, (string, string) fmap) fmap"

fun node_fields :: "(string \<times> string) list \<Rightarrow> node_states \<Rightarrow> node_states go" where
  "node_fields [] m = Ok m"
| "node_fields ((key, value) # kvs) m =
     (let parts = split_on CHR '':'' key
      in bindG (index_go parts 0) (\<lambda>node.
         bindG (index_go parts 1) (\<lambda>attr.
         node_fields kvs (fmupd node
           (fmupd attr value (case fmlookup m node of Some val \<Rightarrow> val | None \<Rightarrow> fmempty)) m))))"

definition GetNodeStates ::
  "'db redis \<Rightarrow> ((string, string) fmap \<Rightarrow> (string \<times> string) list) \<Rightarrow>
   (node_states \<Rightarrow> (string \<times> (string, string) fmap) list) \<Rightarrow> string \<Rightarrow> 'db \<Rightarrow>
   (string, string) fmap list go \<times> 'db" where
  "GetNodeStates rd rngs rngn p db =
     on_reply (Do rd db (HGetAllMap (formatKey p [JStr ''nodes''])))
       (\<lambda>r. bindG (node_fields (rngs (map_val r)) fmempty) (\<lambda>m. Ok (map snd (rngn m))))"

end
