(* ===== verification/GoBig.thy ===== *)
theory GoBig
  imports Complex_Main GoStd
begin

text \<open>
  Arbitrary-precision numbers of \<open>math/big\<close>: a \<open>*big.Int\<close> is an \<open>int\<close>, a \<open>*big.Rat\<close> a
  \<open>rat\<close>.  Division by zero panics, \<open>Div\<close> is Euclidean, \<open>Bytes\<close> is the minimal big-endian form
  of the absolute value, and \<open>FloatString\<close> rounds half away from zero.
\<close>

subsection \<open>Integers\<close>

fun be_bytes :: "nat \<Rightarrow> bytes" where
  "be_bytes n = (if n = 0 then [] else be_bytes (n div 256) @ [of_nat (n mod 256)])"

declare be_bytes.simps [simp del]

definition big_bytes :: "int \<Rightarrow> bytes" where
  "big_bytes x = be_bytes (nat \<bar>x\<bar>)"

definition be_value :: "bytes \<Rightarrow> nat" where
  "be_value bs = foldl (\<lambda>a b. 256 * a + unat b) 0 bs"

definition big_set_bytes :: "bytes \<Rightarrow> int" where
  "big_set_bytes bs = int (be_value bs)"

definition big_div :: "int \<Rightarrow> int \<Rightarrow> int go" where
  "big_div x y = (if y = 0 then Panic ''division by zero'' else Ok (sgn y * (x div \<bar>y\<bar>)))"

lemma be_value_Nil [simp]: "be_value [] = 0"
  by (simp add: be_value_def)

lemma be_value_snoc [simp]: "be_value (bs @ [b]) = 256 * be_value bs + unat b"
  by (simp add: be_value_def)

lemma be_value_append: "be_value (as @ bs) = be_value as * 256 ^ length bs + be_value bs"
proof (induction bs rule: rev_induct)
  case (snoc b bs)
  then show ?case by (simp add: append_assoc [symmetric] algebra_simps del: append_assoc)
qed simp

lemma be_value_less: "be_value bs < 256 ^ length bs"
proof (induction bs rule: rev_induct)
  case (snoc b bs)
  then have "256 * be_value bs + unat b < 256 * be_value bs + 256"
    using unat_u8_less [of b] by simp
  also have "\<dots> = 256 * (be_value bs + 1)" by simp
  also have "\<dots> \<le> 256 * 256 ^ length bs" using snoc by (intro mult_le_mono2) linarith
  finally show ?case by simp
qed simp

lemma be_value_replicate_0 [simp]: "be_value (replicate n 0 @ bs) = be_value bs"
proof -
  have "be_value (replicate n 0) = 0"
    by (induction n) (simp_all add: replicate_append_same [symmetric] del: replicate.simps(2)
        add: replicate_Suc)
  then show ?thesis by (simp add: be_value_append)
qed

lemma be_value_be_bytes [simp]: "be_value (be_bytes n) = n"
proof (induction n rule: be_bytes.induct)
  case (1 n)
  show ?case
  proof (cases "n = 0")
    case False
    moreover have "unat (of_nat (n mod 256) :: u8) = n mod 256" by (simp add: unat_of_nat)
    ultimately show ?thesis using 1 by (simp add: be_bytes.simps [of n])
  qed (simp add: be_bytes.simps)
qed

lemma length_be_bytes: "n < 256 ^ k \<Longrightarrow> length (be_bytes n) \<le> k"
proof (induction k arbitrary: n)
  case 0
  then show ?case by (simp add: be_bytes.simps)
next
  case (Suc k)
  then have "n div 256 < 256 ^ k" by (simp add: less_mult_imp_div_less mult.commute)
  then have "length (be_bytes (n div 256)) \<le> k" by (rule Suc.IH)
  then show ?case by (simp add: be_bytes.simps [of n])
qed

lemma be_value_take:
  assumes "length bs = m + k"
  shows "be_value (take m bs) = be_value bs div 256 ^ k"
proof -
  have "be_value bs = be_value (take m bs @ drop m bs)" by simp
  also have "\<dots> = be_value (take m bs) * 256 ^ k + be_value (drop m bs)"
    using assms by (subst be_value_append) simp
  finally show ?thesis using be_value_less [of "drop m bs"] assms by simp
qed

lemma big_set_bytes_nonneg [simp]: "0 \<le> big_set_bytes bs"
  by (simp add: big_set_bytes_def)

subsection \<open>Rationals\<close>

text \<open>The decimal digits of \<open>n\<close>, padded with zeros to \<open>k\<close> places.\<close>

definition pad_zeros :: "nat \<Rightarrow> string \<Rightarrow> string" where
  "pad_zeros k s = replicate (k - length s) CHR ''0'' @ s"

text \<open>
  \<open>Rat.FloatString(prec)\<close> rounds \<open>|x| * 10^prec\<close> to the nearest integer, halves up, and prints it
  with the sign of \<open>x\<close>.
\<close>

definition round_half_up :: "rat \<Rightarrow> int" where
  "round_half_up x = \<lfloor>x + 1 / 2\<rfloor>"

definition rat_float_string :: "nat \<Rightarrow> rat \<Rightarrow> string" where
  "rat_float_string prec x =
     (let n = nat (round_half_up (\<bar>x\<bar> * 10 ^ prec));
          sign = (if x < 0 then ''-'' else '''')
      in sign @ show_nat (n div 10 ^ prec) @
         (if prec = 0 then '''' else CHR ''.'' # pad_zeros prec (show_nat (n mod 10 ^ prec))))"

text \<open>
  \<open>strconv.ParseInt(x.FloatString(0), 10, 64)\<close> with the error ignored, as the reward code uses it:
  rounding half away from zero, clamped to the \<open>int64\<close> range.
\<close>

definition round_half_away :: "rat \<Rightarrow> int" where
  "round_half_away x = (if x < 0 then - round_half_up (- x) else round_half_up x)"

lemma round_half_up_nonneg [simp]: "0 \<le> x \<Longrightarrow> 0 \<le> round_half_up x"
  by (simp add: round_half_up_def)

lemma round_half_up_bounds:
  "of_int (round_half_up x) \<le> x + 1 / 2" "x - 1 / 2 < of_int (round_half_up x)"
  unfolding round_half_up_def by linarith+

lemma round_half_up_mono: "x \<le> y \<Longrightarrow> round_half_up x \<le> round_half_up y"
  by (simp add: round_half_up_def floor_mono)

lemma round_half_up_int [simp]: "round_half_up (of_int i) = i"
  unfolding round_half_up_def by linarith

lemma round_half_away_int [simp]: "round_half_away (of_int i) = i"
proof (cases "i < 0")
  case True
  have "- (of_int i :: rat) = of_int (- i)" by simp
  then show ?thesis unfolding round_half_away_def using True by (simp only: of_int_less_0_iff round_half_up_int if_True minus_minus)
qed (simp add: round_half_away_def)

lemma parse_int_float_string:
  assumes "\<bar>round_half_away x\<bar> < 2 ^ 63"
  shows "fst (parse_int (rat_float_string 0 x)) = round_half_away x"
proof (cases "x < 0 \<and> round_half_up (- x) = 0")
  case True
  then show ?thesis
    by (simp add: rat_float_string_def round_half_away_def parse_int_def parse_uint_def
        show_nat.simps [of 0] Let_def)
next
  case False
  let ?n = "nat (round_half_up \<bar>x\<bar>)"
  have "0 \<le> round_half_up \<bar>x\<bar>" by simp
  then have "rat_float_string 0 x = format_int (round_half_away x)"
    using False round_half_up_nonneg [of x] round_half_up_nonneg [of "- x"]
    by (auto simp: rat_float_string_def round_half_away_def format_int_def Let_def
        simp del: round_half_up_nonneg)
  moreover have "in_i64 (round_half_away x)" using assms by (auto simp: in_i64_def)
  ultimately show ?thesis by simp
qed

end
