(* ===== verification/Rewards.thy ===== *)
theory Rewards
  imports Readers GoBig
begin

text \<open>
  \<open>payouts/unlocker.go\<close>, the arithmetic: the pool's fee, the split of a round's reward over its
  shares, and the amounts a block is credited with.  Amounts are exact rationals until they are
  printed without decimals and read back as \<open>int64\<close>.
\<close>

subsection \<open>The fee\<close>

text \<open>The fee is a percentage, so its conversion does not overflow (\<open>f64_rat\<close>).\<close>

definition chargeFee :: "rat \<Rightarrow> rat \<Rightarrow> rat \<times> rat" where
  "chargeFee v fee =
     (let feePercent = f64_rat (fee / 100);
          feeValue = v * feePercent
      in (v - feeValue, feeValue))"

lemma chargeFee_sum: "chargeFee v fee = (profit, feeValue) \<Longrightarrow> profit + feeValue = v"
  by (auto simp: chargeFee_def Let_def)

subsection \<open>Rewards for shares\<close>

definition big_rat :: "int \<Rightarrow> int \<Rightarrow> rat go" where
  "big_rat a b = (if b = 0 then Panic ''division by zero'' else Ok (of_int a / of_int b))"

definition add_reward :: "string \<Rightarrow> int \<Rightarrow> (string, int) fmap \<Rightarrow> (string, int) fmap" where
  "add_reward login v rewards =
     fmupd login (wrap64 ((case fmlookup rewards login of None \<Rightarrow> 0 | Some old \<Rightarrow> old) + v)) rewards"

definition rounded64 :: "rat \<Rightarrow> int" where
  "rounded64 x = parse64 (rat_float_string 0 x)"

fun rewards_loop ::
  "(string \<times> int) list \<Rightarrow> int \<Rightarrow> rat \<Rightarrow> (string, int) fmap \<Rightarrow> (string, int) fmap go" where
  "rewards_loop [] tot reward rewards = Ok rewards"
| "rewards_loop ((login, n) # shares) tot reward rewards =
     bindG (big_rat n tot) (\<lambda>percent.
     rewards_loop shares tot reward (add_reward login (rounded64 (reward * percent)) rewards))"

definition calculateRewardsForShares ::
  "((string, int) fmap \<Rightarrow> (string \<times> int) list) \<Rightarrow> (string, int) fmap \<Rightarrow> int \<Rightarrow> rat \<Rightarrow>
   (string, int) fmap go" where
  "calculateRewardsForShares rng shares tot reward = rewards_loop (rng shares) tot reward fmempty"

record UnlockerConfig =
  PoolFee :: rat
  PoolFeeAddress :: string
  Donate :: bool
  Depth :: int
  ImmatureDepth :: int
  KeepTxFees :: bool

text \<open>
  \<open>calculateRewards\<close> after the round's shares have been read: the fee, the shares' rewards, the
  transaction fees the pool keeps and the pool's own credit.  A nil \<open>Reward\<close> panics.
\<close>

definition round_rewards ::
  "UnlockerConfig \<Rightarrow> ((string, int) fmap \<Rightarrow> (string \<times> int) list) \<Rightarrow> BlockData \<Rightarrow>
   rat \<Rightarrow> (string, int) fmap \<Rightarrow> (rat \<times> rat \<times> rat \<times> (string, int) fmap) go" where
  "round_rewards cfg rng block revenue shares =
     (let (minersProfit, poolProfit) = chargeFee revenue (PoolFee cfg)
      in bindG (calculateRewardsForShares rng shares (BD_TotalShares block) minersProfit) (\<lambda>rewards.
         let extra = (case BD_ExtraReward block of None \<Rightarrow> 0 | Some e \<Rightarrow> of_int e);
             poolProfit = poolProfit + extra;
             revenue = revenue + extra;
             rewards = (if PoolFeeAddress cfg \<noteq> []
                        then add_reward (to_lower (PoolFeeAddress cfg)) (rounded64 poolProfit) rewards
                        else rewards)
         in Ok (revenue, minersProfit, poolProfit, rewards)))"

definition calculateRewards ::
  "'db redis \<Rightarrow> UnlockerConfig \<Rightarrow> ((string, int) fmap \<Rightarrow> (string \<times> int) list) \<Rightarrow> string \<Rightarrow> 'db \<Rightarrow>
   BlockData \<Rightarrow> (rat \<times> rat \<times> rat \<times> (string, int) fmap) go \<times> 'db" where
  "calculateRewards rd cfg rng p db block =
     (case BD_Reward block of
        None \<Rightarrow> (Panic ''nil pointer dereference'', db)
      | Some r \<Rightarrow>
          (case GetRoundShares rd p db (BD_RoundHeight block) (BD_Nonce block) of
             (Ok shares, db) \<Rightarrow> (round_rewards cfg rng block (of_int r) shares, db)
           | (Fail e, db) \<Rightarrow> (Fail e, db)
           | (Panic q, db) \<Rightarrow> (Panic q, db)))"

subsection \<open>What the amounts add up to\<close>

lemma rounded64_eq: "\<bar>round_half_away x\<bar> < 2 ^ 63 \<Longrightarrow> rounded64 x = round_half_away x"
  by (simp add: rounded64_def parse64_def parse_int_float_string)

lemma round_half_away_error: "\<bar>of_int (round_half_away x) - x\<bar> \<le> 1 / 2"
proof (cases "x < 0")
  case True
  then have "(of_int (round_half_away x) :: rat) = - of_int (round_half_up (- x))"
    by (simp add: round_half_away_def)
  then show ?thesis using round_half_up_bounds [of "- x"] by linarith
next
  case False
  then have "(of_int (round_half_away x) :: rat) = of_int (round_half_up x)"
    by (simp add: round_half_away_def)
  then show ?thesis using round_half_up_bounds [of x] by linarith
qed

lemma round_half_away_abs:
  assumes "\<bar>x\<bar> \<le> of_int b" shows "\<bar>round_half_away x\<bar> \<le> b"
proof -
  have "round_half_up y \<le> b" if "y \<le> of_int b" for y
    using round_half_up_mono [OF that] by simp
  from this [of x] this [of "- x"] show ?thesis
    using assms round_half_up_nonneg [of x] round_half_up_nonneg [of "- x"]
    by (auto simp: round_half_away_def abs_le_iff simp del: round_half_up_nonneg)
qed

definition share_reward :: "rat \<Rightarrow> int \<Rightarrow> int \<Rightarrow> int" where
  "share_reward reward tot n = round_half_away (reward * (of_int n / of_int tot))"

lemma abs_share_reward:
  assumes "\<bar>n\<bar> \<le> tot" "0 < tot" "\<bar>reward\<bar> \<le> of_int b"
  shows "\<bar>share_reward reward tot n\<bar> \<le> b"
proof -
  have "(of_int \<bar>n\<bar> :: rat) \<le> of_int tot" using assms(1) by (simp only: of_int_le_iff)
  then have "\<bar>of_int n / of_int tot :: rat\<bar> \<le> 1" using assms(2) by (simp add: abs_divide divide_le_eq)
  moreover have "0 \<le> (of_int b :: rat)" using assms(3) by linarith
  ultimately have "\<bar>reward\<bar> * \<bar>of_int n / of_int tot\<bar> \<le> of_int b * 1"
    using assms(3) by (intro mult_mono) simp_all
  then have "\<bar>reward * (of_int n / of_int tot)\<bar> \<le> of_int b" by (simp only: abs_mult mult_1_right)
  then show ?thesis unfolding share_reward_def by (rule round_half_away_abs)
qed

lemma rewards_loop_eq:
  assumes "0 < tot" "\<forall>(login, n) \<in> set xs. \<bar>n\<bar> \<le> tot" "\<bar>reward\<bar> \<le> of_int b" "b < 2 ^ 63"
    and "distinct (map fst xs)" "fst ` set xs \<inter> fset (fmdom acc) = {}"
  shows "\<exists>out. rewards_loop xs tot reward acc = Ok out \<and>
    (\<forall>l. fmlookup out l =
      (case map_of xs l of Some n \<Rightarrow> Some (share_reward reward tot n) | None \<Rightarrow> fmlookup acc l))"
  using assms(2,5,6)
proof (induction xs arbitrary: acc)
  case (Cons x xs)
  obtain login n where x: "x = (login, n)" by (cases x)
  have abs: "\<bar>share_reward reward tot n\<bar> < 2 ^ 63"
    using abs_share_reward [of n tot reward b] Cons.prems(1) x assms(1,3,4) by auto
  then have "rounded64 (reward * (of_int n / of_int tot)) = share_reward reward tot n"
    by (simp add: share_reward_def rounded64_eq)
  moreover have "fmlookup acc login = None"
    using Cons.prems(3) x by (auto simp: fmlookup_dom_iff)
  moreover have "in_i64 (share_reward reward tot n)" using abs by (auto simp: in_i64_def)
  ultimately have step: "add_reward login (rounded64 (reward * (of_int n / of_int tot))) acc =
      fmupd login (share_reward reward tot n) acc"
    by (simp add: add_reward_def)
  have notin: "login \<notin> fst ` set xs" "map_of xs login = None"
    using Cons.prems(2) x by (auto simp: map_of_eq_None_iff)
  have "fst ` set xs \<inter> fset (fmdom (fmupd login (share_reward reward tot n) acc)) = {}"
    using Cons.prems(3) x notin(1) by auto
  then obtain out where "rewards_loop xs tot reward (fmupd login (share_reward reward tot n) acc) = Ok out"
      "\<forall>l. fmlookup out l = (case map_of xs l of Some n \<Rightarrow> Some (share_reward reward tot n)
         | None \<Rightarrow> fmlookup (fmupd login (share_reward reward tot n) acc) l)"
    using Cons.IH [of "fmupd login (share_reward reward tot n) acc"] Cons.prems(1,2) by auto
  then show ?case
    using x notin(2) assms(1) step by (auto simp: big_rat_def split: option.splits)
qed simp

lemma fmap_sum_loop:
  assumes "range_law rng" "range_law rng'" "fmdom out = fmdom shares"
    and "\<And>l n. fmlookup shares l = Some n \<Longrightarrow> fmlookup out l = Some (g n)"
  shows "(\<Sum>(l, v) \<leftarrow> rng' out. v) = (\<Sum>(l, n) \<leftarrow> rng shares. (g n :: int))"
  unfolding range_sum [OF assms(1), of "\<lambda>_ n. g n"] range_sum [OF assms(2), of "\<lambda>_ v. v"] assms(3)
  by (rule sum.cong) (auto simp: fmlookup_dom_iff assms(4))

lemma calculateRewardsForShares_eq:
  assumes "range_law rng" "0 < tot" "\<forall>(login, n) \<in> set (rng shares). \<bar>n\<bar> \<le> tot"
    and "\<bar>reward\<bar> \<le> of_int b" "b < 2 ^ 63"
  shows "\<exists>out. calculateRewardsForShares rng shares tot reward = Ok out \<and>
    (\<forall>l. fmlookup out l = map_option (share_reward reward tot) (fmlookup shares l))"
proof -
  have m: "map_of (rng shares) = fmlookup shares" "distinct (map fst (rng shares))"
    using assms(1) by (auto simp: range_law_def)
  obtain out where "rewards_loop (rng shares) tot reward fmempty = Ok out"
      "\<forall>l. fmlookup out l = (case fmlookup shares l of Some n \<Rightarrow> Some (share_reward reward tot n)
        | None \<Rightarrow> fmlookup fmempty l)"
    using rewards_loop_eq [OF assms(2,3,4,5) m(2), of fmempty] m(1) by auto
  moreover have "(case o' of Some n \<Rightarrow> Some (share_reward reward tot n) | None \<Rightarrow> fmlookup fmempty l) =
      map_option (share_reward reward tot) o'" for o' and l :: string
    by (cases o') auto
  ultimately show ?thesis by (auto simp: calculateRewardsForShares_def)
qed

text \<open>Rounding each miner's reward moves the total by at most half a unit per miner.\<close>

lemma sum_list_round_error:
  fixes x :: "'a \<Rightarrow> rat"
  shows "\<bar>(\<Sum>i \<leftarrow> is. of_int (round_half_away (x i))) - (\<Sum>i \<leftarrow> is. x i)\<bar> \<le> of_nat (length is) / 2"
proof (induction "is")
  case (Cons i "is")
  have "\<bar>of_int (round_half_away (x i)) + (\<Sum>i \<leftarrow> is. of_int (round_half_away (x i))) -
      (x i + (\<Sum>i \<leftarrow> is. x i))\<bar> \<le> 1 / 2 + of_nat (length is) / 2"
    by (rule order_trans [OF abs_diff_triangle_ineq add_mono [OF round_half_away_error Cons]])
  then show ?case by (simp add: add_divide_distrib)
qed simp

lemma of_int_sum_list: "of_int (sum_list (xs :: int list)) = (\<Sum>x \<leftarrow> xs. (of_int x :: rat))"
  by (induction xs) auto

lemma shares_exact:
  fixes reward :: rat
  assumes "(\<Sum>(l, n) \<leftarrow> xs. n) = tot" "0 < tot"
  shows "(\<Sum>(l, n) \<leftarrow> xs. reward * (of_int n / of_int tot)) = reward"
proof -
  have "(\<Sum>(l, n) \<leftarrow> xs. reward * (of_int n / of_int tot)) = reward / of_int tot * of_int (\<Sum>(l, n) \<leftarrow> xs. n)"
    by (induction xs) (auto simp: algebra_simps add_divide_distrib)
  then show ?thesis using assms by simp
qed

lemma rewards_total_error:
  assumes "range_law rng" "range_law rng'" "0 < tot" "\<forall>(login, n) \<in> set (rng shares). \<bar>n\<bar> \<le> tot"
    and "(\<Sum>(l, n) \<leftarrow> rng shares. n) = tot" "\<bar>reward\<bar> \<le> of_int b" "b < 2 ^ 63"
    and "calculateRewardsForShares rng shares tot reward = Ok out"
  shows "\<bar>of_int (\<Sum>(l, v) \<leftarrow> rng' out. v) - reward\<bar> \<le> of_nat (length (rng shares)) / 2"
proof -
  have out: "fmlookup out l = map_option (share_reward reward tot) (fmlookup shares l)" for l
    using calculateRewardsForShares_eq [OF assms(1,3,4,6,7)] assms(8) by auto
  then have "fmdom out = fmdom shares" by (auto simp: fset_eq_iff fmlookup_dom_iff)
  then have "(\<Sum>(l, v) \<leftarrow> rng' out. v) = (\<Sum>(l, n) \<leftarrow> rng shares. share_reward reward tot n)"
    using out by (intro fmap_sum_loop [OF assms(1,2)]) auto
  then have "of_int (\<Sum>(l, v) \<leftarrow> rng' out. v) =
      (\<Sum>ln \<leftarrow> rng shares. (of_int (round_half_away (reward * (of_int (snd ln) / of_int tot))) :: rat))"
    by (simp add: of_int_sum_list share_reward_def case_prod_unfold comp_def)
  then show ?thesis
    using sum_list_round_error [of "\<lambda>ln. reward * (of_int (snd ln) / of_int tot)" "rng shares"]
      shares_exact [OF assms(5,3), of reward]
    by (simp add: case_prod_unfold)
qed

end
