(* ===== verification/RpcClient.thy ===== *)
theory RpcClient
  imports GoStd
begin

text \<open>
  \<open>rpc/rpc.go\<close>: the JSON-RPC client of one upstream daemon and its health record.  The network
  and the JSON decoder are the environment: a \<open>transport\<close> gives, for a request, what
  \<open>http.Client.Do\<close> and the body decoder produced, and a decoder turns the raw \<open>result\<close> member
  into a reply.  Every call returns the client's new state together with its outcome.
\<close>

subsection \<open>State and replies\<close>

record GetInfoReply =
  IncomingConnections :: int
  OutgoingConnections :: int
  Info_Height :: int
  TxPoolSize :: int
  Info_Status :: string

record RPCClient =
  sickRate :: int
  successRate :: int
  Accepts :: int
  Rejects :: int
  LastSubmissionAt :: int
  FailsCount :: int
  Rpc_Url :: string
  Rpc_Name :: string
  sick :: bool
  info :: "GetInfoReply option"

record GetBlockTemplateReply =
  Reply_Difficulty :: int
  Reply_Height :: int
  Reply_Blob :: string
  Reply_ReservedOffset :: int
  Reply_PrevHash :: string
  Reply_ExpectedReward :: int
  Reply_SeedHash :: string
  Reply_NextSeedHash :: string

record RpcBlockHeader =
  Hdr_BlockSize :: int
  Hdr_Depth :: int
  Hdr_Difficulty :: int
  Hdr_Hash :: string
  Hdr_Height :: int
  Hdr_MajorVersion :: int
  Hdr_MinorVersion :: int
  Hdr_Nonce :: u32
  Hdr_NumTxes :: int
  Hdr_OrphanStatus :: bool
  Hdr_PrevHash :: string
  Hdr_Reward :: int
  Hdr_Timestamp :: u32

record GetBlockHeaderReply =
  Reply_BlockHeader :: RpcBlockHeader
  HeaderReply_Status :: string
  HeaderReply_Untrusted :: bool

record GetBlockCountReply =
  Reply_Count :: int
  CountReply_Status :: string

definition NewRPCClient :: "string \<Rightarrow> string \<Rightarrow> RPCClient" where
  "NewRPCClient name url =
     \<lparr>sickRate = 0, successRate = 0, Accepts = 0, Rejects = 0, LastSubmissionAt = 0, FailsCount = 0,
      Rpc_Url = url, Rpc_Name = name, sick = False, info = None\<rparr>"

subsection \<open>Requests and what comes back\<close>

datatype rpc_params =
    ReserveParams int string
  | NoParams
  | BlobParams "string list"
  | HeightParams int

text \<open>
  The \<open>error\<close> member of a response is a JSON object or absent; \<open>MessageText\<close> is an object whose
  \<open>message\<close> is a string and \<open>NoMessageText\<close> one without such a member.
\<close>

datatype rpc_error = MessageText string | NoMessageText

datatype 'raw rpc_body =
    BodyMalformed go_error
  | BodyNull
  | BodyResp "'raw option" "rpc_error option"

datatype 'raw http_outcome =
    RequestFailed go_error
  | TransportFailed go_error
  | HttpResponse int string "'raw rpc_body"

type_synonym 'raw transport = "string \<Rightarrow> string \<Rightarrow> rpc_params \<Rightarrow> 'raw http_outcome"

text \<open>The daemon: the network and what the JSON decoder makes of each kind of reply.\<close>

record 'raw daemon =
  Net :: "'raw transport"
  DecTemplate :: "'raw \<Rightarrow> GetBlockTemplateReply go"
  DecHeader :: "'raw \<Rightarrow> GetBlockHeaderReply go"
  DecCount :: "'raw \<Rightarrow> GetBlockCountReply go"

subsection \<open>Health\<close>

definition Sick :: "RPCClient \<Rightarrow> bool" where
  "Sick r = sick r"

definition markSick :: "RPCClient \<Rightarrow> RPCClient" where
  "markSick r =
     (let r = (if \<not> sick r then r\<lparr>FailsCount := wrap64 (FailsCount r + 1)\<rparr> else r);
          r = r\<lparr>sickRate := wrap64 (sickRate r + 1), successRate := 0\<rparr>
      in if 5 \<le> sickRate r then r\<lparr>sick := True\<rparr> else r)"

definition markAlive :: "RPCClient \<Rightarrow> RPCClient" where
  "markAlive r =
     (let r = r\<lparr>successRate := wrap64 (successRate r + 1)\<rparr>
      in if 5 \<le> successRate r then r\<lparr>sick := False, sickRate := 0, successRate := 0\<rparr> else r)"

subsection \<open>Calls\<close>

text \<open>
  \<open>doPost\<close>: a transport failure, a malformed body and an RPC error mark the client sick; an HTTP
  status outside 200..399 does not.  A body \<open>null\<close> and an error object without a string
  \<open>message\<close> make the code panic.
\<close>

definition doPost ::
  "'raw transport \<Rightarrow> RPCClient \<Rightarrow> string \<Rightarrow> rpc_params \<Rightarrow> RPCClient \<times> 'raw option go" where
  "doPost net r meth params =
     (case net (Rpc_Url r) meth params of
        RequestFailed e \<Rightarrow> (r, Fail e)
      | TransportFailed e \<Rightarrow> (markSick r, Fail e)
      | HttpResponse status text body \<Rightarrow>
          if status < 200 \<or> 400 \<le> status then (r, Fail (ErrMsg text))
          else (case body of
                  BodyMalformed e \<Rightarrow> (markSick r, Fail e)
                | BodyNull \<Rightarrow> (r, Panic ''nil pointer dereference'')
                | BodyResp result None \<Rightarrow> (r, Ok result)
                | BodyResp result (Some (MessageText m)) \<Rightarrow> (markSick r, Fail (ErrMsg m))
                | BodyResp result (Some NoMessageText) \<Rightarrow>
                    (markSick r, Panic ''interface conversion'')))"

text \<open>Unmarshal the result member when there is one; the reply pointer stays nil when not.\<close>

definition unmarshal_result :: "('raw \<Rightarrow> 'a go) \<Rightarrow> 'raw option go \<Rightarrow> 'a option go" where
  "unmarshal_result dec out =
     bindG out (\<lambda>result.
       case result of None \<Rightarrow> Ok None | Some raw \<Rightarrow> bindG (dec raw) (\<lambda>v. Ok (Some v)))"

definition GetBlockTemplate ::
  "'raw transport \<Rightarrow> ('raw \<Rightarrow> GetBlockTemplateReply go) \<Rightarrow> RPCClient \<Rightarrow> int \<Rightarrow> string \<Rightarrow>
   RPCClient \<times> GetBlockTemplateReply option go" where
  "GetBlockTemplate net dec r reserveSize address =
     (let (r, out) = doPost net r ''getblocktemplate'' (ReserveParams reserveSize address)
      in (r, unmarshal_result dec out))"

definition GetInfo ::
  "'raw transport \<Rightarrow> ('raw \<Rightarrow> GetInfoReply go) \<Rightarrow> RPCClient \<Rightarrow> RPCClient \<times> GetInfoReply option go" where
  "GetInfo net dec r =
     (let (r, out) = doPost net r ''get_info'' NoParams in (r, unmarshal_result dec out))"

definition GetBlockCount ::
  "'raw transport \<Rightarrow> ('raw \<Rightarrow> GetBlockCountReply go) \<Rightarrow> RPCClient \<Rightarrow>
   RPCClient \<times> GetBlockCountReply option go" where
  "GetBlockCount net dec r =
     (let (r, out) = doPost net r ''getblockcount'' NoParams in (r, unmarshal_result dec out))"

definition SubmitBlock ::
  "'raw transport \<Rightarrow> RPCClient \<Rightarrow> string \<Rightarrow> RPCClient \<times> 'raw option go" where
  "SubmitBlock net r hash = doPost net r ''submitblock'' (BlobParams [hash])"

definition GetBlockHeaderByHeight ::
  "'raw transport \<Rightarrow> ('raw \<Rightarrow> GetBlockHeaderReply go) \<Rightarrow> RPCClient \<Rightarrow> int \<Rightarrow>
   RPCClient \<times> GetBlockHeaderReply option go" where
  "GetBlockHeaderByHeight net dec r height =
     (let (r, out) = doPost net r ''getblockheaderbyheight'' (HeightParams height)
      in (r, unmarshal_result dec out))"

definition Check ::
  "'raw transport \<Rightarrow> ('raw \<Rightarrow> GetBlockTemplateReply go) \<Rightarrow> RPCClient \<Rightarrow> int \<Rightarrow> string \<Rightarrow>
   RPCClient \<times> bool go" where
  "Check net dec r reserveSize address =
     (case GetBlockTemplate net dec r reserveSize address of
        (r, Ok _) \<Rightarrow> (let r = markAlive r in (r, Ok (\<not> Sick r)))
      | (r, Fail e) \<Rightarrow> (r, Fail e)
      | (r, Panic p) \<Rightarrow> (r, Panic p))"

definition UpdateInfo ::
  "'raw transport \<Rightarrow> ('raw \<Rightarrow> GetInfoReply go) \<Rightarrow> RPCClient \<Rightarrow> RPCClient \<times> GetInfoReply option go" where
  "UpdateInfo net dec r =
     (case GetInfo net dec r of
        (r, Ok v) \<Rightarrow> (r\<lparr>info := v\<rparr>, Ok v)
      | (r, out) \<Rightarrow> (r, out))"

definition Info :: "RPCClient \<Rightarrow> GetInfoReply option" where
  "Info r = info r"

subsection \<open>The health record as a state machine\<close>

text \<open>The health fields change in two ways only.\<close>

datatype health_event = Failure | Success

fun health_step :: "RPCClient \<Rightarrow> health_event \<Rightarrow> RPCClient" where
  "health_step r Failure = markSick r"
| "health_step r Success = markAlive r"

definition health_run :: "RPCClient \<Rightarrow> health_event list \<Rightarrow> RPCClient" where
  "health_run r es = foldl health_step r es"

text \<open>After \<open>n\<close> events: the success count is below 5, and the client is sick from the fifth failure on.\<close>

definition health_inv :: "nat \<Rightarrow> RPCClient \<Rightarrow> bool" where
  "health_inv n r \<longleftrightarrow>
     0 \<le> successRate r \<and> successRate r < 5 \<and> 0 \<le> sickRate r \<and> sickRate r \<le> int n \<and>
     (sick r \<longleftrightarrow> 5 \<le> sickRate r)"

lemma health_inv_init [simp]: "health_inv 0 (NewRPCClient name url)"
  by (simp add: health_inv_def NewRPCClient_def)

lemma wrap64_small [simp]: "0 \<le> x \<Longrightarrow> x < 2 ^ 63 \<Longrightarrow> wrap64 x = x"
  by (simp add: in_i64_def)

lemma health_step_inv:
  assumes "health_inv n r" "Suc n < 2 ^ 63"
  shows "health_inv (Suc n) (health_step r e)"
  using assms
  by (cases e) (auto simp: health_inv_def markSick_def markAlive_def Let_def)

lemma health_run_inv:
  "health_inv n r \<Longrightarrow> n + length es < 2 ^ 63 \<Longrightarrow> health_inv (n + length es) (health_run r es)"
proof (induction es arbitrary: n r)
  case (Cons e es)
  have "health_inv (Suc n) (health_step r e)"
    using Cons.prems by (intro health_step_inv) auto
  from Cons.IH [OF this] Cons.prems show ?case by (simp add: health_run_def)
qed (simp add: health_run_def)

lemma sick_markSick: "health_inv n r \<Longrightarrow> Suc n < 2 ^ 63 \<Longrightarrow>
    sickRate (markSick r) = sickRate r + 1 \<and> successRate (markSick r) = 0"
  by (auto simp: health_inv_def markSick_def Let_def)

lemma markAlive_fields: "health_inv n r \<Longrightarrow>
    (if successRate r = 4 then \<not> sick (markAlive r) \<and> sickRate (markAlive r) = 0 \<and> successRate (markAlive r) = 0
     else sick (markAlive r) = sick r \<and> sickRate (markAlive r) = sickRate r \<and>
          successRate (markAlive r) = successRate r + 1)"
  by (auto simp: health_inv_def markAlive_def Let_def)

lemma failures_count:
  "health_inv n r \<Longrightarrow> n + k < 2 ^ 63 \<Longrightarrow>
   sickRate (health_run r (replicate k Failure)) = sickRate r + int k"
proof (induction k arbitrary: n r)
  case (Suc k)
  have "health_inv (Suc n) (markSick r)"
    using health_step_inv [OF Suc.prems(1), of Failure] Suc.prems(2) by simp
  from Suc.IH [OF this] Suc.prems sick_markSick [OF Suc.prems(1)]
  show ?case by (simp add: health_run_def)
qed (simp add: health_run_def)

lemma successes_keep:
  "health_inv n r \<Longrightarrow> n + k < 2 ^ 63 \<Longrightarrow> successRate r + int k < 5 \<Longrightarrow>
   sick (health_run r (replicate k Success)) = sick r \<and>
   sickRate (health_run r (replicate k Success)) = sickRate r \<and>
   successRate (health_run r (replicate k Success)) = successRate r + int k"
proof (induction k arbitrary: n r)
  case (Suc k)
  have inv: "health_inv (Suc n) (markAlive r)"
    using health_step_inv [OF Suc.prems(1), of Success] Suc.prems(2) by simp
  have f: "sick (markAlive r) = sick r" "sickRate (markAlive r) = sickRate r"
    "successRate (markAlive r) = successRate r + 1"
    using markAlive_fields [OF Suc.prems(1)] Suc.prems(3) by (auto split: if_splits)
  from Suc.IH [OF inv] Suc.prems f show ?case by (simp add: health_run_def)
qed (simp add: health_run_def)

lemma health_run_append: "health_run r (es @ fs) = health_run (health_run r es) fs"
  by (simp add: health_run_def)

subsection \<open>What an upstream check promises\<close>

lemma Check_alive: "Check net dec r n a = (r', Ok True) \<Longrightarrow> \<not> sick r'"
  by (auto simp: Check_def Sick_def Let_def split: prod.splits go.splits)

lemma doPost_cases:
  "fst (doPost net r meth ps) = r \<or> fst (doPost net r meth ps) = markSick r"
  by (auto simp: doPost_def split: http_outcome.splits rpc_body.splits option.splits rpc_error.splits)

lemma doPost_ok: "doPost net r meth ps = (r', Ok v) \<Longrightarrow> r' = r"
  by (auto simp: doPost_def split: http_outcome.splits rpc_body.splits option.splits rpc_error.splits
      if_splits)

text \<open>One check is at most one health event, and its verdict tells which.\<close>

lemma Check_health:
  "\<exists>es. fst (Check net dec r n a) = health_run r es \<and> length es \<le> 1"
proof -
  obtain r1 out where p: "doPost net r ''getblocktemplate'' (ReserveParams n a) = (r1, out)"
    by (cases "doPost net r ''getblocktemplate'' (ReserveParams n a)") auto
  have r1: "r1 = health_run r [] \<or> r1 = health_run r [Failure]"
    using doPost_cases [of net r "''getblocktemplate''" "ReserveParams n a"] p
    by (simp add: health_run_def)
  show ?thesis
  proof (cases "unmarshal_result dec out")
    case (Ok v)
    then have "r1 = r" using p by (auto simp: unmarshal_result_def bindG_Ok_iff dest: doPost_ok)
    then have "fst (Check net dec r n a) = health_run r [Success]"
      using Ok p by (simp add: Check_def GetBlockTemplate_def health_run_def Let_def)
    then show ?thesis by (intro exI [of _ "[Success]"]) simp
  next
    case (Fail e)
    then have "fst (Check net dec r n a) = r1" using p by (simp add: Check_def GetBlockTemplate_def)
    with r1 show ?thesis by (metis length_0_conv list.size(3,4) le_numeral_extra(3,4) add_0 zero_le One_nat_def)
  next
    case (Panic q)
    then have "fst (Check net dec r n a) = r1" using p by (simp add: Check_def GetBlockTemplate_def)
    with r1 show ?thesis by (metis length_0_conv list.size(3,4) le_numeral_extra(3,4) add_0 zero_le One_nat_def)
  qed
qed

end
