(* ===== verification/Ledger.thy ===== *)
theory Ledger
  imports Storage
begin

text \<open>
  The books of the pool.  Every miner's hash and the pool's \<open>finances\<close> hash hold the same four
  amounts (immature, balance, pending, paid); each transaction of the storage layer must move
  them together.  The locale \<open>ledger_store\<close> states the part of Redis' documented behaviour this
  rests on, and its lemmas show for every operation that a transaction that succeeds keeps the
  \<open>finances\<close> hash equal to the sum over the miners.
\<close>

subsection \<open>What a list of commands does to one integer field\<close>

fun incr_of :: "string \<Rightarrow> string \<Rightarrow> redis_cmd \<Rightarrow> int" where
  "incr_of k f (HIncrBy k' f' n) = (if k' = k \<and> f' = f then n else 0)"
| "incr_of k f _ = 0"

definition incr_sum :: "string \<Rightarrow> string \<Rightarrow> redis_cmd list \<Rightarrow> int" where
  "incr_sum k f cmds = sum_list (map (incr_of k f) cmds)"

text \<open>The commands that can set, remove or move a field otherwise.\<close>

fun overwrites :: "string \<Rightarrow> string \<Rightarrow> redis_cmd \<Rightarrow> bool" where
  "overwrites k f (HSet k' f' _) \<longleftrightarrow> k' = k \<and> f' = f"
| "overwrites k f (HSetNX k' f' _) \<longleftrightarrow> k' = k \<and> f' = f"
| "overwrites k f (HDel k' f') \<longleftrightarrow> k' = k \<and> f' = f"
| "overwrites k f (Del k') \<longleftrightarrow> k' = k"
| "overwrites k f (Rename k1 k2) \<longleftrightarrow> k1 = k \<or> k2 = k"
| "overwrites k f (Expire k' _) \<longleftrightarrow> k' = k"
| "overwrites k f (SetNX k' _) \<longleftrightarrow> k' = k"
| "overwrites k f _ \<longleftrightarrow> False"

lemma incr_sum_simps [simp]:
  "incr_sum k f [] = 0"
  "incr_sum k f (c # cs) = incr_of k f c + incr_sum k f cs"
  "incr_sum k f (cs @ ds) = incr_sum k f cs + incr_sum k f ds"
  by (simp_all add: incr_sum_def)

subsection \<open>Keys\<close>

definition minerKey :: "string \<Rightarrow> string \<Rightarrow> string" where
  "minerKey p login = formatKey p [JStr ''miners'', JStr login]"

definition financesKey :: "string \<Rightarrow> string" where
  "financesKey p = formatKey p [JStr ''finances'']"

definition ledger_fields :: "string set" where
  "ledger_fields = {''immature'', ''balance'', ''pending'', ''paid''}"

lemma minerKey_inj [simp]: "minerKey p l = minerKey p l' \<longleftrightarrow> l = l'"
  by (simp add: minerKey_def formatKey_def join_def)

lemmas key_defs = minerKey_def financesKey_def formatRound_def creditKey_def formatKey_def join_def

lemma minerKey_ne [simp]:
  "minerKey p l \<noteq> financesKey p" "financesKey p \<noteq> minerKey p l"
  "formatKey p [JStr ''shares'', a] \<noteq> minerKey p l"
  "formatKey p [JStr ''hashrate'', a] \<noteq> minerKey p l"
  "formatKey p [JStr ''stats''] \<noteq> minerKey p l"
  "formatKey p [JStr ''payments'', a] \<noteq> minerKey p l"
  "formatKey p (JStr ''credits'' # a # as) \<noteq> minerKey p l"
  "formatRound p h n \<noteq> minerKey p l"
  "creditKey p b \<noteq> minerKey p l"
  by (auto simp: key_defs)

lemma financesKey_ne [simp]:
  "formatKey p [JStr ''shares'', a] \<noteq> financesKey p"
  "formatKey p [JStr ''hashrate'', a] \<noteq> financesKey p"
  "formatKey p [JStr ''stats''] \<noteq> financesKey p"
  "formatKey p [JStr ''payments'', a] \<noteq> financesKey p"
  "formatKey p (JStr ''credits'' # a # as) \<noteq> financesKey p"
  "formatRound p h n \<noteq> financesKey p"
  "creditKey p b \<noteq> financesKey p"
  by (auto simp: key_defs)

lemmas key_ne_sym [simp] = minerKey_ne [THEN not_sym] financesKey_ne [THEN not_sym]

lemmas key_folds = minerKey_def [symmetric] financesKey_def [symmetric]

subsection \<open>The books\<close>

text \<open>\<open>hv db k f\<close> is the integer in field \<open>f\<close> of hash \<open>k\<close>, 0 when there is none.\<close>

type_synonym 'db hash_view = "'db \<Rightarrow> string \<Rightarrow> string \<Rightarrow> int"

definition books_agree :: "'db hash_view \<Rightarrow> string \<Rightarrow> string set \<Rightarrow> 'db \<Rightarrow> bool" where
  "books_agree hv p logins db \<longleftrightarrow>
     (\<forall>f \<in> ledger_fields. hv db (financesKey p) f = (\<Sum>l \<in> logins. hv db (minerKey p l) f))"

text \<open>A transaction that moves the same amounts in the two books and overwrites none of them.\<close>

definition balanced :: "string \<Rightarrow> string set \<Rightarrow> redis_cmd list \<Rightarrow> bool" where
  "balanced p logins cmds \<longleftrightarrow>
     (\<forall>f \<in> ledger_fields.
        (\<forall>c \<in> set cmds. \<not> overwrites (financesKey p) f c \<and> (\<forall>l. \<not> overwrites (minerKey p l) f c)) \<and>
        incr_sum (financesKey p) f cmds = (\<Sum>l \<in> logins. incr_sum (minerKey p l) f cmds))"

lemma sum_one [simp]:
  "finite L \<Longrightarrow> (\<Sum>l \<in> L. if l = x then (n::int) else 0) = (if x \<in> L then n else 0)"
  "finite L \<Longrightarrow> (\<Sum>l \<in> L. if x = l then (n::int) else 0) = (if x \<in> L then n else 0)"
  by (simp_all add: sum.delta')

locale ledger_store =
  fixes rd :: "'db redis" and hv :: "'db hash_view"
  assumes exec_incr:
      "Exec rd db cmds = (Inr reps, db') \<Longrightarrow> \<forall>c \<in> set cmds. \<not> overwrites k f c \<Longrightarrow>
       hv db' k f = hv db k f + incr_sum k f cmds"
    and do_keep:
      "Do rd db c = (r, db') \<Longrightarrow> \<not> overwrites k f c \<Longrightarrow> incr_of k f c = 0 \<Longrightarrow> hv db' k f = hv db k f"
    and watch_keep: "Watch rd db k' = (w, db') \<Longrightarrow> hv db' k f = hv db k f"
begin

lemma exec_books:
  assumes "Exec rd db cmds = (Inr reps, db')" "balanced p logins cmds" "books_agree hv p logins db"
  shows "books_agree hv p logins db'"
proof -
  have "hv db' k f = hv db k f + incr_sum k f cmds"
    if "f \<in> ledger_fields" "k = financesKey p \<or> (\<exists>l. k = minerKey p l)" for k f
    using assms(2) that by (intro exec_incr [OF assms(1)]) (auto simp: balanced_def)
  then show ?thesis
    using assms(2,3) by (simp add: books_agree_def balanced_def sum.distrib)
qed

lemma do_books:
  assumes "Do rd db c = (r, db')" "balanced p logins [c]" "\<And>k f. incr_of k f c = 0"
    and "books_agree hv p logins db"
  shows "books_agree hv p logins db'"
proof -
  have "hv db' k f = hv db k f"
    if "f \<in> ledger_fields" "k = financesKey p \<or> (\<exists>l. k = minerKey p l)" for k f
    using assms(2,3) that by (intro do_keep [OF assms(1)]) (auto simp: balanced_def)
  then show ?thesis using assms(4) by (simp add: books_agree_def)
qed

lemma watch_books:
  "Watch rd db k = (w, db') \<Longrightarrow> books_agree hv p logins db \<Longrightarrow> books_agree hv p logins db'"
  by (simp add: books_agree_def watch_keep)

end

subsection \<open>Every transaction is balanced\<close>

lemma balanced_UpdateBalance:
  assumes "finite logins" "login \<in> logins"
  shows "balanced p logins (UpdateBalance_cmds p ts login amount)"
  using assms
  by (auto simp: balanced_def UpdateBalance_cmds_def key_folds ledger_fields_def)

lemma balanced_RollbackBalance:
  assumes "finite logins" "login \<in> logins"
  shows "balanced p logins (RollbackBalance_cmds p login amount)"
  using assms
  by (auto simp: balanced_def RollbackBalance_cmds_def key_folds ledger_fields_def)

lemma balanced_WritePayment:
  assumes "finite logins" "login \<in> logins"
  shows "balanced p logins (WritePayment_cmds p ts login tx amount)"
  using assms
  by (auto simp: balanced_def WritePayment_cmds_def key_folds ledger_fields_def)

text \<open>Loops over rewards and credit entries: each login's amount reaches its own hash.\<close>

lemma incr_sum_concat: "incr_sum k f (concat css) = (\<Sum>cs \<leftarrow> css. incr_sum k f cs)"
  by (induction css) simp_all

lemma sum_list_per_login:
  assumes "finite logins" "fst ` set rs \<subseteq> logins"
  shows "(\<Sum>l \<in> logins. \<Sum>(login, a) \<leftarrow> rs. if login = l then (h login a :: int) else 0) = (\<Sum>(login, a) \<leftarrow> rs. h login a)"
  using assms(2)
proof (induction rs)
  case (Cons r rs)
  then show ?case using assms(1) by (cases r) (simp add: sum.distrib)
qed simp

definition reward_loop :: "string \<Rightarrow> string \<Rightarrow> string \<Rightarrow> (string \<times> int) list \<Rightarrow> redis_cmd list" where
  "reward_loop p g ck rs =
     concat (map (\<lambda>(login, amount).
       [HIncrBy (minerKey p login) g amount, HSetNX ck login (format_int amount)]) rs)"

lemma incr_reward_loop:
  "incr_sum (minerKey p l) f (reward_loop p g ck rs) =
     (if f = g then (\<Sum>(login, a) \<leftarrow> rs. if login = l then a else 0) else 0)"
  "incr_sum (financesKey p) f (reward_loop p g ck rs) = 0"
  by (induction rs) (auto simp: reward_loop_def)

lemma overwrites_reward_loop:
  "c \<in> set (reward_loop p g ck rs) \<Longrightarrow> overwrites k f c \<Longrightarrow> k = ck"
  by (auto simp: reward_loop_def)

lemma incr_immature_decrements:
  "incr_sum (minerKey p l) f (immature_decrements p cs) =
     (if f = ''immature''
      then (\<Sum>(login, s) \<leftarrow> cs. if login = l then wrap64 (- fst (parse_int s)) else 0) else 0)"
  "incr_sum (financesKey p) f (immature_decrements p cs) = 0"
  by (induction cs) (auto simp: immature_decrements_def key_folds)

lemma overwrites_immature_decrements: "c \<in> set (immature_decrements p cs) \<Longrightarrow> \<not> overwrites k f c"
  by (auto simp: immature_decrements_def)

lemma incr_block_moves [simp]:
  "incr_sum k f (writeImmatureBlock p b) = 0" "incr_sum k f (writeMaturedBlock p b) = 0"
  by (auto simp: writeImmatureBlock_def writeMaturedBlock_def)

lemma round_key_range [simp]: "formatRound p h n \<in> range (case_prod (formatRound p))"
  by (rule range_eqI [of _ _ "(h, n)"]) simp

lemma overwrites_block_moves:
  "c \<in> set (writeImmatureBlock p b) \<Longrightarrow> overwrites k f c \<Longrightarrow> k \<in> range (case_prod (formatRound p))"
  "c \<in> set (writeMaturedBlock p b) \<Longrightarrow> overwrites k f c \<Longrightarrow> k \<in> range (case_prod (formatRound p))"
  by (auto simp: writeImmatureBlock_def writeMaturedBlock_def split: if_splits)

lemma balancedI:
  assumes "\<And>f c. f \<in> ledger_fields \<Longrightarrow> c \<in> set cmds \<Longrightarrow> overwrites (financesKey p) f c \<Longrightarrow> False"
    and "\<And>f c l. f \<in> ledger_fields \<Longrightarrow> c \<in> set cmds \<Longrightarrow> overwrites (minerKey p l) f c \<Longrightarrow> False"
    and "\<And>f. f \<in> ledger_fields \<Longrightarrow>
      incr_sum (financesKey p) f cmds = (\<Sum>l \<in> logins. incr_sum (minerKey p l) f cmds)"
  shows "balanced p logins cmds"
  using assms unfolding balanced_def by blast

text \<open>Amounts whose total stays in range: no partial wrap can separate the two books.\<close>

definition credits_fit :: "(string \<times> string) list \<Rightarrow> bool" where
  "credits_fit cs \<longleftrightarrow>
     list_all (\<lambda>(_, s). - (2 ^ 63) < fst (parse_int s)) cs \<and>
     \<bar>\<Sum>(_, s) \<leftarrow> cs. fst (parse_int s)\<bar> < 2 ^ 63"

lemma in_i64_minus: "in_i64 x \<Longrightarrow> - (2 ^ 63) < x \<Longrightarrow> wrap64 (- x) = - x"
  by (simp add: in_i64_def)

lemma total_decrements:
  assumes "credits_fit cs"
  shows "wrap64 (- total_immature cs) = (\<Sum>(login, s) \<leftarrow> cs. wrap64 (- fst (parse_int s)))"
proof -
  have "(\<Sum>(login, s) \<leftarrow> cs. wrap64 (- fst (parse_int s))) = (\<Sum>(login, s) \<leftarrow> cs. - fst (parse_int s))"
    using assms
    by (intro arg_cong [where f = sum_list] map_cong refl)
      (auto simp: credits_fit_def list_all_iff in_i64_minus [OF parse_int_in_i64])
  also have "\<dots> = - (\<Sum>(login, s) \<leftarrow> cs. fst (parse_int s))"
    by (induction cs) auto
  also have "\<dots> = wrap64 (- total_immature cs)"
  proof -
    have "in_i64 (\<Sum>(_, s) \<leftarrow> cs. fst (parse_int s))" "in_i64 (- (\<Sum>(_, s) \<leftarrow> cs. fst (parse_int s)))"
      using assms by (auto simp: credits_fit_def in_i64_def)
    then show ?thesis by (simp add: total_immature_def sum64_eq)
  qed
  finally show ?thesis by simp
qed

lemma WriteImmatureBlock_cmds_eq:
  "WriteImmatureBlock_cmds p b rs =
     writeImmatureBlock p b @
     reward_loop p ''immature''
       (formatKey p [JStr ''credits'', JStr ''immature'', JInt (BD_Height b), JStr (BD_Hash b)]) rs @
     [HIncrBy (financesKey p) ''immature'' (sum64 (map snd rs))]"
  by (simp add: WriteImmatureBlock_cmds_def reward_loop_def key_folds)

lemma sum_list_snd: "(\<Sum>(x, a) \<leftarrow> rs. a) = sum_list (map snd rs)"
  by (induction rs) auto

lemma balanced_WriteImmatureBlock:
  assumes "finite logins" "fst ` set rs \<subseteq> logins" "in_i64 (sum_list (map snd rs))"
  shows "balanced p logins (WriteImmatureBlock_cmds p b rs)"
  unfolding WriteImmatureBlock_cmds_eq
proof (rule balancedI)
  fix f
  show "incr_sum (financesKey p) f (writeImmatureBlock p b @ reward_loop p ''immature''
      (formatKey p [JStr ''credits'', JStr ''immature'', JInt (BD_Height b), JStr (BD_Hash b)]) rs @
      [HIncrBy (financesKey p) ''immature'' (sum64 (map snd rs))]) =
    (\<Sum>l \<in> logins. incr_sum (minerKey p l) f (writeImmatureBlock p b @ reward_loop p ''immature''
      (formatKey p [JStr ''credits'', JStr ''immature'', JInt (BD_Height b), JStr (BD_Hash b)]) rs @
      [HIncrBy (financesKey p) ''immature'' (sum64 (map snd rs))]))"
    using assms sum_list_per_login [OF assms(1,2), of "\<lambda>_ a. a"]
    by (auto simp: incr_reward_loop sum64_eq sum_list_snd)
qed (auto dest!: overwrites_reward_loop overwrites_block_moves)

lemma balanced_WriteOrphan:
  assumes "finite logins" "fst ` set cs \<subseteq> logins" "credits_fit cs"
  shows "balanced p logins (WriteOrphan_cmds p b cs)"
proof (rule balancedI)
  fix f
  show "incr_sum (financesKey p) f (WriteOrphan_cmds p b cs) =
    (\<Sum>l \<in> logins. incr_sum (minerKey p l) f (WriteOrphan_cmds p b cs))"
    using sum_list_per_login [OF assms(1,2), of "\<lambda>_ s. wrap64 (- fst (parse_int s))"]
    by (auto simp: WriteOrphan_cmds_def key_folds incr_immature_decrements total_decrements [OF assms(3)])
qed (auto simp: WriteOrphan_cmds_def key_folds overwrites_immature_decrements dest!: overwrites_block_moves)

lemma WriteMaturedBlock_cmds_Ok:
  assumes "WriteMaturedBlock_cmds p ts b cs rs = Ok cmds"
  shows "\<exists>mined. cmds =
     writeMaturedBlock p b @
     [ZAdd (formatKey p [JStr ''credits'', JStr ''all'']) (f64 (BD_Height b))
        (join [JStr (BD_Hash b), JInt ts, JBig (BD_Reward b)])] @
     immature_decrements p cs @
     reward_loop p ''balance'' (formatKey p [JStr ''credits'', JInt (BD_Height b), JStr (BD_Hash b)]) rs @
     [Del (creditKey p b),
      HIncrBy (financesKey p) ''balance'' (sum64 (map snd rs)),
      HIncrBy (financesKey p) ''immature'' (wrap64 (total_immature cs * -1)),
      HSet (financesKey p) ''lastCreditHeight'' (format_int (BD_Height b)),
      HSet (financesKey p) ''lastCreditHash'' (BD_Hash b),
      HIncrBy (financesKey p) ''totalMined'' mined]"
  using assms
  by (auto simp: WriteMaturedBlock_cmds_def bindG_Ok_iff reward_loop_def key_folds)

lemma balanced_WriteMaturedBlock:
  assumes "finite logins" "fst ` set cs \<subseteq> logins" "fst ` set rs \<subseteq> logins"
    and "credits_fit cs" "in_i64 (sum_list (map snd rs))"
    and "WriteMaturedBlock_cmds p ts b cs rs = Ok cmds"
  shows "balanced p logins cmds"
proof -
  obtain mined where cmds: "cmds =
     writeMaturedBlock p b @
     [ZAdd (formatKey p [JStr ''credits'', JStr ''all'']) (f64 (BD_Height b))
        (join [JStr (BD_Hash b), JInt ts, JBig (BD_Reward b)])] @
     immature_decrements p cs @
     reward_loop p ''balance'' (formatKey p [JStr ''credits'', JInt (BD_Height b), JStr (BD_Hash b)]) rs @
     [Del (creditKey p b),
      HIncrBy (financesKey p) ''balance'' (sum64 (map snd rs)),
      HIncrBy (financesKey p) ''immature'' (wrap64 (total_immature cs * -1)),
      HSet (financesKey p) ''lastCreditHeight'' (format_int (BD_Height b)),
      HSet (financesKey p) ''lastCreditHash'' (BD_Hash b),
      HIncrBy (financesKey p) ''totalMined'' mined]"
    using WriteMaturedBlock_cmds_Ok [OF assms(6)] by blast
  show ?thesis
  proof (rule balancedI)
    fix f
    assume f: "f \<in> ledger_fields"
    have "incr_sum (financesKey p) f cmds =
        (if f = ''balance'' then sum_list (map snd rs) else 0) +
        (if f = ''immature'' then wrap64 (- total_immature cs) else 0)"
      using f assms(5)
      by (auto simp: cmds incr_immature_decrements incr_reward_loop sum64_eq ledger_fields_def)
    moreover have "incr_sum (minerKey p l) f cmds =
        (if f = ''balance'' then (\<Sum>(login, a) \<leftarrow> rs. if login = l then a else 0) else 0) +
        (if f = ''immature''
         then (\<Sum>(login, s) \<leftarrow> cs. if login = l then wrap64 (- fst (parse_int s)) else 0) else 0)" for l
      by (simp add: cmds incr_immature_decrements incr_reward_loop)
    ultimately show "incr_sum (financesKey p) f cmds = (\<Sum>l \<in> logins. incr_sum (minerKey p l) f cmds)"
      using sum_list_per_login [OF assms(1,2), of "\<lambda>_ s. wrap64 (- fst (parse_int s))"]
        sum_list_per_login [OF assms(1,3), of "\<lambda>_ a. a"] total_decrements [OF assms(4)]
      by (simp add: sum_list_snd)
  qed (auto simp: cmds ledger_fields_def overwrites_immature_decrements
      dest!: overwrites_block_moves overwrites_reward_loop)
qed

subsection \<open>Every operation keeps the books\<close>

lemma balanced_writeShare: "balanced p logins (writeShare p ms ts login wid diff w)"
  by (rule balancedI) (auto simp: writeShare_def key_folds ledger_fields_def)

lemma balanced_append: "balanced p logins cs \<Longrightarrow> balanced p logins ds \<Longrightarrow> balanced p logins (cs @ ds)"
  unfolding balanced_def by (auto simp: sum.distrib)

lemma balanced_WriteShare: "balanced p logins (WriteShare_cmds p now login wid diff w)"
  unfolding WriteShare_cmds_def
  by (rule balanced_append [OF balanced_writeShare], rule balancedI) (auto simp: key_folds)

lemma balanced_WriteBlock: "balanced p logins (WriteBlock_cmds p ms ts login wid nonce diff height w)"
  unfolding WriteBlock_cmds_def
  by (rule balanced_append [OF balanced_writeShare], rule balancedI)
    (auto simp: key_folds ledger_fields_def)

lemma balanced_WritePendingOrphans: "balanced p logins (WritePendingOrphans_cmds p bs)"
proof (induction bs)
  case (Cons b bs)
  have "balanced p logins (writeImmatureBlock p b)"
    by (rule balancedI) (auto dest!: overwrites_block_moves)
  with Cons show ?case
    by (simp add: WritePendingOrphans_cmds_def balanced_append)
qed (simp add: WritePendingOrphans_cmds_def balanced_def)

text \<open>What the credit log of a block must look like when it is taken back: known logins, sane amounts.\<close>

definition log_ok ::
  "'db redis \<Rightarrow> ((string, string) fmap \<Rightarrow> (string \<times> string) list) \<Rightarrow> string \<Rightarrow> string set \<Rightarrow> 'db \<Rightarrow>
   BlockData \<Rightarrow> bool" where
  "log_ok rd rngs p logins db b \<longleftrightarrow>
     (let (_, db1) = Watch rd db (creditKey p b);
          (r, _) = Do rd db1 (HGetAllMap (creditKey p b));
          cs = rngs (map_val r)
      in fst ` set cs \<subseteq> logins \<and> credits_fit cs)"

definition rewards_ok :: "((string, int) fmap \<Rightarrow> (string \<times> int) list) \<Rightarrow> string set \<Rightarrow> (string, int) fmap \<Rightarrow> bool" where
  "rewards_ok rng logins rewards \<longleftrightarrow>
     fst ` set (rng rewards) \<subseteq> logins \<and> in_i64 (sum_list (map snd (rng rewards)))"

context ledger_store
begin

lemma z_books:
  assumes "Do rd db c = (r, db')" "\<And>k f. incr_of k f c = 0" "\<And>k f. \<not> overwrites k f c"
    and "books_agree hv p logins db"
  shows "books_agree hv p logins db'"
  by (rule do_books [OF assms(1) _ assms(2,4)]) (simp add: balanced_def assms(2,3))

lemma read_books:
  "Do rd db (ZAdd k x m) = (r, db') \<Longrightarrow> books_agree hv p logins db \<Longrightarrow> books_agree hv p logins db'"
  "Do rd db (ZRemRangeByScore k lo hi) = (r, db') \<Longrightarrow> books_agree hv p logins db \<Longrightarrow>
   books_agree hv p logins db'"
  "Do rd db (HGetAllMap k) = (r, db') \<Longrightarrow> books_agree hv p logins db \<Longrightarrow> books_agree hv p logins db'"
  by (erule z_books; auto)+

lemma checkPoWExist_books:
  assumes "checkPoWExist rd p db height params = (r, db')" "books_agree hv p logins db"
  shows "books_agree hv p logins db'"
  using assms unfolding checkPoWExist_def
  by (auto split: prod.splits dest: read_books)

lemma WriteShare_books:
  assumes "WriteShare rd p now db login wid params diff height w = ((b, None), db')"
    and "books_agree hv p logins db"
  shows "books_agree hv p logins db'"
proof -
  obtain ex e db1 where c: "checkPoWExist rd p db height params = ((ex, e), db1)"
    by (metis prod.exhaust)
  then have "books_agree hv p logins db1" using assms(2) by (rule checkPoWExist_books)
  with assms(1) c show ?thesis
    by (auto simp: WriteShare_def split: option.splits bool.splits prod.splits sum.splits
        intro: exec_books [OF _ balanced_WriteShare])
qed

lemma WriteBlock_books:
  assumes "WriteBlock rd rng p now db login wid params diff rdiff height cb fee w = (Ok (b, None), db')"
    and "books_agree hv p logins db"
  shows "books_agree hv p logins db'"
proof -
  obtain ex e db1 where c: "checkPoWExist rd p db height params = ((ex, e), db1)"
    by (metis prod.exhaust)
  then have b1: "books_agree hv p logins db1" using assms(2) by (rule checkPoWExist_books)
  show ?thesis
  proof (cases "ex \<or> e \<noteq> None")
    case True
    then show ?thesis using assms(1) c b1
      by (auto simp: WriteBlock_def split: option.splits bool.splits)
  next
    case False
    then obtain nonce ps out db2 where n: "params = nonce # ps"
        "Exec rd db1 (WriteBlock_cmds p now (now div 1000) login wid nonce diff height w) = (out, db2)"
      using assms(1) c by (auto simp: WriteBlock_def split: list.splits) (metis prod.exhaust)
    with assms(1) c False obtain cmds where out: "out = Inr cmds"
      by (auto simp: WriteBlock_def split: sum.splits)
    then have "books_agree hv p logins db2"
      using exec_books [OF _ balanced_WriteBlock b1] n(2) by blast
    with assms(1) c False n out show ?thesis
      by (auto simp: WriteBlock_def Let_def split: if_splits prod.splits dest: read_books)
  qed
qed

lemma WriteInvalidShare_books:
  "WriteInvalidShare rd p db ms ts login wid diff = (e, db') \<Longrightarrow> books_agree hv p logins db \<Longrightarrow>
   books_agree hv p logins db'"
  by (auto simp: WriteInvalidShare_def split: prod.splits dest: read_books)

lemma WriteRejectShare_books:
  "WriteRejectShare rd p db ms ts login wid diff = (e, db') \<Longrightarrow> books_agree hv p logins db \<Longrightarrow>
   books_agree hv p logins db'"
  by (auto simp: WriteRejectShare_def split: prod.splits dest: read_books)

text \<open>The operations that are one transaction.\<close>

lemma exec_err_books:
  assumes "(let (out, db1) = Exec rd db cmds in (exec_err out, db1)) = (Ok u, db')"
    and "balanced p logins cmds" "books_agree hv p logins db"
  shows "books_agree hv p logins db'"
  using assms by (auto simp: exec_err_def split: prod.splits sum.splits intro: exec_books)

lemma UpdateBalance_books:
  "UpdateBalance rd p now db login amount = (Ok u, db') \<Longrightarrow> finite logins \<Longrightarrow> login \<in> logins \<Longrightarrow>
   books_agree hv p logins db \<Longrightarrow> books_agree hv p logins db'"
  unfolding UpdateBalance_def by (rule exec_err_books [OF _ balanced_UpdateBalance])

lemma RollbackBalance_books:
  "RollbackBalance rd p db login amount = (Ok u, db') \<Longrightarrow> finite logins \<Longrightarrow> login \<in> logins \<Longrightarrow>
   books_agree hv p logins db \<Longrightarrow> books_agree hv p logins db'"
  unfolding RollbackBalance_def by (rule exec_err_books [OF _ balanced_RollbackBalance])

lemma WritePayment_books:
  "WritePayment rd p now db login tx amount = (Ok u, db') \<Longrightarrow> finite logins \<Longrightarrow> login \<in> logins \<Longrightarrow>
   books_agree hv p logins db \<Longrightarrow> books_agree hv p logins db'"
  unfolding WritePayment_def by (rule exec_err_books [OF _ balanced_WritePayment])

lemma WriteImmatureBlock_books:
  assumes "WriteImmatureBlock rd rng p db b rewards = (Ok u, db')" "finite logins"
    and "rewards_ok rng logins rewards" "books_agree hv p logins db"
  shows "books_agree hv p logins db'"
  using assms unfolding WriteImmatureBlock_def rewards_ok_def
  by (blast intro: exec_err_books balanced_WriteImmatureBlock)

lemma WritePendingOrphans_books:
  "WritePendingOrphans rd p db bs = (Ok u, db') \<Longrightarrow> books_agree hv p logins db \<Longrightarrow>
   books_agree hv p logins db'"
  unfolding WritePendingOrphans_def by (rule exec_err_books [OF _ balanced_WritePendingOrphans])

text \<open>The two operations that read the credit log first.\<close>

lemma log_read_books:
  assumes "Watch rd db k = (w, db1)" "Do rd db1 (HGetAllMap k) = (r, db2)" "books_agree hv p logins db"
  shows "books_agree hv p logins db2"
  using read_books(3) [OF assms(2)] watch_books [OF assms(1,3)] by blast

lemma WriteOrphan_books:
  assumes "WriteOrphan rd rngs p db b = (Ok u, db')" "finite logins" "log_ok rd rngs p logins db b"
    and "books_agree hv p logins db"
  shows "books_agree hv p logins db'"
proof -
  obtain w db1 r db2 where l: "Watch rd db (creditKey p b) = (w, db1)"
      "Do rd db1 (HGetAllMap (creditKey p b)) = (r, db2)"
    by (metis prod.exhaust)
  then have cs: "fst ` set (rngs (map_val r)) \<subseteq> logins" "credits_fit (rngs (map_val r))"
    using assms(3) by (simp_all add: log_ok_def Let_def)
  have "w = None" using assms(1) l by (auto simp: WriteOrphan_def split: option.splits)
  then have "(let (out, db) = Exec rd db2 (WriteOrphan_cmds p b (rngs (map_val r)))
      in (exec_err out, db)) = (Ok u, db')"
    using assms(1) l by (simp add: WriteOrphan_def)
  then show ?thesis
    using balanced_WriteOrphan [OF assms(2) cs] log_read_books [OF l assms(4)] by (rule exec_err_books)
qed

lemma WriteMaturedBlock_books:
  assumes "WriteMaturedBlock rd rngs rng p now db b rewards = (Ok u, db')" "finite logins"
    and "log_ok rd rngs p logins db b" "rewards_ok rng logins rewards"
    and "books_agree hv p logins db"
  shows "books_agree hv p logins db'"
proof -
  obtain w db1 r db2 where l: "Watch rd db (creditKey p b) = (w, db1)"
      "Do rd db1 (HGetAllMap (creditKey p b)) = (r, db2)"
    by (metis prod.exhaust)
  then have cs: "fst ` set (rngs (map_val r)) \<subseteq> logins" "credits_fit (rngs (map_val r))"
    using assms(3) by (simp_all add: log_ok_def Let_def)
  have "w = None" using assms(1) l by (auto simp: WriteMaturedBlock_def split: option.splits)
  then obtain cmds where c:
      "WriteMaturedBlock_cmds p (now div 1000) b (rngs (map_val r)) (rng rewards) = Ok cmds"
      "(let (out, db) = Exec rd db2 cmds in (exec_err out, db)) = (Ok u, db')"
    using assms(1) l by (auto simp: WriteMaturedBlock_def split: go.splits)
  have "balanced p logins cmds"
    using balanced_WriteMaturedBlock [OF assms(2) cs(1) _ cs(2) _ c(1)] assms(4)
    by (simp add: rewards_ok_def)
  with c(2) show ?thesis
    using log_read_books [OF l assms(5)] by (rule exec_err_books)
qed

end

subsection \<open>The storage layer as a step relation\<close>

text \<open>
  One call of the storage layer that succeeds.  The callers' obligations are the guards: the login
  is a known account, the rewards and the credit log that is taken back name known accounts and
  their totals fit 64 bits.
\<close>

inductive ledger_step ::
  "'db redis \<Rightarrow> ((string, string) fmap \<Rightarrow> (string \<times> string) list) \<Rightarrow>
   ((string, int) fmap \<Rightarrow> (string \<times> int) list) \<Rightarrow> string \<Rightarrow> string set \<Rightarrow> 'db \<Rightarrow> 'db \<Rightarrow> bool"
  for rd rngs rng p logins where
  share: "WriteShare rd p now db login wid params diff height w = ((b, None), db') \<Longrightarrow>
     ledger_step rd rngs rng p logins db db'"
| invalid: "WriteInvalidShare rd p db ms ts login wid diff = (e, db') \<Longrightarrow>
     ledger_step rd rngs rng p logins db db'"
| reject: "WriteRejectShare rd p db ms ts login wid diff = (e, db') \<Longrightarrow>
     ledger_step rd rngs rng p logins db db'"
| block: "WriteBlock rd rngs p now db login wid params diff rdiff height cb fee w = (Ok (b, None), db') \<Longrightarrow>
     ledger_step rd rngs rng p logins db db'"
| pending_orphans: "WritePendingOrphans rd p db bs = (Ok u, db') \<Longrightarrow>
     ledger_step rd rngs rng p logins db db'"
| immature: "WriteImmatureBlock rd rng p db blk rewards = (Ok u, db') \<Longrightarrow>
     rewards_ok rng logins rewards \<Longrightarrow> ledger_step rd rngs rng p logins db db'"
| matured: "WriteMaturedBlock rd rngs rng p now db blk rewards = (Ok u, db') \<Longrightarrow>
     log_ok rd rngs p logins db blk \<Longrightarrow> rewards_ok rng logins rewards \<Longrightarrow>
     ledger_step rd rngs rng p logins db db'"
| orphan: "WriteOrphan rd rngs p db blk = (Ok u, db') \<Longrightarrow> log_ok rd rngs p logins db blk \<Longrightarrow>
     ledger_step rd rngs rng p logins db db'"
| update: "UpdateBalance rd p now db login amount = (Ok u, db') \<Longrightarrow> login \<in> logins \<Longrightarrow>
     ledger_step rd rngs rng p logins db db'"
| rollback: "RollbackBalance rd p db login amount = (Ok u, db') \<Longrightarrow> login \<in> logins \<Longrightarrow>
     ledger_step rd rngs rng p logins db db'"
| payment: "WritePayment rd p now db login tx amount = (Ok u, db') \<Longrightarrow> login \<in> logins \<Longrightarrow>
     ledger_step rd rngs rng p logins db db'"

context ledger_store
begin

lemma step_books:
  assumes "ledger_step rd rngs rng p logins db db'" "finite logins" "books_agree hv p logins db"
  shows "books_agree hv p logins db'"
  using assms
  by (induction rule: ledger_step.induct)
    (blast intro: WriteShare_books WriteInvalidShare_books WriteRejectShare_books WriteBlock_books
      WritePendingOrphans_books WriteImmatureBlock_books WriteMaturedBlock_books WriteOrphan_books
      UpdateBalance_books RollbackBalance_books WritePayment_books)+

lemma steps_books:
  assumes "(ledger_step rd rngs rng p logins)\<^sup>*\<^sup>* db db'" "finite logins" "books_agree hv p logins db"
  shows "books_agree hv p logins db'"
  using assms by (induction rule: rtranclp_induct) (auto intro: step_books)

end

end
