(* ===== verification/MemRedis.thy ===== *)
theory MemRedis
  imports Ledger
begin

text \<open>
  An executable reference of the documented behaviour of the Redis commands the pool issues, on a
  database held in memory.  It is not part of the program: it shows that what the storage layer
  assumes of the service (\<open>ledger_store\<close>) is what the service documents, and the concrete runs of
  the storage operations are evaluated on it.  Time does not pass in it, so a key with a positive
  expiry stays.
\<close>

datatype redis_value =
    VStr string
  | VHash "(string, string) fmap"
  | VSet "string list"
  | VZset "(int \<times> string) list"

type_synonym mem = "(string, redis_value) fmap"

definition wrongtype :: redis_reply where
  "wrongtype = RErr (ErrMsg ''WRONGTYPE Operation against a key holding the wrong kind of value'')"

text \<open>The hash, or the sorted set, at a key: the empty one when the key is missing.\<close>

definition hash_at :: "mem \<Rightarrow> string \<Rightarrow> (string, string) fmap option" where
  "hash_at db k = (case fmlookup db k of None \<Rightarrow> Some fmempty | Some (VHash m) \<Rightarrow> Some m | _ \<Rightarrow> None)"

definition zset_at :: "mem \<Rightarrow> string \<Rightarrow> (int \<times> string) list option" where
  "zset_at db k = (case fmlookup db k of None \<Rightarrow> Some [] | Some (VZset z) \<Rightarrow> Some z | _ \<Rightarrow> None)"

definition on_hash :: "mem \<Rightarrow> string \<Rightarrow> ((string, string) fmap \<Rightarrow> redis_reply \<times> mem) \<Rightarrow> redis_reply \<times> mem" where
  "on_hash db k f = (case hash_at db k of None \<Rightarrow> (wrongtype, db) | Some m \<Rightarrow> f m)"

definition on_zset :: "mem \<Rightarrow> string \<Rightarrow> ((int \<times> string) list \<Rightarrow> redis_reply \<times> mem) \<Rightarrow> redis_reply \<times> mem" where
  "on_zset db k f = (case zset_at db k of None \<Rightarrow> (wrongtype, db) | Some z \<Rightarrow> f z)"

text \<open>A sorted set is kept in the order of scores, then of members; an empty one is no key.\<close>

fun z_insert :: "int \<Rightarrow> string \<Rightarrow> (int \<times> string) list \<Rightarrow> (int \<times> string) list" where
  "z_insert s m [] = [(s, m)]"
| "z_insert s m ((s', m') # zs) =
     (if s < s' \<or> (s = s' \<and> m < m') then (s, m) # (s', m') # zs else (s', m') # z_insert s m zs)"

definition z_remove :: "string \<Rightarrow> (int \<times> string) list \<Rightarrow> (int \<times> string) list" where
  "z_remove m zs = filter (\<lambda>(_, m'). m' \<noteq> m) zs"

definition z_member :: "string \<Rightarrow> (int \<times> string) list \<Rightarrow> bool" where
  "z_member m zs = list_ex (\<lambda>(_, m'). m' = m) zs"

definition z_score :: "string \<Rightarrow> (int \<times> string) list \<Rightarrow> int" where
  "z_score m zs = (case filter (\<lambda>(_, m'). m' = m) zs of [] \<Rightarrow> 0 | (s, _) # _ \<Rightarrow> s)"

definition z_put :: "mem \<Rightarrow> string \<Rightarrow> (int \<times> string) list \<Rightarrow> mem" where
  "z_put db k z = (if z = [] then fmdrop k db else fmupd k (VZset z) db)"

datatype bound = NegInf | PosInf | Incl int | Excl int

definition parse_bound :: "string \<Rightarrow> bound" where
  "parse_bound s =
     (if s = ''-inf'' then NegInf else if s = ''+inf'' then PosInf
      else case s of [] \<Rightarrow> Incl 0
        | c # cs \<Rightarrow> if c = CHR ''('' then Excl (fst (parse_int cs)) else Incl (fst (parse_int s)))"

fun above :: "bound \<Rightarrow> int \<Rightarrow> bool" where
  "above NegInf x = True" | "above PosInf x = False"
| "above (Incl b) x = (b \<le> x)" | "above (Excl b) x = (b < x)"

fun below :: "bound \<Rightarrow> int \<Rightarrow> bool" where
  "below NegInf x = False" | "below PosInf x = True"
| "below (Incl b) x = (x \<le> b)" | "below (Excl b) x = (x < b)"

definition in_bounds :: "string \<Rightarrow> string \<Rightarrow> int \<times> string \<Rightarrow> bool" where
  "in_bounds lo hi z = (above (parse_bound lo) (fst z) \<and> below (parse_bound hi) (fst z))"

text \<open>Index ranges count from the end when negative.\<close>

definition index_range :: "'a list \<Rightarrow> int \<Rightarrow> int \<Rightarrow> 'a list" where
  "index_range xs i j =
     (let n = int (length xs); i = max 0 (if i < 0 then n + i else i); j = (if j < 0 then n + j else j)
      in take (nat (j - i + 1)) (drop (nat i) xs))"

definition glob_prefix :: "string \<Rightarrow> string" where
  "glob_prefix pat = takeWhile (\<lambda>c. c \<noteq> CHR ''*'') pat"

fun mem_do :: "mem \<Rightarrow> redis_cmd \<Rightarrow> redis_reply \<times> mem" where
  "mem_do db Ping = (RStr ''PONG'', db)"
| "mem_do db BgSave = (RStr ''Background saving started'', db)"
| "mem_do db (SMembers k) =
     (case fmlookup db k of None \<Rightarrow> (RStrs [], db) | Some (VSet s) \<Rightarrow> (RStrs s, db) | _ \<Rightarrow> (wrongtype, db))"
| "mem_do db (Exists k) = (RBool (fmlookup db k \<noteq> None), db)"
| "mem_do db (redis_cmd.Get k) =
     (case fmlookup db k of None \<Rightarrow> (RErr ErrNil, db) | Some (VStr s) \<Rightarrow> (RStr s, db) | _ \<Rightarrow> (wrongtype, db))"
| "mem_do db (SetNX k v) =
     (if fmlookup db k = None then (RBool True, fmupd k (VStr v) db) else (RBool False, db))"
| "mem_do db (Del k) = (RInt (if fmlookup db k = None then 0 else 1), fmdrop k db)"
| "mem_do db (Rename k k') =
     (case fmlookup db k of
        None \<Rightarrow> (RErr (ErrMsg ''ERR no such key''), db)
      | Some v \<Rightarrow> (RStr ''OK'', fmupd k' v (fmdrop k db)))"
| "mem_do db (Expire k secs) =
     (RBool (fmlookup db k \<noteq> None), if secs \<le> 0 then fmdrop k db else db)"
| "mem_do db (HSet k f v) = on_hash db k (\<lambda>m.
     (RBool (fmlookup m f = None), fmupd k (VHash (fmupd f v m)) db))"
| "mem_do db (HSetNX k f v) = on_hash db k (\<lambda>m.
     if fmlookup m f = None then (RBool True, fmupd k (VHash (fmupd f v m)) db) else (RBool False, db))"
| "mem_do db (HDel k f) = on_hash db k (\<lambda>m.
     if fmlookup m f = None then (RInt 0, db)
     else (RInt 1, if fmdrop f m = fmempty then fmdrop k db else fmupd k (VHash (fmdrop f m)) db))"
| "mem_do db (HIncrBy k f n) = on_hash db k (\<lambda>m.
     let (x, e) = parse_int (case fmlookup m f of None \<Rightarrow> ''0'' | Some s \<Rightarrow> s)
     in if e \<noteq> NumOk then (RErr (ErrMsg ''ERR hash value is not an integer''), db)
        else if in_i64 (x + n) then (RInt (x + n), fmupd k (VHash (fmupd f (format_int (x + n)) m)) db)
        else (RErr (ErrMsg ''ERR increment or decrement would overflow''), db))"
| "mem_do db (HGet k f) = on_hash db k (\<lambda>m.
     case fmlookup m f of None \<Rightarrow> (RErr ErrNil, db) | Some s \<Rightarrow> (RStr s, db))"
| "mem_do db (HGetAllMap k) = on_hash db k (\<lambda>m. (RMap m, db))"
| "mem_do db (ZAdd k s m) = on_zset db k (\<lambda>z.
     (RInt (if z_member m z then 0 else 1), z_put db k (z_insert s m (z_remove m z))))"
| "mem_do db (ZIncrBy k s m) = on_zset db k (\<lambda>z.
     let s' = z_score m z + s in (RInt s', z_put db k (z_insert s' m (z_remove m z))))"
| "mem_do db (ZRem k m) = on_zset db k (\<lambda>z.
     (RInt (if z_member m z then 1 else 0), z_put db k (z_remove m z)))"
| "mem_do db (ZCard k) = on_zset db k (\<lambda>z. (RInt (int (length z)), db))"
| "mem_do db (ZRemRangeByScore k lo hi) = on_zset db k (\<lambda>z.
     let z' = filter (\<lambda>e. \<not> in_bounds lo hi e) z
     in (RInt (int (length z - length z')), z_put db k z'))"
| "mem_do db (ZRangeByScoreWithScores k lo hi) = on_zset db k (\<lambda>z. (RZ (filter (in_bounds lo hi) z), db))"
| "mem_do db (ZRangeWithScores k i j) = on_zset db k (\<lambda>z. (RZ (index_range z i j), db))"
| "mem_do db (ZRevRangeWithScores k i j) = on_zset db k (\<lambda>z. (RZ (index_range (rev z) i j), db))"
| "mem_do db (Scan c pat n) =
     (RScan 0 (filter (\<lambda>k. take (length (glob_prefix pat)) k = glob_prefix pat)
        (sorted_list_of_fset (fmdom db))), db)"

text \<open>
  A transaction runs every command, also after one that fails; the client reports the first error.
\<close>

fun mem_all :: "mem \<Rightarrow> redis_cmd list \<Rightarrow> redis_reply list \<times> mem" where
  "mem_all db [] = ([], db)"
| "mem_all db (c # cs) =
     (let (r, db1) = mem_do db c; (rs, db2) = mem_all db1 cs in (r # rs, db2))"

definition mem_exec :: "mem \<Rightarrow> redis_cmd list \<Rightarrow> (go_error + redis_reply list) \<times> mem" where
  "mem_exec db cmds =
     (let (rs, db') = mem_all db cmds
      in (case List.map_filter reply_err rs of [] \<Rightarrow> Inr rs | e # _ \<Rightarrow> Inl e, db'))"

definition mem_exec_all :: "mem \<Rightarrow> redis_cmd list \<Rightarrow> (redis_reply list \<times> go_error option) \<times> mem" where
  "mem_exec_all db cmds =
     (let (rs, db') = mem_all db cmds
      in ((rs, case List.map_filter reply_err rs of [] \<Rightarrow> None | e # _ \<Rightarrow> Some e), db'))"

definition mem_redis :: "mem redis" where
  "mem_redis = \<lparr>Do = mem_do, Exec = mem_exec, ExecAll = mem_exec_all, Watch = (\<lambda>db k. (None, db))\<rparr>"

definition mem_view :: "mem hash_view" where
  "mem_view db k f =
     (case fmlookup db k of
        Some (VHash m) \<Rightarrow> (case fmlookup m f of None \<Rightarrow> 0 | Some s \<Rightarrow> fst (parse_int s))
      | _ \<Rightarrow> 0)"

lemma mem_redis_simps [simp]:
  "Do mem_redis = mem_do" "Exec mem_redis = mem_exec" "ExecAll mem_redis = mem_exec_all" "Watch mem_redis db k = (None, db)"
  by (simp_all add: mem_redis_def)

subsection \<open>The reference keeps the promises the books rest on\<close>

lemma mem_view_upd [simp]:
  "mem_view (fmupd k' (VHash m) db) k f =
     (if k' = k then (case fmlookup m f of None \<Rightarrow> 0 | Some s \<Rightarrow> fst (parse_int s)) else mem_view db k f)"
  "k' \<noteq> k \<Longrightarrow> mem_view (fmupd k' v db) k f = mem_view db k f"
  by (simp_all add: mem_view_def)

lemma mem_view_hash:
  "hash_at db k = Some m \<Longrightarrow>
   mem_view db k f = (case fmlookup m f of None \<Rightarrow> 0 | Some s \<Rightarrow> fst (parse_int s))"
  by (auto simp: hash_at_def mem_view_def split: option.splits redis_value.splits)

lemma mem_view_z_put:
  "zset_at db k' = Some z \<Longrightarrow> mem_view (z_put db k' z') k f = mem_view db k f"
  by (auto simp: zset_at_def z_put_def mem_view_def split: option.splits redis_value.splits)

lemma parse_int_zero [simp]: "parse_int ''0'' = (0, NumOk)"
  using parse_int_format_int [of 0]
  by (simp add: format_int_def show_nat.simps dec_digit_def char_of_def bit_0 in_i64_def)

lemma mem_view_drop [simp]: "mem_view (fmdrop k' db) k f = (if k' = k then 0 else mem_view db k f)"
  by (simp add: mem_view_def)

lemma fmdrop_last: "fmdrop g m = fmempty \<Longrightarrow> g \<noteq> f \<Longrightarrow> fmlookup m f = None"
  by (metis fmempty_lookup fmlookup_drop)

lemma mem_do_incr:
  assumes "mem_do db c = (r, db')" "reply_err r = None" "\<not> overwrites k f c"
  shows "mem_view db' k f = mem_view db k f + incr_of k f c"
proof (cases c)
  case (HIncrBy k' f' n)
  with assms(1,2) show ?thesis
    by (auto simp: on_hash_def wrongtype_def mem_view_hash
        split: option.splits prod.splits if_splits)
next
  case (HDel k' f')
  with assms show ?thesis
    by (auto simp: on_hash_def mem_view_hash fmdrop_last split: option.splits if_splits)
qed (use assms in \<open>auto simp: on_hash_def on_zset_def wrongtype_def mem_view_hash mem_view_z_put Let_def
      split: option.splits if_splits redis_value.splits prod.splits\<close>)

lemma mem_do_keep:
  assumes "mem_do db c = (r, db')" "\<not> overwrites k f c" "incr_of k f c = 0"
  shows "mem_view db' k f = mem_view db k f"
proof (cases "reply_err r")
  case None
  with assms mem_do_incr show ?thesis by fastforce
next
  case (Some e)
  then have "db' = db"
    using assms(1)
    by (cases c) (auto simp: on_hash_def on_zset_def Let_def
        split: option.splits if_splits redis_value.splits prod.splits)
  then show ?thesis by simp
qed

lemma mem_all_incr:
  assumes "mem_all db cmds = (rs, db')" "List.map_filter reply_err rs = []"
    and "\<forall>c \<in> set cmds. \<not> overwrites k f c"
  shows "mem_view db' k f = mem_view db k f + incr_sum k f cmds"
  using assms
proof (induction cmds arbitrary: db rs)
  case (Cons c cs)
  obtain r db1 rs' where "mem_do db c = (r, db1)" "mem_all db1 cs = (rs', db')" "rs = r # rs'"
    using Cons.prems(1) by (auto split: prod.splits)
  moreover have "reply_err r = None" "List.map_filter reply_err rs' = []"
    using Cons.prems(2) calculation(3) by (auto simp: List.map_filter_def split: if_splits)
  ultimately show ?case
    using Cons.IH Cons.prems(3) mem_do_incr [of db c r db1 k f] by simp
qed simp

interpretation mem_store: ledger_store mem_redis mem_view
proof
  fix db :: mem and cmds :: "redis_cmd list" and reps db' k f
  assume "Exec mem_redis db cmds = (Inr reps, db')" "\<forall>c \<in> set cmds. \<not> overwrites k f c"
  then show "mem_view db' k f = mem_view db k f + incr_sum k f cmds"
    using mem_all_incr by (auto simp: mem_exec_def split: prod.splits list.splits)
qed (use mem_do_keep in \<open>auto\<close>)

subsection \<open>The end of a transaction\<close>

lemma mem_all_append: "snd (mem_all db (cs @ ds)) = snd (mem_all (snd (mem_all db cs)) ds)"
  by (induction cs arbitrary: db) (simp_all add: Let_def split_beta)

lemma mem_exec_db: "snd (mem_exec db cmds) = snd (mem_all db cmds)"
  by (simp add: mem_exec_def split_beta Let_def)

lemma mem_all_del_last: "fmlookup (snd (mem_all db (cs @ [Del k]))) k = None"
  by (simp add: mem_all_append)

lemma mem_all_snoc:
  "mem_all db (cs @ [c]) =
     (fst (mem_all db cs) @ [fst (mem_do (snd (mem_all db cs)) c)], snd (mem_do (snd (mem_all db cs)) c))"
  by (induction cs arbitrary: db) (simp_all add: Let_def split_beta)

lemma length_mem_all [simp]: "length (fst (mem_all db cs)) = length cs"
  by (induction cs arbitrary: db) (simp_all add: Let_def split_beta)

text \<open>The keys a command can change.\<close>

fun touched :: "redis_cmd \<Rightarrow> string set" where
  "touched (SetNX k _) = {k}" | "touched (Del k) = {k}" | "touched (Rename k k') = {k, k'}"
| "touched (Expire k _) = {k}" | "touched (HSet k _ _) = {k}" | "touched (HSetNX k _ _) = {k}"
| "touched (HDel k _) = {k}" | "touched (HIncrBy k _ _) = {k}" | "touched (ZAdd k _ _) = {k}"
| "touched (ZIncrBy k _ _) = {k}" | "touched (ZRem k _) = {k}" | "touched (ZRemRangeByScore k _ _) = {k}"
| "touched _ = {}"

lemma mem_do_other: "k \<notin> touched c \<Longrightarrow> fmlookup (snd (mem_do db c)) k = fmlookup db k"
  by (cases c) (auto simp: on_hash_def on_zset_def z_put_def Let_def split: option.splits redis_value.splits prod.splits)

lemma mem_all_other:
  "\<forall>c \<in> set cs. k \<notin> touched c \<Longrightarrow> fmlookup (snd (mem_all db cs)) k = fmlookup db k"
  by (induction cs arbitrary: db) (simp_all add: Let_def split_beta mem_do_other)

lemma hash_at_cong: "fmlookup db k = fmlookup db' k \<Longrightarrow> hash_at db k = hash_at db' k"
  by (simp add: hash_at_def)

lemma zset_at_put [simp]: "zset_at (z_put db k z) k = Some z"
  by (simp add: zset_at_def z_put_def)

lemma z_put_other [simp]: "k' \<noteq> k \<Longrightarrow> fmlookup (z_put db k z) k' = fmlookup db k'"
  by (simp add: z_put_def)

text \<open>The bounds the code sends.\<close>

lemma parse_bound_excl [simp]: "n < 2 ^ 63 \<Longrightarrow> parse_bound (CHR ''('' # show_nat n) = Excl (int n)"
  using parse_int_format_int [of "int n"] by (simp add: parse_bound_def format_int_def in_i64_def)

lemma parse_bound_neg_inf [simp]: "parse_bound ''-inf'' = NegInf"
  by (simp add: parse_bound_def)

lemma parse_bound_incl [simp]:
  assumes "0 \<le> n" "in_i64 n" shows "parse_bound (format_int n) = Incl n"
proof -
  have f: "format_int n = show_nat (nat n)" using assms(1) by (simp add: format_int_def)
  obtain c cs where c: "show_nat (nat n) = c # cs" by (cases "show_nat (nat n)") auto
  then obtain d where "d < 10" "c = dec_digit d" using set_show_nat [of c "nat n"] by auto
  then have "digit_value c = Some d" by simp
  then have "c \<noteq> CHR ''-''" "c \<noteq> CHR ''+''" "c \<noteq> CHR ''(''"
    by (auto simp: digit_value_def Let_def split: if_splits)
  then show ?thesis
    using parse_int_format_int [OF assms(2)] by (simp add: parse_bound_def f c)
qed

end
