(* ===== verification/Unlocker.thy ===== *)
theory Unlocker
  imports Hashing Rewards RpcClient MemRedis
begin

text \<open>
  \<open>payouts/unlocker.go\<close>, the process: it asks the daemon for the chain's height, takes the
  candidates (and later the immature blocks) that are deep enough, tells the pool's blocks from
  orphans by the nonce of the block at that height, and credits the rounds.  A critical error sets
  \<open>halt\<close>.  Log output is left out, except where its arguments can panic.
\<close>

subsection \<open>State\<close>

record BlockUnlocker =
  Ul_config :: UnlockerConfig
  Ul_rpc :: RPCClient
  halt :: bool
  lastFail :: "go_error option"
  counter :: u64

definition NewBlockUnlocker :: "UnlockerConfig \<Rightarrow> RPCClient \<Rightarrow> BlockUnlocker" where
  "NewBlockUnlocker cfg rpc =
     \<lparr>Ul_config = cfg, Ul_rpc = rpc, halt = False, lastFail = None, counter = 0\<rparr>"

definition halted :: "BlockUnlocker \<Rightarrow> go_error \<Rightarrow> BlockUnlocker" where
  "halted u e = u\<lparr>halt := True, lastFail := Some e\<rparr>"

record UnlockResult =
  maturedBlocks :: "BlockData list"
  orphanedBlocks :: "BlockData list"
  orphans :: int
  uncles :: int
  blocks :: int

definition zero_result :: UnlockResult where
  "zero_result = \<lparr>maturedBlocks = [], orphanedBlocks = [], orphans = 0, uncles = 0, blocks = 0\<rparr>"

subsection \<open>Telling blocks from orphans\<close>

definition nil_panic :: string where
  "nil_panic = ''nil pointer dereference''"

text \<open>\<open>fmt.Sprintf("%08x", n)\<close>.\<close>

definition hex8 :: "u32 \<Rightarrow> string" where
  "hex8 n = map (\<lambda>i. hex_digit (unat n div 16 ^ (7 - i) mod 16)) [0..<8]"

text \<open>The loop that prepends the four two-character slices.\<close>

definition endian_reverse :: "string \<Rightarrow> string" where
  "endian_reverse s = foldl (\<lambda>tmp i. take 2 (drop (i * 2) s) @ tmp) '''' [0..<4]"

definition nonce_hex :: "u32 \<Rightarrow> string" where
  "nonce_hex n = endian_reverse (hex8 n)"

definition handleBlock :: "UnlockerConfig \<Rightarrow> RpcBlockHeader \<Rightarrow> BlockData \<Rightarrow> BlockData go" where
  "handleBlock cfg hdr candidate =
     (case (BD_CoinBaseValue candidate, BD_BlkTotalFee candidate) of
        (Some reward, Some extraTxReward) \<Rightarrow>
          let candidate = (if KeepTxFees cfg then candidate\<lparr>BD_ExtraReward := Some extraTxReward\<rparr> else candidate);
              reward = (if KeepTxFees cfg then reward else reward + extraTxReward)
          in Ok (candidate\<lparr>BD_Orphan := False, BD_Hash := Hdr_Hash hdr, BD_Reward := Some reward\<rparr>)
      | _ \<Rightarrow> Panic nil_panic)"

definition mismatch_error :: go_error where
  "mismatch_error = ErrMsg ''Validate block total reward fail''"

text \<open>
  One round of the loop of \<open>unlockCandidates\<close>.  \<open>Ok None\<close> is the early return of a nil result with
  a nil error: after a failed reward check the code returns the \<open>err\<close> of the RPC call, which is
  nil there.
\<close>

definition unlockCandidate ::
  "BlockUnlocker \<Rightarrow> RpcBlockHeader \<Rightarrow> BlockData \<Rightarrow> UnlockResult \<Rightarrow> BlockUnlocker \<times> UnlockResult option go" where
  "unlockCandidate u hdr candidate result =
     (if BD_Nonce candidate \<noteq> [] \<and> equal_fold (BD_Nonce candidate) (nonce_hex (Hdr_Nonce hdr)) then
        (case (BD_CoinBaseValue candidate, BD_BlkTotalFee candidate) of
           (Some coinBase, Some fee) \<Rightarrow>
             if wrap64 (coinBase + fee) \<noteq> Hdr_Reward hdr then (halted u mismatch_error, Ok None)
             else (case handleBlock (Ul_config u) hdr candidate of
                 Ok c \<Rightarrow>
                   if length (BD_Hash c) < 10 then (u, Panic ''slice bounds out of range'')
                   else (u, Ok (Some (result\<lparr>blocks := blocks result + 1,
                          maturedBlocks := maturedBlocks result @ [c]\<rparr>)))
               | Fail e \<Rightarrow> (halted u e, Fail e)
               | Panic p \<Rightarrow> (u, Panic p))
         | _ \<Rightarrow> (u, Panic nil_panic))
      else (u, Ok (Some (result\<lparr>orphans := orphans result + 1,
              orphanedBlocks := orphanedBlocks result @ [candidate\<lparr>BD_Orphan := True\<rparr>]\<rparr>))))"

fun unlock_loop ::
  "'raw daemon \<Rightarrow> BlockUnlocker \<Rightarrow> BlockData list \<Rightarrow> UnlockResult \<Rightarrow> BlockUnlocker \<times> UnlockResult option go" where
  "unlock_loop d u [] result = (u, Ok (Some result))"
| "unlock_loop d u (candidate # candidates) result =
     (let (rpc, reply) = GetBlockHeaderByHeight (Net d) (DecHeader d) (Ul_rpc u) (BD_Height candidate);
          u = u\<lparr>Ul_rpc := rpc\<rparr>
      in case reply of
           Fail e \<Rightarrow> (u, Fail e)
         | Panic p \<Rightarrow> (u, Panic p)
         | Ok None \<Rightarrow> (u, Panic nil_panic)
         | Ok (Some r) \<Rightarrow>
             (case unlockCandidate u (Reply_BlockHeader r) candidate result of
                (u, Ok (Some result)) \<Rightarrow> unlock_loop d u candidates result
              | out \<Rightarrow> out))"

definition unlockCandidates ::
  "'raw daemon \<Rightarrow> BlockUnlocker \<Rightarrow> BlockData list \<Rightarrow> BlockUnlocker \<times> UnlockResult option go" where
  "unlockCandidates d u candidates = unlock_loop d u candidates zero_result"

subsection \<open>A session\<close>

text \<open>
  A session gives the new state, the panic that stopped it, if one did, and the new database.
  \<open>clock\<close> is the time at which a block is credited.
\<close>

type_synonym 'db session = "BlockUnlocker \<times> string option \<times> 'db"

text \<open>
  The prologue both sessions share: a halted unlocker recovers when its counter is a multiple of
  three, and otherwise counts and skips the session.
\<close>

definition resume :: "BlockUnlocker \<Rightarrow> BlockUnlocker \<times> bool" where
  "resume u =
     (if halt u then
        (if counter u mod 3 = 0 then (u\<lparr>halt := False, lastFail := None\<rparr>, True)
         else (u\<lparr>counter := counter u + 1\<rparr>, False))
      else (u, True))"

text \<open>The daemon's block count, or the session that ends because there is none.\<close>

definition with_count ::
  "'raw daemon \<Rightarrow> BlockUnlocker \<Rightarrow> 'db \<Rightarrow> (BlockUnlocker \<Rightarrow> int \<Rightarrow> 'db session) \<Rightarrow> 'db session" where
  "with_count d u db f =
     (let (rpc, reply) = GetBlockCount (Net d) (DecCount d) (Ul_rpc u); u = u\<lparr>Ul_rpc := rpc\<rparr>
      in case reply of
           Fail e \<Rightarrow> (halted u e, None, db)
         | Panic p \<Rightarrow> (u, Some p, db)
         | Ok None \<Rightarrow> (u, Some nil_panic, db)
         | Ok (Some r) \<Rightarrow> f u (Reply_Count r))"

text \<open>What is left to do with the blocks that were found, once they have been told apart.\<close>

definition with_result ::
  "'raw daemon \<Rightarrow> BlockUnlocker \<Rightarrow> BlockData list go \<times> 'db \<Rightarrow>
   (BlockUnlocker \<Rightarrow> UnlockResult \<Rightarrow> 'db \<Rightarrow> 'db session) \<Rightarrow> 'db session" where
  "with_result d u found f =
     (case found of
        (Fail e, db) \<Rightarrow> (halted u e, None, db)
      | (Panic p, db) \<Rightarrow> (u, Some p, db)
      | (Ok [], db) \<Rightarrow> (u, None, db)
      | (Ok (c # cs), db) \<Rightarrow>
          (case unlockCandidates d u (c # cs) of
             (u, Fail e) \<Rightarrow> (halted u e, None, db)
           | (u, Panic p) \<Rightarrow> (u, Some p, db)
           | (u, Ok None) \<Rightarrow> (u, Some nil_panic, db)
           | (u, Ok (Some result)) \<Rightarrow> f u result db))"

text \<open>
  The loops over the blocks of a result: an operation of the backend for each, stopping at the
  first error, which halts the unlocker, or panic.
\<close>

fun each_block ::
  "(BlockData \<Rightarrow> 'db \<Rightarrow> unit go \<times> 'db) \<Rightarrow> BlockUnlocker \<Rightarrow> BlockData list \<Rightarrow> 'db \<Rightarrow> 'db session" where
  "each_block f u [] db = (u, None, db)"
| "each_block f u (b # bs) db =
     (case f b db of
        (Ok _, db) \<Rightarrow> each_block f u bs db
      | (Fail e, db) \<Rightarrow> (halted u e, None, db)
      | (Panic p, db) \<Rightarrow> (u, Some p, db))"

text \<open>Calculate a block's rewards and write them with the operation given.\<close>

definition credit_block ::
  "'db backend \<Rightarrow> UnlockerConfig \<Rightarrow>
   (BlockData \<Rightarrow> (string, int) fmap \<Rightarrow> 'db \<Rightarrow> unit go \<times> 'db) \<Rightarrow> BlockData \<Rightarrow> 'db \<Rightarrow> unit go \<times> 'db" where
  "credit_block be cfg wr block db =
     (case calculateRewards (Rd be) cfg (RngI be) (Prefix be) db block of
        (Ok (_, _, _, roundRewards), db) \<Rightarrow> wr block roundRewards db
      | (Fail e, db) \<Rightarrow> (Fail e, db)
      | (Panic p, db) \<Rightarrow> (Panic p, db))"

definition credit_immature :: "'db backend \<Rightarrow> UnlockerConfig \<Rightarrow> BlockData \<Rightarrow> 'db \<Rightarrow> unit go \<times> 'db" where
  "credit_immature be cfg =
     credit_block be cfg (\<lambda>b rewards db. WriteImmatureBlock (Rd be) (RngI be) (Prefix be) db b rewards)"

definition credit_matured ::
  "'db backend \<Rightarrow> (BlockData \<Rightarrow> int) \<Rightarrow> UnlockerConfig \<Rightarrow> BlockData \<Rightarrow> 'db \<Rightarrow> unit go \<times> 'db" where
  "credit_matured be clock cfg =
     credit_block be cfg (\<lambda>b rewards db.
       WriteMaturedBlock (Rd be) (RngS be) (RngI be) (Prefix be) (clock b) db b rewards)"

definition unlockPendingBlocks :: "'raw daemon \<Rightarrow> 'db backend \<Rightarrow> BlockUnlocker \<Rightarrow> 'db \<Rightarrow> 'db session" where
  "unlockPendingBlocks d be u db =
     (let (u, go) = resume u
      in if \<not> go then (u, None, db)
         else with_count d u db (\<lambda>u count.
           with_result d u
             (GetCandidates (Rd be) (Prefix be) db (wrap64 (count - ImmatureDepth (Ul_config u))))
             (\<lambda>u result db.
               case WritePendingOrphans (Rd be) (Prefix be) db (orphanedBlocks result) of
                 (Fail e, db) \<Rightarrow> (halted u e, None, db)
               | (Panic p, db) \<Rightarrow> (u, Some p, db)
               | (Ok _, db) \<Rightarrow> each_block (credit_immature be (Ul_config u)) u (maturedBlocks result) db)))"

definition unlockAndCreditMiners ::
  "'raw daemon \<Rightarrow> 'db backend \<Rightarrow> (BlockData \<Rightarrow> int) \<Rightarrow> BlockUnlocker \<Rightarrow> 'db \<Rightarrow> 'db session" where
  "unlockAndCreditMiners d be clock u db =
     (let (u, go) = resume u
      in if \<not> go then (u, None, db)
         else with_count d u db (\<lambda>u count.
           with_result d u
             (GetImmatureBlocks (Rd be) (Prefix be) db (wrap64 (count - Depth (Ul_config u))))
             (\<lambda>u result db.
               case each_block (\<lambda>b db. WriteOrphan (Rd be) (RngS be) (Prefix be) db b)
                      u (orphanedBlocks result) db of
                 (u, Some p, db) \<Rightarrow> (u, Some p, db)
               | (u, None, db) \<Rightarrow>
                   if halt u then (u, None, db)
                   else each_block (credit_matured be clock (Ul_config u)) u (maturedBlocks result) db)))"

text \<open>
  \<open>Start\<close>: a round is one session of each kind; there is one at once and one whenever the timer
  fires.  The process is not started (\<open>Error.Fatalln\<close>) when a fee address is set and not valid.
\<close>

definition unlock_round ::
  "'raw daemon \<Rightarrow> 'db backend \<Rightarrow> (BlockData \<Rightarrow> int) \<Rightarrow> BlockUnlocker \<Rightarrow> 'db \<Rightarrow> 'db session" where
  "unlock_round d be clock u db =
     (case unlockPendingBlocks d be u db of
        (u, Some p, db) \<Rightarrow> (u, Some p, db)
      | (u, None, db) \<Rightarrow> unlockAndCreditMiners d be clock u db)"

definition start_unlocker :: "c_library \<Rightarrow> UnlockerConfig \<Rightarrow> RPCClient \<Rightarrow> BlockUnlocker option" where
  "start_unlocker c cfg client =
     (if PoolFeeAddress cfg \<noteq> [] \<and> \<not> ValidateAddress c (PoolFeeAddress cfg) then None
      else Some (NewBlockUnlocker cfg client))"

text \<open>The timer's loop: the round at the start and the next \<open>n\<close>, each on the answers of its time.\<close>

fun unlock_rounds ::
  "('raw daemon \<times> (BlockData \<Rightarrow> int)) list \<Rightarrow> 'db backend \<Rightarrow> BlockUnlocker \<Rightarrow> 'db \<Rightarrow> 'db session" where
  "unlock_rounds [] be u db = (u, None, db)"
| "unlock_rounds ((d, clock) # rest) be u db =
     (case unlock_round d be clock u db of
        (u, Some p, db) \<Rightarrow> (u, Some p, db)
      | (u, None, db) \<Rightarrow> unlock_rounds rest be u db)"

subsection \<open>The nonce of a block\<close>

lemma unat_byte: "unat (ucast (drop_bit k (n :: u32)) :: u8) = unat n div 2 ^ k mod 256"
  by (simp add: unsigned_ucast_eq unat_drop_bit_eq) (simp add: drop_bit_eq_div take_bit_eq_mod)

lemma byte_digits: "(x mod 256) div 16 = x div 16 mod (16 :: nat)" "(x mod 256) mod 16 = x mod (16 :: nat)"
  by (simp_all add: mod_mult2_eq [of x 16 16, simplified] mod_mod_cancel)

lemma hex8_eq: "hex8 n = hex_encode (big_endian32 n)"
proof -
  have u: "unat (ucast n :: u8) = unat n mod 256" using unat_byte [of 0 n] by simp
  show ?thesis
    by (simp add: hex8_def hex_encode_def hex_byte_def big_endian32_def unat_byte u byte_digits
        upt_rec div_mult2_eq [symmetric])
qed

lemma nonce_hex_eq: "nonce_hex n = hex_encode (rev (big_endian32 n))"
  by (simp add: nonce_hex_def hex8_eq endian_reverse_def big_endian32_def hex_encode_def hex_byte_def upt_rec)

lemma equal_fold_hex [simp]: "equal_fold (hex_encode as) (hex_encode bs) \<longleftrightarrow> as = bs"
  by (auto simp: equal_fold_def dest: hex_encode_inj)

subsection \<open>Blocks and orphans\<close>

text \<open>
  The header the daemon gives for a height, as far as its answers depend on the request alone; the
  health fields of the client do not matter to it.
\<close>

definition header_at :: "'raw daemon \<Rightarrow> string \<Rightarrow> int \<Rightarrow> RpcBlockHeader option" where
  "header_at d url h =
     (case snd (GetBlockHeaderByHeight (Net d) (DecHeader d) (NewRPCClient [] url) h) of
        Ok (Some r) \<Rightarrow> Some (Reply_BlockHeader r)
      | _ \<Rightarrow> None)"

lemma doPost_url:
  "snd (doPost net r m ps) = snd (doPost net (NewRPCClient [] (Rpc_Url r)) m ps)"
  by (simp add: doPost_def NewRPCClient_def
      split: http_outcome.splits rpc_body.splits option.splits rpc_error.splits)

lemma Rpc_Url_markSick [simp]: "Rpc_Url (markSick r) = Rpc_Url r"
  by (simp add: markSick_def Let_def)

lemma Rpc_Url_doPost [simp]: "Rpc_Url (fst (doPost net r m ps)) = Rpc_Url r"
  using doPost_cases [of net r m ps] by auto

lemma header_reply:
  assumes "GetBlockHeaderByHeight (Net d) (DecHeader d) r h = (r', Ok (Some reply))"
  shows "header_at d (Rpc_Url r) h = Some (Reply_BlockHeader reply)" "Rpc_Url r' = Rpc_Url r"
proof -
  let ?p = "doPost (Net d) r ''getblockheaderbyheight'' (HeightParams h)"
  have out: "unmarshal_result (DecHeader d) (snd ?p) = Ok (Some reply)" "r' = fst ?p"
    using assms by (auto simp: GetBlockHeaderByHeight_def Let_def split: prod.splits)
  show "Rpc_Url r' = Rpc_Url r" using out(2) by simp
  show "header_at d (Rpc_Url r) h = Some (Reply_BlockHeader reply)"
    using out(1) doPost_url [of "Net d" r "''getblockheaderbyheight''" "HeightParams h"]
    by (simp add: header_at_def GetBlockHeaderByHeight_def Let_def split_beta)
qed

definition pool_block :: "RpcBlockHeader \<Rightarrow> BlockData \<Rightarrow> bool" where
  "pool_block hdr c \<longleftrightarrow> BD_Nonce c \<noteq> [] \<and> equal_fold (BD_Nonce c) (nonce_hex (Hdr_Nonce hdr))"

definition full_reward :: "BlockData \<Rightarrow> int option" where
  "full_reward c =
     (case (BD_CoinBaseValue c, BD_BlkTotalFee c) of (Some cb, Some fee) \<Rightarrow> Some (wrap64 (cb + fee)) | _ \<Rightarrow> None)"

lemma unlockCandidate_cases:
  assumes "unlockCandidate u hdr c res = (u', Ok (Some res'))"
  shows "u' = u"
    and "pool_block hdr c \<Longrightarrow> full_reward c = Some (Hdr_Reward hdr) \<and>
      (\<exists>b. handleBlock (Ul_config u) hdr c = Ok b \<and>
         maturedBlocks res' = maturedBlocks res @ [b]) \<and> orphanedBlocks res' = orphanedBlocks res"
    and "\<not> pool_block hdr c \<Longrightarrow>
      orphanedBlocks res' = orphanedBlocks res @ [c\<lparr>BD_Orphan := True\<rparr>] \<and>
      maturedBlocks res' = maturedBlocks res"
  using assms
  by (auto simp: unlockCandidate_def pool_block_def full_reward_def
      split: if_splits option.splits go.splits)

lemma unlock_loop_step:
  assumes "unlock_loop d u (c # cs) res = (u', Ok (Some res'))"
  obtains hdr u1 res1 where "header_at d (Rpc_Url (Ul_rpc u)) (BD_Height c) = Some hdr"
    "Rpc_Url (Ul_rpc u1) = Rpc_Url (Ul_rpc u)" "Ul_config u1 = Ul_config u"
    "unlockCandidate u1 hdr c res = (u1, Ok (Some res1))"
    "unlock_loop d u1 cs res1 = (u', Ok (Some res'))"
proof -
  obtain rpc reply where g: "GetBlockHeaderByHeight (Net d) (DecHeader d) (Ul_rpc u) (BD_Height c) = (rpc, reply)"
    by (metis prod.exhaust)
  with assms obtain r where r: "reply = Ok (Some r)"
    by (auto simp: Let_def split: go.splits option.splits)
  with assms g obtain u2 res1 where s: "unlockCandidate (u\<lparr>Ul_rpc := rpc\<rparr>) (Reply_BlockHeader r) c res = (u2, Ok (Some res1))"
      "unlock_loop d u2 cs res1 = (u', Ok (Some res'))"
    by (auto simp: Let_def split: go.splits option.splits prod.splits)
  have "u2 = u\<lparr>Ul_rpc := rpc\<rparr>" using unlockCandidate_cases(1) [OF s(1)] .
  with s g r header_reply [OF g [unfolded r]] show ?thesis
    by (intro that [of "Reply_BlockHeader r" u2 res1]) auto
qed

text \<open>The two lists of a result are the two halves of the candidates, in their order.\<close>

fun told_apart :: "UnlockerConfig \<Rightarrow> (int \<Rightarrow> RpcBlockHeader option) \<Rightarrow> BlockData list \<Rightarrow> BlockData list \<Rightarrow> BlockData list \<Rightarrow> bool" where
  "told_apart cfg hdr_at [] ms os \<longleftrightarrow> ms = [] \<and> os = []"
| "told_apart cfg hdr_at (c # cs) ms os \<longleftrightarrow>
     (case hdr_at (BD_Height c) of
        None \<Rightarrow> False
      | Some hdr \<Rightarrow>
          if pool_block hdr c then
            full_reward c = Some (Hdr_Reward hdr) \<and>
            (\<exists>b ms'. ms = b # ms' \<and> handleBlock cfg hdr c = Ok b \<and> told_apart cfg hdr_at cs ms' os)
          else (\<exists>os'. os = c\<lparr>BD_Orphan := True\<rparr> # os' \<and> told_apart cfg hdr_at cs ms os'))"

lemma unlock_loop_told_apart:
  "unlock_loop d u cs res = (u', Ok (Some res')) \<Longrightarrow>
   \<exists>ms os. maturedBlocks res' = maturedBlocks res @ ms \<and> orphanedBlocks res' = orphanedBlocks res @ os \<and>
     told_apart (Ul_config u) (header_at d (Rpc_Url (Ul_rpc u))) cs ms os"
proof (induction cs arbitrary: u res)
  case (Cons c cs)
  obtain hdr u1 res1 where s: "header_at d (Rpc_Url (Ul_rpc u)) (BD_Height c) = Some hdr"
      "Rpc_Url (Ul_rpc u1) = Rpc_Url (Ul_rpc u)" "Ul_config u1 = Ul_config u"
      "unlockCandidate u1 hdr c res = (u1, Ok (Some res1))"
      "unlock_loop d u1 cs res1 = (u', Ok (Some res'))"
    by (rule unlock_loop_step [OF Cons.prems])
  obtain ms os where IH: "maturedBlocks res' = maturedBlocks res1 @ ms"
      "orphanedBlocks res' = orphanedBlocks res1 @ os"
      "told_apart (Ul_config u) (header_at d (Rpc_Url (Ul_rpc u))) cs ms os"
    using Cons.IH [OF s(5)] s(2,3) by auto
  show ?case
  proof (cases "pool_block hdr c")
    case True
    then obtain b where "handleBlock (Ul_config u) hdr c = Ok b" "maturedBlocks res1 = maturedBlocks res @ [b]"
        "orphanedBlocks res1 = orphanedBlocks res" "full_reward c = Some (Hdr_Reward hdr)"
      using unlockCandidate_cases(2) [OF s(4)] s(3) by auto
    with IH s(1) True show ?thesis by (intro exI [of _ "b # ms"] exI [of _ os]) simp
  next
    case False
    with unlockCandidate_cases(3) [OF s(4)] IH s(1) show ?thesis
      by (intro exI [of _ ms] exI [of _ "c\<lparr>BD_Orphan := True\<rparr> # os"]) simp
  qed
qed simp

subsection \<open>No session is ever skipped\<close>

lemma counter_halted [simp]: "counter (halted u e) = counter u"
  by (simp add: halted_def)

lemma counter_unlockCandidate: "unlockCandidate u hdr c res = (u', out) \<Longrightarrow> counter u' = counter u"
  by (auto simp: unlockCandidate_def split: option.splits go.splits if_splits)

lemma counter_unlock_loop: "unlock_loop d u cs res = (u', out) \<Longrightarrow> counter u' = counter u"
proof (induction cs arbitrary: u res)
  case (Cons c cs)
  obtain rpc reply where g: "GetBlockHeaderByHeight (Net d) (DecHeader d) (Ul_rpc u) (BD_Height c) = (rpc, reply)"
    by (metis prod.exhaust)
  show ?case
  proof (cases "\<exists>r. reply = Ok (Some r)")
    case True
    then obtain r where r: "reply = Ok (Some r)" by blast
    obtain u2 out2 where s: "unlockCandidate (u\<lparr>Ul_rpc := rpc\<rparr>) (Reply_BlockHeader r) c res = (u2, out2)"
      by (metis prod.exhaust)
    then have "counter u2 = counter u" using counter_unlockCandidate [OF s] by simp
    moreover have "(\<exists>res2. unlock_loop d u2 cs res2 = (u', out)) \<or> u' = u2"
      using Cons.prems g r s by (auto simp: Let_def split: go.splits option.splits)
    ultimately show ?thesis using Cons.IH by fastforce
  next
    case False
    with Cons.prems g show ?thesis by (auto simp: Let_def split: go.splits option.splits)
  qed
qed simp

lemma counter_each_block: "each_block f u bs db = (u', q, db') \<Longrightarrow> counter u' = counter u"
  by (induction bs arbitrary: db) (auto split: go.splits prod.splits)

lemma counter_with_count:
  assumes "with_count d u db f = (u', q, db')"
    and "\<And>rpc n u' q db'. f (u\<lparr>Ul_rpc := rpc\<rparr>) n = (u', q, db') \<Longrightarrow> counter u' = counter u"
  shows "counter u' = counter u"
  using assms by (auto simp: with_count_def Let_def split: prod.splits go.splits option.splits)

lemma counter_with_result:
  assumes "with_result d u found f = (u', q, db')"
    and "\<And>u1 res db u' q db'. counter u1 = counter u \<Longrightarrow> f u1 res db = (u', q, db') \<Longrightarrow> counter u' = counter u"
  shows "counter u' = counter u"
proof -
  obtain cs db where f: "found = (cs, db)" by (cases found)
  show ?thesis
  proof (cases "\<exists>c cs'. cs = Ok (c # cs')")
    case True
    then obtain c cs' where c: "cs = Ok (c # cs')" by blast
    obtain u1 out where l: "unlockCandidates d u (c # cs') = (u1, out)" by (metis prod.exhaust)
    then have "counter u1 = counter u" unfolding unlockCandidates_def by (rule counter_unlock_loop)
    have w: "(case out of Fail e \<Rightarrow> (halted u1 e, None, db) | Panic p \<Rightarrow> (u1, Some p, db)
        | Ok None \<Rightarrow> (u1, Some nil_panic, db) | Ok (Some result) \<Rightarrow> f u1 result db) = (u', q, db')"
      using assms(1) f c l by (simp add: with_result_def)
    show ?thesis
    proof (cases "\<exists>result. out = Ok (Some result)")
      case True
      with w have "\<exists>result. f u1 result db = (u', q, db')" by auto
      with assms(2) \<open>counter u1 = counter u\<close> show ?thesis by blast
    next
      case False
      with w have "u' = u1 \<or> (\<exists>e. u' = halted u1 e)" by (auto split: go.splits option.splits)
      with \<open>counter u1 = counter u\<close> show ?thesis by auto
    qed
  next
    case False
    with assms(1) f show ?thesis by (auto simp: with_result_def split: go.splits list.splits)
  qed
qed

lemma resume_ready: "counter u = 0 \<Longrightarrow> \<exists>u1. resume u = (u1, True) \<and> counter u1 = 0 \<and> \<not> halt u1"
  by (auto simp: resume_def)

lemma counter_unlockPendingBlocks:
  assumes "unlockPendingBlocks d be u db = (u', q, db')" "counter u = 0"
  shows "counter u' = 0"
proof -
  obtain u1 where r: "resume u = (u1, True)" "counter u1 = 0" using resume_ready [OF assms(2)] by blast
  have "counter u' = counter u1"
    using assms(1) unfolding unlockPendingBlocks_def r(1) Let_def prod.case not_True_eq_False if_False
  proof (rule counter_with_count)
    fix rpc n u' q db'
    assume "with_result d (u1\<lparr>Ul_rpc := rpc\<rparr>)
        (GetCandidates (Rd be) (Prefix be) db (wrap64 (n - ImmatureDepth (Ul_config (u1\<lparr>Ul_rpc := rpc\<rparr>)))))
        (\<lambda>u result db. case WritePendingOrphans (Rd be) (Prefix be) db (orphanedBlocks result) of
           (Ok _, db) \<Rightarrow> each_block (credit_immature be (Ul_config u)) u (maturedBlocks result) db
         | (Fail e, db) \<Rightarrow> (halted u e, None, db) | (Panic p, db) \<Rightarrow> (u, Some p, db)) = (u', q, db')"
    then have "counter u' = counter (u1\<lparr>Ul_rpc := rpc\<rparr>)"
      by (rule counter_with_result) (auto split: go.splits prod.splits dest: counter_each_block)
    then show "counter u' = counter u1" by simp
  qed
  with r(2) show ?thesis by simp
qed

lemma counter_unlockAndCreditMiners:
  assumes "unlockAndCreditMiners d be clock u db = (u', q, db')" "counter u = 0"
  shows "counter u' = 0"
proof -
  obtain u1 where r: "resume u = (u1, True)" "counter u1 = 0" using resume_ready [OF assms(2)] by blast
  have "counter u' = counter u1"
    using assms(1) unfolding unlockAndCreditMiners_def r(1) Let_def prod.case not_True_eq_False if_False
  proof (rule counter_with_count)
    fix rpc n u' q db'
    assume "with_result d (u1\<lparr>Ul_rpc := rpc\<rparr>)
        (GetImmatureBlocks (Rd be) (Prefix be) db (wrap64 (n - Depth (Ul_config (u1\<lparr>Ul_rpc := rpc\<rparr>)))))
        (\<lambda>u result db. case each_block (\<lambda>b db. WriteOrphan (Rd be) (RngS be) (Prefix be) db b) u
             (orphanedBlocks result) db of
           (u, None, db) \<Rightarrow> if halt u then (u, None, db)
              else each_block (credit_matured be clock (Ul_config u)) u (maturedBlocks result) db
         | (u, Some p, db) \<Rightarrow> (u, Some p, db)) = (u', q, db')"
    then have "counter u' = counter (u1\<lparr>Ul_rpc := rpc\<rparr>)"
      by (rule counter_with_result)
        (auto split: go.splits prod.splits option.splits if_splits dest!: counter_each_block)
    then show "counter u' = counter u1" by simp
  qed
  with r(2) show ?thesis by simp
qed

text \<open>
  The process: \<open>Start\<close> runs the two sessions in turn; only a session that ends without a panic has
  a successor.  \<open>ds\<close> are the ways the daemon may answer during a session, \<open>bes\<close> the ways the
  backend may; the environment changes the database between sessions.
\<close>

inductive unlocker_step ::
  "'raw daemon set \<Rightarrow> 'db backend set \<Rightarrow> BlockUnlocker \<times> 'db \<Rightarrow> BlockUnlocker \<times> 'db \<Rightarrow> bool" for ds bes where
  pending: "d \<in> ds \<Longrightarrow> be \<in> bes \<Longrightarrow> unlockPendingBlocks d be u db = (u', None, db') \<Longrightarrow> unlocker_step ds bes (u, db) (u', db')"
| credit: "d \<in> ds \<Longrightarrow> be \<in> bes \<Longrightarrow> unlockAndCreditMiners d be clock u db = (u', None, db') \<Longrightarrow> unlocker_step ds bes (u, db) (u', db')"
| environment: "unlocker_step ds bes (u, db) (u, db')"

text \<open>The rounds of the timer are such a run.\<close>

lemma unlock_round_steps:
  assumes "unlock_round d be clock u db = (u', None, db')" "d \<in> ds" "be \<in> bes"
  shows "(unlocker_step ds bes)\<^sup>*\<^sup>* (u, db) (u', db')"
proof -
  obtain u1 db1 where p: "unlockPendingBlocks d be u db = (u1, None, db1)"
      "unlockAndCreditMiners d be clock u1 db1 = (u', None, db')"
    using assms(1) by (auto simp: unlock_round_def split: prod.splits option.splits)
  show ?thesis
    using unlocker_step.pending [OF assms(2,3) p(1)] unlocker_step.credit [OF assms(2,3) p(2)]
    by (meson r_into_rtranclp rtranclp.rtrancl_into_rtrancl)
qed

lemma unlock_rounds_steps:
  "unlock_rounds rs be u db = (u', None, db') \<Longrightarrow> be \<in> bes \<Longrightarrow> fst ` set rs \<subseteq> ds \<Longrightarrow>
   (unlocker_step ds bes)\<^sup>*\<^sup>* (u, db) (u', db')"
proof (induction rs arbitrary: u db)
  case (Cons r rs)
  obtain d clock where r: "r = (d, clock)" by (cases r)
  then obtain u1 db1 where "unlock_round d be clock u db = (u1, None, db1)" "unlock_rounds rs be u1 db1 = (u', None, db')"
    using Cons.prems(1) by (auto split: prod.splits option.splits)
  then show ?case
    using Cons.IH [of u1 db1] Cons.prems(2,3) unlock_round_steps [of d be clock u db u1 db1 ds bes] r
    by (auto intro: rtranclp_trans)
qed simp

lemma counter_reachable:
  assumes "(unlocker_step ds bes)\<^sup>*\<^sup>* (u, db) (u', db')" "counter u = 0"
  shows "counter u' = 0"
proof -
  have "counter (fst s') = 0" if "(unlocker_step ds bes)\<^sup>*\<^sup>* s s'" "counter (fst s) = 0" for s s'
    using that
  proof (induction rule: rtranclp_induct)
    case (step y z)
    then show ?case
      by (auto elim!: unlocker_step.cases
          dest: counter_unlockPendingBlocks counter_unlockAndCreditMiners)
  qed
  from this [OF assms(1)] assms(2) show ?thesis by simp
qed

subsection \<open>A reward that does not match\<close>

lemma unlockCandidates_mismatch:
  assumes "GetBlockHeaderByHeight (Net d) (DecHeader d) (Ul_rpc u) (BD_Height c) = (rpc, Ok (Some r))"
    and "pool_block (Reply_BlockHeader r) c" "full_reward c = Some w" "w \<noteq> Hdr_Reward (Reply_BlockHeader r)"
  shows "unlockCandidates d u (c # cs) = (halted (u\<lparr>Ul_rpc := rpc\<rparr>) mismatch_error, Ok None)"
  using assms
  by (auto simp: unlockCandidates_def unlockCandidate_def pool_block_def full_reward_def
      split: option.splits)

end
