(* ===== verification/MinersMap.thy ===== *)
theory MinersMap
  imports GoStd
begin

unbundle bit_operations_syntax

text \<open>
  \<open>stratum/mmap.go\<close>: the sharded map from worker ids to miners.  A \<open>MinersMap\<close> is the slice of
  its shards, each a Go map; a key lives in the shard that its 32-bit FNV-1 hash selects.  The
  shard locks serialise the operations, so each operation is one atomic step here.  The locale
  \<open>finite_dict\<close> is what the stratum server relies on; the sharded map is its interpretation.
\<close>

type_synonym 'm MinersMap = "(string, 'm) fmap list"

definition SHARD_COUNT :: nat where "SHARD_COUNT = 32"

definition NewMinersMap :: "'m MinersMap" where
  "NewMinersMap = replicate SHARD_COUNT fmempty"

text \<open>\<open>fnv.New32\<close>: multiply by the prime, then xor the byte.\<close>

definition fnv_write :: "u32 \<Rightarrow> string \<Rightarrow> u32" where
  "fnv_write h s = foldl (\<lambda>h c. (h * 16777619) XOR of_char c) h s"

definition fnv_new32 :: u32 where "fnv_new32 = 2166136261"

definition shard_index :: "string \<Rightarrow> nat" where
  "shard_index key = unat (fnv_write fnv_new32 key) mod SHARD_COUNT"

text \<open>\<open>GetShard\<close> indexes the slice, and an index past its end panics.\<close>

definition GetShard :: "'m MinersMap \<Rightarrow> string \<Rightarrow> (string, 'm) fmap go" where
  "GetShard m key =
     (let i = shard_index key
      in if i < length m then Ok (m ! i) else Panic ''index out of range'')"

definition MinersMap_Set :: "'m MinersMap \<Rightarrow> string \<Rightarrow> 'm \<Rightarrow> 'm MinersMap go" where
  "MinersMap_Set m key value =
     bindG (GetShard m key) (\<lambda>shard. Ok (m[shard_index key := fmupd key value shard]))"

definition MinersMap_Get :: "'m MinersMap \<Rightarrow> string \<Rightarrow> 'm option go" where
  "MinersMap_Get m key = bindG (GetShard m key) (\<lambda>shard. Ok (fmlookup shard key))"

text \<open>\<open>Count\<close> and \<open>Iter\<close> visit the shards one after the other.\<close>

fun count_shards :: "'m MinersMap \<Rightarrow> nat \<Rightarrow> nat \<Rightarrow> nat \<Rightarrow> nat go" where
  "count_shards m 0 i c = Ok c"
| "count_shards m (Suc n) i c =
     (if i < length m then count_shards m n (Suc i) (c + fcard (fmdom (m ! i)))
      else Panic ''index out of range'')"

definition MinersMap_Count :: "'m MinersMap \<Rightarrow> nat go" where
  "MinersMap_Count m = count_shards m SHARD_COUNT 0 0"

definition MinersMap_Has :: "'m MinersMap \<Rightarrow> string \<Rightarrow> bool go" where
  "MinersMap_Has m key = bindG (GetShard m key) (\<lambda>shard. Ok (fmlookup shard key \<noteq> None))"

definition MinersMap_Remove :: "'m MinersMap \<Rightarrow> string \<Rightarrow> 'm MinersMap go" where
  "MinersMap_Remove m key =
     bindG (GetShard m key) (\<lambda>shard. Ok (m[shard_index key := fmdrop key shard]))"

definition MinersMap_IsEmpty :: "'m MinersMap \<Rightarrow> bool go" where
  "MinersMap_IsEmpty m = bindG (MinersMap_Count m) (\<lambda>c. Ok (c = 0))"

text \<open>
  \<open>Iter\<close> and \<open>IterBuffered\<close> send the entries of each shard in the order Go ranges over it,
  which the function \<open>rng\<close> gives.
\<close>

definition MinersMap_Iter ::
  "((string, 'm) fmap \<Rightarrow> (string \<times> 'm) list) \<Rightarrow> 'm MinersMap \<Rightarrow> (string \<times> 'm) list" where
  "MinersMap_Iter rng m = concat (map rng m)"

definition MinersMap_IterBuffered ::
  "((string, 'm) fmap \<Rightarrow> (string \<times> 'm) list) \<Rightarrow> 'm MinersMap \<Rightarrow> (string \<times> 'm) list go" where
  "MinersMap_IterBuffered rng m =
     bindG (MinersMap_Count m) (\<lambda>_. Ok (concat (map rng m)))"

subsection \<open>Well-formed maps and the map they implement\<close>

text \<open>All shards are there and a shard holds only keys that hash to it.\<close>

definition wf_mmap :: "'m MinersMap \<Rightarrow> bool" where
  "wf_mmap m \<longleftrightarrow>
     length m = SHARD_COUNT \<and>
     (\<forall>i < SHARD_COUNT. \<forall>k. fmlookup (m ! i) k \<noteq> None \<longrightarrow> shard_index k = i)"

definition mmap_abs :: "'m MinersMap \<Rightarrow> string \<Rightarrow> 'm option" where
  "mmap_abs m k = fmlookup (m ! shard_index k) k"

lemma shard_index_less [simp]: "shard_index k < SHARD_COUNT"
  by (simp add: shard_index_def SHARD_COUNT_def)

lemma GetShard_wf [simp]: "wf_mmap m \<Longrightarrow> GetShard m k = Ok (m ! shard_index k)"
  by (simp add: GetShard_def wf_mmap_def)

lemma wf_NewMinersMap [simp]: "wf_mmap NewMinersMap"
  by (simp add: wf_mmap_def NewMinersMap_def)

lemma mmap_abs_New [simp]: "mmap_abs NewMinersMap k = None"
  by (simp add: mmap_abs_def NewMinersMap_def)

lemma wf_update:
  assumes "wf_mmap m" and "\<And>k'. fmlookup s k' \<noteq> None \<Longrightarrow> shard_index k' = shard_index k"
  shows "wf_mmap (m[shard_index k := s])"
  using assms by (auto simp: wf_mmap_def nth_list_update)

lemma mmap_abs_update:
  assumes "wf_mmap m"
  shows "mmap_abs (m[shard_index k := s]) k' =
     (if shard_index k' = shard_index k then fmlookup s k' else mmap_abs m k')"
  using assms by (auto simp: mmap_abs_def wf_mmap_def nth_list_update)

lemma mmap_abs_same_shard:
  "shard_index k' = shard_index k \<Longrightarrow> fmlookup (m ! shard_index k) k' = mmap_abs m k'"
  by (simp add: mmap_abs_def)

lemma wf_lookup: "wf_mmap m \<Longrightarrow> fmlookup (m ! shard_index k) k' = Some v \<Longrightarrow> shard_index k' = shard_index k"
  by (metis option.distinct(1) shard_index_less wf_mmap_def)

lemma Set_spec:
  assumes "wf_mmap m"
  shows "\<exists>m'. MinersMap_Set m k v = Ok m' \<and> wf_mmap m' \<and> mmap_abs m' = (mmap_abs m)(k \<mapsto> v)"
proof -
  let ?m = "m[shard_index k := fmupd k v (m ! shard_index k)]"
  have "wf_mmap ?m"
    using assms by (intro wf_update) (auto split: if_splits dest: wf_lookup)
  moreover have "mmap_abs ?m = (mmap_abs m)(k \<mapsto> v)"
    using assms by (intro ext) (simp add: mmap_abs_update mmap_abs_same_shard)
  ultimately show ?thesis using assms by (simp add: MinersMap_Set_def)
qed

lemma Remove_spec:
  assumes "wf_mmap m"
  shows "\<exists>m'. MinersMap_Remove m k = Ok m' \<and> wf_mmap m' \<and> mmap_abs m' = (mmap_abs m)(k := None)"
proof -
  let ?m = "m[shard_index k := fmdrop k (m ! shard_index k)]"
  have "wf_mmap ?m"
    using assms by (intro wf_update) (auto split: if_splits dest: wf_lookup)
  moreover have "mmap_abs ?m = (mmap_abs m)(k := None)"
    using assms by (intro ext) (simp add: mmap_abs_update mmap_abs_same_shard)
  ultimately show ?thesis using assms by (simp add: MinersMap_Remove_def)
qed

lemma Get_spec: "wf_mmap m \<Longrightarrow> MinersMap_Get m k = Ok (mmap_abs m k)"
  by (simp add: MinersMap_Get_def mmap_abs_def)

lemma Has_spec: "wf_mmap m \<Longrightarrow> MinersMap_Has m k = Ok (mmap_abs m k \<noteq> None)"
  by (simp add: MinersMap_Has_def mmap_abs_def)

subsection \<open>Counting and iterating\<close>

lemma count_shards_sum:
  "i + n \<le> length m \<Longrightarrow>
   count_shards m n i c = Ok (c + (\<Sum>j = i..<i + n. fcard (fmdom (m ! j))))"
proof (induction n arbitrary: i c)
  case (Suc n)
  then show ?case by (simp add: sum.atLeast_Suc_lessThan add.assoc)
qed simp

lemma dom_mmap_abs:
  assumes "wf_mmap m"
  shows "dom (mmap_abs m) = (\<Union>i < SHARD_COUNT. fset (fmdom (m ! i)))"
proof (rule set_eqI)
  fix k
  have "k \<in> dom (mmap_abs m) \<longleftrightarrow> fmlookup (m ! shard_index k) k \<noteq> None"
    by (auto simp: mmap_abs_def)
  also have "\<dots> \<longleftrightarrow> (\<exists>i < SHARD_COUNT. fmlookup (m ! i) k \<noteq> None)"
    using assms shard_index_less [of k] unfolding wf_mmap_def by blast
  finally show "k \<in> dom (mmap_abs m) \<longleftrightarrow> k \<in> (\<Union>i < SHARD_COUNT. fset (fmdom (m ! i)))"
    by (auto simp: fmlookup_dom_iff)
qed

lemma finite_dom_mmap_abs: "wf_mmap m \<Longrightarrow> finite (dom (mmap_abs m))"
  by (simp add: dom_mmap_abs)

lemma shards_disjoint:
  assumes "wf_mmap m" "i < SHARD_COUNT" "j < SHARD_COUNT" "i \<noteq> j"
  shows "fset (fmdom (m ! i)) \<inter> fset (fmdom (m ! j)) = {}"
  using assms unfolding wf_mmap_def by (auto simp: fmlookup_dom_iff) (metis option.distinct(1))

lemma Count_spec:
  assumes "wf_mmap m"
  shows "MinersMap_Count m = Ok (card (dom (mmap_abs m)))"
proof -
  have "card (dom (mmap_abs m)) = (\<Sum>i < SHARD_COUNT. card (fset (fmdom (m ! i))))"
    unfolding dom_mmap_abs [OF assms]
    by (rule card_UN_disjoint) (auto dest: shards_disjoint [OF assms])
  also have "\<dots> = (\<Sum>i < SHARD_COUNT. fcard (fmdom (m ! i)))"
    by (simp add: fcard.rep_eq)
  finally show ?thesis
    using assms count_shards_sum [of 0 SHARD_COUNT m 0]
    by (simp add: MinersMap_Count_def wf_mmap_def atLeast0LessThan)
qed

lemma Count_Iter:
  assumes "wf_mmap m" "range_law rng"
  shows "MinersMap_Count m = Ok (length (MinersMap_Iter rng m))"
proof -
  have len: "length m = SHARD_COUNT" using assms(1) by (simp add: wf_mmap_def)
  have "length (rng f) = fcard (fmdom f)" for f
    using range_law_distinct [OF assms(2)] range_law_keys [OF assms(2), of f]
    by (metis distinct_card fcard.rep_eq length_map)
  then have "length (MinersMap_Iter rng m) = (\<Sum>i < SHARD_COUNT. fcard (fmdom (m ! i)))"
    by (simp add: MinersMap_Iter_def length_concat sum_list_sum_nth len atLeast0LessThan comp_def)
  then show ?thesis
    using count_shards_sum [of 0 SHARD_COUNT m 0] len
    by (simp add: MinersMap_Count_def atLeast0LessThan)
qed

lemma Iter_entries:
  assumes "wf_mmap m" "range_law rng"
  shows "(k, v) \<in> set (MinersMap_Iter rng m) \<longleftrightarrow> mmap_abs m k = Some v"
proof -
  have len: "length m = SHARD_COUNT" using assms(1) by (simp add: wf_mmap_def)
  have "(k, v) \<in> set (MinersMap_Iter rng m) \<longleftrightarrow> (\<exists>f \<in> set m. fmlookup f k = Some v)"
    using range_law_set [OF assms(2)] by (auto simp: MinersMap_Iter_def)
  also have "\<dots> \<longleftrightarrow> mmap_abs m k = Some v"
  proof
    assume "\<exists>f \<in> set m. fmlookup f k = Some v"
    then obtain i where i: "i < SHARD_COUNT" "fmlookup (m ! i) k = Some v"
      using len by (auto simp: in_set_conv_nth)
    then have "shard_index k = i" using assms(1) by (auto simp: wf_mmap_def)
    with i show "mmap_abs m k = Some v" by (simp add: mmap_abs_def)
  next
    assume "mmap_abs m k = Some v"
    then show "\<exists>f \<in> set m. fmlookup f k = Some v"
      using len by (auto simp: mmap_abs_def intro: bexI [of _ "m ! shard_index k"])
  qed
  finally show ?thesis .
qed

subsection \<open>The interface the server uses\<close>

text \<open>
  A dictionary with a finite domain: \<open>get\<close> after \<open>put\<close> and \<open>del\<close>, on a representation
  invariant that every operation keeps; operations do not panic on it.
\<close>

locale finite_dict =
  fixes empty :: 'd
    and put :: "'d \<Rightarrow> 'k \<Rightarrow> 'v \<Rightarrow> 'd go"
    and del :: "'d \<Rightarrow> 'k \<Rightarrow> 'd go"
    and get :: "'d \<Rightarrow> 'k \<Rightarrow> 'v option go"
    and count :: "'d \<Rightarrow> nat go"
    and invar :: "'d \<Rightarrow> bool"
    and abs :: "'d \<Rightarrow> 'k \<Rightarrow> 'v option"
  assumes empty_law: "invar empty \<and> abs empty = Map.empty"
    and put_law: "invar d \<Longrightarrow> \<exists>d'. put d k v = Ok d' \<and> invar d' \<and> abs d' = (abs d)(k \<mapsto> v)"
    and del_law: "invar d \<Longrightarrow> \<exists>d'. del d k = Ok d' \<and> invar d' \<and> abs d' = (abs d)(k := None)"
    and get_law: "invar d \<Longrightarrow> get d k = Ok (abs d k)"
    and finite_law: "invar d \<Longrightarrow> finite (dom (abs d))"
    and count_law: "invar d \<Longrightarrow> count d = Ok (card (dom (abs d)))"
begin

lemma get_put: "invar d \<Longrightarrow> put d k v = Ok d' \<Longrightarrow> get d' k' = Ok (if k' = k then Some v else abs d k')"
  using put_law [of d k v] by (auto simp: get_law)

lemma get_del: "invar d \<Longrightarrow> del d k = Ok d' \<Longrightarrow> get d' k' = Ok (if k' = k then None else abs d k')"
  using del_law [of d k] by (auto simp: get_law)

lemma put_invar: "invar d \<Longrightarrow> put d k v = Ok d' \<Longrightarrow> invar d' \<and> abs d' = (abs d)(k \<mapsto> v)"
  using put_law [of d k v] by auto

lemma count_put:
  assumes "invar d" "put d k v = Ok d'"
  shows "count d' = Ok (if abs d k = None then Suc (card (dom (abs d))) else card (dom (abs d)))"
proof -
  from assms have "invar d'" "abs d' = (abs d)(k \<mapsto> v)" using put_invar by blast+
  then show ?thesis
    using finite_law [OF assms(1)] by (auto simp: count_law card_insert_if domIff)
qed

end

interpretation mmap: finite_dict NewMinersMap MinersMap_Set MinersMap_Remove MinersMap_Get
    MinersMap_Count wf_mmap mmap_abs
  by unfold_locales
    (auto simp: Get_spec Set_spec Remove_spec Count_spec finite_dom_mmap_abs)

end
