(* ===== verification/Util.thy ===== *)
theory Util
  imports GoBig
begin

text \<open>
  \<open>util/util.go\<close>: the difficulty arithmetic every share is judged by.  \<open>GetTargetHex\<close> turns a
  port's difficulty into the 32-bit target sent to miners and \<open>GetHashDifficulty\<close> turns a hash
  into the difficulty it meets.  The lemmas say that the two agree.
\<close>

definition Xmr :: int where "Xmr = 10 ^ 12"

definition Diff1 :: int where
  "Diff1 = 0xFFFFFFFFFFFFFFFFFFFFFFFFFFFFFFFFFFFFFFFFFFFFFFFFFFFFFFFFFFFFFFFF"

text \<open>
  \<open>n.SetString(h, 0)\<close>: an optional sign, a prefix that gives the base, and digits that single
  underscores may separate, up to the end.  Otherwise the value of the result is unspecified.
\<close>

fun scan_digits :: "nat \<Rightarrow> nat \<Rightarrow> bool \<Rightarrow> bool \<Rightarrow> string \<Rightarrow> nat option" where
  "scan_digits base acc sep any [] = (if sep \<and> any then Some acc else None)"
| "scan_digits base acc sep any (c # cs) =
     (if c = CHR ''_'' then (if sep then scan_digits base acc False any cs else None)
      else (case from_hex c of
              Some d \<Rightarrow> if d < base then scan_digits base (acc * base + d) True True cs else None
            | None \<Rightarrow> None))"

definition scan_base :: "string \<Rightarrow> nat option" where
  "scan_base s =
     (case s of
        [CHR ''0''] \<Rightarrow> Some 0
      | CHR ''0'' # c # cs \<Rightarrow>
          if c \<in> set ''bB'' then scan_digits 2 0 True False cs
          else if c \<in> set ''oO'' then scan_digits 8 0 True False cs
          else if c \<in> set ''xX'' then scan_digits 16 0 True False cs
          else scan_digits 8 0 True False (c # cs)
      | _ \<Rightarrow> scan_digits 10 0 False False s)"

definition StringToBig :: "string \<Rightarrow> int option" where
  "StringToBig h =
     (case h of
        c # cs \<Rightarrow>
          if c = CHR ''-'' then map_option (\<lambda>n. - int n) (scan_base cs)
          else if c = CHR ''+'' then map_option int (scan_base cs)
          else map_option int (scan_base h)
      | [] \<Rightarrow> None)"

lemma scan_F:
  "any \<or> 0 < n \<Longrightarrow> scan_digits 16 acc True any (replicate n CHR ''F'') = Some (acc * 16 ^ n + (16 ^ n - 1))"
proof (induction n arbitrary: acc any)
  case (Suc n)
  have "(acc * 16 + 15) * 16 ^ n + (16 ^ n - 1) = acc * 16 ^ Suc n + (16 ^ Suc n - (1 :: nat))"
    using one_le_power [of "16 :: nat" n] by (simp add: algebra_simps)
  with Suc.IH [of True "acc * 16 + 15"] show ?case by (simp add: from_hex_def)
qed simp

lemma Diff1_read: "StringToBig (''0x'' @ replicate 64 CHR ''F'') = Some Diff1"
  by (simp add: StringToBig_def scan_base_def scan_F Diff1_def)

lemma Diff1_eq: "Diff1 = 2 ^ 256 - 1"
  by (simp add: Diff1_def)

lemma Diff1_pos [simp]: "0 < Diff1"
  by (simp add: Diff1_def)

definition reverse :: "bytes \<Rightarrow> bytes" where
  "reverse src = map (\<lambda>i. src ! (length src - 1 - i)) [0..<length src]"

lemma reverse_eq_rev [simp]: "reverse src = rev src"
  by (rule nth_equalityI) (auto simp: reverse_def rev_nth)

text \<open>\<open>now\<close> is what \<open>time.Now().UnixNano()\<close> returns; Go's integer division truncates.\<close>

definition go_quot :: "int \<Rightarrow> int \<Rightarrow> int" where
  "go_quot a b = sgn a * sgn b * (\<bar>a\<bar> div \<bar>b\<bar>)"

definition MakeTimestamp :: "int \<Rightarrow> int" where
  "MakeTimestamp now = go_quot now 1000000"

definition GetTargetHex :: "int \<Rightarrow> string go" where
  "GetTargetHex diff =
     bindG (big_div Diff1 diff) (\<lambda>d.
     let diffBuff = big_bytes d in
     bindG (copy_from (replicate 32 0) (32 - int (length diffBuff)) diffBuff) (\<lambda>padded.
     let buff = take 4 padded in
     Ok (hex_encode (reverse buff))))"

definition GetHashDifficulty :: "bytes \<Rightarrow> int option" where
  "GetHashDifficulty hashBytes =
     (let diff = big_set_bytes (reverse hashBytes)
      in if diff = 0 then None else Some (Diff1 div diff))"

text \<open>\<open>reward.Quo(reward, satoshi)\<close> stores into its argument: the caller's value is divided too.\<close>

definition FormatRatReward :: "rat \<Rightarrow> string \<times> rat" where
  "FormatRatReward reward =
     (let satoshi = of_int Xmr; reward = reward / satoshi in (rat_float_string 8 reward, reward))"

subsection \<open>Targets and difficulties agree\<close>

lemma GetTargetHex_bytes:
  assumes "0 < diff"
  obtains t where "GetTargetHex diff = Ok (hex_encode t)" "length t = 4"
    "big_set_bytes (rev t) = (Diff1 div diff) div 2 ^ 224"
proof -
  define q where "q = nat (Diff1 div diff)"
  have "0 \<le> Diff1 div diff" using assms by (simp add: pos_imp_zdiv_nonneg_iff less_imp_le)
  then have q: "int q = Diff1 div diff" by (simp add: q_def)
  have "Diff1 div diff \<le> Diff1"
    using assms by (intro zdiv_mono2 [of Diff1 1 diff, simplified]) (auto simp: Diff1_def)
  then have "int q < 2 ^ 256" using q by (simp add: Diff1_def)
  then have "q < 2 ^ 256" by (metis of_nat_less_iff of_nat_numeral of_nat_power)
  then have len: "length (be_bytes q) \<le> 32" by (intro length_be_bytes) simp
  define p where "p = replicate (32 - length (be_bytes q)) 0 @ be_bytes q"
  have lp: "length p = 32" using len by (simp add: p_def)
  have "GetTargetHex diff = Ok (hex_encode (rev (take 4 p)))"
    using assms len q
    by (simp add: GetTargetHex_def big_div_def big_bytes_def copy_from_def go_copy_def Let_def
        p_def nat_diff_distrib' flip: q)
  moreover have "be_value (take 4 p) = q div 256 ^ 28"
    using lp by (subst be_value_take [of p 4 28]) (simp_all add: p_def)
  moreover have "int (q div 256 ^ 28) = int q div 2 ^ 224" by (simp add: zdiv_int)
  ultimately show ?thesis
    using lp q by (intro that [of "rev (take 4 p)"]) (simp_all add: big_set_bytes_def)
qed

text \<open>A hash meets difficulty \<open>d\<close> exactly when its little-endian value is at most \<open>Diff1 div d\<close>.\<close>

lemma le_zdiv_iff:
  fixes h d n :: int
  assumes "0 < h"
  shows "d \<le> n div h \<longleftrightarrow> d * h \<le> n"
proof
  assume "d \<le> n div h"
  then have "d * h \<le> n div h * h" using assms by (intro mult_right_mono) auto
  also have "\<dots> \<le> n" using assms by (metis pos_mod_sign div_mult_mod_eq le_add_same_cancel1)
  finally show "d * h \<le> n" .
next
  assume "d * h \<le> n"
  then have "d * h div h \<le> n div h" using assms by (intro zdiv_mono1)
  then show "d \<le> n div h" using assms by simp
qed

lemma div_ge_iff: "0 < h \<Longrightarrow> 0 < d \<Longrightarrow> d \<le> n div h \<longleftrightarrow> h \<le> n div (d :: int)"
  by (simp add: le_zdiv_iff mult.commute)

lemma GetHashDifficulty_ge_iff:
  assumes "GetHashDifficulty hashBytes = Some d'" "0 < d"
  shows "d \<le> d' \<longleftrightarrow> big_set_bytes (rev hashBytes) \<le> Diff1 div d"
proof -
  from assms(1) have "big_set_bytes (rev hashBytes) \<noteq> 0" "d' = Diff1 div big_set_bytes (rev hashBytes)"
    by (auto simp: GetHashDifficulty_def Let_def split: if_splits)
  with assms(2) show ?thesis
    using big_set_bytes_nonneg [of "rev hashBytes"] by (simp add: div_ge_iff del: big_set_bytes_nonneg)
qed

end
