(* ===== verification/Server.thy ===== *)
theory Server
  imports Hashing Block MinersMap RpcClient Readers Util
begin

text \<open>
  The state of the stratum server (\<open>stratum/stratum.go\<close>, \<open>miner.go\<close>, \<open>blocks.go\<close>).  Sessions,
  endpoints and miners are objects that several parts of the code share by pointer: a pointer is a
  number and each kind of object has a store of its own.  Jobs are only reached through the session
  that holds them.  The mutexes make the operations on the shared maps and counters atomic; the
  model runs one operation after the other.
\<close>

record Job =
  Job_height :: int
  Job_id :: string
  Job_extraNonce :: u32
  submissions :: "string fset"

record Miner =
  lastBeat :: int
  startedAt :: int
  validShares :: int
  invalidShares :: int
  staleShares :: int
  accepts :: int
  rejects :: int
  minerShares :: "(int, int) fmap"
  Miner_id :: string
  Miner_ip :: string
  maxConcurrency :: int

record Endpoint =
  jobSequence :: u64
  Ep_Difficulty :: int
  Ep_difficulty :: int
  instanceId :: bytes
  Ep_extraNonce :: u32
  targetHex :: string

record Session =
  lastBlockHeight :: int
  Ses_ip :: string
  Ses_login :: string
  Ses_id :: string
  Ses_endpoint :: nat
  validJobs :: "Job list"

record BlockTemplate =
  diffInt64 :: int
  Tpl_height :: int
  Tpl_difficulty :: int
  reservedOffset :: int
  prevHash :: string
  buffer :: bytes
  seedHash :: bytes
  blockReward :: int
  txTotalFee :: int
  nextSeedHash :: bytes

record blockEntry =
  Be_height :: int
  Be_variance :: float64
  Be_hash :: string

record 'db StratumServer =
  roundShares :: int
  blockStats :: "(int, blockEntry) fmap"
  miners :: "nat MinersMap"
  blockTemplate :: "BlockTemplate option"
  upstream :: nat
  upstreams :: "RPCClient list"
  upstreamsStates :: "bool list"
  sessions :: "nat list"
  sessionStore :: "nat \<Rightarrow> Session"
  endpointStore :: "nat \<Rightarrow> Endpoint"
  minerStore :: "nat \<Rightarrow> Miner"
  minerNext :: nat
  database :: 'db

text \<open>
  What the server is built on: configuration, backend, daemon, the C library, the byte-order
  functions and whether a push to a session's connection succeeds.  Windows are in seconds.
\<close>

record ('raw, 'db) server_env =
  Address :: string
  BypassAddressValidation :: bool
  BypassShareValidation :: bool
  hashrateExpiration :: int
  Threads :: int
  Backend :: "'db backend"
  Daemon :: "'raw daemon"
  CLib :: c_library
  Btc :: btc_utility
  push_ok :: "nat \<Rightarrow> bool"

definition on_db :: "'db StratumServer \<Rightarrow> ('db \<Rightarrow> 'a \<times> 'db) \<Rightarrow> 'db StratumServer \<times> 'a" where
  "on_db s f = (let (r, db) = f (database s) in (s\<lparr>database := db\<rparr>, r))"

definition set_session :: "nat \<Rightarrow> Session \<Rightarrow> 'db StratumServer \<Rightarrow> 'db StratumServer" where
  "set_session cs v s = s\<lparr>sessionStore := (sessionStore s)(cs := v)\<rparr>"

definition set_endpoint :: "nat \<Rightarrow> Endpoint \<Rightarrow> 'db StratumServer \<Rightarrow> 'db StratumServer" where
  "set_endpoint e v s = s\<lparr>endpointStore := (endpointStore s)(e := v)\<rparr>"

definition set_miner :: "nat \<Rightarrow> Miner \<Rightarrow> 'db StratumServer \<Rightarrow> 'db StratumServer" where
  "set_miner m v s = s\<lparr>minerStore := (minerStore s)(m := v)\<rparr>"

text \<open>The endpoint a session came in by.\<close>

definition endpoint_of :: "'db StratumServer \<Rightarrow> nat \<Rightarrow> Endpoint" where
  "endpoint_of s cs = endpointStore s (Ses_endpoint (sessionStore s cs))"

subsection \<open>Objects and registers\<close>

definition NewMiner :: "string \<Rightarrow> string \<Rightarrow> int \<Rightarrow> Miner" where
  "NewMiner mid ip maxc =
     \<lparr>lastBeat = 0, startedAt = 0, validShares = 0, invalidShares = 0, staleShares = 0, accepts = 0,
      rejects = 0, minerShares = fmempty, Miner_id = mid, Miner_ip = ip, maxConcurrency = maxc\<rparr>"

text \<open>\<open>rand\<close> is what the system's random source filled the four bytes with.\<close>

definition NewEndpoint :: "bytes \<Rightarrow> int \<Rightarrow> Endpoint go" where
  "NewEndpoint rand diff =
     bindG (GetTargetHex diff) (\<lambda>target.
       Ok \<lparr>jobSequence = 0, Ep_Difficulty = diff, Ep_difficulty = diff,
           instanceId = go_copy (replicate 4 0) rand, Ep_extraNonce = 0, targetHex = target\<rparr>)"

definition NewSession :: "string \<Rightarrow> nat \<Rightarrow> Session" where
  "NewSession ip e =
     \<lparr>lastBlockHeight = 0, Ses_ip = ip, Ses_login = [], Ses_id = [], Ses_endpoint = e, validJobs = []\<rparr>"

definition registerSession :: "nat \<Rightarrow> 'db StratumServer \<Rightarrow> 'db StratumServer" where
  "registerSession cs s = s\<lparr>sessions := (if cs \<in> set (sessions s) then sessions s else sessions s @ [cs])\<rparr>"

definition removeSession :: "nat \<Rightarrow> 'db StratumServer \<Rightarrow> 'db StratumServer" where
  "removeSession cs s = s\<lparr>sessions := filter (\<lambda>c. c \<noteq> cs) (sessions s)\<rparr>"

definition isActive :: "nat \<Rightarrow> 'db StratumServer \<Rightarrow> bool" where
  "isActive cs s = (cs \<in> set (sessions s))"

text \<open>A new miner object gets the next pointer; registering puts the pointer into the map.\<close>

definition allocMiner :: "Miner \<Rightarrow> 'db StratumServer \<Rightarrow> 'db StratumServer \<times> nat" where
  "allocMiner m s =
     (set_miner (minerNext s) m s\<lparr>minerNext := minerNext s + 1\<rparr>, minerNext s)"

definition registerMiner :: "nat \<Rightarrow> 'db StratumServer \<Rightarrow> 'db StratumServer \<times> unit go" where
  "registerMiner m s =
     (case MinersMap_Set (miners s) (Miner_id (minerStore s m)) m of
        Ok mm \<Rightarrow> (s\<lparr>miners := mm\<rparr>, Ok ())
      | Fail e \<Rightarrow> (s, Fail e)
      | Panic p \<Rightarrow> (s, Panic p))"

definition removeMiner :: "string \<Rightarrow> 'db StratumServer \<Rightarrow> 'db StratumServer \<times> unit go" where
  "removeMiner mid s =
     (case MinersMap_Remove (miners s) mid of
        Ok mm \<Rightarrow> (s\<lparr>miners := mm\<rparr>, Ok ())
      | Fail e \<Rightarrow> (s, Fail e)
      | Panic p \<Rightarrow> (s, Panic p))"

definition currentBlockTemplate :: "'db StratumServer \<Rightarrow> BlockTemplate option" where
  "currentBlockTemplate s = blockTemplate s"

definition rpc :: "'db StratumServer \<Rightarrow> RPCClient go" where
  "rpc s = index_go (upstreams s) (upstream s)"

definition set_upstream :: "nat \<Rightarrow> RPCClient \<Rightarrow> 'db StratumServer \<Rightarrow> 'db StratumServer" where
  "set_upstream i r s = s\<lparr>upstreams := (upstreams s)[i := r]\<rparr>"

subsection \<open>Jobs and miners\<close>

text \<open>\<open>Job.submit\<close>: whether the nonce was there, and the job with the nonce in.\<close>

definition Job_submit :: "Job \<Rightarrow> string \<Rightarrow> Job \<times> bool" where
  "Job_submit job nonce =
     (if nonce |\<in>| submissions job then (job, True)
      else (job\<lparr>submissions := finsert nonce (submissions job)\<rparr>, False))"

definition pushJob :: "Session \<Rightarrow> Job \<Rightarrow> Session" where
  "pushJob cs job =
     (let jobs = validJobs cs @ [job]
      in cs\<lparr>validJobs := (if 4 < length jobs then drop 1 jobs else jobs)\<rparr>)"

text \<open>The position of the first job with the id.\<close>

fun find_job :: "string \<Rightarrow> Job list \<Rightarrow> nat option" where
  "find_job jid [] = None"
| "find_job jid (job # jobs) = (if Job_id job = jid then Some 0 else map_option Suc (find_job jid jobs))"

definition findJob :: "Session \<Rightarrow> string \<Rightarrow> nat option" where
  "findJob cs jid = find_job jid (validJobs cs)"

text \<open>\<open>now\<close> is in milliseconds.\<close>

definition heartbeat :: "int \<Rightarrow> Miner \<Rightarrow> Miner" where
  "heartbeat now m = m\<lparr>lastBeat := now\<rparr>"

definition storeShare :: "int \<Rightarrow> int \<Rightarrow> Miner \<Rightarrow> Miner" where
  "storeShare now diff m =
     (let sec = now div 1000;
          old = (case fmlookup (minerShares m) sec of None \<Rightarrow> 0 | Some v \<Rightarrow> v)
      in m\<lparr>minerShares := fmupd sec (wrap64 (old + diff)) (minerShares m)\<rparr>)"

text \<open>
  \<open>hashrate\<close>: the shares of the window over its length in seconds; shares older than a day are
  forgotten.
\<close>

definition hashrate :: "((int, int) fmap \<Rightarrow> (int \<times> int) list) \<Rightarrow> int \<Rightarrow> int \<Rightarrow> Miner \<Rightarrow> Miner \<times> float64" where
  "hashrate rng now window m =
     (let sec = now div 1000;
          boundary = wrap64 (sec - startedAt m);
          boundary = (if window < boundary then window else boundary);
          tot = sum64 (map snd (filter (\<lambda>(k, _). \<not> k < sec - 86400 \<and> sec - window \<le> k) (rng (minerShares m))))
      in (m\<lparr>minerShares := fmfilter (\<lambda>k. \<not> k < sec - 86400) (minerShares m)\<rparr>,
          fl_div (fl_of_int tot) (fl_of_int boundary)))"

lemma length_pushJob: "length (validJobs cs) \<le> 4 \<Longrightarrow> length (validJobs (pushJob cs job)) \<le> 4"
  by (auto simp: pushJob_def Let_def)

lemma find_job_nth:
  "find_job jid jobs = Some i \<Longrightarrow> i < length jobs \<and> Job_id (jobs ! i) = jid"
  by (induction jobs arbitrary: i) (auto split: if_splits)

lemma find_job_None: "find_job jid jobs = None \<longleftrightarrow> (\<forall>job \<in> set jobs. Job_id job \<noteq> jid)"
  by (induction jobs) auto

end
