(* ===== verification/Template.thy ===== *)
theory Template
  imports Server
begin

text \<open>
  \<open>stratum/blocks.go\<close>: block templates.  Eight reserved bytes of the template's blob hold a job's
  extra nonce and the endpoint's instance id; \<open>nextBlob\<close> fills them in and gives the hashing blob
  in hex.  \<open>fetchBlockTemplate\<close> asks the current upstream for a template and installs it when it is
  new and its miner transaction makes sense.
\<close>

subsection \<open>Filling in the reserved bytes\<close>

text \<open>The three writes that \<open>nextBlob\<close> and \<open>processShare\<close> share, on a copy of the buffer.\<close>

definition reserve :: "BlockTemplate \<Rightarrow> u32 \<Rightarrow> bytes \<Rightarrow> bytes go" where
  "reserve b extraNonce inst =
     (let blobBuff = go_copy (replicate (length (buffer b)) 0) (buffer b);
          extraBuff = big_endian32 extraNonce
      in bindG (copy_from blobBuff (reservedOffset b) extraBuff) (\<lambda>blobBuff.
         copy_range blobBuff (wrap64 (reservedOffset b + 4)) (wrap64 (reservedOffset b + 8)) inst))"

definition nextBlob :: "c_library \<Rightarrow> BlockTemplate \<Rightarrow> u32 \<Rightarrow> bytes \<Rightarrow> string go" where
  "nextBlob c b extraNonce inst =
     bindG (reserve b extraNonce inst) (\<lambda>blobBuff.
     bindG (ConvertBlob c blobBuff) (\<lambda>blob.
     Ok (hex_encode blob)))"

text \<open>A template whose reserved bytes lie inside its buffer.\<close>

definition wf_template :: "BlockTemplate \<Rightarrow> bool" where
  "wf_template b \<longleftrightarrow> 0 \<le> reservedOffset b \<and> reservedOffset b + 8 \<le> int (length (buffer b)) \<and>
     length (buffer b) < 2 ^ 63"

lemma reserve_eq:
  assumes "wf_template b" "length inst = 4"
  shows "reserve b n inst = Ok (take (nat (reservedOffset b)) (buffer b) @ big_endian32 n @ inst @
    drop (nat (reservedOffset b) + 8) (buffer b))"
proof -
  define o' where "o' = nat (reservedOffset b)"
  have o: "reservedOffset b = int o'" "o' + 8 \<le> length (buffer b)"
    using assms(1) by (auto simp: wf_template_def o'_def)
  have w: "wrap64 (int o' + 4) = int o' + 4" "wrap64 (int o' + 8) = int o' + 8"
    using assms(1) o by (simp_all add: wf_template_def in_i64_def)
  have c1: "copy_from (buffer b) (int o') (big_endian32 n) =
      Ok (take o' (buffer b) @ big_endian32 n @ drop (o' + 4) (buffer b))"
    using o(2) by (simp add: copy_from_def go_copy_def add.commute)
  have c2: "copy_range (take o' (buffer b) @ big_endian32 n @ drop (o' + 4) (buffer b))
        (int o' + 4) (int o' + 8) inst =
      Ok (take o' (buffer b) @ big_endian32 n @ inst @ drop (o' + 8) (buffer b))"
    using o(2) assms(2)
    by (simp add: copy_range_def go_copy_def nat_add_distrib add.commute)
  show ?thesis
    using c1 c2 by (simp add: reserve_def o(1) w)
qed

lemma length_reserve: "reserve b n inst = Ok buf \<Longrightarrow> length buf = length (buffer b)"
  by (auto simp: reserve_def bindG_Ok_iff Let_def dest!: length_copy_from length_copy_range)

subsection \<open>Fetching a template\<close>

text \<open>
  What the code makes of a reply, before anything is stored: \<open>None\<close> when the template is refused.
  The errors of the hex decoder are ignored; the bytes before the error remain.
\<close>

definition new_template :: "btc_utility \<Rightarrow> GetBlockTemplateReply \<Rightarrow> BlockTemplate option go" where
  "new_template btc reply =
     (let t = \<lparr>diffInt64 = Reply_Difficulty reply, Tpl_height = Reply_Height reply,
               Tpl_difficulty = Reply_Difficulty reply, reservedOffset = Reply_ReservedOffset reply,
               prevHash = Reply_PrevHash reply, buffer = fst (hex_decode (Reply_Blob reply)),
               seedHash = fst (hex_decode (Reply_SeedHash reply)), blockReward = 0, txTotalFee = 0,
               nextSeedHash = fst (hex_decode (Reply_NextSeedHash reply))\<rparr>
      in case BlockTemplateBlob_UnPack btc zero_btb (buffer t) of
           Fail e \<Rightarrow> Ok None
         | Panic p \<Rightarrow> Panic p
         | Ok (blob, _) \<Rightarrow>
             (case Vout (MinerTx (BTB_Block blob)) of
                [] \<Rightarrow> Ok None
              | out # _ \<Rightarrow>
                  let reward = int_of_u64 (Amount out)
                  in if Reply_ExpectedReward reply < reward then Ok None
                     else Ok (Some (t\<lparr>blockReward := reward,
                            txTotalFee := wrap64 (Reply_ExpectedReward reply - reward)\<rparr>))))"

text \<open>The same previous block: only a template without one is judged by its height.\<close>

definition is_new :: "BlockTemplate option \<Rightarrow> GetBlockTemplateReply \<Rightarrow> bool" where
  "is_new current reply =
     (case current of
        None \<Rightarrow> True
      | Some t \<Rightarrow>
          if prevHash t = Reply_PrevHash reply
          then Reply_PrevHash reply = [] \<and> Tpl_height t < Reply_Height reply
          else True)"

definition fetchBlockTemplate ::
  "('raw, 'db) server_env \<Rightarrow> 'db StratumServer \<Rightarrow> 'db StratumServer \<times> bool go" where
  "fetchBlockTemplate env s =
     (case rpc s of
        Panic p \<Rightarrow> (s, Panic p)
      | Fail e \<Rightarrow> (s, Fail e)
      | Ok r \<Rightarrow>
          (let (r, reply) = GetBlockTemplate (Net (Daemon env)) (DecTemplate (Daemon env)) r 8 (Address env);
               s = set_upstream (upstream s) r s
           in case reply of
                Fail e \<Rightarrow> (s, Ok False)
              | Panic p \<Rightarrow> (s, Panic p)
              | Ok None \<Rightarrow> (s, Panic ''nil pointer dereference'')
              | Ok (Some reply) \<Rightarrow>
                  if \<not> is_new (currentBlockTemplate s) reply then (s, Ok False)
                  else (case new_template (Btc env) reply of
                          Ok (Some t) \<Rightarrow> (s\<lparr>blockTemplate := Some t\<rparr>, Ok True)
                        | Ok None \<Rightarrow> (s, Ok False)
                        | Fail e \<Rightarrow> (s, Fail e)
                        | Panic p \<Rightarrow> (s, Panic p))))"

text \<open>Whatever is installed splits the expected reward into the coinbase and the fees.\<close>

lemma new_template_reward:
  assumes "new_template btc reply = Ok (Some t)" "in_i64 (Reply_ExpectedReward reply)"
  shows "in_i64 (blockReward t)" "blockReward t \<le> Reply_ExpectedReward reply"
    "txTotalFee t = wrap64 (Reply_ExpectedReward reply - blockReward t)"
    "Tpl_height t = Reply_Height reply" "diffInt64 t = Reply_Difficulty reply"
    "Tpl_difficulty t = diffInt64 t" "prevHash t = Reply_PrevHash reply"
  using assms
  by (auto simp: new_template_def Let_def
      split: go.splits list.splits if_splits)

lemma fetch_installs:
  assumes "fetchBlockTemplate env s = (s', Ok True)"
  obtains reply t where "blockTemplate s' = Some t" "new_template (Btc env) reply = Ok (Some t)"
    "is_new (blockTemplate s) reply"
  using assms
  by (auto simp: fetchBlockTemplate_def currentBlockTemplate_def set_upstream_def Let_def
      split: go.splits prod.splits option.splits if_splits)

text \<open>Only the template and the health of the current upstream can change.\<close>

lemma upstreams_same: "\<exists>us. s = s\<lparr>upstreams := us\<rparr>"
  by (rule exI [of _ "upstreams s"]) simp

lemma fetch_frame:
  assumes "fetchBlockTemplate env s = (s', out)"
  shows "\<exists>us. s' = s\<lparr>upstreams := us, blockTemplate := blockTemplate s'\<rparr>"
    and "out \<noteq> Ok True \<Longrightarrow> blockTemplate s' = blockTemplate s"
  using assms
  by (auto simp: fetchBlockTemplate_def currentBlockTemplate_def set_upstream_def Let_def
      intro: upstreams_same split: go.splits prod.splits option.splits if_splits)

end
