(* ===== verification/Shares.thy ===== *)
theory Shares
  imports Template
begin

text \<open>
  \<open>stratum/miner.go\<close> and the broadcast of \<open>stratum/handlers.go\<close>: a session's job, the new jobs
  after a new template, and the judgement of a submitted share.
\<close>

record JobReplyData =
  Algo :: string
  Blob :: string
  JR_Height :: int
  JobId :: string
  Target :: string
  SeedHash :: string
  NextSeedHash :: string

definition empty_reply :: JobReplyData where
  "empty_reply = \<lparr>Algo = [], Blob = [], JR_Height = 0, JobId = [], Target = [], SeedHash = [], NextSeedHash = []\<rparr>"

subsection \<open>Jobs\<close>

text \<open>
  A session that already works on the template's height gets an empty reply.  The counters of the
  endpoint are shared by its sessions and wrap around.
\<close>

definition getJob ::
  "c_library \<Rightarrow> nat \<Rightarrow> BlockTemplate \<Rightarrow> 'db StratumServer \<Rightarrow> 'db StratumServer \<times> JobReplyData go" where
  "getJob c cs t s =
     (let ses = sessionStore s cs;
          height = lastBlockHeight ses;
          s = set_session cs (ses\<lparr>lastBlockHeight := Tpl_height t\<rparr>) s
      in if height = Tpl_height t then (s, Ok empty_reply)
         else
           let ep = endpoint_of s cs;
               extraNonce = Ep_extraNonce ep + 1;
               ep = ep\<lparr>Ep_extraNonce := extraNonce\<rparr>;
               s = set_endpoint (Ses_endpoint ses) ep s
           in case nextBlob c t extraNonce (instanceId ep) of
                Fail e \<Rightarrow> (s, Fail e)
              | Panic p \<Rightarrow> (s, Panic p)
              | Ok blob \<Rightarrow>
                  let jid = jobSequence ep + 1;
                      s = set_endpoint (Ses_endpoint ses) (ep\<lparr>jobSequence := jid\<rparr>) s;
                      job = \<lparr>Job_height = Tpl_height t, Job_id = show_nat (unat jid),
                             Job_extraNonce = extraNonce, submissions = {||}\<rparr>;
                      s = set_session cs (pushJob (sessionStore s cs) job) s
                  in (s, Ok \<lparr>Algo = ''rx/0'', Blob = blob, JR_Height = Tpl_height t, JobId = Job_id job,
                            Target = targetHex ep, SeedHash = hex_encode (seedHash t),
                            NextSeedHash = hex_encode (nextSeedHash t)\<rparr>))"

text \<open>
  The broadcast gives every registered session its job and pushes it; a session whose push fails is
  removed.  The code runs one goroutine per session and the jobs interleave only in the shared
  counters; the model takes them one after the other.  A panic in one of them ends the process.
\<close>

fun broadcast_to ::
  "('raw, 'db) server_env \<Rightarrow> BlockTemplate \<Rightarrow> nat list \<Rightarrow> 'db StratumServer \<Rightarrow> 'db StratumServer \<times> (nat \<times> JobReplyData) list go" where
  "broadcast_to env t [] s = (s, Ok [])"
| "broadcast_to env t (cs # css) s =
     bindS (getJob (CLib env) cs t s) (\<lambda>s reply.
     let s = (if push_ok env cs then s else removeSession cs s)
     in bindS (broadcast_to env t css s) (\<lambda>s msgs. (s, Ok ((cs, reply) # msgs))))"

definition broadcastNewJobs ::
  "('raw, 'db) server_env \<Rightarrow> 'db StratumServer \<Rightarrow> 'db StratumServer \<times> (nat \<times> JobReplyData) list go" where
  "broadcastNewJobs env s =
     (case currentBlockTemplate s of
        None \<Rightarrow> (s, Ok [])
      | Some t \<Rightarrow> broadcast_to env t (sessions s) s)"

definition refreshBlockTemplate ::
  "('raw, 'db) server_env \<Rightarrow> bool \<Rightarrow> 'db StratumServer \<Rightarrow> 'db StratumServer \<times> (nat \<times> JobReplyData) list go" where
  "refreshBlockTemplate env bcast s =
     bindS (fetchBlockTemplate env s) (\<lambda>s newBlock.
       if newBlock \<and> bcast then broadcastNewJobs env s else (s, Ok []))"

subsection \<open>Shares\<close>

definition bump_miner :: "nat \<Rightarrow> (Miner \<Rightarrow> Miner) \<Rightarrow> 'db StratumServer \<Rightarrow> 'db StratumServer" where
  "bump_miner m f s = set_miner m (f (minerStore s m)) s"

definition inc_invalid :: "Miner \<Rightarrow> Miner" where
  "inc_invalid m = m\<lparr>invalidShares := wrap64 (invalidShares m + 1)\<rparr>"

text \<open>The share's blob: the template with the job's extra nonce, the instance id and the nonce.\<close>

definition share_blob :: "BlockTemplate \<Rightarrow> u32 \<Rightarrow> bytes \<Rightarrow> bytes \<Rightarrow> bytes go" where
  "share_blob t extraNonce inst nonceBuff =
     bindG (reserve t extraNonce inst) (\<lambda>shareBuff. copy_from shareBuff 39 nonceBuff)"

text \<open>The converted blob (empty when validation is bypassed) and the hash that is judged.\<close>

definition share_hash ::
  "('raw, 'db) server_env \<Rightarrow> BlockTemplate \<Rightarrow> bytes \<Rightarrow> string \<Rightarrow> (bytes \<times> bytes) go" where
  "share_hash env t shareBuff result =
     (if BypassShareValidation env then Ok ([], fst (hex_decode result))
      else bindG (ConvertBlob (CLib env) shareBuff) (\<lambda>convertedBlob.
           bindG (RxHash (CLib env) convertedBlob (seedHash t)) (\<lambda>hashBytes.
           Ok (convertedBlob, hashBytes))))"

text \<open>A repeated share is recorded as invalid; the error of recording it is only logged.\<close>

definition write_repeated ::
  "('raw, 'db) server_env \<Rightarrow> int \<Rightarrow> nat \<Rightarrow> 'db StratumServer \<Rightarrow> 'db StratumServer" where
  "write_repeated env now cs s =
     (let ses = sessionStore s cs
      in fst (on_db s (\<lambda>db. WriteInvalidShare (Rd (Backend env)) (Prefix (Backend env)) db now (now div 1000)
           (Ses_login ses) (Ses_id ses) (wrap64 (Ep_difficulty (endpoint_of s cs))))))"

text \<open>The accounting of a share that counts.\<close>

definition count_share :: "int \<Rightarrow> nat \<Rightarrow> nat \<Rightarrow> 'db StratumServer \<Rightarrow> 'db StratumServer" where
  "count_share now cs m s =
     (let diff = Ep_Difficulty (endpoint_of s cs);
          s = s\<lparr>roundShares := wrap64 (roundShares s + diff)\<rparr>
      in bump_miner m (\<lambda>m. storeShare now diff (m\<lparr>validShares := wrap64 (validShares m + 1)\<rparr>)) s)"

text \<open>
  The daemon has accepted the block: the round ends, the block is remembered and written, and a new
  template goes out.  A block whose work was seen before counts as an invalid share.
\<close>

definition record_block ::
  "('raw, 'db) server_env \<Rightarrow> int \<Rightarrow> nat \<Rightarrow> nat \<Rightarrow> BlockTemplate \<Rightarrow> string \<Rightarrow> string list \<Rightarrow> RPCClient \<Rightarrow>
   'db StratumServer \<Rightarrow> 'db StratumServer \<times> bool go" where
  "record_block env now cs m t blockFastHash paramIn r s =
     (let be = Backend env;
          ses = sessionStore s cs;
          ep = endpoint_of s cs;
          entry = \<lparr>Be_height = Tpl_height t, Be_variance = fl_div (fl_of_int (roundShares s)) (fl_of_int (diffInt64 t)), Be_hash = blockFastHash\<rparr>;
          s = s\<lparr>roundShares := 0, blockStats := fmupd now entry (blockStats s)\<rparr>;
          s = bump_miner m (\<lambda>m. m\<lparr>accepts := wrap64 (accepts m + 1)\<rparr>) s;
          s = set_upstream (upstream s) (r\<lparr>Accepts := wrap64 (Accepts r + 1), LastSubmissionAt := now\<rparr>) s
      in bindS (on_db s (\<lambda>db. WriteBlock (Rd be) (RngS be) (Prefix be) now db (Ses_login ses) (Ses_id ses)
           paramIn (wrap64 (Ep_difficulty ep)) (diffInt64 t) (word_of_int (Tpl_height t))
           (blockReward t) (txTotalFee t) (hashrateExpiration env)))
         (\<lambda>s (exist, err).
            if exist then (write_repeated env now cs s, Ok False)
            else bindS (refreshBlockTemplate env True s) (\<lambda>s _. (s, Ok True))))"

text \<open>
  A share that meets the block's difficulty is submitted.  One the daemon refuses still counts as a
  share of the miner, but nothing is written for it.
\<close>

definition submit_block ::
  "('raw, 'db) server_env \<Rightarrow> int \<Rightarrow> nat \<Rightarrow> nat \<Rightarrow> BlockTemplate \<Rightarrow> bytes \<Rightarrow> bytes \<Rightarrow> string list \<Rightarrow>
   'db StratumServer \<Rightarrow> 'db StratumServer \<times> bool go" where
  "submit_block env now cs m t shareBuff convertedBlob paramIn s =
     bindS (s, rpc s) (\<lambda>s r.
       case SubmitBlock (Net (Daemon env)) r (hex_encode shareBuff) of
         (r, Panic p) \<Rightarrow> (set_upstream (upstream s) r s, Panic p)
       | (r, Fail e) \<Rightarrow>
           (bump_miner m (\<lambda>m. m\<lparr>rejects := wrap64 (rejects m + 1)\<rparr>)
             (set_upstream (upstream s) (r\<lparr>Rejects := wrap64 (Rejects r + 1)\<rparr>) s), Ok True)
       | (r, Ok _) \<Rightarrow>
           bindS (s, if convertedBlob = [] then ConvertBlob (CLib env) shareBuff else Ok convertedBlob)
             (\<lambda>s convertedBlob.
           bindS (s, FastHash (CLib env) convertedBlob) (\<lambda>s fastHash.
           record_block env now cs m t (hex_encode fastHash) paramIn r s)))"

definition processShare ::
  "('raw, 'db) server_env \<Rightarrow> int \<Rightarrow> nat \<Rightarrow> nat \<Rightarrow> Job \<Rightarrow> BlockTemplate \<Rightarrow> string \<Rightarrow> string \<Rightarrow>
   'db StratumServer \<Rightarrow> 'db StratumServer \<times> bool go" where
  "processShare env now cs m job t nonce result s =
     (let ses = sessionStore s cs;
          ep = endpoint_of s cs;
          nonceBuff = fst (hex_decode nonce)
      in bindS (s, rpc s) (\<lambda>s _.
         bindS (s, share_blob t (Job_extraNonce job) (instanceId ep) nonceBuff) (\<lambda>s shareBuff.
         bindS (s, share_hash env t shareBuff result) (\<lambda>s (convertedBlob, hashBytes).
         if \<not> BypassShareValidation env \<and> hex_encode hashBytes \<noteq> result
         then (bump_miner m inc_invalid s, Ok False)
         else case GetHashDifficulty hashBytes of
             None \<Rightarrow> (bump_miner m inc_invalid s, Ok False)
           | Some hashDiff \<Rightarrow>
               let paramIn = [hex_encode nonceBuff, hex_encode (big_endian32 (Job_extraNonce job)),
                              hex_encode (instanceId ep)]
               in if Tpl_difficulty t \<le> hashDiff then
                    bindS (submit_block env now cs m t shareBuff convertedBlob paramIn s) (\<lambda>s valid.
                      if valid then (count_share now cs m s, Ok True) else (s, Ok False))
                  else if hashDiff < Ep_difficulty ep then
                    (case on_db s (\<lambda>db. WriteRejectShare (Rd (Backend env)) (Prefix (Backend env)) db now
                            (now div 1000) (Ses_login ses) (Ses_id ses) (wrap64 (Ep_difficulty ep))) of
                       (s, Some e) \<Rightarrow> (s, Ok False)
                     | (s, None) \<Rightarrow> (bump_miner m inc_invalid s, Ok False))
                  else
                    (case on_db s (\<lambda>db. WriteShare (Rd (Backend env)) (Prefix (Backend env)) now db
                            (Ses_login ses) (Ses_id ses) paramIn (wrap64 (Ep_difficulty ep))
                            (word_of_int (Tpl_height t)) (hashrateExpiration env)) of
                       (s, (True, _)) \<Rightarrow> (write_repeated env now cs s, Ok False)
                     | (s, (False, _)) \<Rightarrow> (count_share now cs m s, Ok True))))))"

end
