(* ===== verification/Handlers.thy ===== *)
theory Handlers
  imports Shares
begin

text \<open>
  \<open>stratum/handlers.go\<close> and the message loop of \<open>stratum/stratum.go\<close>: login, getjob and submit, the
  dispatch on the method and what ends a connection.
\<close>

subsection \<open>Messages\<close>

record LoginParams =
  Login :: string
  Pass :: string
  Agent :: string

record GetJobParams =
  GJ_Id :: string

record SubmitParams =
  SP_Id :: string
  SP_JobId :: string
  SP_Nonce :: string
  SP_Result :: string

record JobReply =
  Reply_Id :: string
  Reply_Job :: JobReplyData
  Reply_Status :: string

record ErrorReply =
  Code :: int
  Message :: string

definition err_reply :: "string \<Rightarrow> ErrorReply" where
  "err_reply msg = \<lparr>Code = -1, Message = msg\<rparr>"

subsection \<open>The handlers\<close>

definition defaultWorkerId :: string where
  "defaultWorkerId = ''0''"

definition extractWorkerId :: "string \<Rightarrow> string \<times> string" where
  "extractWorkerId pair =
     (case split_n2 CHR ''.'' pair of
        address # worker # _ \<Rightarrow> (address, worker)
      | _ \<Rightarrow> (pair, defaultWorkerId))"

text \<open>The pattern \<open>^[0-9a-f]{8}$\<close>.\<close>

definition is_nonce_char :: "char \<Rightarrow> bool" where
  "is_nonce_char c \<longleftrightarrow> (CHR ''0'' \<le> c \<and> c \<le> CHR ''9'') \<or> (CHR ''a'' \<le> c \<and> c \<le> CHR ''f'')"

definition noncePattern :: "string \<Rightarrow> bool" where
  "noncePattern s \<longleftrightarrow> length s = 8 \<and> list_all is_nonce_char s"

definition handleLoginRPC ::
  "('raw, 'db) server_env \<Rightarrow> int \<Rightarrow> nat \<Rightarrow> LoginParams \<Rightarrow> 'db StratumServer \<Rightarrow>
   'db StratumServer \<times> (ErrorReply + JobReply) go" where
  "handleLoginRPC env now cs params s =
     (let (address, wid) = extractWorkerId (Login params)
      in if \<not> BypassAddressValidation env \<and> \<not> ValidateAddress (CLib env) address
         then (s, Ok (Inl (err_reply ''Invalid address used for login'')))
         else case currentBlockTemplate s of
             None \<Rightarrow> (s, Ok (Inl (err_reply ''Job not ready'')))
           | Some t \<Rightarrow>
               let s = set_session cs ((sessionStore s cs)\<lparr>Ses_login := address, Ses_id := wid\<rparr>) s
               in bindS (s, MinersMap_Get (miners s) wid) (\<lambda>s found.
                  bindS
                    (case found of
                       Some m \<Rightarrow> (s, Ok m)
                     | None \<Rightarrow>
                         let (s, m) = allocMiner (NewMiner wid (Ses_ip (sessionStore s cs)) (Threads env)) s
                         in bindS (registerMiner m s) (\<lambda>s _. (s, Ok m)))
                    (\<lambda>s m.
                  let s = registerSession cs s;
                      s = bump_miner m (heartbeat now) s
                  in bindS (getJob (CLib env) cs t s) (\<lambda>s job.
                     (s, Ok (Inr \<lparr>Reply_Id = wid, Reply_Job = job, Reply_Status = ''OK''\<rparr>))))))"

definition handleGetJobRPC ::
  "('raw, 'db) server_env \<Rightarrow> int \<Rightarrow> nat \<Rightarrow> GetJobParams \<Rightarrow> 'db StratumServer \<Rightarrow>
   'db StratumServer \<times> (ErrorReply + JobReplyData) go" where
  "handleGetJobRPC env now cs params s =
     bindS (s, MinersMap_Get (miners s) (GJ_Id params)) (\<lambda>s found.
       case found of
         None \<Rightarrow> (s, Ok (Inl (err_reply ''Unauthenticated'')))
       | Some m \<Rightarrow>
           (case currentBlockTemplate s of
              None \<Rightarrow> (s, Ok (Inl (err_reply ''Job not ready'')))
            | Some t \<Rightarrow>
                bindS (getJob (CLib env) cs t (bump_miner m (heartbeat now) s)) (\<lambda>s job. (s, Ok (Inr job)))))"

definition inc_stale :: "Miner \<Rightarrow> Miner" where
  "inc_stale m = m\<lparr>staleShares := wrap64 (staleShares m + 1)\<rparr>"

definition handleSubmitRPC ::
  "('raw, 'db) server_env \<Rightarrow> int \<Rightarrow> nat \<Rightarrow> SubmitParams \<Rightarrow> 'db StratumServer \<Rightarrow>
   'db StratumServer \<times> (ErrorReply + string) go" where
  "handleSubmitRPC env now cs params s =
     bindS (s, MinersMap_Get (miners s) (SP_Id params)) (\<lambda>s found.
       case found of
         None \<Rightarrow> (s, Ok (Inl (err_reply ''Unauthenticated'')))
       | Some m \<Rightarrow>
           let s = bump_miner m (heartbeat now) s;
               ses = sessionStore s cs
           in case findJob ses (SP_JobId params) of
                None \<Rightarrow> (s, Ok (Inl (err_reply ''Invalid job id'')))
              | Some i \<Rightarrow>
                  if \<not> noncePattern (SP_Nonce params) then (s, Ok (Inl (err_reply ''Malformed nonce'')))
                  else
                    let nonce = to_lower (SP_Nonce params);
                        (job, exist) = Job_submit (validJobs ses ! i) nonce;
                        s = set_session cs (ses\<lparr>validJobs := (validJobs ses)[i := job]\<rparr>) s
                    in if exist
                       then (bump_miner m inc_invalid s, Ok (Inl (err_reply ''Duplicate share'')))
                       else case currentBlockTemplate s of
                           None \<Rightarrow> (s, Panic ''nil pointer dereference'')
                         | Some t \<Rightarrow>
                             if Job_height job \<noteq> Tpl_height t
                             then (bump_miner m inc_stale s, Ok (Inl (err_reply ''Block expired'')))
                             else bindS (processShare env now cs m job t nonce (SP_Result params) s) (\<lambda>s valid.
                               if valid then (s, Ok (Inr ''OK''))
                               else (s, Ok (Inl (err_reply ''Low difficulty share'')))))"

subsection \<open>Dispatch\<close>

text \<open>
  A request: the raw id and parameters are absent or present.  What the JSON decoder makes of the
  parameters is given with them.
\<close>

record 'raw JSONRpcReq =
  Req_Id :: "'raw option"
  Method :: string
  Params :: "'raw option"

record 'raw param_decoder =
  dec_login :: "'raw \<Rightarrow> LoginParams go"
  dec_getjob :: "'raw \<Rightarrow> GetJobParams go"
  dec_submit :: "'raw \<Rightarrow> SubmitParams go"

datatype reply =
    LoginResult JobReply
  | JobResult JobReplyData
  | StatusResult string
  | ErrorResult ErrorReply

text \<open>
  What goes out on the connection and the error \<open>handleMessage\<close> returns, which ends it.  \<open>sent\<close>
  is the encoder's error, if writing the reply fails.
\<close>

definition disconnect :: go_error where
  "disconnect = ErrMsg ''server disconnect request''"

definition sendResult :: "go_error option \<Rightarrow> reply \<Rightarrow> reply list \<times> go_error option" where
  "sendResult sent r = ([r], sent)"

definition sendError :: "go_error option \<Rightarrow> ErrorReply \<Rightarrow> bool \<Rightarrow> reply list \<times> go_error option" where
  "sendError sent r hangup =
     ([ErrorResult r], case sent of Some e \<Rightarrow> Some e | None \<Rightarrow> if hangup then Some disconnect else None)"

definition handleUnknownRPC :: "'j JSONRpcReq \<Rightarrow> ErrorReply" where
  [simp]: "handleUnknownRPC req = err_reply ''Invalid method''"

definition answer ::
  "go_error option \<Rightarrow> bool \<Rightarrow> ('a \<Rightarrow> reply) \<Rightarrow> 's \<times> (ErrorReply + 'a) go \<Rightarrow> 's \<times> (reply list \<times> go_error option) go" where
  "answer sent hangup f out =
     bindS out (\<lambda>s r. (s, Ok (case r of Inl e \<Rightarrow> sendError sent e hangup | Inr x \<Rightarrow> sendResult sent (f x))))"

definition decoded ::
  "'s \<Rightarrow> 'p go \<Rightarrow> ('p \<Rightarrow> 's \<times> (reply list \<times> go_error option) go) \<Rightarrow> 's \<times> (reply list \<times> go_error option) go" where
  "decoded s p f = (case p of Ok x \<Rightarrow> f x | Fail e \<Rightarrow> (s, Ok ([], Some e)) | Panic q \<Rightarrow> (s, Panic q))"

definition handleMessage ::
  "('raw, 'db) server_env \<Rightarrow> 'j param_decoder \<Rightarrow> go_error option \<Rightarrow> int \<Rightarrow> nat \<Rightarrow> 'j JSONRpcReq \<Rightarrow>
   'db StratumServer \<Rightarrow> 'db StratumServer \<times> (reply list \<times> go_error option) go" where
  "handleMessage env dec sent now cs req s =
     (case (Req_Id req, Params req) of
        (None, _) \<Rightarrow> (s, Ok ([], Some disconnect))
      | (Some _, None) \<Rightarrow> (s, Ok ([], Some (ErrMsg ''server RPC request params'')))
      | (Some _, Some raw) \<Rightarrow>
          if Method req = ''login'' then
            decoded s (dec_login dec raw) (\<lambda>p. answer sent True LoginResult (handleLoginRPC env now cs p s))
          else if Method req = ''getjob'' then
            decoded s (dec_getjob dec raw) (\<lambda>p. answer sent True JobResult (handleGetJobRPC env now cs p s))
          else if Method req = ''submit'' then
            decoded s (dec_submit dec raw) (\<lambda>p. answer sent False StatusResult (handleSubmitRPC env now cs p s))
          else if Method req = ''keepalived'' then
            (s, Ok (sendResult sent (StatusResult ''KEEPALIVED'')))
          else (s, Ok (sendError sent (handleUnknownRPC req) True)))"

text \<open>
  \<open>handleClient\<close> reads one line after the other.  A line longer than the buffer, the end of the stream, a read error, malformed JSON and
  an error of \<open>handleMessage\<close> end the session; a line of at most one byte is skipped.
\<close>

datatype 'j client_read =
    Flood
  | Eof
  | ReadError go_error
  | ShortLine
  | Line "'j JSONRpcReq go" "go_error option" int

fun handleClient ::
  "('raw, 'db) server_env \<Rightarrow> 'j param_decoder \<Rightarrow> nat \<Rightarrow> 'j client_read list \<Rightarrow> 'db StratumServer \<Rightarrow>
   'db StratumServer \<times> reply list go" where
  "handleClient env dec cs [] s = (s, Ok [])"
| "handleClient env dec cs (r # rs) s =
     (case r of
        ShortLine \<Rightarrow> handleClient env dec cs rs s
      | Line (Ok req) sent now \<Rightarrow>
          bindS (handleMessage env dec sent now cs req s) (\<lambda>s (out, err).
            case err of
              Some e \<Rightarrow> (removeSession cs s, Ok out)
            | None \<Rightarrow> bindS (handleClient env dec cs rs s) (\<lambda>s out'. (s, Ok (out @ out'))))
      | _ \<Rightarrow> (removeSession cs s, Ok []))"

text \<open>The same loop on a TLS connection.\<close>

fun handleTLSClient ::
  "('raw, 'db) server_env \<Rightarrow> 'j param_decoder \<Rightarrow> nat \<Rightarrow> 'j client_read list \<Rightarrow> 'db StratumServer \<Rightarrow>
   'db StratumServer \<times> reply list go" where
  "handleTLSClient env dec cs [] s = (s, Ok [])"
| "handleTLSClient env dec cs (r # rs) s =
     (case r of
        ShortLine \<Rightarrow> handleTLSClient env dec cs rs s
      | Line (Ok req) sent now \<Rightarrow>
          bindS (handleMessage env dec sent now cs req s) (\<lambda>s (out, err).
            case err of
              Some e \<Rightarrow> (removeSession cs s, Ok out)
            | None \<Rightarrow> bindS (handleTLSClient env dec cs rs s) (\<lambda>s out'. (s, Ok (out @ out'))))
      | _ \<Rightarrow> (removeSession cs s, Ok []))"

lemma handleTLSClient_eq: "handleTLSClient env dec cs rs s = handleClient env dec cs rs s"
proof (induction rs arbitrary: s)
  case (Cons r rs)
  show ?case unfolding handleTLSClient.simps handleClient.simps Cons.IH by (rule refl)
qed simp

end
