(* ===== verification/Samples.thy ===== *)
theory Samples
  imports Format_Correct Unlocker Handlers
begin

text \<open>
  Concrete surroundings for the runs that witness the properties: a daemon with an upstream that is
  down and one that answers, a C library of simple functions and a server with a database held in
  memory.
\<close>

definition sample_header :: RpcBlockHeader where
  "sample_header = \<lparr>Hdr_BlockSize = 1, Hdr_Depth = 60, Hdr_Difficulty = 1000, Hdr_Hash = ''0123456789ab'',
     Hdr_Height = 100, Hdr_MajorVersion = 16, Hdr_MinorVersion = 16, Hdr_Nonce = 1, Hdr_NumTxes = 2,
     Hdr_OrphanStatus = False, Hdr_PrevHash = ''aa'', Hdr_Reward = 610, Hdr_Timestamp = 1700000000\<rparr>"

definition sample_reply :: GetBlockTemplateReply where
  "sample_reply = \<lparr>Reply_Difficulty = 1000, Reply_Height = 100,
     Reply_Blob = hex_encode (enc_block le_utility (sample_block [])), Reply_ReservedOffset = 60,
     Reply_PrevHash = ''previous'', Reply_ExpectedReward = 600000000010, Reply_SeedHash = hex_encode [1, 2],
     Reply_NextSeedHash = []\<rparr>"

definition sample_net :: "nat transport" where
  "sample_net url meth ps =
     (if url = ''down'' then TransportFailed (ErrMsg ''timeout'')
      else HttpResponse 200 ''OK'' (BodyResp (Some 0) None))"

definition sample_daemon :: "nat daemon" where
  "sample_daemon = \<lparr>Net = sample_net, DecTemplate = (\<lambda>_. Ok sample_reply),
     DecHeader = (\<lambda>_. Ok \<lparr>Reply_BlockHeader = sample_header, HeaderReply_Status = ''OK'', HeaderReply_Untrusted = False\<rparr>),
     DecCount = (\<lambda>_. Ok \<lparr>Reply_Count = 200, CountReply_Status = ''OK''\<rparr>)\<rparr>"

definition sample_backend :: "mem backend" where
  "sample_backend = \<lparr>Rd = mem_redis, Prefix = ''xmr'', RngS = ascending, RngI = ascending\<rparr>"

definition sample_c :: c_library where
  "sample_c = \<lparr>convert_blob = take 76, validate_address = (\<lambda>a. a \<noteq> []), cryptonight_hash = (\<lambda>b h. b),
     cryptonight_fast_hash = take 32, randomx_slow_hash = (\<lambda>seed blob. take 1 (drop 39 blob))\<rparr>"

definition sample_env :: "(nat, mem) server_env" where
  "sample_env = \<lparr>Address = ''pool'', BypassAddressValidation = False, BypassShareValidation = False,
     hashrateExpiration = 600, Threads = 1, Backend = sample_backend, Daemon = sample_daemon, CLib = sample_c,
     Btc = le_utility, push_ok = (\<lambda>_. True)\<rparr>"

definition sample_endpoint :: Endpoint where
  "sample_endpoint = \<lparr>jobSequence = 0, Ep_Difficulty = 2, Ep_difficulty = 2, instanceId = [9, 8, 7, 6],
     Ep_extraNonce = 0, targetHex = hex_encode [255, 255, 255, 127]\<rparr>"

definition sample_server :: "mem StratumServer" where
  "sample_server = \<lparr>roundShares = 0, blockStats = fmempty, miners = NewMinersMap, blockTemplate = None,
     upstream = 0, upstreams = [NewRPCClient ''a'' ''down'', NewRPCClient ''b'' ''up''], upstreamsStates = [],
     sessions = [], sessionStore = (\<lambda>_. NewSession ''10.0.0.1'' 0), endpointStore = (\<lambda>_. sample_endpoint),
     minerStore = (\<lambda>_. NewMiner [] [] 1), minerNext = 0, database = fmempty\<rparr>"

lemmas sample_defs = sample_env_def sample_daemon_def sample_net_def sample_backend_def sample_c_def

end
