(* ===== verification/Upstreams.thy ===== *)
theory Upstreams
  imports Server
begin

text \<open>
  \<open>checkUpstreams\<close> of \<open>stratum/stratum.go\<close>: check every upstream, switch to the first that passes
  (to the first of all when none does), and stop the process when every upstream was sick in the
  latest sixty checks.  The locale \<open>upstream_check\<close> states what the server relies on of a check;
  the RPC client's \<open>Check\<close> and \<open>Sick\<close> are its interpretation.
\<close>

fun check_all :: "('c \<Rightarrow> 'c \<times> bool go) \<Rightarrow> 'c list \<Rightarrow> nat \<Rightarrow> nat \<times> bool \<Rightarrow> 'c list \<times> (nat \<times> bool) go" where
  "check_all check [] i (candidate, backup) = ([], Ok (candidate, backup))"
| "check_all check (v # vs) i (candidate, backup) =
     (case check v of
        (v', Panic p) \<Rightarrow> (v' # vs, Panic p)
      | (v', r) \<Rightarrow>
          let (vs', out) = check_all check vs (i + 1)
                (if r = Ok True \<and> \<not> backup then (i, True) else (candidate, backup))
          in (v' # vs', out))"

text \<open>The record of the latest checks and whether it ends the process.\<close>

definition note_states :: "bool list \<Rightarrow> bool \<Rightarrow> bool list \<times> bool" where
  "note_states states allSick =
     (let states = states @ [allSick]
      in if 60 \<le> length states
         then let states = drop (length states - 60) states in (states, list_all (\<lambda>v. v) states)
         else (states, False))"

text \<open>The result tells whether the process is stopped.\<close>

definition checkUpstreams ::
  "('raw, 'db) server_env \<Rightarrow> 'db StratumServer \<Rightarrow> 'db StratumServer \<times> bool go" where
  "checkUpstreams env s =
     (let (us, out) = check_all (\<lambda>v. Check (Net (Daemon env)) (DecTemplate (Daemon env)) v 8 (Address env))
            (upstreams s) 0 (0, False)
      in bindS (s\<lparr>upstreams := us\<rparr>, out) (\<lambda>s (candidate, _).
         bindS
           (if upstream s \<noteq> candidate
            then (case index_go (upstreams s) candidate of
                    Ok _ \<Rightarrow> (s\<lparr>upstream := candidate\<rparr>, Ok ())
                  | Fail e \<Rightarrow> (s, Fail e)
                  | Panic p \<Rightarrow> (s, Panic p))
            else (s, Ok ()))
           (\<lambda>s _.
         let (states, fatal) = note_states (upstreamsStates s) (list_all Sick (upstreams s))
         in (s\<lparr>upstreamsStates := states\<rparr>, Ok fatal))))"

lemma length_check_all: "check_all check vs i cb = (us, out) \<Longrightarrow> length us = length vs"
  by (induction check vs i cb arbitrary: us out rule: check_all.induct)
    (auto split: prod.splits go.splits if_splits)

lemma length_note_states: "length states \<le> 60 \<Longrightarrow> length (fst (note_states states b)) \<le> 60"
  by (simp add: note_states_def Let_def)

lemma note_states_fatal:
  "snd (note_states states b) \<Longrightarrow> length states \<le> 60 \<Longrightarrow>
   b \<and> fst (note_states states b) = replicate 60 True"
proof -
  assume s: "snd (note_states states b)" and l: "length states \<le> 60"
  define n where "n = length states - 59"
  have len: "60 \<le> length states + 1" using s by (auto simp: note_states_def Let_def split: if_splits)
  then have "drop n (states @ [b]) = drop n states @ [b]" using l by (simp add: n_def)
  then have st: "fst (note_states states b) = drop n states @ [b]"
    "list_all (\<lambda>v. v) (drop n states @ [b])"
    using s len by (auto simp: note_states_def Let_def n_def split: if_splits)
  have "length (drop n states @ [b]) = 60" using len l by (simp add: n_def)
  then have "drop n states @ [b] = replicate 60 True"
    using st(2) by (intro replicate_eqI) (auto simp: list_all_iff)
  moreover have b using st(2) by simp
  ultimately show ?thesis using st(1) by simp
qed

locale upstream_check =
  fixes check :: "'c \<Rightarrow> 'c \<times> bool go" and is_sick :: "'c \<Rightarrow> bool"
  assumes check_alive: "check c = (c', Ok True) \<Longrightarrow> \<not> is_sick c'"
begin

text \<open>Once a candidate was found it stays; it is the first whose check passed.\<close>

lemma check_all_backup:
  "check_all check vs i (candidate, True) = (us, Ok (c, b)) \<Longrightarrow> c = candidate \<and> b"
  by (induction vs arbitrary: i us) (auto split: prod.splits go.splits)

lemma check_all_first:
  "check_all check vs i (candidate, False) = (us, Ok (c, b)) \<Longrightarrow>
   (b \<longrightarrow> i \<le> c \<and> c - i < length us \<and> \<not> is_sick (us ! (c - i)) \<and>
      (\<forall>j < c - i. snd (check (vs ! j)) \<noteq> Ok True)) \<and>
   (\<not> b \<longrightarrow> c = candidate \<and> (\<forall>v \<in> set vs. snd (check v) \<noteq> Ok True))"
proof (induction vs arbitrary: i us)
  case (Cons v vs)
  obtain v' r where v: "check v = (v', r)" by (cases "check v")
  with Cons.prems have np: "\<nexists>p. r = Panic p" by auto
  show ?case
  proof (cases "r = Ok True")
    case True
    obtain us' out where rec: "check_all check vs (i + 1) (i, True) = (us', out)"
      by (metis prod.exhaust)
    with Cons.prems v True have e: "us = v' # us'" "out = Ok (c, b)" by auto
    with check_all_backup [of vs "i + 1" i us' c b] rec have "c = i" "b" by auto
    with e v True check_alive show ?thesis by auto
  next
    case False
    obtain us' out where rec: "check_all check vs (i + 1) (candidate, False) = (us', out)"
      by (metis prod.exhaust)
    with Cons.prems v False np have e: "us = v' # us'" "out = Ok (c, b)"
      by (auto split: go.splits)
    have IH: "b \<longrightarrow> i + 1 \<le> c \<and> c - (i + 1) < length us' \<and> \<not> is_sick (us' ! (c - (i + 1))) \<and>
        (\<forall>j < c - (i + 1). snd (check (vs ! j)) \<noteq> Ok True)"
      "\<not> b \<longrightarrow> c = candidate \<and> (\<forall>v \<in> set vs. snd (check v) \<noteq> Ok True)"
      using Cons.IH rec e(2) by auto
    show ?thesis
    proof (intro conjI impI)
      assume b: b
      with IH(1) have "c - i = Suc (c - (i + 1))" by linarith
      with IH(1) b e(1) v False show "i \<le> c" "c - i < length us" "\<not> is_sick (us ! (c - i))"
        "\<forall>j < c - i. snd (check ((v # vs) ! j)) \<noteq> Ok True"
        by (auto simp: less_Suc_eq_0_disj)
    next
      assume "\<not> b"
      with IH(2) v False show "c = candidate" "\<forall>w \<in> set (v # vs). snd (check w) \<noteq> Ok True" by auto
    qed
  qed
qed auto

lemma check_all_passed:
  "check_all check vs i (candidate, False) = (us, Ok (c, True)) \<Longrightarrow> \<exists>v \<in> set vs. snd (check v) = Ok True"
proof (induction vs arbitrary: i us)
  case (Cons v vs)
  obtain v' r where v: "check v = (v', r)" by (cases "check v")
  show ?case
  proof (cases "r = Ok True")
    case False
    obtain us' out where rec: "check_all check vs (i + 1) (candidate, False) = (us', out)"
      by (metis prod.exhaust)
    with Cons.prems v False have "out = Ok (c, True)" by (auto split: go.splits)
    with rec Cons.IH show ?thesis by auto
  qed (use v in auto)
qed auto

end

interpretation rpc_check: upstream_check "\<lambda>v. Check net dec v n a" Sick for net dec n a
  by unfold_locales (simp add: Sick_def Check_alive)

end
