(* ===== verification/Core_Correct.thy ===== *)
theory Core_Correct
  imports Samples Upstreams
begin

text \<open>
  The properties of the server's building blocks: the difficulty arithmetic, the sharded map of
  miners, the health record of an upstream and the choice between upstreams.
\<close>

subsection \<open>Difficulties\<close>

text \<open>The hash of a share is a little-endian number; it reaches a difficulty exactly when that
  number is at most the quotient of the largest 256-bit number by the difficulty.\<close>

theorem difficulty_threshold:
  assumes "GetHashDifficulty hashBytes = Some d'" "0 < d"
  shows "d \<le> d' \<longleftrightarrow> big_set_bytes (rev hashBytes) \<le> Diff1 div d"
  by (rule GetHashDifficulty_ge_iff [OF assms])

lemma difficulty_threshold_witness:
  "(5 :: int) \<le> Diff1 div 3 \<longleftrightarrow> big_set_bytes (rev [3, 0]) \<le> Diff1 div 5"
  by (rule difficulty_threshold) (simp_all add: GetHashDifficulty_def big_set_bytes_def be_value_def)

text \<open>C17: The four target bytes sent to a miner are the top 32 bits of the port's limit in
  little-endian order: a 32-byte hash whose top 32 bits, read in the same order, are below the target
  always reaches the port's difficulty, so an honest miner's share is never of low difficulty.\<close>

theorem target_sound:
  assumes "0 < diff" "length hashBytes = 32" "GetHashDifficulty hashBytes = Some d"
    and "GetTargetHex diff = Ok target"
    and "big_set_bytes (rev (drop 28 hashBytes)) < big_set_bytes (rev (fst (hex_decode target)))"
  shows "diff \<le> d"
proof -
  obtain t where t: "GetTargetHex diff = Ok (hex_encode t)" "length t = 4"
      "big_set_bytes (rev t) = (Diff1 div diff) div 2 ^ 224"
    using GetTargetHex_bytes [OF assms(1)] by blast
  have "target = hex_encode t" using assms(4) t(1) by simp
  then have "fst (hex_decode target) = t" by simp
  then have less: "big_set_bytes (rev (drop 28 hashBytes)) < (Diff1 div diff) div 2 ^ 224"
    using assms(5) t(3) by simp
  have "rev (drop 28 hashBytes) = take 4 (rev hashBytes)" using assms(2) by (simp add: take_rev)
  moreover have "be_value (take 4 (rev hashBytes)) = be_value (rev hashBytes) div 256 ^ 28"
    using assms(2) by (intro be_value_take) simp
  ultimately have "big_set_bytes (rev (drop 28 hashBytes)) = big_set_bytes (rev hashBytes) div 2 ^ 224"
    by (simp add: big_set_bytes_def zdiv_int)
  with less have "big_set_bytes (rev hashBytes) div 2 ^ 224 < (Diff1 div diff) div 2 ^ 224" by simp
  then have "big_set_bytes (rev hashBytes) < Diff1 div diff"
    by (meson linorder_not_less zdiv_mono1 zero_less_power zero_less_numeral)
  then show ?thesis using GetHashDifficulty_ge_iff [OF assms(3,1)] by simp
qed

lemma target_hex_2: "GetTargetHex 2 = Ok (hex_encode [255, 255, 255, 127])"
  by (simp add: GetTargetHex_def big_div_def Diff1_def big_bytes_def be_bytes.simps copy_from_def
      go_copy_def Let_def nat_div_distrib)

lemma target_sound_witness: "(2 :: int) \<le> Diff1"
proof (rule target_sound)
  show "GetTargetHex 2 = Ok (hex_encode [255, 255, 255, 127])" by (rule target_hex_2)
  show "length ([1, 0, 0, 0, 0, 0, 0, 0, 0, 0, 0, 0, 0, 0, 0, 0, 0, 0, 0, 0, 0, 0, 0, 0, 0, 0, 0, 0, 0, 0, 0, 0] :: bytes) = 32"
    by simp
qed (simp_all add: GetHashDifficulty_def big_set_bytes_def be_value_def)

subsection \<open>The map of miners\<close>

text \<open>C16: The sharded map is a dictionary: on a well-formed map no operation panics, setting and
  removing keep it well formed and change exactly the one key, getting and testing read it, and the
  count over the shards is the number of keys.\<close>

theorem miners_map_dictionary:
  assumes "wf_mmap m"
  shows "(\<exists>m'. MinersMap_Set m k v = Ok m' \<and> wf_mmap m' \<and>
      MinersMap_Get m' k' = Ok (if k' = k then Some v else mmap_abs m k') \<and>
      MinersMap_Count m' = Ok (if mmap_abs m k = None then Suc (card (dom (mmap_abs m))) else card (dom (mmap_abs m)))) \<and>
    (\<exists>m'. MinersMap_Remove m k = Ok m' \<and> wf_mmap m' \<and>
      MinersMap_Get m' k' = Ok (if k' = k then None else mmap_abs m k')) \<and>
    MinersMap_Has m k = Ok (mmap_abs m k \<noteq> None)"
proof (intro conjI)
  obtain m1 where "MinersMap_Set m k v = Ok m1" "wf_mmap m1" using mmap.put_law [OF assms] by blast
  then show "\<exists>m'. MinersMap_Set m k v = Ok m' \<and> wf_mmap m' \<and>
      MinersMap_Get m' k' = Ok (if k' = k then Some v else mmap_abs m k') \<and>
      MinersMap_Count m' = Ok (if mmap_abs m k = None then Suc (card (dom (mmap_abs m))) else card (dom (mmap_abs m)))"
    using mmap.get_put [OF assms] mmap.count_put [OF assms] by blast
  obtain m2 where "MinersMap_Remove m k = Ok m2" "wf_mmap m2" using mmap.del_law [OF assms] by blast
  then show "\<exists>m'. MinersMap_Remove m k = Ok m' \<and> wf_mmap m' \<and>
      MinersMap_Get m' k' = Ok (if k' = k then None else mmap_abs m k')"
    using mmap.get_del [OF assms] by blast
qed (rule Has_spec [OF assms])

lemma miners_map_dictionary_witness:
  "MinersMap_Has (NewMinersMap :: nat MinersMap) ''rig'' = Ok False \<and>
   (\<exists>m'. MinersMap_Set NewMinersMap ''rig'' (7 :: nat) = Ok m' \<and> wf_mmap m' \<and>
      MinersMap_Get m' ''rig'' = Ok (Some 7) \<and> MinersMap_Count m' = Ok 1)"
  using miners_map_dictionary [of "NewMinersMap :: nat MinersMap" "''rig''" 7 "''rig''"]
  by (simp add: dom_def)

text \<open>Iterating yields each entry of the map, and nothing else, in whatever order Go ranges over
  the shards.\<close>

theorem miners_map_iter:
  assumes "wf_mmap m" "range_law rng"
  shows "(k, v) \<in> set (MinersMap_Iter rng m) \<longleftrightarrow> MinersMap_Get m k = Ok (Some v)"
  using Iter_entries [OF assms] Get_spec [OF assms(1)] by simp

lemma miners_map_iter_witness:
  "(''rig'', 7 :: nat) \<in> set (MinersMap_Iter ascending NewMinersMap) \<longleftrightarrow>
     MinersMap_Get NewMinersMap ''rig'' = Ok (Some (7 :: nat))"
  by (rule miners_map_iter) (simp_all add: range_law_ascending)

subsection \<open>The health of an upstream\<close>

text \<open>After any sequence of failures and successes, an upstream is sick exactly when it has
  counted at least five failures since its last recovery, and fewer than five successes in a row are
  pending.\<close>

theorem health_reachable:
  assumes "length es < 2 ^ 63" "r = health_run (NewRPCClient name url) es"
  shows "(sick r \<longleftrightarrow> 5 \<le> sickRate r) \<and> 0 \<le> sickRate r \<and> sickRate r \<le> int (length es) \<and>
    0 \<le> successRate r \<and> successRate r < 5"
  using health_run_inv [OF health_inv_init, of es name url] assms by (simp add: health_inv_def)

lemma health_reachable_witness:
  "sick (health_run (NewRPCClient ''a'' ''u'') (replicate 5 Failure)) \<longleftrightarrow>
     5 \<le> sickRate (health_run (NewRPCClient ''a'' ''u'') (replicate 5 Failure))"
  using health_reachable [of "replicate 5 Failure" _ "''a''" "''u''"] by simp

text \<open>C29: From any state a client can reach, five failures make it sick; it stays sick through the
  next four successes and the fifth in a row makes it well again, while a failure among them starts
  the count anew.\<close>

theorem health_transitions:
  assumes "health_inv n r" "n + 11 < 2 ^ 63"
  shows "sick (health_run r (replicate 5 Failure)) \<and>
    (\<forall>k < 5. sick (health_run r (replicate 5 Failure @ replicate k Success))) \<and>
    \<not> sick (health_run r (replicate 5 Failure @ replicate 5 Success)) \<and>
    (\<forall>k < 5. successRate (health_run r (replicate k Success @ [Failure])) = 0)"
proof -
  let ?f = "health_run r (replicate 5 Failure)"
  have inv: "health_inv (n + 5) ?f" using health_run_inv [OF assms(1), of "replicate 5 Failure"] assms(2) by simp
  have rate: "sickRate ?f = sickRate r + 5" using failures_count [OF assms(1), of 5] assms(2) by simp
  then have sick: "sick ?f" using inv assms(1) by (auto simp: health_inv_def)
  have zero: "successRate (health_step x Failure) = 0" for x by (simp add: markSick_def Let_def)
  have "?f = health_step (health_run r (replicate 4 Failure)) Failure"
    by (simp add: health_run_def numeral_eq_Suc)
  then have "successRate ?f = 0" using zero by simp
  have keep: "sick (health_run ?f (replicate k Success)) \<and> successRate (health_run ?f (replicate k Success)) = int k"
    if "k < 5" for k
    using successes_keep [OF inv, of k] that \<open>successRate ?f = 0\<close> sick assms(2) by simp
  have "health_inv (9 + n) (health_run ?f (replicate 4 Success))"
    using health_run_inv [OF inv, of "replicate 4 Success"] assms(2) by simp
  moreover have "health_run ?f (replicate 5 Success) = markAlive (health_run ?f (replicate 4 Success))"
    by (simp add: health_run_def numeral_eq_Suc)
  ultimately have "\<not> sick (health_run ?f (replicate 5 Success))"
    using markAlive_fields [of "9 + n" "health_run ?f (replicate 4 Success)"] keep [of 4] by simp
  with sick keep zero show ?thesis by (auto simp: health_run_append) (auto simp: health_run_def)
qed

lemma health_transitions_witness:
  "sick (health_run (NewRPCClient ''a'' ''u'') (replicate 5 Failure)) \<and>
   \<not> sick (health_run (NewRPCClient ''a'' ''u'') (replicate 5 Failure @ replicate 5 Success))"
  using health_transitions [OF health_inv_init, of "''a''" "''u''"] by simp

text \<open>A daemon that answers every request with an HTTP error status fails every check, but no
  number of checks changes its client's record: such an upstream never becomes sick.\<close>

theorem http_errors_never_sick:
  assumes "\<And>meth ps. \<exists>status msg body. net (Rpc_Url r) meth ps = HttpResponse status msg body \<and>
      (status < 200 \<or> 400 \<le> status)"
  shows "((\<lambda>r. fst (Check net dec r k a)) ^^ n) r = r \<and> (\<exists>e. snd (Check net dec r k a) = Fail e)"
proof -
  obtain status msg body where net: "net (Rpc_Url r) ''getblocktemplate'' (ReserveParams k a) = HttpResponse status msg body"
      "status < 200 \<or> 400 \<le> status"
    using assms by blast
  then have c: "Check net dec r k a = (r, Fail (ErrMsg msg))"
    by (auto simp: Check_def GetBlockTemplate_def doPost_def unmarshal_result_def)
  then have "((\<lambda>r. fst (Check net dec r k a)) ^^ n) r = r" by (induction n) simp_all
  with c show ?thesis by simp
qed

definition unavailable :: "nat transport" where
  "unavailable url meth ps = HttpResponse 503 ''503 Service Unavailable'' BodyNull"

lemma http_errors_never_sick_witness:
  "((\<lambda>r. fst (Check unavailable (\<lambda>_. Fail ErrEOF) r 8 ''addr'')) ^^ 100) (NewRPCClient ''a'' ''u'') =
     NewRPCClient ''a'' ''u''"
  using http_errors_never_sick [where net = unavailable and r = "NewRPCClient ''a'' ''u''"
      and dec = "\<lambda>_. Fail ErrEOF" and k = 8 and a = "''addr''" and n = 100]
  by (simp add: unavailable_def)

subsection \<open>Choosing an upstream\<close>

text \<open>C27: A check of all upstreams that does not panic switches to the first one whose check
  passed, which is not sick then, or to the first of all when none passed.\<close>

theorem upstream_choice:
  assumes "checkUpstreams env s = (s', Ok fatal)" "upstream s < length (upstreams s)"
    and "check = (\<lambda>v. Check (Net (Daemon env)) (DecTemplate (Daemon env)) v 8 (Address env))"
  shows "length (upstreams s') = length (upstreams s) \<and>
    (if \<exists>v \<in> set (upstreams s). snd (check v) = Ok True
     then upstream s' < length (upstreams s') \<and> \<not> Sick (upstreams s' ! upstream s') \<and>
       (\<forall>j < upstream s'. snd (check (upstreams s ! j)) \<noteq> Ok True)
     else upstream s' = 0)"
proof -
  obtain us out where c: "check_all check (upstreams s) 0 (0, False) = (us, out)" by (metis prod.exhaust)
  obtain cand b where out: "out = Ok (cand, b)"
    using assms(1) c by (auto simp: checkUpstreams_def assms(3) bindS_def split: go.splits)
  have s': "upstreams s' = us" "upstream s' = cand"
    using assms(1) c out
    by (auto simp: checkUpstreams_def assms(3) Let_def bindS_def split: prod.splits if_splits go.splits)
  have f: "(b \<longrightarrow> 0 \<le> cand \<and> cand - 0 < length us \<and> \<not> Sick (us ! (cand - 0)) \<and>
      (\<forall>j < cand - 0. snd (check (upstreams s ! j)) \<noteq> Ok True)) \<and>
    (\<not> b \<longrightarrow> cand = 0 \<and> (\<forall>v \<in> set (upstreams s). snd (check v) \<noteq> Ok True))"
    using c unfolding out assms(3) by (rule rpc_check.check_all_first)
  have "\<exists>v \<in> set (upstreams s). snd (check v) = Ok True" if b
    using that c unfolding out assms(3) by (simp add: rpc_check.check_all_passed)
  with f s' length_check_all [OF c] show ?thesis by auto
qed

lemma upstream_choice_witness:
  "\<exists>s'. checkUpstreams sample_env sample_server = (s', Ok False) \<and> upstream s' = 1 \<and> \<not> Sick (upstreams s' ! 1)"
proof -
  let ?check = "\<lambda>v. Check (Net (Daemon sample_env)) (DecTemplate (Daemon sample_env)) v 8 (Address sample_env)"
  have c: "?check (NewRPCClient ''a'' ''down'') = (markSick (NewRPCClient ''a'' ''down''), Fail (ErrMsg ''timeout''))"
    "?check (NewRPCClient ''b'' ''up'') = (markAlive (NewRPCClient ''b'' ''up''), Ok True)"
    by (simp_all add: Check_def GetBlockTemplate_def doPost_def sample_defs NewRPCClient_def unmarshal_result_def
        Sick_def markAlive_def Let_def)
  define s' where "s' = fst (checkUpstreams sample_env sample_server)"
  have run: "checkUpstreams sample_env sample_server = (s', Ok False)" "upstream s' = 1"
    using c by (simp_all add: s'_def checkUpstreams_def sample_server_def index_go_def note_states_def Let_def)
  have "upstreams sample_server = [NewRPCClient ''a'' ''down'', NewRPCClient ''b'' ''up'']" "upstream sample_server = 0"
    by (simp_all add: sample_server_def)
  then show ?thesis
    using upstream_choice [OF run(1) _ refl] c run by simp
qed

end
