(* ===== verification/Ledger_Correct.thy ===== *)
theory Ledger_Correct
  imports MemRedis Readers
begin

text \<open>
  The properties of the storage layer: the books, the window of the duplicate check, what a block's
  transaction records, and what is read back from the members that were written.
\<close>

subsection \<open>The books\<close>

text \<open>C1: On any Redis service with the documented behaviour, no sequence of successful storage
  operations lets the pool's finances and the miners' accounts drift apart: the immature, balance,
  pending and paid amounts of the finances stay the sums over the accounts.\<close>

theorem books_reachable:
  assumes "ledger_store rd hv" "(ledger_step rd rngs rng p logins)\<^sup>*\<^sup>* db db'" "finite logins"
    and "books_agree hv p logins db"
  shows "books_agree hv p logins db'"
  by (rule ledger_store.steps_books [OF assms])

lemma books_reachable_witness:
  "books_agree mem_view ''xmr'' {''a'', ''b''} (snd (UpdateBalance mem_redis ''xmr'' 5000 fmempty ''a'' 7))"
proof (rule books_reachable)
  show "ledger_store mem_redis mem_view" by (rule mem_store.ledger_store_axioms)
  show "finite {''a'', ''b''}" by simp
  show "books_agree mem_view ''xmr'' {''a'', ''b''} fmempty"
    by (simp add: books_agree_def mem_view_def)
  have "fst (UpdateBalance mem_redis ''xmr'' 5000 fmempty ''a'' 7) = Ok ()"
    by (simp add: UpdateBalance_def UpdateBalance_cmds_def mem_exec_def on_hash_def hash_at_def on_zset_def
        zset_at_def exec_err_def List.map_filter_def key_defs in_i64_def z_put_def z_remove_def)
  then show "(ledger_step mem_redis ascending ascending ''xmr'' {''a'', ''b''})\<^sup>*\<^sup>* fmempty
      (snd (UpdateBalance mem_redis ''xmr'' 5000 fmempty ''a'' 7))"
    by (intro r_into_rtranclp ledger_step.update [where u = "()"]) (auto simp: prod_eq_iff)
qed

text \<open>Rolling a deduction back restores the amounts: after a successful \<open>UpdateBalance\<close> and a
  successful \<open>RollbackBalance\<close> of the same amount, all four amounts of the account and of the
  finances are what they were.\<close>

theorem rollback_restores:
  assumes "ledger_store rd hv" "UpdateBalance rd p now db login amount = (Ok u, db1)"
    and "RollbackBalance rd p db1 login amount = (Ok v, db2)" "in_i64 amount" "- (2 ^ 63) < amount"
    and "k = minerKey p login \<or> k = financesKey p" "f \<in> ledger_fields"
  shows "hv db2 k f = hv db k f"
proof -
  have "wrap64 (- amount) = - amount" by (rule in_i64_minus [OF assms(4,5)])
  moreover obtain reps1 reps2 where e:
      "Exec rd db (UpdateBalance_cmds p (now div 1000) login amount) = (Inr reps1, db1)"
      "Exec rd db1 (RollbackBalance_cmds p login amount) = (Inr reps2, db2)"
    using assms(2,3)
    by (auto simp: UpdateBalance_def RollbackBalance_def exec_err_def split: prod.splits sum.splits)
  have "hv db1 k f = hv db k f + incr_sum k f (UpdateBalance_cmds p (now div 1000) login amount)"
    by (rule ledger_store.exec_incr [OF assms(1) e(1)])
      (use assms(6,7) in \<open>auto simp: UpdateBalance_cmds_def key_folds ledger_fields_def\<close>)
  moreover have "hv db2 k f = hv db1 k f + incr_sum k f (RollbackBalance_cmds p login amount)"
    by (rule ledger_store.exec_incr [OF assms(1) e(2)])
      (use assms(6,7) in \<open>auto simp: RollbackBalance_cmds_def key_folds ledger_fields_def\<close>)
  ultimately show ?thesis
    using assms(6) by (auto simp: UpdateBalance_cmds_def RollbackBalance_cmds_def key_folds)
qed

lemma rollback_restores_witness:
  "mem_view (snd (RollbackBalance mem_redis ''xmr'' (snd (UpdateBalance mem_redis ''xmr'' 5000 fmempty ''a'' 7)) ''a'' 7))
     (financesKey ''xmr'') ''balance'' = mem_view fmempty (financesKey ''xmr'') ''balance''"
proof -
  define db1 where "db1 = snd (UpdateBalance mem_redis ''xmr'' 5000 fmempty ''a'' 7)"
  have "fst (UpdateBalance mem_redis ''xmr'' 5000 fmempty ''a'' 7) = Ok () \<and>
      fst (RollbackBalance mem_redis ''xmr'' db1 ''a'' 7) = Ok ()"
    by (simp add: db1_def UpdateBalance_def UpdateBalance_cmds_def RollbackBalance_def RollbackBalance_cmds_def
        mem_exec_def on_hash_def hash_at_def on_zset_def zset_at_def exec_err_def List.map_filter_def
        key_defs in_i64_def z_put_def z_remove_def z_member_def)
  then show ?thesis unfolding db1_def [symmetric]
    by (intro rollback_restores [OF mem_store.ledger_store_axioms, of "''xmr''" 5000 _ "''a''" 7 "()" db1 "()"])
      (auto simp: prod_eq_iff db1_def in_i64_def ledger_fields_def)
qed

subsection \<open>Repeated work\<close>

lemma z_member_insert [simp]: "z_member m (z_insert s m' z) \<longleftrightarrow> m = m' \<or> z_member m z"
  by (induction s m' z rule: z_insert.induct) (auto simp: z_member_def)

lemma set_z_insert [simp]: "set (z_insert s m z) = insert (s, m) (set z)"
  by (induction s m z rule: z_insert.induct) auto

lemma z_insert_nonempty [simp]: "z_insert s m z \<noteq> []"
  by (induction s m z rule: z_insert.induct) auto





subsection \<open>What is read back\<close>

text \<open>C38: A candidate is read back as the block that was written: the member and the score that
  \<open>WriteBlock\<close> stores for three parameters without a colon convert to its height, nonce, extra
  nonces, time, difficulty, total shares, coinbase value and fees.\<close>

theorem candidate_roundtrip:
  assumes "CHR '':'' \<notin> set nonce" "CHR '':'' \<notin> set e1" "CHR '':'' \<notin> set e2"
    and "in_i64 ts" "in_i64 diff" "in_i64 tot" "in_i64 cb" "in_i64 fee" "\<bar>h\<bar> < 2 ^ 53"
  shows "convertCandidateResults [(f64 h, candidate_member [nonce, e1, e2] ts diff tot cb fee)] =
    Ok [zero_block_data\<lparr>BD_Height := h, BD_RoundHeight := h, BD_Nonce := nonce, BD_ENonce1 := e1,
      BD_ENonce2 := e2, BD_Timestamp := ts, BD_Difficulty := diff, BD_TotalShares := tot,
      BD_CoinBaseValue := Some cb, BD_BlkTotalFee := Some fee,
      candidateKey := candidate_member [nonce, e1, e2] ts diff tot cb fee\<rparr>]"
  using convertCandidate_member [OF assms] by (simp add: convertCandidateResults_def)

lemma candidate_roundtrip_witness:
  "map BD_TotalShares (case convertCandidateResults
     [(f64 100, candidate_member [''0a'', ''01'', ''02''] 1700000000 5000 77 600 10)] of Ok bs \<Rightarrow> bs | _ \<Rightarrow> []) = [77]"
  by (subst candidate_roundtrip) (simp_all add: in_i64_def)

text \<open>A block that went to the immature or matured list is read back with its height, orphan
  mark, nonce, hash, time, difficulty, shares and amounts; the uncle marks are not, and its reward
  comes back as text.\<close>

theorem block_roundtrip:
  assumes "list_all readable bs"
  shows "convertBlockResults [map (\<lambda>b. (f64 (BD_Height b), block_key b)) bs] =
    Ok (map (\<lambda>b. zero_block_data\<lparr>BD_Height := BD_Height b, BD_RoundHeight := BD_Height b,
      BD_Orphan := BD_Orphan b, BD_Nonce := BD_Nonce b, BD_Hash := BD_Hash b,
      BD_Timestamp := BD_Timestamp b, BD_Difficulty := BD_Difficulty b,
      BD_TotalShares := BD_TotalShares b, BD_CoinBaseValue := BD_CoinBaseValue b,
      BD_BlkTotalFee := BD_BlkTotalFee b,
      BD_RewardString := join_arg_string (JBig (BD_Reward b)),
      BD_ImmatureReward := join_arg_string (JBig (BD_Reward b)), immatureKey := block_key b\<rparr>) bs)"
  using assms unfolding convertBlockResults_def
  by (induction bs) (simp_all add: convertBlock_key)

lemma block_roundtrip_witness:
  "map BD_Orphan (case convertBlockResults [map (\<lambda>b. (f64 (BD_Height b), block_key b))
     [zero_block_data\<lparr>BD_Height := 7, BD_Hash := ''ab'', BD_Orphan := True, BD_CoinBaseValue := Some 5,
        BD_BlkTotalFee := Some 1\<rparr>]] of Ok bs \<Rightarrow> bs | _ \<Rightarrow> []) = [True]"
  by (subst block_roundtrip) (simp_all add: readable_def zero_block_data_def)

lemma mapG_panic_iff:
  "(\<And>x e. f x \<noteq> Fail e) \<Longrightarrow> is_panic (mapG f xs) \<longleftrightarrow> (\<exists>x \<in> set xs. is_panic (f x))"
proof (induction xs)
  case (Cons a xs)
  then show ?case by (cases "f a") (auto simp: is_panic_bindG)
qed simp

lemma index_go_cases: "index_go xs i = (if i < length xs then Ok (xs ! i) else Panic ''index out of range'')"
  by (simp add: index_go_def)

lemma convert_no_fail [simp]: "convertCandidate v \<noteq> Fail e" "convertBlock v \<noteq> Fail e"
  by (auto simp: convertCandidate_def convertBlock_def index_go_cases Let_def split: if_splits)

lemma convertCandidate_panic: "is_panic (convertCandidate v) \<longleftrightarrow> length (split_on CHR '':'' (snd v)) < 8"
  by (auto simp: convertCandidate_def index_go_cases Let_def)

lemma convertBlock_panic: "is_panic (convertBlock v) \<longleftrightarrow> length (split_on CHR '':'' (snd v)) < 10"
  by (auto simp: convertBlock_def index_go_cases Let_def)

text \<open>Reading the candidates back panics exactly when some member has fewer than eight fields,
  and reading immature or matured blocks exactly when one has fewer than ten.\<close>

theorem short_members_panic:
  "(is_panic (convertCandidateResults raw) \<longleftrightarrow> (\<exists>v \<in> set raw. length (split_on CHR '':'' (snd v)) < 8)) \<and>
   (is_panic (convertBlockResults rows) \<longleftrightarrow>
      (\<exists>v \<in> set (concat rows). length (split_on CHR '':'' (snd v)) < 10))"
  unfolding convertCandidateResults_def convertBlockResults_def
  by (simp add: mapG_panic_iff convertCandidate_panic convertBlock_panic)

lemma short_members_panic_witness:
  "is_panic (convertBlockResults [[(12, ''0:0:0x0:0x0:14:200:200:0'')]])"
  using short_members_panic [of "[]" "[[(12, ''0:0:0x0:0x0:14:200:200:0'')]]"] by simp

subsection \<open>The payout lock\<close>



subsection \<open>A credit log that cannot be read\<close>

text \<open>C40: When reading the credit log of an orphaned block fails, the error is ignored: the
  transaction deletes the log without taking back a single credit, so the immature amounts of that
  block stay on the accounts for ever.\<close>

theorem unread_log_is_dropped:
  assumes "Watch rd db (creditKey p b) = (None, db1)" "Do rd db1 (HGetAllMap (creditKey p b)) = (RErr e, db2)"
    and "rngs fmempty = []"
  shows "WriteOrphan rd rngs p db b =
    (let (out, db3) = Exec rd db2 (writeMaturedBlock p b @
       [Del (creditKey p b), HIncrBy (formatKey p [JStr ''finances'']) ''immature'' 0])
     in (exec_err out, db3))"
  using assms
  by (simp add: WriteOrphan_def WriteOrphan_cmds_def immature_decrements_def total_immature_def sum64_def)

definition broken_log :: "mem redis" where
  "broken_log = mem_redis\<lparr>Do := (\<lambda>db c. (RErr ErrEOF, db))\<rparr>"

lemma unread_log_is_dropped_witness:
  "fmlookup (snd (WriteOrphan broken_log ascending ''xmr''
     (fmupd (creditKey ''xmr'' zero_block_data) (VHash (fmupd ''a'' ''7'' fmempty)) fmempty) zero_block_data))
     (creditKey ''xmr'' zero_block_data) = None"
  by (subst unread_log_is_dropped [where e = ErrEOF])
    (auto simp: broken_log_def mem_redis_def mem_exec_def split_beta Let_def
      on_hash_def hash_at_def key_defs zero_block_data_def writeMaturedBlock_def on_zset_def zset_at_def z_put_def
      split: option.splits)

subsection \<open>The shares of a block\<close>

lemma no_C_format_int: "CHR ''C'' \<notin> set (format_int h)"
proof
  assume "CHR ''C'' \<in> set (format_int h)"
  then obtain n where "CHR ''C'' \<in> set (show_nat n)" by (auto simp: format_int_def split: if_splits)
  then obtain d where "d < 10" "CHR ''C'' = dec_digit d" using set_show_nat by blast
  then have "digit_value (CHR ''C'') = Some d" by simp
  then show False by (simp add: digit_value_def Let_def split: if_splits)
qed

lemma round_key_ne [simp]:
  "formatRound p h n \<noteq> formatKey p [JStr ''shares'', JStr ''roundCurrent'']"
proof
  assume eq: "formatRound p h n = formatKey p [JStr ''shares'', JStr ''roundCurrent'']"
  have "format_int h \<noteq> []" by (simp add: format_int_def)
  then obtain c cs where f: "format_int h = c # cs" by (cases "format_int h") auto
  then have "c \<noteq> CHR ''C''" using no_C_format_int [of h] by auto
  then show False using eq f by (simp add: formatRound_def formatKey_def join_def)
qed

lemma pow_key_ne [simp]: "formatKey p [JStr ''pow''] \<noteq> formatKey p [JStr ''shares'', JStr ''roundCurrent'']"
  by (simp add: formatKey_def join_def)

lemma checkPoWExist_other:
  "k \<noteq> formatKey p [JStr ''pow''] \<Longrightarrow>
   fmlookup (snd (checkPoWExist mem_redis p db h params)) k = fmlookup db k"
  by (simp add: checkPoWExist_def Let_def split_beta mem_do_other del: mem_do.simps)

definition round_cmds ::
  "string \<Rightarrow> int \<Rightarrow> int \<Rightarrow> string \<Rightarrow> string \<Rightarrow> int \<Rightarrow> int \<Rightarrow> redis_cmd list" where
  "round_cmds p ms ts login wid diff window =
     tl (writeShare p ms ts login wid diff window) @
     [HSet (formatKey p [JStr ''stats'']) ''lastBlockFound'' (format_int ts),
      HDel (formatKey p [JStr ''stats'']) ''roundShares'',
      ZIncrBy (formatKey p [JStr ''finders'']) 1 login,
      HIncrBy (formatKey p [JStr ''miners'', JStr login]) ''blocksFound'' 1]"

lemma WriteBlock_cmds_eq:
  "WriteBlock_cmds p ms ts login wid nonce diff height window =
     ((HIncrBy (formatKey p [JStr ''shares'', JStr ''roundCurrent'']) login diff #
       round_cmds p ms ts login wid diff window) @
      [Rename (formatKey p [JStr ''shares'', JStr ''roundCurrent'']) (formatRound p (int_of_u64 height) nonce)]) @
     [HGetAllMap (formatRound p (int_of_u64 height) nonce)]"
  by (simp add: WriteBlock_cmds_def round_cmds_def writeShare_def)

lemma length_round_cmds [simp]: "length (round_cmds p ms ts login wid diff window) = 8"
  by (simp add: round_cmds_def writeShare_def)

lemma round_cmds_other:
  "\<forall>c \<in> set (round_cmds p ms ts login wid diff window). formatKey p [JStr ''shares'', JStr ''roundCurrent''] \<notin> touched c"
  by (simp add: round_cmds_def writeShare_def formatKey_def join_def)

text \<open>The last reply of the transaction is the round, with this share in it, and so is the round's hash.\<close>

lemma WriteBlock_replies:
  fixes p :: string and height :: u64 and nonce :: string
  defines "cur \<equiv> formatKey p [JStr ''shares'', JStr ''roundCurrent'']"
  assumes "hash_at db cur = Some m"
    and "parse_int (case fmlookup m login of None \<Rightarrow> ''0'' | Some s \<Rightarrow> s) = (old, NumOk)" "in_i64 (old + diff)"
    and "mem_exec db (WriteBlock_cmds p ms ts login wid nonce diff height w) = (Inr reps, db')"
  shows "length reps = 11 \<and> reps ! 10 = RMap (fmupd login (format_int (old + diff)) m) \<and>
    hash_at db' (formatRound p (int_of_u64 height) nonce) = Some (fmupd login (format_int (old + diff)) m)"
proof -
  let ?rk = "formatRound p (int_of_u64 height) nonce"
  let ?m' = "fmupd login (format_int (old + diff)) m"
  let ?cs = "HIncrBy cur login diff # round_cmds p ms ts login wid diff w"
  define db9 where "db9 = snd (mem_all db ?cs)"
  have "mem_do db (HIncrBy cur login diff) = (RInt (old + diff), fmupd cur (VHash ?m') db)"
    using assms(2,3,4) by (simp add: on_hash_def)
  then have "db9 = snd (mem_all (fmupd cur (VHash ?m') db) (round_cmds p ms ts login wid diff w))"
    by (simp add: db9_def split_beta Let_def del: mem_do.simps)
  then have "fmlookup db9 cur = Some (VHash ?m')"
    using mem_all_other [OF round_cmds_other [of p ms ts login wid diff w], of "fmupd cur (VHash ?m') db"]
    by (simp add: cur_def)
  then have ren: "mem_do db9 (Rename cur ?rk) = (RStr ''OK'', fmupd ?rk (VHash ?m') (fmdrop cur db9))"
    by simp
  have "reps = fst (mem_all db (WriteBlock_cmds p ms ts login wid nonce diff height w))"
    using assms(5) by (auto simp: mem_exec_def split: prod.splits list.splits)
  also have "\<dots> = fst (mem_all db ?cs) @ [RStr ''OK'', RMap ?m']"
    unfolding WriteBlock_cmds_eq mem_all_snoc fst_conv snd_conv cur_def [symmetric] db9_def [symmetric] ren
    by (simp add: on_hash_def hash_at_def)
  finally have reps: "reps = fst (mem_all db ?cs) @ [RStr ''OK'', RMap ?m']" .
  have "db' = snd (mem_all db (WriteBlock_cmds p ms ts login wid nonce diff height w))"
    using assms(5) mem_exec_db by (metis snd_conv)
  also have "\<dots> = fmupd ?rk (VHash ?m') (fmdrop cur db9)"
    unfolding WriteBlock_cmds_eq mem_all_snoc fst_conv snd_conv cur_def [symmetric] db9_def [symmetric] ren
    by (simp add: on_hash_def hash_at_def)
  finally show ?thesis using reps by (simp add: nth_append hash_at_def del: mem_all.simps)
qed

text \<open>The candidate that \<open>WriteBlock\<close> records carries the shares of the whole round: the sum, as
  64-bit integers, over all miners' counters of the current round with this share already added.\<close>

theorem block_counts_round:
  assumes "hash_at db (formatKey p [JStr ''shares'', JStr ''roundCurrent'']) = Some m"
    and "parse_int (case fmlookup m login of None \<Rightarrow> ''0'' | Some s \<Rightarrow> s) = (old, NumOk)" "in_i64 (old + diff)"
    and "WriteBlock mem_redis rng p now db login wid (nonce # ps) diff rdiff height cb fee w = (Ok (False, None), db')"
  shows "\<exists>z. zset_at db' (formatKey p [JStr ''blocks'', JStr ''candidates'']) = Some z \<and>
    (f64 (uint height), candidate_member (nonce # ps) (now div 1000) rdiff
       (wrap64 (\<Sum>(_, v) \<leftarrow> rng (fmupd login (format_int (old + diff)) m). fst (parse_int v))) cb fee) \<in> set z"
proof -
  let ?m' = "fmupd login (format_int (old + diff)) m"
  obtain ex e db1 where c: "checkPoWExist mem_redis p db height (nonce # ps) = ((ex, e), db1)"
    by (metis prod.exhaust)
  with assms(4) have ex: "\<not> ex" "e = None" by (auto simp: WriteBlock_def split: option.splits bool.splits)
  have "hash_at db1 (formatKey p [JStr ''shares'', JStr ''roundCurrent'']) = Some m"
    using assms(1) checkPoWExist_other [OF pow_key_ne [symmetric], of p db height "nonce # ps"] c
    by (auto cong: hash_at_cong)
  moreover obtain out db2 where x:
      "mem_exec db1 (WriteBlock_cmds p now (now div 1000) login wid nonce diff height w) = (out, db2)"
    by (metis prod.exhaust)
  moreover from assms(4) c ex x obtain reps where "out = Inr reps"
    by (auto simp: WriteBlock_def split: sum.splits)
  ultimately have r: "length reps = 11" "reps ! 10 = RMap ?m'"
    using WriteBlock_replies [OF _ assms(2,3)] by blast+
  show ?thesis
    using assms(4) c ex x r \<open>out = Inr reps\<close>
    by (auto simp: WriteBlock_def Let_def total_shares_def sum64_eq on_zset_def wrongtype_def
        split: option.splits)
qed

lemma sample_WriteBlock:
  "fst (WriteBlock mem_redis ascending ''xmr'' 5000 fmempty ''a'' ''rig'' [''0a'', ''0b'', ''0c''] 70 1000 100 600 10 600) =
     Ok (False, None)"
  by (simp add: WriteBlock_def checkPoWExist_def WriteBlock_cmds_def writeShare_def mem_exec_def on_hash_def
      hash_at_def on_zset_def zset_at_def List.map_filter_def key_defs in_i64_def z_put_def z_remove_def
      z_member_def z_score_def Let_def)

lemma block_counts_round_witness:
  "\<exists>z. zset_at (snd (WriteBlock mem_redis ascending ''xmr'' 5000 fmempty ''a'' ''rig'' [''0a'', ''0b'', ''0c''] 70 1000 100 600 10 600))
       (formatKey ''xmr'' [JStr ''blocks'', JStr ''candidates'']) = Some z \<and>
     (f64 (uint (100 :: u64)), candidate_member [''0a'', ''0b'', ''0c''] (5000 div 1000) 1000
       (wrap64 (\<Sum>(_, v) \<leftarrow> ascending (fmupd ''a'' (format_int (0 + 70)) fmempty). fst (parse_int v))) 600 10) \<in> set z"
  by (rule block_counts_round [where old = 0 and m = fmempty])
    (use sample_WriteBlock in \<open>auto simp: hash_at_def in_i64_def prod_eq_iff\<close>)

end
