(* ===== verification/Stats.thy ===== *)
theory Stats
  imports Readers Util
begin

text \<open>
  \<open>storage/redis.go\<close>, the statistics: hash rates per login and per worker, the lists and counters of
  the status pages, the luck of the latest blocks and the purge of old hash rate entries.  The clock
  \<open>now\<close> is in milliseconds and a \<open>time.Duration\<close> in nanoseconds.
\<close>

definition seconds :: "int \<Rightarrow> int" where
  "seconds d = go_quot d 1000000000"

text \<open>Go's \<open>int64\<close> division: truncating, a panic when the divisor is 0.\<close>

definition int_div :: "int \<Rightarrow> int \<Rightarrow> int go" where
  "int_div a b = (if b = 0 then Panic ''integer divide by zero'' else Ok (wrap64 (go_quot a b)))"

subsection \<open>Maps and payments\<close>

datatype stat_value = StatInt int | StatStr string

definition convertStringMap :: "(string, string) fmap \<Rightarrow> (string, stat_value) fmap" where
  "convertStringMap m =
     fmmap (\<lambda>v. case parse_int v of (n, NumOk) \<Rightarrow> StatInt n | _ \<Rightarrow> StatStr v) m"

record PaymentRow =
  Pay_timestamp :: int
  Pay_tx :: string
  Pay_address :: "string option"
  Pay_amount :: int

definition convertPayment :: "int \<times> string \<Rightarrow> PaymentRow go" where
  "convertPayment v =
     (let fields = split_on CHR '':'' (snd v)
      in bindG (index_go fields 0) (\<lambda>tx.
         if length fields < 3 then
           bindG (index_go fields 1) (\<lambda>amount.
           Ok \<lparr>Pay_timestamp = i64_of_f64 (fst v), Pay_tx = tx, Pay_address = None, Pay_amount = parse64 amount\<rparr>)
         else
           bindG (index_go fields 1) (\<lambda>address.
           bindG (index_go fields 2) (\<lambda>amount.
           Ok \<lparr>Pay_timestamp = i64_of_f64 (fst v), Pay_tx = tx, Pay_address = Some address,
              Pay_amount = parse64 amount\<rparr>))))"

definition convertPaymentsResults :: "(int \<times> string) list \<Rightarrow> PaymentRow list go" where
  "convertPaymentsResults raw = mapG convertPayment raw"

subsection \<open>Hash rates\<close>

text \<open>The storage layer's own \<open>Miner\<close> and \<open>Worker\<close>, the latter extending the former.\<close>

record HrMiner =
  Hr_LastBeat :: int
  Hr_HR :: int
  Hr_Offline :: bool
  Hr_startedAt :: int

record Worker = HrMiner +
  Wk_TotalHR :: int

definition zero_hr :: HrMiner where
  "zero_hr = \<lparr>Hr_LastBeat = 0, Hr_HR = 0, Hr_Offline = False, Hr_startedAt = 0\<rparr>"

definition zero_worker :: Worker where
  "zero_worker = \<lparr>Hr_LastBeat = 0, Hr_HR = 0, Hr_Offline = False, Hr_startedAt = 0, Wk_TotalHR = 0\<rparr>"

text \<open>The share and the id of a member and the time that is its score.\<close>

definition hr_entry :: "int \<times> string \<Rightarrow> (int \<times> string \<times> int) go" where
  "hr_entry v =
     (let parts = split_on CHR '':'' (snd v)
      in bindG (index_go parts 0) (\<lambda>share.
         bindG (index_go parts 1) (\<lambda>wid. Ok (parse64 share, wid, i64_of_f64 (fst v)))))"

definition note_beat :: "int \<Rightarrow> 'a HrMiner_scheme \<Rightarrow> 'a HrMiner_scheme" where
  "note_beat score m =
     (let m = (if Hr_LastBeat m < score then m\<lparr>Hr_LastBeat := score\<rparr> else m)
      in if score < Hr_startedAt m \<or> Hr_startedAt m = 0 then m\<lparr>Hr_startedAt := score\<rparr> else m)"

text \<open>The loops over the members: \<open>worker := workers[id]\<close>, an update and \<open>workers[id] = worker\<close>.\<close>

definition add_share :: "int \<Rightarrow> int \<Rightarrow> HrMiner \<Rightarrow> HrMiner" where
  "add_share share score m = note_beat score (m\<lparr>Hr_HR := wrap64 (Hr_HR m + share)\<rparr>)"

definition add_worker_share :: "int \<Rightarrow> int \<Rightarrow> int \<Rightarrow> int \<Rightarrow> Worker \<Rightarrow> Worker" where
  "add_worker_share now window share score w =
     (let w = w\<lparr>Wk_TotalHR := wrap64 (Wk_TotalHR w + share)\<rparr>;
          w = (if wrap64 (now - window) \<le> score then w\<lparr>Hr_HR := wrap64 (Hr_HR w + share)\<rparr> else w)
      in note_beat score w)"

fun gather :: "'m \<Rightarrow> (int \<Rightarrow> int \<Rightarrow> 'm \<Rightarrow> 'm) \<Rightarrow> (int \<times> string) list \<Rightarrow> (string, 'm) fmap \<Rightarrow> (string, 'm) fmap go" where
  "gather zero upd [] m = Ok m"
| "gather zero upd (v # raw) m =
     bindG (hr_entry v) (\<lambda>(share, wid, score).
     gather zero upd raw
       (fmupd wid (upd share score (case fmlookup m wid of None \<Rightarrow> zero | Some x \<Rightarrow> x)) m))"

definition convertWorkersStats :: "int \<Rightarrow> int \<Rightarrow> (int \<times> string) list \<Rightarrow> (string, Worker) fmap go" where
  "convertWorkersStats now window raw =
     gather zero_worker (add_worker_share (now div 1000) window) raw fmempty"

text \<open>The seconds a rate is taken over: since the first share, at least ten minutes, at most the window.\<close>

definition rate_boundary :: "int \<Rightarrow> int \<Rightarrow> int \<Rightarrow> int" where
  "rate_boundary now window startedAt =
     (let timeOnline = wrap64 (now - startedAt);
          timeOnline = (if timeOnline < 600 then 600 else timeOnline)
      in if window \<le> timeOnline then window else timeOnline)"

fun finish_miners ::
  "int \<Rightarrow> int \<Rightarrow> (string \<times> HrMiner) list \<Rightarrow> int \<Rightarrow> (string, HrMiner) fmap \<Rightarrow> (int \<times> (string, HrMiner) fmap) go" where
  "finish_miners now window [] tot miners = Ok (tot, miners)"
| "finish_miners now window ((wid, m) # rest) tot miners =
     bindG (int_div (Hr_HR m) (rate_boundary now window (Hr_startedAt m))) (\<lambda>hr.
     let m = m\<lparr>Hr_HR := hr\<rparr>;
         m = (if Hr_LastBeat m < wrap64 (now - go_quot window 2) then m\<lparr>Hr_Offline := True\<rparr> else m)
     in finish_miners now window rest (wrap64 (tot + hr)) (fmupd wid m miners))"

definition convertMinersStats ::
  "((string, HrMiner) fmap \<Rightarrow> (string \<times> HrMiner) list) \<Rightarrow> int \<Rightarrow> int \<Rightarrow> (int \<times> string) list \<Rightarrow>
   (int \<times> (string, HrMiner) fmap) go" where
  "convertMinersStats rng now window raw =
     bindG (gather zero_hr add_share raw fmempty) (\<lambda>miners.
     finish_miners (now div 1000) window (rng miners) 0 miners)"

subsection \<open>A miner's page\<close>

record MinerStats =
  MS_stats :: "(string, stat_value) fmap"
  MS_payments :: "PaymentRow list"
  MS_paymentsTotal :: int
  MS_roundShares :: int

definition GetMinerStats_cmds :: "string \<Rightarrow> string \<Rightarrow> int \<Rightarrow> redis_cmd list" where
  "GetMinerStats_cmds p login maxPayments =
     [HGetAllMap (formatKey p [JStr ''miners'', JStr login]),
      ZRevRangeWithScores (formatKey p [JStr ''payments'', JStr login]) 0 (wrap64 (maxPayments - 1)),
      ZCard (formatKey p [JStr ''payments'', JStr login]),
      HGet (formatKey p [JStr ''shares'', JStr ''roundCurrent'']) login]"

text \<open>A login without shares in the round makes the last command give \<open>redis.Nil\<close>; that is no error.\<close>

definition GetMinerStats :: "'db redis \<Rightarrow> string \<Rightarrow> 'db \<Rightarrow> string \<Rightarrow> int \<Rightarrow> MinerStats go \<times> 'db" where
  "GetMinerStats rd p db login maxPayments =
     (let ((cmds, err), db) = ExecAll rd db (GetMinerStats_cmds p login maxPayments)
      in (case err of
            Some (ErrMsg e) \<Rightarrow> Fail (ErrMsg e)
          | Some ErrEOF \<Rightarrow> Fail ErrEOF
          | _ \<Rightarrow>
              bindG (index_go cmds 0) (\<lambda>c0.
              bindG (index_go cmds 1) (\<lambda>c1.
              bindG (convertPaymentsResults (z_val c1)) (\<lambda>payments.
              bindG (index_go cmds 2) (\<lambda>c2.
              bindG (index_go cmds 3) (\<lambda>c3.
              Ok \<lparr>MS_stats = convertStringMap (map_val c0), MS_payments = payments,
                 MS_paymentsTotal = int_val c2, MS_roundShares = parse64 (str_val c3)\<rparr>))))), db))"

subsection \<open>The purge\<close>

definition purge_bound :: "int \<Rightarrow> int \<Rightarrow> string" where
  "purge_bound now window = ''('' @ format_int (wrap64 (now - window))"

text \<open>
  The keys of one scan reply: each login not seen before is purged once.  The result carries the
  logins seen, the count so far and the error that ended the loop, if one did.
\<close>

fun flush_keys ::
  "'db redis \<Rightarrow> string \<Rightarrow> string \<Rightarrow> 'db \<Rightarrow> string list \<Rightarrow> string fset \<Rightarrow> int \<Rightarrow>
   (string fset \<times> int \<times> go_error option) go \<times> 'db" where
  "flush_keys rd p mx db [] seen tot = (Ok (seen, tot, None), db)"
| "flush_keys rd p mx db (row # keys) seen tot =
     (case index_go (split_on CHR '':'' row) 2 of
        Fail e \<Rightarrow> (Fail e, db)
      | Panic q \<Rightarrow> (Panic q, db)
      | Ok login \<Rightarrow>
          if login |\<in>| seen then flush_keys rd p mx db keys seen tot
          else
            (let (r, db) = Do rd db (ZRemRangeByScore (formatKey p [JStr ''hashrate'', JStr login]) ''-inf'' mx)
             in case reply_err r of
                  Some e \<Rightarrow> (Ok (seen, tot, Some e), db)
                | None \<Rightarrow> flush_keys rd p mx db keys (finsert login seen) (wrap64 (tot + int_val r))))"

text \<open>The scan ends when the server answers cursor 0.\<close>

partial_function (option) flush_loop ::
  "'db redis \<Rightarrow> string \<Rightarrow> string \<Rightarrow> 'db \<Rightarrow> int \<Rightarrow> string fset \<Rightarrow> int \<Rightarrow> ((int \<times> go_error option) go \<times> 'db) option" where
  [code]: "flush_loop rd p mx db c seen tot =
     (let (r, db) = Do rd db (Scan c (formatKey p [JStr ''hashrate'', JStr ''*'']) 100)
      in case reply_err r of
           Some e \<Rightarrow> Some (Ok (tot, Some e), db)
         | None \<Rightarrow>
             (case flush_keys rd p mx db (snd (scan_val r)) seen tot of
                (Ok (seen, tot, None), db) \<Rightarrow>
                  if fst (scan_val r) = 0 then Some (Ok (tot, None), db)
                  else flush_loop rd p mx db (fst (scan_val r)) seen tot
              | (Ok (_, tot, Some e), db) \<Rightarrow> Some (Ok (tot, Some e), db)
              | (Fail e, db) \<Rightarrow> Some (Fail e, db)
              | (Panic q, db) \<Rightarrow> Some (Panic q, db)))"

text \<open>One of the three global sets: stop with the count and the error, or go on with the count.\<close>

definition flush_set ::
  "'db redis \<Rightarrow> string \<Rightarrow> string \<Rightarrow> string \<Rightarrow> int \<Rightarrow> 'db \<Rightarrow>
   (int \<Rightarrow> 'db \<Rightarrow> ((int \<times> go_error option) go \<times> 'db) option) \<Rightarrow> ((int \<times> go_error option) go \<times> 'db) option" where
  "flush_set rd p key mx tot db f =
     (let (r, db) = Do rd db (ZRemRangeByScore (formatKey p [JStr key]) ''-inf'' mx)
      in case reply_err r of Some e \<Rightarrow> Some (Ok (tot, Some e), db) | None \<Rightarrow> f (wrap64 (tot + int_val r)) db)"

definition FlushStaleStats ::
  "'db redis \<Rightarrow> string \<Rightarrow> int \<Rightarrow> 'db \<Rightarrow> int \<Rightarrow> int \<Rightarrow> ((int \<times> go_error option) go \<times> 'db) option" where
  "FlushStaleStats rd p now db window largeWindow =
     (let sec = now div 1000; mx = purge_bound sec (seconds window)
      in flush_set rd p ''hashrate'' mx 0 db (\<lambda>tot db.
         flush_set rd p ''invalidhashrate'' mx tot db (\<lambda>tot db.
         flush_set rd p ''rejecthashrate'' mx tot db (\<lambda>tot db.
         flush_loop rd p (purge_bound sec (seconds largeWindow)) db 0 {||} tot))))"

subsection \<open>The status of the pool\<close>

record PoolStats =
  PS_stats :: "(string, stat_value) fmap"
  PS_candidates :: "BlockData list"
  PS_candidatesTotal :: int
  PS_immature :: "BlockData list"
  PS_immatureTotal :: int
  PS_matured :: "BlockData list"
  PS_maturedTotal :: int
  PS_payments :: "PaymentRow list"
  PS_paymentsTotal :: int
  PS_miners :: "(string, HrMiner) fmap"
  PS_minersTotal :: int
  PS_hashrate :: int

definition CollectStats_cmds :: "string \<Rightarrow> int \<Rightarrow> int \<Rightarrow> int \<Rightarrow> int \<Rightarrow> redis_cmd list" where
  "CollectStats_cmds p now window maxBlocks maxPayments =
     [ZRemRangeByScore (formatKey p [JStr ''hashrate'']) ''-inf'' (purge_bound now window),
      ZRangeWithScores (formatKey p [JStr ''hashrate'']) 0 (-1),
      HGetAllMap (formatKey p [JStr ''stats'']),
      ZRevRangeWithScores (formatKey p [JStr ''blocks'', JStr ''candidates'']) 0 (-1),
      ZRevRangeWithScores (formatKey p [JStr ''blocks'', JStr ''immature'']) 0 (-1),
      ZRevRangeWithScores (formatKey p [JStr ''blocks'', JStr ''matured'']) 0 (wrap64 (maxBlocks - 1)),
      ZCard (formatKey p [JStr ''blocks'', JStr ''candidates'']),
      ZCard (formatKey p [JStr ''blocks'', JStr ''immature'']),
      ZCard (formatKey p [JStr ''blocks'', JStr ''matured'']),
      ZCard (formatKey p [JStr ''payments'', JStr ''all'']),
      ZRevRangeWithScores (formatKey p [JStr ''payments'', JStr ''all'']) 0 (wrap64 (maxPayments - 1))]"

text \<open>The page from the replies; \<open>now\<close> is the clock when the hash rates are computed.\<close>

definition pool_stats ::
  "((string, HrMiner) fmap \<Rightarrow> (string \<times> HrMiner) list) \<Rightarrow> int \<Rightarrow> int \<Rightarrow> redis_reply list \<Rightarrow> PoolStats go" where
  "pool_stats rng now window cmds =
     bindG (index_go cmds 2) (\<lambda>c2.
     bindG (index_go cmds 3) (\<lambda>c3.
     bindG (convertCandidateResults (z_val c3)) (\<lambda>candidates.
     bindG (index_go cmds 6) (\<lambda>c6.
     bindG (index_go cmds 4) (\<lambda>c4.
     bindG (convertBlockResults [z_val c4]) (\<lambda>immature.
     bindG (index_go cmds 7) (\<lambda>c7.
     bindG (index_go cmds 5) (\<lambda>c5.
     bindG (convertBlockResults [z_val c5]) (\<lambda>matured.
     bindG (index_go cmds 8) (\<lambda>c8.
     bindG (index_go cmds 10) (\<lambda>c10.
     bindG (convertPaymentsResults (z_val c10)) (\<lambda>payments.
     bindG (index_go cmds 9) (\<lambda>c9.
     bindG (index_go cmds 1) (\<lambda>c1.
     bindG (convertMinersStats rng now window (z_val c1)) (\<lambda>(totalHashrate, miners).
     Ok \<lparr>PS_stats = convertStringMap (map_val c2), PS_candidates = candidates,
        PS_candidatesTotal = int_val c6, PS_immature = immature, PS_immatureTotal = int_val c7,
        PS_matured = matured, PS_maturedTotal = int_val c8, PS_payments = payments,
        PS_paymentsTotal = int_val c9, PS_miners = miners,
        PS_minersTotal = int (fcard (fmdom miners)), PS_hashrate = totalHashrate\<rparr>)))))))))))))))"

definition CollectStats ::
  "'db redis \<Rightarrow> ((string, HrMiner) fmap \<Rightarrow> (string \<times> HrMiner) list) \<Rightarrow> string \<Rightarrow> int \<Rightarrow> int \<Rightarrow> 'db \<Rightarrow>
   int \<Rightarrow> int \<Rightarrow> int \<Rightarrow> PoolStats go \<times> 'db" where
  "CollectStats rd rng p now later db smallWindow maxBlocks maxPayments =
     (let window = seconds smallWindow;
          (out, db) = Exec rd db (CollectStats_cmds p (now div 1000) window maxBlocks maxPayments)
      in (case out of Inl e \<Rightarrow> Fail e | Inr cmds \<Rightarrow> pool_stats rng later window cmds, db))"

subsection \<open>The workers of a login\<close>

record WorkersStats =
  WS_workers :: "(string, Worker) fmap"
  WS_workersTotal :: int
  WS_workersOnline :: int
  WS_workersOffline :: int
  WS_hashrate :: int
  WS_currentHashrate :: int

definition CollectWorkersStats_cmds :: "string \<Rightarrow> int \<Rightarrow> int \<Rightarrow> string \<Rightarrow> redis_cmd list" where
  "CollectWorkersStats_cmds p now largeWindow login =
     [ZRemRangeByScore (formatKey p [JStr ''hashrate'', JStr login]) ''-inf'' (purge_bound now largeWindow),
      ZRangeWithScores (formatKey p [JStr ''hashrate'', JStr login]) 0 (-1)]"

text \<open>The loop that turns sums of shares into rates and counts who is online.\<close>

fun finish_workers ::
  "int \<Rightarrow> int \<Rightarrow> int \<Rightarrow> (string \<times> Worker) list \<Rightarrow> WorkersStats \<Rightarrow> WorkersStats go" where
  "finish_workers now small large [] st = Ok st"
| "finish_workers now small large ((wid, w) # rest) st =
     bindG (int_div (Hr_HR w) (rate_boundary now small (Hr_startedAt w))) (\<lambda>hr.
     bindG (int_div (Wk_TotalHR w) (rate_boundary now large (Hr_startedAt w))) (\<lambda>totalHR.
     let offline = Hr_LastBeat w < wrap64 (now - go_quot small 2);
         w = w\<lparr>Hr_HR := hr, Wk_TotalHR := totalHR\<rparr>;
         w = (if offline then w\<lparr>Hr_Offline := True\<rparr> else w)
     in finish_workers now small large rest
          (st\<lparr>WS_workersOnline := wrap64 (WS_workersOnline st + (if offline then 0 else 1)),
              WS_workersOffline := wrap64 (WS_workersOffline st + (if offline then 1 else 0)),
              WS_currentHashrate := wrap64 (WS_currentHashrate st + hr),
              WS_hashrate := wrap64 (WS_hashrate st + totalHR),
              WS_workers := fmupd wid w (WS_workers st)\<rparr>)))"

definition workers_stats ::
  "((string, Worker) fmap \<Rightarrow> (string \<times> Worker) list) \<Rightarrow> int \<Rightarrow> int \<Rightarrow> int \<Rightarrow> (string, Worker) fmap \<Rightarrow> WorkersStats go" where
  "workers_stats rng now small large workers =
     finish_workers now small large (rng workers)
       \<lparr>WS_workers = workers, WS_workersTotal = int (fcard (fmdom workers)), WS_workersOnline = 0,
        WS_workersOffline = 0, WS_hashrate = 0, WS_currentHashrate = 0\<rparr>"

definition CollectWorkersStats ::
  "'db redis \<Rightarrow> ((string, Worker) fmap \<Rightarrow> (string \<times> Worker) list) \<Rightarrow> string \<Rightarrow> int \<Rightarrow> int \<Rightarrow> 'db \<Rightarrow>
   int \<Rightarrow> int \<Rightarrow> string \<Rightarrow> WorkersStats go \<times> 'db" where
  "CollectWorkersStats rd rng p now later db sWindow lWindow login =
     (let small = seconds sWindow; large = seconds lWindow; sec = now div 1000;
          (out, db) = Exec rd db (CollectWorkersStats_cmds p sec large login)
      in (case out of
            Inl e \<Rightarrow> Fail e
          | Inr cmds \<Rightarrow>
              bindG (index_go cmds 1) (\<lambda>c1.
              bindG (convertWorkersStats later small (z_val c1)) (\<lambda>workers.
              workers_stats rng sec small large workers)), db))"

subsection \<open>Luck\<close>

record LuckRow =
  Lr_luck :: float64
  Lr_uncleRate :: float64
  Lr_orphanRate :: float64

text \<open>\<open>calcLuck\<close>: the loop over the blocks, which ends after \<open>mx\<close> of them, and the means.\<close>

fun luck_loop :: "int \<Rightarrow> int \<Rightarrow> BlockData list \<Rightarrow> int \<times> float64 \<times> float64 \<times> float64 \<Rightarrow> int \<times> float64 \<times> float64 \<times> float64" where
  "luck_loop i mx [] acc = acc"
| "luck_loop i mx (b # bs) (tot, diff, uncles, orphans) =
     (if mx - 1 < i then (tot, diff, uncles, orphans)
      else luck_loop (i + 1) mx bs
        (tot + 1, fl_add diff (fl_div (fl_of_int (BD_TotalShares b)) (fl_of_int (BD_Difficulty b))),
         if BD_Uncle b then fl_add uncles (Fin 1) else uncles,
         if BD_Orphan b then fl_add orphans (Fin 1) else orphans))"

definition calcLuck :: "BlockData list \<Rightarrow> int \<Rightarrow> int \<times> LuckRow" where
  "calcLuck blocks mx =
     (let (tot, diff, uncles, orphans) = luck_loop 0 mx blocks (0, Fin 0, Fin 0, Fin 0)
      in (tot,
          if 0 < tot then
            \<lparr>Lr_luck = fl_div diff (fl_of_int tot), Lr_uncleRate = fl_div uncles (fl_of_int tot),
             Lr_orphanRate = fl_div orphans (fl_of_int tot)\<rparr>
          else \<lparr>Lr_luck = diff, Lr_uncleRate = uncles, Lr_orphanRate = orphans\<rparr>))"

text \<open>A row per window, named after the number of blocks it counts, until the blocks run out.\<close>

fun luck_rows :: "BlockData list \<Rightarrow> int list \<Rightarrow> (string, LuckRow) fmap \<Rightarrow> (string, LuckRow) fmap" where
  "luck_rows blocks [] stats = stats"
| "luck_rows blocks (mx # windows) stats =
     (let (tot, row) = calcLuck blocks mx; stats = fmupd (format_int tot) row stats
      in if tot < mx then stats else luck_rows blocks windows stats)"

definition CollectLuckStats_cmds :: "string \<Rightarrow> int \<Rightarrow> redis_cmd list" where
  "CollectLuckStats_cmds p mx =
     [ZRevRangeWithScores (formatKey p [JStr ''blocks'', JStr ''immature'']) 0 (-1),
      ZRevRangeWithScores (formatKey p [JStr ''blocks'', JStr ''matured'']) 0 (wrap64 (mx - 1))]"

definition CollectLuckStats ::
  "'db redis \<Rightarrow> string \<Rightarrow> 'db \<Rightarrow> int list \<Rightarrow> (string, LuckRow) fmap go \<times> 'db" where
  "CollectLuckStats rd p db windows =
     (case windows of
        [] \<Rightarrow> (Panic ''index out of range'', db)
      | _ \<Rightarrow>
          (let (out, db) = Exec rd db (CollectLuckStats_cmds p (last windows))
           in (case out of
                 Inl e \<Rightarrow> Fail e
               | Inr cmds \<Rightarrow>
                   bindG (index_go cmds 0) (\<lambda>c0.
                   bindG (index_go cmds 1) (\<lambda>c1.
                   bindG (convertBlockResults [z_val c0, z_val c1]) (\<lambda>blocks.
                   Ok (luck_rows blocks windows fmempty)))), db)))"

end
