(* ===== verification/Stats_Correct.thy ===== *)
theory Stats_Correct
  imports Stats MemRedis
begin

text \<open>
  The statistics, proved: the hash rates are the ones a direct definition over the entries gives, the
  scans of the key space return when the server's cursors come to an end, and the purge removes what
  is out of the window and nothing else.
\<close>

subsection \<open>Gathering entries by id\<close>

text \<open>The shares of one id with their times, in the order of the log.\<close>

definition entries_of :: "string \<Rightarrow> (int \<times> string \<times> int) list \<Rightarrow> (int \<times> int) list" where
  "entries_of k es = map (\<lambda>(share, _, score). (share, score)) (filter (\<lambda>(_, wid, _). wid = k) es)"

lemma entries_of_simps [simp]:
  "entries_of k [] = []"
  "entries_of k ((share, wid, score) # es) =
     (if wid = k then (share, score) # entries_of k es else entries_of k es)"
  by (simp_all add: entries_of_def)

lemma set_entries_of: "(a, s) \<in> set (entries_of k es) \<longleftrightarrow> (a, k, s) \<in> set es"
  by (auto simp: entries_of_def image_iff)

lemma gather_lookup:
  "mapG hr_entry raw = Ok es \<Longrightarrow>
   \<exists>m'. gather zero upd raw m = Ok m' \<and>
     (\<forall>k. fmlookup m' k =
        (if entries_of k es = [] then fmlookup m k
         else Some (foldl (\<lambda>x (a, s). upd a s x) (case fmlookup m k of None \<Rightarrow> zero | Some x \<Rightarrow> x) (entries_of k es))))"
proof (induction raw arbitrary: m es)
  case (Cons v raw)
  obtain a w s es' where v: "hr_entry v = Ok (a, w, s)" "mapG hr_entry raw = Ok es'" "es = (a, w, s) # es'"
    using Cons.prems by (auto simp: bindG_Ok_iff)
  let ?m = "fmupd w (upd a s (case fmlookup m w of None \<Rightarrow> zero | Some x \<Rightarrow> x)) m"
  obtain m' where m': "gather zero upd raw ?m = Ok m'"
      "\<forall>k. fmlookup m' k = (if entries_of k es' = [] then fmlookup ?m k
        else Some (foldl (\<lambda>x (a, s). upd a s x) (case fmlookup ?m k of None \<Rightarrow> zero | Some x \<Rightarrow> x) (entries_of k es')))"
    using Cons.IH [OF v(2)] by blast
  then show ?case using v by auto
qed simp

subsection \<open>Rates\<close>

lemma go_quot_pos: "0 \<le> a \<Longrightarrow> 0 < b \<Longrightarrow> go_quot a b = a div b"
  by (cases "a = 0") (auto simp: go_quot_def)

lemma int_div_pos:
  assumes "0 \<le> a" "a < 2 ^ 63" "0 < b" shows "int_div a b = Ok (a div b)"
proof -
  have "0 \<le> a div b" "a div b \<le> a"
    using assms zdiv_mono2 [of a 1 b] by (simp_all add: pos_imp_zdiv_nonneg_iff)
  then have "in_i64 (a div b)" using assms(2) by (simp add: in_i64_def)
  then show ?thesis using assms by (simp add: int_div_def go_quot_pos)
qed

lemma rate_boundary_eq:
  assumes "0 \<le> now" "now < 2 ^ 63" "0 < first" "first < 2 ^ 63"
  shows "rate_boundary now window first = min window (max 600 (now - first))"
proof -
  have "wrap64 (now - first) = now - first" using assms by (simp add: in_i64_def)
  then show ?thesis by (auto simp: rate_boundary_def Let_def min_def max_def)
qed

text \<open>
  The entry of a login by a direct definition: its latest and first share, its shares over the seconds
  since the first, at least ten minutes and at most the window, and whether half a window passed since
  the latest.
\<close>

definition login_rate :: "int \<Rightarrow> int \<Rightarrow> (int \<times> int) list \<Rightarrow> HrMiner" where
  "login_rate now window ps =
     (let first = Min (snd ` set ps); latest = Max (snd ` set ps)
      in \<lparr>Hr_LastBeat = latest, Hr_HR = sum_list (map fst ps) div min window (max 600 (now - first)),
          Hr_Offline = (latest < now - window div 2), Hr_startedAt = first\<rparr>)"

lemma add_share_eq:
  "wrap64 (n + a) = n + a \<Longrightarrow> 0 < first \<Longrightarrow>
   add_share a s \<lparr>Hr_LastBeat = latest, Hr_HR = n, Hr_Offline = False, Hr_startedAt = first\<rparr> =
     \<lparr>Hr_LastBeat = max latest s, Hr_HR = n + a, Hr_Offline = False, Hr_startedAt = min first s\<rparr>"
  by (auto simp: add_share_def note_beat_def Let_def max_def min_def)

lemma fold_add_share:
  "ps \<noteq> [] \<Longrightarrow> \<forall>(a, s) \<in> set ps. 0 \<le> a \<and> 0 < s \<Longrightarrow> sum_list (map fst ps) < 2 ^ 63 \<Longrightarrow>
   foldl (\<lambda>x (a, s). add_share a s x) zero_hr ps =
     \<lparr>Hr_LastBeat = Max (snd ` set ps), Hr_HR = sum_list (map fst ps), Hr_Offline = False,
      Hr_startedAt = Min (snd ` set ps)\<rparr>"
proof (induction ps rule: rev_induct)
  case (snoc p ps)
  obtain a s where p: "p = (a, s)" by (cases p)
  have nn: "0 \<le> sum_list (map fst ps)" using snoc.prems(2) by (intro sum_list_nonneg) auto
  show ?case
  proof (cases "ps = []")
    case True
    with snoc.prems p show ?thesis
      by (simp add: add_share_def note_beat_def zero_hr_def Let_def in_i64_def)
  next
    case False
    have "0 < x" if "x \<in> snd ` set ps" for x using snoc.prems(2) that by auto
    then have pos: "0 < Min (snd ` set ps)" using False by simp
    have "foldl (\<lambda>x (a, s). add_share a s x) zero_hr ps =
       \<lparr>Hr_LastBeat = Max (snd ` set ps), Hr_HR = sum_list (map fst ps), Hr_Offline = False,
        Hr_startedAt = Min (snd ` set ps)\<rparr>"
      using snoc.IH False snoc.prems p by auto
    moreover have "wrap64 (sum_list (map fst ps) + a) = sum_list (map fst ps) + a"
      using snoc.prems p nn by (auto simp: in_i64_def)
    ultimately show ?thesis
      using p False pos by (simp add: add_share_eq max.commute min.commute)
  qed
qed simp

lemma finish_miners_eq:
  assumes "\<And>k m. (k, m) \<in> set xs \<Longrightarrow>
      int_div (Hr_HR m) (rate_boundary now window (Hr_startedAt m)) = Ok (hr m)"
    and "distinct (map fst xs)"
  shows "\<exists>ms. finish_miners now window xs (wrap64 tot) acc = Ok (wrap64 (tot + (\<Sum>(k, m) \<leftarrow> xs. hr m)), ms) \<and>
    (\<forall>k. fmlookup ms k = (case map_of xs k of None \<Rightarrow> fmlookup acc k
       | Some m \<Rightarrow> Some (m\<lparr>Hr_HR := hr m, Hr_Offline := Hr_Offline m \<or> Hr_LastBeat m < wrap64 (now - go_quot window 2)\<rparr>)))"
  using assms
proof (induction xs arbitrary: tot acc)
  case (Cons x xs)
  obtain k m where x: "x = (k, m)" by (cases x)
  let ?m = "m\<lparr>Hr_HR := hr m, Hr_Offline := Hr_Offline m \<or> Hr_LastBeat m < wrap64 (now - go_quot window 2)\<rparr>"
  have div: "int_div (Hr_HR m) (rate_boundary now window (Hr_startedAt m)) = Ok (hr m)"
    using Cons.prems(1) [of k m] x by simp
  have "finish_miners now window (x # xs) (wrap64 tot) acc =
      finish_miners now window xs (wrap64 (tot + hr m)) (fmupd k ?m acc)"
    using div by (simp add: x Let_def)
  moreover obtain ms where "finish_miners now window xs (wrap64 (tot + hr m)) (fmupd k ?m acc) =
        Ok (wrap64 (tot + hr m + (\<Sum>(k, m) \<leftarrow> xs. hr m)), ms)"
      "\<forall>k'. fmlookup ms k' = (case map_of xs k' of None \<Rightarrow> fmlookup (fmupd k ?m acc) k'
       | Some m \<Rightarrow> Some (m\<lparr>Hr_HR := hr m, Hr_Offline := Hr_Offline m \<or> Hr_LastBeat m < wrap64 (now - go_quot window 2)\<rparr>))"
    using Cons.IH [of "tot + hr m" "fmupd k ?m acc"] Cons.prems by auto
  moreover have "map_of xs k = None" using Cons.prems(2) x by (simp add: map_of_eq_None_iff)
  ultimately show ?case by (auto simp: x add.assoc split: option.splits)
qed simp

lemma hr_entry_score: "hr_entry v = Ok (a, k, s) \<Longrightarrow> in_i64 s"
  by (auto simp: hr_entry_def bindG_Ok_iff Let_def i64_of_f64_def in_i64_def)

lemma sum_entries_of:
  "finite K \<Longrightarrow> \<forall>(a, k, s) \<in> set es. k \<in> K \<Longrightarrow>
   (\<Sum>k \<in> K. sum_list (map fst (entries_of k es))) = sum_list (map fst es)"
proof (induction es)
  case (Cons e es)
  obtain a w s where e: "e = (a, w, s)" by (cases e)
  have "(\<Sum>k \<in> K. sum_list (map fst (entries_of k (e # es)))) =
      (\<Sum>k \<in> K. (if k = w then a else 0) + sum_list (map fst (entries_of k es)))"
    by (rule sum.cong) (auto simp: e)
  then show ?case using Cons e by (simp add: sum.distrib sum.delta)
qed simp

text \<open>C14: The hash rate of a login is what a direct definition over its entries gives: its shares over
  the seconds since the first of them, at least ten minutes and at most the window; the pool's rate is
  the sum of the logins' rates, and no entry is lost or counted twice.\<close>

theorem hash_rates:
  assumes "range_law rng" "mapG hr_entry raw = Ok es" "\<forall>(a, k, s) \<in> set es. 0 \<le> a \<and> 0 < s"
    and "sum_list (map fst es) < 2 ^ 63" "0 \<le> now" "now < 2 ^ 63" "0 < window" "window < 2 ^ 63"
  shows "\<exists>tot ms. convertMinersStats rng now window raw = Ok (tot, ms) \<and>
    (\<forall>k. fmlookup ms k = (if entries_of k es = [] then None
       else Some (login_rate (now div 1000) window (entries_of k es)))) \<and>
    tot = (\<Sum>k \<in> fset (fmdom ms). Hr_HR (the (fmlookup ms k)))"
proof -
  let ?n = "now div 1000"
  let ?sum = "\<lambda>k. sum_list (map fst (entries_of k es))"
  define first where "first k = Min (snd ` set (entries_of k es))" for k
  define b where "b k = min window (max 600 (?n - first k))" for k
  have n: "0 \<le> ?n" "?n < 2 ^ 63" using assms(5,6) by simp_all
  obtain g where g: "gather zero_hr add_share raw fmempty = Ok g"
      "\<And>k. fmlookup g k = (if entries_of k es = [] then None
        else Some (foldl (\<lambda>x (a, s). add_share a s x) zero_hr (entries_of k es)))"
    using gather_lookup [OF assms(2), of zero_hr add_share fmempty] by auto
  have K: "fset (fmdom g) = (\<lambda>(a, k, s). k) ` set es"
    using g(2) by (auto simp: fmlookup_dom_iff image_iff entries_of_def filter_empty_conv split: if_splits) force+
  have ok: "\<forall>(a, s) \<in> set (entries_of k es). 0 \<le> a \<and> 0 < s" for k
    using assms(3) by (auto simp: set_entries_of)
  then have nn: "0 \<le> ?sum k" for k by (fastforce intro!: sum_list_nonneg)
  have total: "(\<Sum>k \<in> fset (fmdom g). ?sum k) = sum_list (map fst es)"
    by (rule sum_entries_of) (auto simp: K intro: rev_image_eqI)
  have le: "?sum k < 2 ^ 63" for k
  proof (cases "k \<in> fset (fmdom g)")
    case True
    then have "?sum k \<le> (\<Sum>k \<in> fset (fmdom g). ?sum k)" by (intro member_le_sum nn) auto
    then show ?thesis using total assms(4) by simp
  next
    case False
    then have "entries_of k es = []" using g(2) by (auto simp: fmlookup_dom_iff split: if_splits)
    then show ?thesis by simp
  qed
  have m: "m = \<lparr>Hr_LastBeat = Max (snd ` set (entries_of k es)), Hr_HR = ?sum k, Hr_Offline = False,
      Hr_startedAt = first k\<rparr>" "entries_of k es \<noteq> []" if "fmlookup g k = Some m" for k m
    using that g(2) [of k] fold_add_share [OF _ ok [of k] le [of k]]
    by (auto simp: first_def split: if_splits)
  define hr where "hr m = Hr_HR m div min window (max 600 (?n - Hr_startedAt m))" for m :: HrMiner
  have first: "0 < first k" "first k < 2 ^ 63" if "entries_of k es \<noteq> []" for k
  proof -
    have "first k \<in> snd ` set (entries_of k es)" using that by (simp add: first_def)
    then obtain a where "(a, k, first k) \<in> set es" by (auto simp: set_entries_of)
    moreover have "in_i64 s" if "(a, k, s) \<in> set es" for a k s
      using mapG_Ok_in [OF assms(2) that] hr_entry_score by blast
    ultimately show "0 < first k" "first k < 2 ^ 63" using assms(3) by (auto simp: in_i64_def)
  qed
  have rate: "int_div (Hr_HR m) (rate_boundary ?n window (Hr_startedAt m)) = Ok (hr m)" "0 \<le> hr m" "hr m \<le> ?sum k"
    if "fmlookup g k = Some m" for k m
  proof -
    have b: "0 < min window (max 600 (?n - first k))" using assms(7) by simp
    show "int_div (Hr_HR m) (rate_boundary ?n window (Hr_startedAt m)) = Ok (hr m)"
      using m [OF that] first nn [of k] le [of k] b n by (simp add: hr_def rate_boundary_eq int_div_pos)
    show "0 \<le> hr m" "hr m \<le> ?sum k"
      using m [OF that] nn [of k] b zdiv_mono2 [of "?sum k" 1] by (simp_all add: hr_def pos_imp_zdiv_nonneg_iff)
  qed
  have "in_i64 (?n - window div 2)" using n assms(7,8) unfolding in_i64_def by linarith
  then have half: "wrap64 (?n - go_quot window 2) = ?n - window div 2"
    using assms(7) by (simp add: go_quot_pos)
  have "map_of (rng g) = fmlookup g" using assms(1) by (simp add: range_law_def)
  then obtain ms where ms: "finish_miners ?n window (rng g) (wrap64 0) g = Ok (wrap64 (0 + (\<Sum>(k, m) \<leftarrow> rng g. hr m)), ms)"
      "\<And>k. fmlookup ms k = (case fmlookup g k of None \<Rightarrow> fmlookup g k
        | Some m \<Rightarrow> Some (m\<lparr>Hr_HR := hr m, Hr_Offline := Hr_Offline m \<or> Hr_LastBeat m < ?n - window div 2\<rparr>))"
    using finish_miners_eq [of "rng g" ?n window hr 0 g, unfolded half] rate(1) range_law_distinct [OF assms(1)]
    by (auto simp: range_law_set [OF assms(1)])
  have dom: "fmdom ms = fmdom g" using ms(2) by (auto simp: fset_eq_iff fmlookup_dom_iff split: option.splits)
  have "Hr_HR (the (fmlookup ms k)) = hr (the (fmlookup g k))" if "k \<in> fset (fmdom g)" for k
    using that ms(2) [of k] by (auto simp: fmlookup_dom_iff)
  then have tot: "(\<Sum>(k, m) \<leftarrow> rng g. hr m) = (\<Sum>k \<in> fset (fmdom ms). Hr_HR (the (fmlookup ms k)))"
    by (simp add: range_sum [OF assms(1), of "\<lambda>_ m. hr m"] dom)
  have "0 \<le> (\<Sum>(k, m) \<leftarrow> rng g. hr m)" "(\<Sum>(k, m) \<leftarrow> rng g. hr m) \<le> sum_list (map fst es)"
    unfolding range_sum [OF assms(1), of "\<lambda>_ m. hr m"] total [symmetric]
    using rate(2,3) by (auto intro!: sum_nonneg sum_mono simp: fmlookup_dom_iff)
  then have "wrap64 (0 + (\<Sum>(k, m) \<leftarrow> rng g. hr m)) = (\<Sum>(k, m) \<leftarrow> rng g. hr m)"
    using assms(4) by (simp add: in_i64_def)
  moreover have "fmlookup ms k = (if entries_of k es = [] then None else Some (login_rate ?n window (entries_of k es)))" for k
  proof (cases "fmlookup g k")
    case (Some x)
    then show ?thesis using ms(2) [of k] m [OF Some] by (simp add: login_rate_def hr_def first_def)
  qed (use ms(2) [of k] g(2) [of k] in \<open>auto split: if_splits\<close>)
  ultimately show ?thesis
    using g(1) ms(1) tot by (simp add: convertMinersStats_def)
qed

lemma hash_rates_witness:
  "\<exists>tot ms. convertMinersStats ascending 2000000 3600
       [(1000, join [JInt 12000, JStr ''a'', JInt 1]), (1500, join [JInt 600, JStr ''a'', JInt 2])] = Ok (tot, ms) \<and>
     fmlookup ms ''a'' = Some \<lparr>Hr_LastBeat = 1500, Hr_HR = 12, Hr_Offline = False, Hr_startedAt = 1000\<rparr> \<and>
     fmlookup ms ''b'' = None"
proof -
  let ?raw = "[(1000, join [JInt 12000, JStr ''a'', JInt 1]), (1500, join [JInt 600, JStr ''a'', JInt 2])]"
  let ?es = "[(12000, ''a'', 1000), (600, ''a'', 1500)] :: (int \<times> string \<times> int) list"
  have "mapG hr_entry ?raw = Ok ?es" by (simp add: hr_entry_def split_join in_i64_def)
  from hash_rates [OF range_law_ascending this, of 2000000 3600] show ?thesis
    by (auto simp: login_rate_def)
qed

subsection \<open>The scans return\<close>

text \<open>Each answer to a scan fails, ends it or brings its cursor nearer to the end.\<close>

definition scan_ends :: "'db redis \<Rightarrow> (int \<Rightarrow> nat) \<Rightarrow> bool" where
  "scan_ends rd rank \<longleftrightarrow>
     (\<forall>db c pat n. let r = fst (Do rd db (Scan c pat n))
       in reply_err r \<noteq> None \<or> fst (scan_val r) = 0 \<or> rank (fst (scan_val r)) < rank c)"

lemma scan_endsD:
  "scan_ends rd rank \<Longrightarrow> Do rd db (Scan c pat n) = (r, db') \<Longrightarrow> reply_err r = None \<Longrightarrow>
   fst (scan_val r) \<noteq> 0 \<Longrightarrow> rank (fst (scan_val r)) < rank c"
  unfolding scan_ends_def Let_def by (metis fst_conv)

lemma payees_loop_returns: "scan_ends rd rank \<Longrightarrow> payees_loop rd p db c seen \<noteq> None"
proof (induction "rank c" arbitrary: db c seen rule: less_induct)
  case less
  obtain r db' where d: "Do rd db (Scan c (formatKey p [JStr ''miners'', JStr ''*'']) 100) = (r, db')"
    by (metis prod.exhaust)
  show ?case
    using less.hyps [OF scan_endsD [OF less.prems d]] less.prems
    by (subst payees_loop.simps) (simp add: d split: option.split go.split)
qed

lemma flush_loop_returns: "scan_ends rd rank \<Longrightarrow> flush_loop rd p mx db c seen tot \<noteq> None"
proof (induction "rank c" arbitrary: db c seen tot rule: less_induct)
  case less
  obtain r db' where d: "Do rd db (Scan c (formatKey p [JStr ''hashrate'', JStr ''*'']) 100) = (r, db')"
    by (metis prod.exhaust)
  show ?case
    using less.hyps [OF scan_endsD [OF less.prems d]] less.prems
    by (subst flush_loop.simps) (simp add: d split: option.split go.split prod.split)
qed

text \<open>C28: The two scans of the key space return on every server whose cursors come to an end, as a
  Redis server guarantees: \<open>GetPayees\<close> and \<open>FlushStaleStats\<close> then give a result, whatever the keys and
  however often a key is repeated.\<close>

theorem scans_return:
  assumes "scan_ends rd rank"
  shows "GetPayees rd rng p db \<noteq> None \<and> FlushStaleStats rd p now db window large \<noteq> None"
  using payees_loop_returns [OF assms] flush_loop_returns [OF assms]
  by (simp add: GetPayees_def FlushStaleStats_def flush_set_def Let_def split: prod.split option.split)

lemma scans_return_witness:
  "GetPayees mem_redis sorted_list_of_fset ''xmr'' fmempty \<noteq> None"
proof -
  have "scan_ends mem_redis (\<lambda>_. 0)" by (simp add: scan_ends_def)
  from scans_return [OF this] show ?thesis by blast
qed

subsection \<open>What the purge removes\<close>

lemma parse_bound_below [simp]: "in_i64 n \<Longrightarrow> parse_bound (CHR ''('' # format_int n) = Excl n"
  using parse_int_format_int [of n] by (simp add: parse_bound_def)

lemma purge_bound_keeps:
  "in_bounds ''-inf'' (purge_bound now window) e \<longleftrightarrow> fst e < wrap64 (now - window)"
  by (simp add: in_bounds_def purge_bound_def)

text \<open>One purge of a sorted set, on the reference server.\<close>

lemma mem_purge:
  "mem_do db (ZRemRangeByScore k ''-inf'' (purge_bound now window)) = (r, db1) \<Longrightarrow> reply_err r = None \<Longrightarrow>
   \<exists>z. zset_at db k = Some z \<and> zset_at db1 k = Some (filter (\<lambda>e. wrap64 (now - window) \<le> fst e) z) \<and>
     (\<forall>k'. k' \<noteq> k \<longrightarrow> fmlookup db1 k' = fmlookup db k')"
  by (auto simp: on_zset_def wrongtype_def purge_bound_keeps not_less Let_def split: option.splits)

abbreviation hashrate_key :: "string \<Rightarrow> string \<Rightarrow> string" where
  "hashrate_key p login \<equiv> formatKey p [JStr ''hashrate'', JStr login]"

lemma flush_keys_other:
  "flush_keys mem_redis p mx db keys seen tot = (out, db') \<Longrightarrow> k \<notin> range (hashrate_key p) \<Longrightarrow>
   fmlookup db' k = fmlookup db k"
proof (induction keys arbitrary: db seen tot)
  case (Cons row keys)
  have step: "fmlookup (snd (mem_do db (ZRemRangeByScore (hashrate_key p login) ''-inf'' mx))) k = fmlookup db k" for login
    by (rule mem_do_other) (use Cons.prems(2) in auto)
  show ?case
    using Cons.prems Cons.IH step
    by (auto simp: split_beta Let_def split: go.splits if_splits option.splits)
qed simp

lemma flush_loop_other:
  "flush_loop mem_redis p mx db c seen tot = Some (out, db') \<Longrightarrow> k \<notin> range (hashrate_key p) \<Longrightarrow>
   fmlookup db' k = fmlookup db k"
  by (subst (asm) flush_loop.simps)
    (auto simp: split: prod.splits go.splits option.splits dest: flush_keys_other)

text \<open>The three global sets, one after the other.\<close>

lemma flush_set_mem:
  assumes "flush_set mem_redis p key (purge_bound now window) tot db f = Some (Ok (n, None), db')"
  obtains z tot1 db1 where "zset_at db (formatKey p [JStr key]) = Some z"
    "zset_at db1 (formatKey p [JStr key]) = Some (filter (\<lambda>e. wrap64 (now - window) \<le> fst e) z)"
    "\<And>k. k \<noteq> formatKey p [JStr key] \<Longrightarrow> fmlookup db1 k = fmlookup db k"
    "f tot1 db1 = Some (Ok (n, None), db')"
proof -
  obtain r db1 where d: "mem_do db (ZRemRangeByScore (formatKey p [JStr key]) ''-inf'' (purge_bound now window)) = (r, db1)"
    by (metis prod.exhaust)
  then have "reply_err r = None" "f (wrap64 (tot + int_val r)) db1 = Some (Ok (n, None), db')"
    using assms by (auto simp: flush_set_def split: option.splits)
  with mem_purge [OF d] that show ?thesis by blast
qed

lemma zset_at_cong: "fmlookup db k = fmlookup db' k \<Longrightarrow> zset_at db k = zset_at db' k"
  by (simp add: zset_at_def)

definition global_sets :: "string list" where
  "global_sets = [''hashrate'', ''invalidhashrate'', ''rejecthashrate'']"

text \<open>A purge that ends without an error leaves in each of the three global sets of hash rate
  entries exactly the entries of the window, in their order, and changes no other key but the sets of
  single logins.\<close>

theorem purge_window:
  assumes "FlushStaleStats mem_redis p now db window large = Some (Ok (n, None), db')"
  shows "(\<forall>key \<in> set global_sets. \<exists>z. zset_at db (formatKey p [JStr key]) = Some z \<and>
      zset_at db' (formatKey p [JStr key]) = Some (filter (\<lambda>e. wrap64 (now div 1000 - seconds window) \<le> fst e) z)) \<and>
    (\<forall>k. k \<notin> range (hashrate_key p) \<and> (\<forall>key \<in> set global_sets. k \<noteq> formatKey p [JStr key]) \<longrightarrow>
      fmlookup db' k = fmlookup db k)"
proof -
  let ?k = "\<lambda>key. formatKey p [JStr key]"
  let ?keep = "filter (\<lambda>e :: int \<times> string. wrap64 (now div 1000 - seconds window) \<le> fst e)"
  have ne: "?k ''hashrate'' \<noteq> ?k ''invalidhashrate''" "?k ''hashrate'' \<noteq> ?k ''rejecthashrate''"
      "?k ''invalidhashrate'' \<noteq> ?k ''rejecthashrate''" "key \<in> set global_sets \<Longrightarrow> ?k key \<notin> range (hashrate_key p)" for key
    by (auto simp: key_defs global_sets_def)
  obtain z1 t1 db1 where 1: "zset_at db (?k ''hashrate'') = Some z1" "zset_at db1 (?k ''hashrate'') = Some (?keep z1)"
      "\<And>k. k \<noteq> ?k ''hashrate'' \<Longrightarrow> fmlookup db1 k = fmlookup db k"
      "flush_set mem_redis p ''invalidhashrate'' (purge_bound (now div 1000) (seconds window)) t1 db1 (\<lambda>tot db.
         flush_set mem_redis p ''rejecthashrate'' (purge_bound (now div 1000) (seconds window)) tot db (\<lambda>tot db.
         flush_loop mem_redis p (purge_bound (now div 1000) (seconds large)) db 0 {||} tot)) = Some (Ok (n, None), db')"
    using assms unfolding FlushStaleStats_def Let_def by (rule flush_set_mem) (blast intro: that)
  from 1(4) obtain z2 t2 db2 where 2: "zset_at db1 (?k ''invalidhashrate'') = Some z2"
      "zset_at db2 (?k ''invalidhashrate'') = Some (?keep z2)"
      "\<And>k. k \<noteq> ?k ''invalidhashrate'' \<Longrightarrow> fmlookup db2 k = fmlookup db1 k"
      "flush_set mem_redis p ''rejecthashrate'' (purge_bound (now div 1000) (seconds window)) t2 db2 (\<lambda>tot db.
         flush_loop mem_redis p (purge_bound (now div 1000) (seconds large)) db 0 {||} tot) = Some (Ok (n, None), db')"
    by (rule flush_set_mem) (blast intro: that)
  from 2(4) obtain z3 t3 db3 where 3: "zset_at db2 (?k ''rejecthashrate'') = Some z3"
      "zset_at db3 (?k ''rejecthashrate'') = Some (?keep z3)"
      "\<And>k. k \<noteq> ?k ''rejecthashrate'' \<Longrightarrow> fmlookup db3 k = fmlookup db2 k"
      "flush_loop mem_redis p (purge_bound (now div 1000) (seconds large)) db3 0 {||} t3 = Some (Ok (n, None), db')"
    by (rule flush_set_mem) (blast intro: that)
  have last: "fmlookup db' k = fmlookup db3 k" if "k \<notin> range (hashrate_key p)" for k
    by (rule flush_loop_other [OF 3(4) that])
  have "zset_at db' (?k ''hashrate'') = Some (?keep z1)" "zset_at db' (?k ''invalidhashrate'') = Some (?keep z2)"
      "zset_at db' (?k ''rejecthashrate'') = Some (?keep z3)" "zset_at db (?k ''invalidhashrate'') = Some z2"
      "zset_at db (?k ''rejecthashrate'') = Some z3"
    using 1 2 3 last [OF ne(4)] ne(1-3) by (simp_all add: global_sets_def zset_at_def)
  then show ?thesis
    using 1(1,3) 2(3) 3(3) last by (auto simp: global_sets_def)
qed

definition stale_db :: mem where
  "stale_db = fmupd (formatKey ''xmr'' [JStr ''hashrate'']) (VZset [(1000, ''old''), (1900, ''new'')]) fmempty"

lemma purge_stale_db:
  "\<exists>db. FlushStaleStats mem_redis ''xmr'' 2000000 stale_db 600000000000 3600000000000 = Some (Ok (1, None), db)"
proof -
  have b: "in_bounds ''-inf'' (purge_bound 2000 600) e \<longleftrightarrow> fst e < 1400" for e
    by (simp add: purge_bound_keeps in_i64_def)
  have s: "seconds 600000000000 = 600" by (simp add: seconds_def go_quot_pos)
  show ?thesis
    by (simp add: FlushStaleStats_def flush_set_def s on_zset_def zset_at_def stale_db_def b key_defs z_put_def
        flush_loop.simps [of mem_redis] glob_prefix_def in_i64_def)
qed

lemma purge_window_witness:
  "\<exists>db. FlushStaleStats mem_redis ''xmr'' 2000000 stale_db 600000000000 3600000000000 = Some (Ok (1, None), db) \<and>
     zset_at db (formatKey ''xmr'' [JStr ''hashrate'']) = Some [(1900, ''new'')]"
proof -
  obtain db where db: "FlushStaleStats mem_redis ''xmr'' 2000000 stale_db 600000000000 3600000000000 = Some (Ok (1, None), db)"
    using purge_stale_db by blast
  have "zset_at stale_db (formatKey ''xmr'' [JStr ''hashrate'']) = Some [(1000, ''old''), (1900, ''new'')]"
    by (simp add: stale_db_def zset_at_def)
  with db purge_window [OF db] show ?thesis
    by (auto simp: global_sets_def seconds_def go_quot_pos in_i64_def)
qed

end
