(* ===== verification/Bookkeeping.thy ===== *)
theory Bookkeeping
  imports Unlocker
begin

text \<open>
  The unlocker on top of the storage layer.  A session that comes to its end is a run of storage
  operations, and a run whose operations meet the callers' obligations of the ledger keeps the books.
\<close>

subsection \<open>Runs of storage operations\<close>

datatype storage_op =
    ReadHash string
  | ReadRange string string string
  | PendingOrphans "BlockData list"
  | Immature BlockData "(string, int) fmap"
  | Matured int BlockData "(string, int) fmap"
  | Orphaned BlockData

definition succeeded :: "unit go \<times> 'db \<Rightarrow> 'db option" where
  "succeeded r = (case r of (Ok _, db) \<Rightarrow> Some db | _ \<Rightarrow> None)"

lemma succeeded_Some: "succeeded r = Some db \<longleftrightarrow> r = (Ok (), db)"
  by (auto simp: succeeded_def split: prod.splits go.splits)

text \<open>The database after an operation, if it succeeds.\<close>

fun apply_op :: "'db backend \<Rightarrow> storage_op \<Rightarrow> 'db \<Rightarrow> 'db option" where
  "apply_op be (ReadHash k) db = Some (snd (Do (Rd be) db (HGetAllMap k)))"
| "apply_op be (ReadRange k lo hi) db = Some (snd (Do (Rd be) db (ZRangeByScoreWithScores k lo hi)))"
| "apply_op be (PendingOrphans bs) db = succeeded (WritePendingOrphans (Rd be) (Prefix be) db bs)"
| "apply_op be (Immature b rw) db = succeeded (WriteImmatureBlock (Rd be) (RngI be) (Prefix be) db b rw)"
| "apply_op be (Matured now b rw) db =
     succeeded (WriteMaturedBlock (Rd be) (RngS be) (RngI be) (Prefix be) now db b rw)"
| "apply_op be (Orphaned b) db = succeeded (WriteOrphan (Rd be) (RngS be) (Prefix be) db b)"

fun run_ops :: "'db backend \<Rightarrow> storage_op list \<Rightarrow> 'db \<Rightarrow> 'db option" where
  "run_ops be [] db = Some db"
| "run_ops be (op # ops) db = Option.bind (apply_op be op db) (run_ops be ops)"

lemma run_ops_append [simp]:
  "run_ops be (xs @ ys) db = Option.bind (run_ops be xs db) (run_ops be ys)"
  by (induction xs arbitrary: db) (auto split: Option.bind_split)

text \<open>The obligations of the ledger, checked at each operation of a run.\<close>

fun op_ok :: "'db backend \<Rightarrow> string set \<Rightarrow> storage_op \<Rightarrow> 'db \<Rightarrow> bool" where
  "op_ok be logins (Immature b rw) db \<longleftrightarrow> rewards_ok (RngI be) logins rw"
| "op_ok be logins (Matured now b rw) db \<longleftrightarrow>
     log_ok (Rd be) (RngS be) (Prefix be) logins db b \<and> rewards_ok (RngI be) logins rw"
| "op_ok be logins (Orphaned b) db \<longleftrightarrow> log_ok (Rd be) (RngS be) (Prefix be) logins db b"
| "op_ok be logins _ db \<longleftrightarrow> True"

fun ops_ok :: "'db backend \<Rightarrow> string set \<Rightarrow> storage_op list \<Rightarrow> 'db \<Rightarrow> bool" where
  "ops_ok be logins [] db \<longleftrightarrow> True"
| "ops_ok be logins (op # ops) db \<longleftrightarrow>
     op_ok be logins op db \<and>
     (case apply_op be op db of None \<Rightarrow> True | Some db1 \<Rightarrow> ops_ok be logins ops db1)"

context ledger_store
begin

lemma range_books:
  "Do rd db (ZRangeByScoreWithScores k lo hi) = (r, db') \<Longrightarrow> books_agree hv p logins db \<Longrightarrow>
   books_agree hv p logins db'"
  by (erule z_books; auto)

lemma apply_op_books:
  assumes "apply_op be op db = Some db'" "Rd be = rd" "op_ok be logins op db" "finite logins"
    and "books_agree hv (Prefix be) logins db"
  shows "books_agree hv (Prefix be) logins db'"
proof (cases op)
  case (ReadHash k)
  then show ?thesis using assms read_books(3) [OF surjective_pairing] by auto
next
  case (ReadRange k lo hi)
  then show ?thesis using assms range_books [OF surjective_pairing] by auto
qed (use assms in \<open>auto simp: succeeded_Some
    intro: WritePendingOrphans_books WriteImmatureBlock_books WriteMaturedBlock_books WriteOrphan_books\<close>)

lemma run_ops_books:
  "run_ops be ops db = Some db' \<Longrightarrow> Rd be = rd \<Longrightarrow> ops_ok be logins ops db \<Longrightarrow> finite logins \<Longrightarrow>
   books_agree hv (Prefix be) logins db \<Longrightarrow> books_agree hv (Prefix be) logins db'"
proof (induction ops arbitrary: db)
  case (Cons op ops)
  then obtain db1 where "apply_op be op db = Some db1" "run_ops be ops db1 = Some db'"
    by (auto simp: bind_eq_Some_conv)
  then show ?case using Cons.IH [of db1] Cons.prems apply_op_books [of be op db db1 logins] by simp
qed simp

end

subsection \<open>Sessions as runs\<close>

text \<open>
  What a session may write: the pending session orphans candidates and credits immature rewards, the
  crediting session takes credits back or settles them; the rewards are those calculated for the block.
\<close>

definition calculated :: "'db backend \<Rightarrow> UnlockerConfig \<Rightarrow> BlockData \<Rightarrow> (string, int) fmap \<Rightarrow> bool" where
  "calculated be cfg b rw \<longleftrightarrow>
     (\<exists>db db' x y z. calculateRewards (Rd be) cfg (RngI be) (Prefix be) db b = (Ok (x, y, z, rw), db'))"

fun pending_op :: "'db backend \<Rightarrow> UnlockerConfig \<Rightarrow> storage_op \<Rightarrow> bool" where
  "pending_op be cfg (Immature b rw) \<longleftrightarrow> calculated be cfg b rw"
| "pending_op be cfg (Matured now b rw) \<longleftrightarrow> False"
| "pending_op be cfg (Orphaned b) \<longleftrightarrow> False"
| "pending_op be cfg _ \<longleftrightarrow> True"

fun credit_op :: "'db backend \<Rightarrow> UnlockerConfig \<Rightarrow> storage_op \<Rightarrow> bool" where
  "credit_op be cfg (Matured now b rw) \<longleftrightarrow> calculated be cfg b rw"
| "credit_op be cfg (Immature b rw) \<longleftrightarrow> False"
| "credit_op be cfg (PendingOrphans bs) \<longleftrightarrow> False"
| "credit_op be cfg _ \<longleftrightarrow> True"

lemma calculateRewards_read:
  assumes "calculateRewards rd cfg rng p db b = (Ok r, db')"
  shows "db' = snd (Do rd db (HGetAllMap (formatRound p (BD_RoundHeight b) (BD_Nonce b))))"
  using assms
  by (auto simp: calculateRewards_def GetRoundShares_def on_reply_def split: option.splits go.splits prod.splits)

text \<open>A loop over blocks that ends without a halt is a run of the operations of its blocks.\<close>

lemma each_block_run:
  assumes "each_block f u bs db = (u', None, db')" "\<not> halt u'"
    and "\<And>b db db'. b \<in> set bs \<Longrightarrow> f b db = (Ok (), db') \<Longrightarrow>
      \<exists>ops. run_ops be ops db = Some db' \<and> (\<forall>op \<in> set ops. P op)"
  shows "\<exists>ops. run_ops be ops db = Some db' \<and> (\<forall>op \<in> set ops. P op)"
  using assms
proof (induction bs arbitrary: db)
  case Nil
  then show ?case by (intro exI [of _ "[]"]) simp
next
  case (Cons b bs)
  obtain db1 where b: "f b db = (Ok (), db1)" "each_block f u bs db1 = (u', None, db')"
    using Cons.prems(1,2) by (auto simp: halted_def split: prod.splits go.splits)
  obtain xs where "run_ops be xs db = Some db1" "\<forall>op \<in> set xs. P op" using Cons.prems(3) b(1) by fastforce
  moreover obtain ys where "run_ops be ys db1 = Some db'" "\<forall>op \<in> set ys. P op"
    using Cons.IH [OF b(2) Cons.prems(2)] Cons.prems(3) by (metis list.set_intros(2))
  ultimately show ?case by (intro exI [of _ "xs @ ys"]) auto
qed

lemma credit_block_run:
  assumes "credit_block be cfg wr b db = (Ok (), db')"
  obtains rw db1 where "calculated be cfg b rw" "wr b rw db1 = (Ok (), db')"
    "apply_op be (ReadHash (formatRound (Prefix be) (BD_RoundHeight b) (BD_Nonce b))) db = Some db1"
proof -
  obtain x y z rw db1 where c: "calculateRewards (Rd be) cfg (RngI be) (Prefix be) db b = (Ok (x, y, z, rw), db1)"
      "wr b rw db1 = (Ok (), db')"
    using assms by (auto simp: credit_block_def split: prod.splits go.splits)
  show ?thesis
  proof (rule that [of rw db1])
    show "calculated be cfg b rw" using c(1) unfolding calculated_def by blast
    show "apply_op be (ReadHash (formatRound (Prefix be) (BD_RoundHeight b) (BD_Nonce b))) db = Some db1"
      by (simp add: calculateRewards_read [OF c(1)])
  qed (rule c(2))
qed

text \<open>What is left of the prologues of a session that neither panics nor halts.\<close>

lemma with_count_ok:
  assumes "with_count d u db f = (u', None, db')" "\<not> halt u'"
  obtains rpc n where "f (u\<lparr>Ul_rpc := rpc\<rparr>) n = (u', None, db')"
  using assms by (auto simp: with_count_def Let_def halted_def split: prod.splits go.splits option.splits)

lemma unlock_loop_config: "unlock_loop d u cs res = (u', Ok (Some res')) \<Longrightarrow> Ul_config u' = Ul_config u"
proof (induction cs arbitrary: u res)
  case (Cons c cs)
  from Cons.prems show ?case by (rule unlock_loop_step) (use Cons.IH in fastforce)
qed simp

lemma with_result_ok:
  assumes "with_result d u (found, db) f = (u', None, db')" "\<not> halt u'"
  shows "db' = db \<or> (\<exists>u1 res. Ul_config u1 = Ul_config u \<and> f u1 res db = (u', None, db'))"
proof (cases "\<exists>c cs. found = Ok (c # cs)")
  case True
  then obtain c cs where c: "found = Ok (c # cs)" by blast
  obtain u1 out where l: "unlockCandidates d u (c # cs) = (u1, out)" by (metis prod.exhaust)
  with assms c obtain res where "out = Ok (Some res)" "f u1 res db = (u', None, db')"
    by (auto simp: with_result_def halted_def split: go.splits option.splits)
  moreover have "Ul_config u1 = Ul_config u"
    using unlock_loop_config l calculation(1) unfolding unlockCandidates_def by blast
  ultimately show ?thesis by blast
next
  case False
  with assms show ?thesis by (auto simp: with_result_def halted_def split: go.splits list.splits)
qed

lemma each_block_config: "each_block f u bs db = (u', q, db') \<Longrightarrow> Ul_config u' = Ul_config u"
  by (induction bs arbitrary: db) (auto simp: halted_def split: go.splits prod.splits)

lemma resume_config: "resume u = (u1, go) \<Longrightarrow> Ul_config u1 = Ul_config u"
  by (auto simp: resume_def split: if_splits)

lemma resume_stop: "resume u = (u1, False) \<Longrightarrow> halt u1"
  by (auto simp: resume_def split: if_splits)

lemma pending_session_run:
  assumes "unlockPendingBlocks d be u db = (u', None, db')" "\<not> halt u'"
  shows "\<exists>ops. run_ops be ops db = Some db' \<and> (\<forall>op \<in> set ops. pending_op be (Ul_config u) op)"
proof -
  obtain u1 where r: "resume u = (u1, True)"
    using assms resume_stop by (auto simp: unlockPendingBlocks_def split: prod.splits if_splits)
  obtain rpc n where w: "with_result d (u1\<lparr>Ul_rpc := rpc\<rparr>)
      (GetCandidates (Rd be) (Prefix be) db (wrap64 (n - ImmatureDepth (Ul_config (u1\<lparr>Ul_rpc := rpc\<rparr>)))))
      (\<lambda>u result db. case WritePendingOrphans (Rd be) (Prefix be) db (orphanedBlocks result) of
           (Fail e, db) \<Rightarrow> (halted u e, None, db)
         | (Panic p, db) \<Rightarrow> (u, Some p, db)
         | (Ok _, db) \<Rightarrow> each_block (credit_immature be (Ul_config u)) u (maturedBlocks result) db) = (u', None, db')"
    using assms(1) unfolding unlockPendingBlocks_def r Let_def prod.case
    by (auto elim: with_count_ok [OF _ assms(2)])
  let ?read = "ReadRange (formatKey (Prefix be) [JStr ''blocks'', JStr ''candidates'']) ''0''
    (format_int (wrap64 (n - ImmatureDepth (Ul_config u1))))"
  obtain found db1 where g: "GetCandidates (Rd be) (Prefix be) db (wrap64 (n - ImmatureDepth (Ul_config u1))) = (found, db1)"
    by (metis prod.exhaust)
  have read: "apply_op be ?read db = Some db1"
    using g by (auto simp: GetCandidates_def on_reply_def split: prod.splits)
  let ?rest = "\<lambda>u (result :: UnlockResult) db. case WritePendingOrphans (Rd be) (Prefix be) db (orphanedBlocks result) of
           (Fail e, db) \<Rightarrow> (halted u e, None, db)
         | (Panic p, db) \<Rightarrow> (u, Some p, db)
         | (Ok _, db) \<Rightarrow> each_block (credit_immature be (Ul_config u)) u (maturedBlocks result) db"
  have "with_result d (u1\<lparr>Ul_rpc := rpc\<rparr>) (found, db1) ?rest = (u', None, db')" using w g by simp
  from with_result_ok [OF this assms(2)]
  consider "db' = db1" | u2 and res :: UnlockResult and db2 where "Ul_config u2 = Ul_config u"
      "apply_op be (PendingOrphans (orphanedBlocks res)) db1 = Some db2"
      "each_block (credit_immature be (Ul_config u2)) u2 (maturedBlocks res) db2 = (u', None, db')"
  proof
    assume "\<exists>u2 (res :: UnlockResult). Ul_config u2 = Ul_config (u1\<lparr>Ul_rpc := rpc\<rparr>) \<and> ?rest u2 res db1 = (u', None, db')"
    then obtain u2 and res :: UnlockResult where "Ul_config u2 = Ul_config (u1\<lparr>Ul_rpc := rpc\<rparr>) \<and> ?rest u2 res db1 = (u', None, db')"
      by blast
    then have u2: "Ul_config u2 = Ul_config u1" "?rest u2 res db1 = (u', None, db')" by simp_all
    obtain out db2 where o: "WritePendingOrphans (Rd be) (Prefix be) db1 (orphanedBlocks res) = (out, db2)"
      by (metis prod.exhaust)
    show thesis
    proof (rule that(2))
      show "Ul_config u2 = Ul_config u" using u2(1) resume_config [OF r] by simp
      show "apply_op be (PendingOrphans (orphanedBlocks res)) db1 = Some db2"
        "each_block (credit_immature be (Ul_config u2)) u2 (maturedBlocks res) db2 = (u', None, db')"
        using u2(2) o assms(2) by (cases out; auto simp: succeeded_Some halted_def)+
    qed
  qed
  then show ?thesis
  proof cases
    case 1
    then show ?thesis using read by (intro exI [of _ "[?read]"]) simp
  next
    case 2
    obtain ops where "run_ops be ops db2 = Some db'" "\<forall>op \<in> set ops. pending_op be (Ul_config u) op"
    proof (atomize_elim, rule each_block_run [OF 2(3) assms(2)])
      fix b db db'
      assume "credit_immature be (Ul_config u2) b db = (Ok (), db')"
      then obtain rw db1 where "calculated be (Ul_config u) b rw" "apply_op be (Immature b rw) db1 = Some db'"
          "apply_op be (ReadHash (formatRound (Prefix be) (BD_RoundHeight b) (BD_Nonce b))) db = Some db1"
        unfolding credit_immature_def 2(1) by (rule credit_block_run) (auto simp: succeeded_Some)
      then show "\<exists>ops. run_ops be ops db = Some db' \<and> (\<forall>op \<in> set ops. pending_op be (Ul_config u) op)"
        by (intro exI [of _ "[ReadHash (formatRound (Prefix be) (BD_RoundHeight b) (BD_Nonce b)), Immature b rw]"]) auto
    qed
    then show ?thesis
      using read 2(2) by (intro exI [of _ "?read # PendingOrphans (orphanedBlocks res) # ops"]) simp
  qed
qed

lemma matured_block_run:
  assumes "credit_matured be clock cfg b db = (Ok (), db')"
  shows "\<exists>ops. run_ops be ops db = Some db' \<and> (\<forall>op \<in> set ops. credit_op be cfg op)"
proof -
  obtain rw db1 where "calculated be cfg b rw" "apply_op be (Matured (clock b) b rw) db1 = Some db'"
      "apply_op be (ReadHash (formatRound (Prefix be) (BD_RoundHeight b) (BD_Nonce b))) db = Some db1"
    using assms unfolding credit_matured_def by (rule credit_block_run) (auto simp: succeeded_Some)
  then show ?thesis
    by (intro exI [of _ "[ReadHash (formatRound (Prefix be) (BD_RoundHeight b) (BD_Nonce b)), Matured (clock b) b rw]"])
      auto
qed

lemma credit_session_run:
  assumes "unlockAndCreditMiners d be clock u db = (u', None, db')" "\<not> halt u'"
  shows "\<exists>ops. run_ops be ops db = Some db' \<and> (\<forall>op \<in> set ops. credit_op be (Ul_config u) op)"
proof -
  obtain u1 where r: "resume u = (u1, True)"
    using assms resume_stop by (auto simp: unlockAndCreditMiners_def split: prod.splits if_splits)
  let ?rest = "\<lambda>u (result :: UnlockResult) db. case each_block (\<lambda>b db. WriteOrphan (Rd be) (RngS be) (Prefix be) db b)
      u (orphanedBlocks result) db of
        (u, Some p, db) \<Rightarrow> (u, Some p, db)
      | (u, None, db) \<Rightarrow>
          if halt u then (u, None, db)
          else each_block (credit_matured be clock (Ul_config u)) u (maturedBlocks result) db"
  obtain rpc n where w: "with_result d (u1\<lparr>Ul_rpc := rpc\<rparr>)
      (GetImmatureBlocks (Rd be) (Prefix be) db (wrap64 (n - Depth (Ul_config (u1\<lparr>Ul_rpc := rpc\<rparr>))))) ?rest = (u', None, db')"
    using assms(1) unfolding unlockAndCreditMiners_def r Let_def prod.case
    by (auto elim: with_count_ok [OF _ assms(2)])
  let ?read = "ReadRange (formatKey (Prefix be) [JStr ''blocks'', JStr ''immature'']) ''0''
    (format_int (wrap64 (n - Depth (Ul_config u1))))"
  obtain found db1 where g: "GetImmatureBlocks (Rd be) (Prefix be) db (wrap64 (n - Depth (Ul_config u1))) = (found, db1)"
    by (metis prod.exhaust)
  have read: "apply_op be ?read db = Some db1"
    using g by (auto simp: GetImmatureBlocks_def on_reply_def split: prod.splits)
  have "with_result d (u1\<lparr>Ul_rpc := rpc\<rparr>) (found, db1) ?rest = (u', None, db')" using w g by simp
  from with_result_ok [OF this assms(2)]
  consider "db' = db1" | u2 and res :: UnlockResult
    where "Ul_config u2 = Ul_config (u1\<lparr>Ul_rpc := rpc\<rparr>)" "?rest u2 res db1 = (u', None, db')"
    by blast
  then show ?thesis
  proof cases
    case 1
    then show ?thesis using read by (intro exI [of _ "[?read]"]) simp
  next
    case 2
    let ?orphan = "\<lambda>b db. WriteOrphan (Rd be) (RngS be) (Prefix be) db b"
    obtain u3 db2 where o: "each_block ?orphan u2 (orphanedBlocks res) db1 = (u3, None, db2)" "\<not> halt u3"
        "each_block (credit_matured be clock (Ul_config u3)) u3 (maturedBlocks res) db2 = (u', None, db')"
      using 2(2) assms(2) by (auto split: prod.splits option.splits if_splits)
    have cfg: "Ul_config u3 = Ul_config u"
      using 2(1) resume_config [OF r] each_block_config [OF o(1)] by simp
    obtain xs where "run_ops be xs db1 = Some db2" "\<forall>op \<in> set xs. credit_op be (Ul_config u) op"
    proof (atomize_elim, rule each_block_run [OF o(1,2)])
      show "\<exists>ops. run_ops be ops db = Some db' \<and> (\<forall>op \<in> set ops. credit_op be (Ul_config u) op)"
        if "?orphan b db = (Ok (), db')" for b db db'
        using that by (intro exI [of _ "[Orphaned b]"]) (simp add: succeeded_def)
    qed
    moreover obtain ys where "run_ops be ys db2 = Some db'" "\<forall>op \<in> set ys. credit_op be (Ul_config u) op"
    proof (atomize_elim, rule each_block_run [OF o(3) [unfolded cfg] assms(2)])
    qed (rule matured_block_run)
    ultimately show ?thesis using read by (intro exI [of _ "?read # xs @ ys"]) auto
  qed
qed

end
