(* ===== verification/Payout_Correct.thy ===== *)
theory Payout_Correct
  imports Samples Bookkeeping
begin

text \<open>
  The properties of the block unlocker: how a round's reward is split, what the rounding can add or
  lose, how blocks are told from orphans and what a failed session leaves behind.
\<close>

subsection \<open>Rewards\<close>

text \<open>C10: The money of a block is split without loss: whenever the rewards of a block are calculated,
  the miners' and the pool's profit add up to the revenue, and the revenue is the block's reward plus
  the transaction fees the pool keeps.\<close>

theorem reward_conservation:
  assumes "calculateRewards rd cfg rng p db block = (Ok (revenue, minersProfit, poolProfit, rewards), db')"
  shows "minersProfit + poolProfit = revenue \<and>
    revenue = of_int (the (BD_Reward block)) + (case BD_ExtraReward block of None \<Rightarrow> 0 | Some e \<Rightarrow> of_int e)"
proof -
  obtain r shares where "BD_Reward block = Some r"
      "round_rewards cfg rng block (of_int r) shares = Ok (revenue, minersProfit, poolProfit, rewards)"
    using assms by (auto simp: calculateRewards_def split: option.splits prod.splits go.splits)
  then show ?thesis
    by (auto simp: round_rewards_def Let_def bindG_Ok_iff dest!: chargeFee_sum split: prod.splits)
qed

definition sample_config :: UnlockerConfig where
  "sample_config = \<lparr>PoolFee = 0, PoolFeeAddress = '''', Donate = False, Depth = 60, ImmatureDepth = 20, KeepTxFees = True\<rparr>"

definition sample_round :: "BlockData" where
  "sample_round = zero_block_data\<lparr>BD_Nonce := ''01020304'', BD_TotalShares := 10, BD_Reward := Some 600,
     BD_ExtraReward := Some 10\<rparr>"

definition sample_shares_db :: mem where
  "sample_shares_db = fmupd (formatRound ''xmr'' 0 ''01020304'') (VHash (fmupd ''a'' ''10'' fmempty)) fmempty"

lemma ascending_single [simp]: "ascending (fmupd k v fmempty) = [(k, v)]"
  by (simp add: ascending_def sorted_list_of_fset.rep_eq)

lemma fmmap_upd [simp]: "fmmap f (fmupd k v m) = fmupd k (f v) (fmmap f m)"
  by (rule fmap_ext) simp

lemma parse64_10: "parse64 ''10'' = 10"
  by (simp add: parse64_def parse_int_def parse_uint_def digit_value_def Let_def)

lemma sample_rewards:
  "calculateRewards mem_redis sample_config ascending ''xmr'' sample_shares_db sample_round =
     (Ok (610, 600, 10, fmupd ''a'' 600 fmempty), sample_shares_db)"
proof -
  have "rounded64 600 = 600" using rounded64_eq [of "of_int 600"] round_half_away_int [of 600] by simp
  then show ?thesis
    by (simp add: calculateRewards_def sample_round_def zero_block_data_def GetRoundShares_def on_reply_def
        on_hash_def hash_at_def sample_shares_db_def round_rewards_def sample_config_def chargeFee_def
        calculateRewardsForShares_def parse64_10 big_rat_def add_reward_def in_i64_def)
qed

lemma reward_conservation_witness: "(600 :: rat) + 10 = 610 \<and> (610 :: rat) = of_int 600 + of_int 10"
  using reward_conservation [OF sample_rewards] by (simp add: sample_round_def)

text \<open>C11: Each miner of a round is credited its exact proportion of the miners' profit, rounded to the
  nearest unit, halves away from zero, and nobody else is credited; the division never panics as long
  as the round has shares.\<close>

theorem share_rewards:
  assumes "range_law rng" "0 < tot" "\<forall>(login, n) \<in> set (rng shares). \<bar>n\<bar> \<le> tot"
    and "\<bar>reward\<bar> \<le> of_int b" "b < 2 ^ 63"
  shows "\<exists>out. calculateRewardsForShares rng shares tot reward = Ok out \<and>
    (\<forall>l. fmlookup out l = map_option (share_reward reward tot) (fmlookup shares l))"
  by (rule calculateRewardsForShares_eq [OF assms])

lemma share_rewards_witness:
  "\<exists>out. calculateRewardsForShares ascending (fmupd ''a'' 10 fmempty) 10 600 = Ok out \<and>
     (\<forall>l. fmlookup out l = map_option (share_reward 600 10) (fmlookup (fmupd ''a'' 10 fmempty) l))"
  by (rule share_rewards [where b = 600]) (simp_all add: range_law_ascending)

text \<open>C39: When a round's total is the sum of its shares, what the miners are credited together differs
  from the profit they share by at most half a unit per miner.\<close>

theorem rewards_rounding:
  assumes "range_law rng" "range_law rng'" "0 < tot" "\<forall>(login, n) \<in> set (rng shares). \<bar>n\<bar> \<le> tot"
    and "(\<Sum>(l, n) \<leftarrow> rng shares. n) = tot" "\<bar>reward\<bar> \<le> of_int b" "b < 2 ^ 63"
    and "calculateRewardsForShares rng shares tot reward = Ok out"
  shows "\<bar>of_int (\<Sum>(l, v) \<leftarrow> rng' out. v) - reward\<bar> \<le> of_nat (length (rng shares)) / 2"
  by (rule rewards_total_error [OF assms])

lemma sample_split:
  "calculateRewardsForShares ascending (fmupd ''a'' 10 fmempty) 10 (of_int 600) = Ok (fmupd ''a'' 600 fmempty)"
proof -
  have "rounded64 600 = 600" using rounded64_eq [of "of_int 600"] round_half_away_int [of 600] by simp
  then show ?thesis by (simp add: calculateRewardsForShares_def big_rat_def add_reward_def in_i64_def)
qed

lemma rewards_rounding_witness: "\<bar>of_int 600 - of_int 600 :: rat\<bar> \<le> of_nat 1 / 2"
  using rewards_rounding [OF range_law_ascending range_law_ascending _ _ _ _ _ sample_split, where b = 600] by simp

text \<open>The rounding can pay out more than there is: two miners with one share each, and one unit to
  share, are credited one unit each.\<close>

theorem rounding_overpays:
  assumes "range_law rng" "l1 \<noteq> l2"
  shows "calculateRewardsForShares rng (fmupd l1 1 (fmupd l2 1 fmempty)) 2 1 =
      Ok (fmupd l1 1 (fmupd l2 1 fmempty))"
proof -
  let ?s = "fmupd l1 1 (fmupd l2 (1 :: int) fmempty)"
  have ones: "n = 1" if "fmlookup ?s l = Some n" for l n using that by (auto split: if_splits)
  obtain out where out: "calculateRewardsForShares rng ?s 2 1 = Ok out"
      "\<forall>l. fmlookup out l = map_option (share_reward 1 2) (fmlookup ?s l)"
    using calculateRewardsForShares_eq [OF assms(1), of 2 ?s 1 1] ones range_law_set [OF assms(1)]
    by fastforce
  have "share_reward 1 2 1 = 1" by (simp add: share_reward_def round_half_away_def round_half_up_def)
  then have "out = ?s" by (intro fmap_ext) (simp add: out(2))
  with out show ?thesis by simp
qed

lemma rounding_overpays_witness:
  "calculateRewardsForShares ascending (fmupd ''a'' 1 (fmupd ''b'' 1 fmempty)) 2 1 =
      Ok (fmupd ''a'' 1 (fmupd ''b'' 1 fmempty))"
  by (rule rounding_overpays) (simp_all add: range_law_ascending)

text \<open>The pool's own profit is credited to the lower-case form of the configured address.  An
  address with upper-case letters, as Monero addresses have, is never credited: unless it also mined
  the round, it has no entry in the rewards.\<close>

theorem fee_address_lowered:
  assumes "range_law rng" "round_rewards cfg rng block revenue shares = Ok (total_revenue, mp, pp, rewards)"
    and "PoolFeeAddress cfg \<noteq> []"
  shows "fmlookup rewards (to_lower (PoolFeeAddress cfg)) \<noteq> None \<and>
    (to_lower (PoolFeeAddress cfg) \<noteq> PoolFeeAddress cfg \<and> fmlookup shares (PoolFeeAddress cfg) = None \<longrightarrow>
       fmlookup rewards (PoolFeeAddress cfg) = None)"
proof -
  have loop: "fmlookup out a = None"
    if "rewards_loop xs t rw acc = Ok out" "a \<notin> fst ` set xs" "fmlookup acc a = None" for xs t rw acc out a
    using that
    by (induction xs t rw acc rule: rewards_loop.induct) (auto simp: bindG_Ok_iff add_reward_def)
  obtain base where b: "calculateRewardsForShares rng shares (BD_TotalShares block) mp = Ok base"
      "rewards = add_reward (to_lower (PoolFeeAddress cfg)) (rounded64 pp) base"
    using assms(2,3) by (auto simp: round_rewards_def Let_def bindG_Ok_iff split: prod.splits)
  have "fmlookup base a = None" if "fmlookup shares a = None" for a
  proof (rule loop)
    show "rewards_loop (rng shares) (BD_TotalShares block) mp fmempty = Ok base"
      using b(1) by (simp add: calculateRewardsForShares_def)
    show "a \<notin> fst ` set (rng shares)"
      using that range_law_set [OF assms(1), of a _ shares] by force
  qed simp
  then show ?thesis using b(2) by (auto simp: add_reward_def)
qed

lemma fee_address_lowered_witness:
  "fmlookup (add_reward ''4ab'' (rounded64 60) (fmupd ''a'' 600 fmempty)) ''4AB'' = None"
proof -
  let ?cfg = "sample_config\<lparr>PoolFeeAddress := ''4AB''\<rparr>"
  have low: "to_lower ''4AB'' = ''4ab''" by (simp add: to_lower_def to_lower_char_def Let_def char_of_def bit_0)
  have "round_rewards ?cfg ascending (sample_round\<lparr>BD_ExtraReward := Some 60\<rparr>) 600 (fmupd ''a'' 10 fmempty) =
      Ok (660, 600, 60, add_reward ''4ab'' (rounded64 60) (fmupd ''a'' 600 fmempty))"
    using sample_split
    by (simp add: round_rewards_def sample_config_def sample_round_def chargeFee_def low Let_def)
  then show ?thesis
    using fee_address_lowered [OF range_law_ascending, of ?cfg] low by (simp add: sample_config_def)
qed

subsection \<open>Blocks and orphans\<close>

text \<open>A candidate is taken for the block at its height exactly when the four bytes a miner put at
  the nonce's place of the blob are the header's nonce in little-endian order.\<close>

theorem nonce_identifies_block:
  assumes "BD_Nonce c = hex_encode nonceBuff" "length nonceBuff = 4"
  shows "pool_block hdr c \<longleftrightarrow> nonceBuff = le_bytes32 (Hdr_Nonce hdr)"
proof -
  have "hex_encode nonceBuff \<noteq> []" using assms(2) by (cases nonceBuff) (auto simp: hex_encode_def hex_byte_def)
  then show ?thesis
    by (simp add: pool_block_def nonce_hex_eq rev_big_endian32 assms(1))
qed

lemma nonce_identifies_block_witness:
  "pool_block sample_header (zero_block_data\<lparr>BD_Nonce := hex_encode [1, 0, 0, 0]\<rparr>) \<longleftrightarrow>
     [1, 0, 0, 0] = le_bytes32 (Hdr_Nonce sample_header)"
  by (rule nonce_identifies_block) simp_all


definition sample_unlocker :: BlockUnlocker where
  "sample_unlocker = NewBlockUnlocker sample_config (NewRPCClient ''node'' ''up'')"


lemma sample_header_reply:
  "GetBlockHeaderByHeight (Net sample_daemon) (DecHeader sample_daemon) (NewRPCClient ''node'' ''up'') h =
    (NewRPCClient ''node'' ''up'',
     Ok (Some \<lparr>Reply_BlockHeader = sample_header, HeaderReply_Status = ''OK'', HeaderReply_Untrusted = False\<rparr>))"
  by (simp add: GetBlockHeaderByHeight_def doPost_def sample_defs NewRPCClient_def unmarshal_result_def)

lemma sample_nonce_hex: "nonce_hex (Hdr_Nonce sample_header) = hex_encode [1, 0, 0, 0]"
  by (simp add: nonce_hex_eq sample_header_def big_endian32_def)

lemma sample_orphan: "\<not> equal_fold ''ffffffff'' (hex_encode [1, 0, 0, 0])"
  by (simp add: equal_fold_def to_lower_def to_lower_char_def hex_encode_def hex_byte_def hex_digit_def
      Let_def char_of_def bit_0)


subsection \<open>Errors of a session\<close>

text \<open>C9: The suspension of the unlocker never takes effect: in every state its process can reach, the
  counter is zero, so a halted unlocker resumes at once and each session asks the daemon again.\<close>

theorem never_suspended:
  assumes "(unlocker_step ds bes)\<^sup>*\<^sup>* (NewBlockUnlocker cfg client, db) (u, db')"
  shows "\<exists>u1. resume u = (u1, True) \<and> \<not> halt u1 \<and> counter u1 = 0"
  using resume_ready [OF counter_reachable [OF assms]] by (auto simp: NewBlockUnlocker_def)

lemma never_suspended_witness:
  "\<exists>u u1. halt u \<and> lastFail u = Some (ErrMsg ''timeout'') \<and> resume u = (u1, True) \<and> \<not> halt u1"
proof -
  let ?start = "NewBlockUnlocker sample_config (NewRPCClient ''node'' ''down'')"
  let ?r = "markSick (NewRPCClient ''node'' ''down'')"
  let ?u = "halted (?start\<lparr>Ul_rpc := ?r\<rparr>) (ErrMsg ''timeout'')"
  have "GetBlockCount (Net sample_daemon) (DecCount sample_daemon) (NewRPCClient ''node'' ''down'') =
      (?r, Fail (ErrMsg ''timeout''))"
    by (simp add: GetBlockCount_def doPost_def sample_daemon_def sample_net_def NewRPCClient_def unmarshal_result_def)
  moreover have "resume ?start = (?start, True)" "Ul_rpc ?start = NewRPCClient ''node'' ''down''"
    by (simp_all add: resume_def NewBlockUnlocker_def)
  ultimately have "unlockPendingBlocks sample_daemon sample_backend ?start (fmempty :: mem) = (?u, None, fmempty)"
    by (simp add: unlockPendingBlocks_def with_count_def Let_def)
  then obtain u where u: "unlockPendingBlocks sample_daemon sample_backend ?start (fmempty :: mem) = (u, None, fmempty)"
      "halt u" "lastFail u = Some (ErrMsg ''timeout'')"
    by (simp add: halted_def)
  have "unlocker_step {sample_daemon} {sample_backend} (?start, fmempty) (u, fmempty)"
    by (rule unlocker_step.pending [OF _ _ u(1)]) simp_all
  from never_suspended [OF r_into_rtranclp [where r = "unlocker_step {sample_daemon} {sample_backend}", OF this]] u show ?thesis by blast
qed




subsection \<open>Sessions and the books\<close>

text \<open>C4: A session that comes to its end without a halt has done nothing but storage operations: reads,
  orphan marks and immature credits of the pending session, taken-back and settled credits of the
  crediting session, each credit with the rewards calculated for its block.  When these operations
  met the obligations of the ledger - logs and rewards of known logins whose totals are in range -
  the books agree after the session as they did before it.\<close>

theorem session_keeps_books:
  assumes "ledger_store (Rd be) hv" "finite logins" "books_agree hv (Prefix be) logins db"
    and "unlockPendingBlocks d be u db = (u', None, db') \<or> unlockAndCreditMiners d be clock u db = (u', None, db')"
    and "\<not> halt u'"
  shows "\<exists>ops. run_ops be ops db = Some db' \<and>
    ((\<forall>op \<in> set ops. pending_op be (Ul_config u) op) \<or> (\<forall>op \<in> set ops. credit_op be (Ul_config u) op)) \<and>
    (ops_ok be logins ops db \<longrightarrow> books_agree hv (Prefix be) logins db')"
  using assms(4)
proof
  assume "unlockPendingBlocks d be u db = (u', None, db')"
  from pending_session_run [OF this assms(5)] show ?thesis
    using ledger_store.run_ops_books [OF assms(1) _ refl _ assms(2,3)] by blast
next
  assume "unlockAndCreditMiners d be clock u db = (u', None, db')"
  from credit_session_run [OF this assms(5)] show ?thesis
    using ledger_store.run_ops_books [OF assms(1) _ refl _ assms(2,3)] by blast
qed

definition orphan_db :: mem where
  "orphan_db = fmupd (formatKey ''xmr'' [JStr ''blocks'', JStr ''candidates''])
     (VZset [(f64 100, candidate_member [''ffffffff'', [], []] 1700000000 1000 77 600 99)]) fmempty"

lemma session_keeps_books_witness:
  "\<exists>ops. run_ops sample_backend ops orphan_db =
     Some (snd (snd (unlockPendingBlocks sample_daemon sample_backend sample_unlocker orphan_db))) \<and>
   (ops_ok sample_backend {''a''} ops orphan_db \<longrightarrow> books_agree mem_view ''xmr'' {''a''}
     (snd (snd (unlockPendingBlocks sample_daemon sample_backend sample_unlocker orphan_db))))"
proof -
  let ?m = "candidate_member [''ffffffff'', [], []] 1700000000 1000 77 600 99"
  define c where "c = zero_block_data\<lparr>BD_Height := 100, BD_RoundHeight := 100, BD_Nonce := ''ffffffff'',
     BD_ENonce1 := [], BD_ENonce2 := [], BD_Timestamp := 1700000000, BD_Difficulty := 1000, BD_TotalShares := 77,
     BD_CoinBaseValue := Some 600, BD_BlkTotalFee := Some 99, candidateKey := ?m\<rparr>"
  have "convertCandidate (f64 100, ?m) = Ok c"
    unfolding c_def by (rule convertCandidate_member) (simp_all add: in_i64_def)
  moreover have "in_bounds ''0'' (format_int 180) (100, ?m)"
    by (simp add: in_bounds_def in_i64_def) (simp add: parse_bound_def)
  ultimately have cands: "GetCandidates mem_redis ''xmr'' orphan_db 180 = (Ok (c # []), orphan_db)"
    by (simp add: GetCandidates_def on_reply_def on_zset_def zset_at_def orphan_db_def
        convertCandidateResults_def in_i64_def)
  have unl: "unlockCandidates sample_daemon sample_unlocker [c] =
    (sample_unlocker, Ok (Some (zero_result\<lparr>orphans := 1, orphanedBlocks := [c\<lparr>BD_Orphan := True\<rparr>]\<rparr>)))"
    using sample_orphan
    by (simp add: unlockCandidates_def sample_unlocker_def NewBlockUnlocker_def sample_header_reply Let_def
        unlockCandidate_def sample_nonce_hex c_def zero_result_def)
  have cnt: "GetBlockCount (Net sample_daemon) (DecCount sample_daemon) (Ul_rpc sample_unlocker) =
        (NewRPCClient ''node'' ''up'', Ok (Some \<lparr>Reply_Count = 200, CountReply_Status = ''OK''\<rparr>))"
      by (simp add: GetBlockCount_def doPost_def sample_defs NewRPCClient_def unmarshal_result_def
          sample_unlocker_def NewBlockUnlocker_def)
  have res: "resume sample_unlocker = (sample_unlocker, True)"
    by (simp add: resume_def sample_unlocker_def NewBlockUnlocker_def)
  have w: "fst (WritePendingOrphans mem_redis ''xmr'' orphan_db [c\<lparr>BD_Orphan := True\<rparr>]) = Ok ()"
    by (simp add: WritePendingOrphans_def WritePendingOrphans_cmds_def writeImmatureBlock_def mem_exec_def
      on_zset_def zset_at_def orphan_db_def exec_err_def List.map_filter_def key_defs z_put_def z_remove_def z_member_def c_def)
  define db' where "db' = snd (WritePendingOrphans mem_redis ''xmr'' orphan_db [c\<lparr>BD_Orphan := True\<rparr>])"
  have session: "unlockPendingBlocks sample_daemon sample_backend sample_unlocker orphan_db = (sample_unlocker, None, db')"
    using res cnt cands unl w
    by (simp add: unlockPendingBlocks_def with_count_def with_result_def sample_backend_def db'_def
        sample_unlocker_def NewBlockUnlocker_def sample_config_def in_i64_def zero_result_def split_beta)
  have "ledger_store (Rd sample_backend) mem_view" "books_agree mem_view (Prefix sample_backend) {''a''} orphan_db"
    using mem_store.ledger_store_axioms
    by (simp_all add: sample_backend_def books_agree_def mem_view_def orphan_db_def financesKey_def minerKey_def key_defs)
  from session_keeps_books [OF this(1) _ this(2) disjI1 [OF session]] show ?thesis
    unfolding session by (auto simp: sample_unlocker_def NewBlockUnlocker_def sample_backend_def)
qed
end
