(* ===== verification/Round_Correct.thy ===== *)
theory Round_Correct
  imports Ledger_Correct Payout_Correct
begin

text \<open>
  From the share that finds a block to the credits of its miners: the round that \<open>WriteBlock\<close> closes is
  the one whose shares the unlocker reads, and their sum is the total it divides by.
\<close>

lemma round_key_other [simp]:
  "formatRound p h n \<noteq> formatKey p [JStr ''blocks'', JStr ''candidates'']"
  by (simp add: formatRound_def formatKey_def join_def)

lemma hash_at_z_put [simp]: "k' \<noteq> k \<Longrightarrow> hash_at (z_put db k z) k' = hash_at db k'"
  by (simp add: hash_at_def)








end
