(* ===== verification/Api.thy ===== *)
theory Api
  imports Server Stats
begin

text \<open>
  \<open>stratum/api.go\<close>: the status page.  Counters are read, hash rates and luck are computed as
  \<open>float64\<close>, entries out of their windows are forgotten, and the page is encoded as JSON; the encoder
  refuses infinities and NaN, and the code ignores its error.  One value of the clock serves a page.
\<close>

record api_config =
  Api_timeout :: int
  Api_estimationWindow :: int
  Api_luckWindow :: int
  Api_luckLargeWindow :: int
  Api_LuckWindow :: string
  Api_LargeLuckWindow :: string
  Api_HideIP :: bool

subsection \<open>Miners\<close>

record MinerRow =
  Row_name :: string
  Row_hashrate :: float64
  Row_hashrate24h :: float64
  Row_lastBeat :: int
  Row_validShares :: int
  Row_staleShares :: int
  Row_invalidShares :: int
  Row_accepts :: int
  Row_rejects :: int
  Row_ip :: "string option"
  Row_warning :: bool
  Row_timeout :: bool

definition getLastBeat :: "Miner \<Rightarrow> int" where
  "getLastBeat m = lastBeat m"

definition miner_row :: "api_config \<Rightarrow> int \<Rightarrow> string \<Rightarrow> Miner \<Rightarrow> float64 \<Rightarrow> float64 \<Rightarrow> MinerRow" where
  "miner_row cfg now key m hr hr24 =
     (let idle = wrap64 (now - getLastBeat m)
      in \<lparr>Row_name = key, Row_hashrate = hr, Row_hashrate24h = hr24, Row_lastBeat = getLastBeat m,
          Row_validShares = validShares m, Row_staleShares = staleShares m, Row_invalidShares = invalidShares m,
          Row_accepts = accepts m, Row_rejects = rejects m,
          Row_ip = (if Api_HideIP cfg then None else Some (Miner_ip m)),
          Row_warning = (go_quot (go_quot (Api_timeout cfg) 2) 1000000 < idle),
          Row_timeout = (go_quot (Api_timeout cfg) 1000000 < idle)\<rparr>)"

fun collect_miners ::
  "((int, int) fmap \<Rightarrow> (int \<times> int) list) \<Rightarrow> api_config \<Rightarrow> int \<Rightarrow> (string \<times> nat) list \<Rightarrow>
   float64 \<times> float64 \<times> int \<times> MinerRow list \<Rightarrow> 'db StratumServer \<Rightarrow>
   (float64 \<times> float64 \<times> int \<times> MinerRow list) \<times> 'db StratumServer" where
  "collect_miners rng cfg now [] acc s = (acc, s)"
| "collect_miners rng cfg now ((key, m) # rest) (totalhr, totalhr24, online, rows) s =
     (let (m1, hr) = hashrate rng now (seconds (Api_estimationWindow cfg)) (minerStore s m);
          (m2, hr24) = hashrate rng now 86400 m1;
          row = miner_row cfg now key m2 hr hr24
      in collect_miners rng cfg now rest
           (fl_add totalhr hr, fl_add totalhr24 hr24, if Row_timeout row then online else online + 1, rows @ [row])
           (set_miner m m2 s))"

definition collectMinersStats ::
  "((string, nat) fmap \<Rightarrow> (string \<times> nat) list) \<Rightarrow> ((int, int) fmap \<Rightarrow> (int \<times> int) list) \<Rightarrow> api_config \<Rightarrow> int \<Rightarrow>
   'db StratumServer \<Rightarrow> (float64 \<times> float64 \<times> int \<times> MinerRow list) \<times> 'db StratumServer" where
  "collectMinersStats rngm rng cfg now s =
     collect_miners rng cfg now (MinersMap_Iter rngm (miners s)) (Fin 0, Fin 0, 0, []) s"

text \<open>
  What collecting does to a miner: the shares of more than a day ago are forgotten.  The rows do not
  depend on the order in which the miners are visited.
\<close>

definition forget :: "int \<Rightarrow> Miner \<Rightarrow> Miner" where
  "forget now m = m\<lparr>minerShares := fmfilter (\<lambda>k. \<not> k < now div 1000 - 86400) (minerShares m)\<rparr>"

definition plain_row :: "MinerRow \<Rightarrow> MinerRow" where
  "plain_row r = r\<lparr>Row_hashrate := Fin 0, Row_hashrate24h := Fin 0\<rparr>"

lemma fst_hashrate: "fst (hashrate rng now window m) = forget now m"
  by (simp add: hashrate_def forget_def Let_def)

lemma forget_forget [simp]: "forget now (forget now m) = forget now m"
proof -
  have "fmfilter P (fmfilter P f) = fmfilter P f" for P and f :: "(int, int) fmap"
    by (rule fmap_ext) simp
  then show ?thesis by (simp add: forget_def cong del: fmfilter_cong)
qed

lemma plain_miner_row [simp]:
  "plain_row (miner_row cfg now k m a b) = miner_row cfg now k m (Fin 0) (Fin 0)"
  "miner_row cfg now k (forget now m) a b = miner_row cfg now k m a b"
  by (simp_all add: plain_row_def miner_row_def forget_def getLastBeat_def Let_def)

lemma collect_miners_rows:
  "collect_miners rng cfg now xs (a, b, on, rows) s = ((a', b', on', rows'), s') \<Longrightarrow>
   \<exists>new. rows' = rows @ new \<and>
     map plain_row new = map (\<lambda>(k, m). miner_row cfg now k (minerStore s m) (Fin 0) (Fin 0)) xs \<and>
     on' = on + int (length (filter (\<lambda>r. \<not> Row_timeout r) new)) \<and>
     s' = s\<lparr>minerStore := (\<lambda>i. if i \<in> snd ` set xs then forget now (minerStore s i) else minerStore s i)\<rparr>"
proof (induction xs arbitrary: a b on rows s)
  case Nil
  then show ?case by simp
next
  case (Cons x xs)
  obtain k m where x: "x = (k, m)" by (cases x)
  define m1 where "m1 = fst (hashrate rng now (seconds (Api_estimationWindow cfg)) (minerStore s m))"
  define row where "row = miner_row cfg now k (fst (hashrate rng now 86400 m1))
    (snd (hashrate rng now (seconds (Api_estimationWindow cfg)) (minerStore s m))) (snd (hashrate rng now 86400 m1))"
  define s1 where "s1 = set_miner m (forget now (minerStore s m)) s"
  let ?c = "fl_add a (snd (hashrate rng now (seconds (Api_estimationWindow cfg)) (minerStore s m)))"
  let ?d = "fl_add b (snd (hashrate rng now 86400 m1))"
  have m2: "fst (hashrate rng now 86400 m1) = forget now (minerStore s m)" by (simp add: m1_def fst_hashrate)
  have run: "collect_miners rng cfg now xs
      (?c, ?d, if Row_timeout row then on else on + 1, rows @ [row]) s1 = ((a', b', on', rows'), s')"
    using Cons.prems unfolding row_def m2 x collect_miners.simps Let_def case_prod_unfold fst_conv snd_conv
      m1_def [symmetric] m2 s1_def [symmetric] .
  have s1: "miner_row cfg now k' (minerStore s1 m') (Fin 0) (Fin 0) = miner_row cfg now k' (minerStore s m') (Fin 0) (Fin 0)"
    for k' m' by (simp add: s1_def set_miner_def)
  obtain new where new: "rows' = rows @ [row] @ new"
      "map plain_row new = map (\<lambda>(k, m). miner_row cfg now k (minerStore s1 m) (Fin 0) (Fin 0)) xs"
      "on' = (if Row_timeout row then on else on + 1) + int (length (filter (\<lambda>r. \<not> Row_timeout r) new))"
      "s' = s1\<lparr>minerStore := (\<lambda>i. if i \<in> snd ` set xs then forget now (minerStore s1 i) else minerStore s1 i)\<rparr>"
    using Cons.IH [OF run] by auto
  have "s' = s\<lparr>minerStore := (\<lambda>i. if i \<in> snd ` set (x # xs) then forget now (minerStore s i) else minerStore s i)\<rparr>"
    unfolding new(4) by (simp add: s1_def set_miner_def x fun_eq_iff)
  moreover have "map plain_row (row # new) = map (\<lambda>(k, m). miner_row cfg now k (minerStore s m) (Fin 0) (Fin 0)) (x # xs)"
    using new(2) by (simp add: s1 x row_def m2)
  ultimately show ?case using new(1,3) by (intro exI [of _ "row # new"]) auto
qed

lemma collect_miners_rates:
  assumes "\<And>v. startedAt v = 0 \<Longrightarrow> Q (snd (hashrate rng now (seconds (Api_estimationWindow cfg)) v))"
  shows "collect_miners rng cfg now xs (a, b, on, rows) s = ((a', b', on', rows'), s') \<Longrightarrow>
    \<forall>m \<in> snd ` set xs. startedAt (minerStore s m) = 0 \<Longrightarrow> \<forall>r \<in> set rows. Q (Row_hashrate r) \<Longrightarrow>
    \<forall>r \<in> set rows'. Q (Row_hashrate r)"
proof (induction xs arbitrary: a b on rows s)
  case (Cons x xs)
  obtain k m where x: "x = (k, m)" by (cases x)
  define v where "v = fst (hashrate rng now 86400 (fst (hashrate rng now (seconds (Api_estimationWindow cfg)) (minerStore s m))))"
  define row where "row = miner_row cfg now k v (snd (hashrate rng now (seconds (Api_estimationWindow cfg)) (minerStore s m)))
    (snd (hashrate rng now 86400 (fst (hashrate rng now (seconds (Api_estimationWindow cfg)) (minerStore s m)))))"
  have "Row_hashrate row = snd (hashrate rng now (seconds (Api_estimationWindow cfg)) (minerStore s m))"
    by (simp add: row_def miner_row_def Let_def)
  then have row: "Q (Row_hashrate row)" using assms Cons.prems(2) by (simp add: x)
  have "startedAt v = startedAt (minerStore s m)" by (simp add: v_def fst_hashrate forget_def)
  then have st: "\<forall>m \<in> snd ` set xs. startedAt (minerStore (set_miner m' v s) m) = 0" if "m' = m" for m'
    using Cons.prems(2) that by (auto simp: x set_miner_def)
  show ?case
    by (rule Cons.IH [OF Cons.prems(1) [unfolded x collect_miners.simps Let_def case_prod_unfold fst_conv snd_conv
            v_def [symmetric] row_def [symmetric]]])
      (use st row Cons.prems(3) in auto)
qed simp

subsection \<open>Luck and blocks\<close>

record LuckStats =
  Luck_variance :: float64
  Luck_blocksCount :: int
  Luck_window :: string
  Luck_totalVariance :: float64
  Luck_totalBlocksCount :: int
  Luck_largeWindow :: string

text \<open>The loop over the blocks; the last component keeps the blocks of the large window.\<close>

fun luck_blocks ::
  "int \<Rightarrow> int \<Rightarrow> (int \<times> blockEntry) list \<Rightarrow> float64 \<times> int \<times> float64 \<times> int \<times> (int, blockEntry) fmap \<Rightarrow>
   float64 \<times> int \<times> float64 \<times> int \<times> (int, blockEntry) fmap" where
  "luck_blocks small large [] acc = acc"
| "luck_blocks small large ((k, v) # rest) (var, n, totalVar, totalN, stats) =
     luck_blocks small large rest
       (if small \<le> k then fl_add var (Be_variance v) else var, if small \<le> k then n + 1 else n,
        if large \<le> k then fl_add totalVar (Be_variance v) else totalVar,
        if large \<le> k then totalN + 1 else totalN, if large \<le> k then stats else fmdrop k stats)"

definition getLuckStats ::
  "((int, blockEntry) fmap \<Rightarrow> (int \<times> blockEntry) list) \<Rightarrow> api_config \<Rightarrow> int \<Rightarrow> 'db StratumServer \<Rightarrow>
   'db StratumServer \<times> LuckStats" where
  "getLuckStats rngb cfg now s =
     (let (var, n, totalVar, totalN, stats) =
            luck_blocks (wrap64 (now - Api_luckWindow cfg)) (wrap64 (now - Api_luckLargeWindow cfg))
              (rngb (blockStats s)) (Fin 0, 0, Fin 0, 0, blockStats s)
      in (s\<lparr>blockStats := stats\<rparr>,
          \<lparr>Luck_variance = (if n \<noteq> 0 then fl_div var (fl_of_int n) else var), Luck_blocksCount = n,
           Luck_window = Api_LuckWindow cfg,
           Luck_totalVariance = (if totalN \<noteq> 0 then fl_div totalVar (fl_of_int totalN) else totalVar),
           Luck_totalBlocksCount = totalN, Luck_largeWindow = Api_LargeLuckWindow cfg\<rparr>))"

lemma luck_blocks_eq:
  "luck_blocks small large xs (a, n, b, t, st) =
     (foldl fl_add a (map (Be_variance \<circ> snd) (filter (\<lambda>x. small \<le> fst x) xs)),
      n + int (length (filter (\<lambda>x. small \<le> fst x) xs)),
      foldl fl_add b (map (Be_variance \<circ> snd) (filter (\<lambda>x. large \<le> fst x) xs)),
      t + int (length (filter (\<lambda>x. large \<le> fst x) xs)),
      fmfilter (\<lambda>k. k \<in> fst ` set xs \<longrightarrow> \<not> k < large) st)"
proof (induction xs arbitrary: a n b t st)
  case (Cons x xs)
  then show ?case by (cases x) (auto simp: Cons.IH intro!: fmap_ext)
qed simp

record BlockRow =
  Brow_height :: int
  Brow_hash :: string
  Brow_variance :: float64
  Brow_timestamp :: int

fun block_rows ::
  "int \<Rightarrow> (int \<times> blockEntry) list \<Rightarrow> BlockRow list \<times> (int, blockEntry) fmap \<Rightarrow> BlockRow list \<times> (int, blockEntry) fmap" where
  "block_rows large [] acc = acc"
| "block_rows large ((k, v) # rest) (rows, stats) =
     block_rows large rest
       (if large \<le> k
        then (rows @ [\<lparr>Brow_height = Be_height v, Brow_hash = Be_hash v, Brow_variance = Be_variance v,
                Brow_timestamp = k\<rparr>], stats)
        else (rows, fmdrop k stats))"

definition block_row :: "int \<times> blockEntry \<Rightarrow> BlockRow" where
  "block_row x = \<lparr>Brow_height = Be_height (snd x), Brow_hash = Be_hash (snd x), Brow_variance = Be_variance (snd x),
     Brow_timestamp = fst x\<rparr>"

lemma block_rows_eq:
  "block_rows large xs (rows, st) =
     (rows @ map block_row (filter (\<lambda>x. large \<le> fst x) xs),
      fmfilter (\<lambda>k. k \<in> fst ` set xs \<longrightarrow> \<not> k < large) st)"
proof (induction xs arbitrary: rows st)
  case (Cons x xs)
  then show ?case by (cases x) (auto simp: Cons.IH block_row_def intro!: fmap_ext)
qed simp

text \<open>Ranging over the whole map forgets exactly what is out of the window.\<close>

lemma range_drop:
  fixes large :: int
  assumes "range_law rng"
  shows "fmfilter (\<lambda>k. k \<in> fst ` set (rng f) \<longrightarrow> \<not> k < large) f = fmfilter (\<lambda>k. large \<le> k) f"
proof (rule fmap_ext)
  fix k
  have "k \<in> fst ` set (rng f) \<longleftrightarrow> fmlookup f k \<noteq> None"
    using range_law_keys [OF assms, of f] by (simp add: fmlookup_dom_iff)
  then show "fmlookup (fmfilter (\<lambda>k. k \<in> fst ` set (rng f) \<longrightarrow> \<not> k < large) f) k =
      fmlookup (fmfilter (\<lambda>k. large \<le> k) f) k"
    by auto
qed

lemma range_count:
  assumes "range_law rng"
  shows "length (filter (\<lambda>x. P (fst x)) (rng f)) = card {k. k |\<in>| fmdom f \<and> P k}"
proof -
  have "distinct (filter P (map fst (rng f)))" using range_law_distinct [OF assms] by simp
  moreover have "set (filter P (map fst (rng f))) = {k. k |\<in>| fmdom f \<and> P k}"
    using range_law_keys [OF assms, of f] by auto
  ultimately have "length (filter P (map fst (rng f))) = card {k. k |\<in>| fmdom f \<and> P k}"
    by (metis distinct_card)
  then show ?thesis by (simp add: filter_map comp_def)
qed

definition getBlocksStats ::
  "((int, blockEntry) fmap \<Rightarrow> (int \<times> blockEntry) list) \<Rightarrow> api_config \<Rightarrow> int \<Rightarrow> 'db StratumServer \<Rightarrow>
   'db StratumServer \<times> BlockRow list" where
  "getBlocksStats rngb cfg now s =
     (let (rows, stats) = block_rows (wrap64 (now - Api_luckLargeWindow cfg)) (rngb (blockStats s)) ([], blockStats s)
      in (s\<lparr>blockStats := stats\<rparr>, rows))"

subsection \<open>The page\<close>

record UpstreamRow =
  Up_name :: string
  Up_url :: string
  Up_sick :: bool
  Up_accepts :: int
  Up_rejects :: int
  Up_lastSubmissionAt :: int
  Up_failsCount :: int

definition convertUpstream :: "RPCClient \<Rightarrow> UpstreamRow" where
  "convertUpstream u =
     \<lparr>Up_name = Rpc_Name u, Up_url = Rpc_Url u, Up_sick = Sick u, Up_accepts = Accepts u, Up_rejects = Rejects u,
      Up_lastSubmissionAt = LastSubmissionAt u, Up_failsCount = FailsCount u\<rparr>"

record TemplateRow =
  Tr_height :: int
  Tr_diff :: int
  Tr_variance :: float64
  Tr_prevHash :: string

record StatusPage =
  Page_miners :: "MinerRow list"
  Page_hashrate :: float64
  Page_hashrate24h :: float64
  Page_totalMiners :: int
  Page_totalOnline :: int
  Page_timedOut :: int
  Page_now :: int
  Page_upstreams :: "(UpstreamRow \<times> bool) list"
  Page_current :: UpstreamRow
  Page_luck :: LuckStats
  Page_blocks :: "BlockRow list"
  Page_template :: "TemplateRow option"

text \<open>What the JSON encoder accepts.\<close>

definition encodable :: "StatusPage \<Rightarrow> bool" where
  "encodable pg \<longleftrightarrow>
     list_all (\<lambda>r. is_finite (Row_hashrate r) \<and> is_finite (Row_hashrate24h r)) (Page_miners pg) \<and>
     is_finite (Page_hashrate pg) \<and> is_finite (Page_hashrate24h pg) \<and>
     is_finite (Luck_variance (Page_luck pg)) \<and> is_finite (Luck_totalVariance (Page_luck pg)) \<and>
     list_all (\<lambda>b. is_finite (Brow_variance b)) (Page_blocks pg) \<and>
     (case Page_template pg of None \<Rightarrow> True | Some t \<Rightarrow> is_finite (Tr_variance t))"

text \<open>The template's part; \<open>t.prevHash[0:8]\<close> panics when the hash is shorter.\<close>

definition template_row :: "'db StratumServer \<Rightarrow> TemplateRow option go" where
  "template_row s =
     (case currentBlockTemplate s of
        None \<Rightarrow> Ok None
      | Some t \<Rightarrow>
          if length (prevHash t) < 8 then Panic ''slice bounds out of range''
          else Ok (Some \<lparr>Tr_height = Tpl_height t, Tr_diff = diffInt64 t,
                 Tr_variance = fl_div (fl_of_int (roundShares s)) (fl_of_int (diffInt64 t)),
                 Tr_prevHash = take 8 (prevHash t)\<rparr>))"

text \<open>The page that goes out, or nothing when it cannot be encoded.\<close>

definition StatsIndex ::
  "((string, nat) fmap \<Rightarrow> (string \<times> nat) list) \<Rightarrow> ((int, int) fmap \<Rightarrow> (int \<times> int) list) \<Rightarrow>
   ((int, blockEntry) fmap \<Rightarrow> (int \<times> blockEntry) list) \<Rightarrow> api_config \<Rightarrow> int \<Rightarrow>
   'db StratumServer \<Rightarrow> 'db StratumServer \<times> StatusPage option go" where
  "StatsIndex rngm rng rngb cfg now s =
     (let ((hr, hr24, online, rows), s) = collectMinersStats rngm rng cfg now s;
          ups = map (\<lambda>(i, u). (convertUpstream u, upstream s = i)) (enumerate 0 (upstreams s))
      in bindS (s, rpc s) (\<lambda>s current.
         let (s, luck) = getLuckStats rngb cfg now s;
             (s, blks) = getBlocksStats rngb cfg now s
         in bindS (s, template_row s) (\<lambda>s tpl.
            let pg = \<lparr>Page_miners = rows, Page_hashrate = hr, Page_hashrate24h = hr24,
                 Page_totalMiners = int (length rows), Page_totalOnline = online,
                 Page_timedOut = int (length rows) - online, Page_now = now, Page_upstreams = ups,
                 Page_current = convertUpstream current, Page_luck = luck, Page_blocks = blks,
                 Page_template = tpl\<rparr>
            in (s, Ok (if encodable pg then Some pg else None)))))"

end
