(* ===== verification/ServerInv.thy ===== *)
theory ServerInv
  imports Handlers Upstreams Api
begin

text \<open>
  What holds of the stratum server in every reachable state, and that each of its operations keeps
  it: the sharded map is well formed and its entries point to miners of that id, whose \<open>startedAt\<close> no
  operation sets, a session holds at
  most four jobs and none before there is a template, and the current upstream exists.
\<close>

definition miners_ok :: "'db StratumServer \<Rightarrow> bool" where
  "miners_ok s \<longleftrightarrow>
     wf_mmap (miners s) \<and>
     (\<forall>k m. mmap_abs (miners s) k = Some m \<longrightarrow> m < minerNext s \<and>
       Miner_id (minerStore s m) = k \<and> startedAt (minerStore s m) = 0)"

definition sessions_ok :: "'db StratumServer \<Rightarrow> bool" where
  "sessions_ok s \<longleftrightarrow>
     distinct (sessions s) \<and>
     (\<forall>cs. length (validJobs (sessionStore s cs)) \<le> 4 \<and>
           (validJobs (sessionStore s cs) \<noteq> [] \<longrightarrow> blockTemplate s \<noteq> None))"

definition upstreams_ok :: "'db StratumServer \<Rightarrow> bool" where
  "upstreams_ok s \<longleftrightarrow> upstream s < length (upstreams s) \<and> length (upstreamsStates s) \<le> 60"

definition server_inv :: "'db StratumServer \<Rightarrow> bool" where
  "server_inv s \<longleftrightarrow> miners_ok s \<and> sessions_ok s \<and> upstreams_ok s"

lemmas inv_defs = server_inv_def miners_ok_def sessions_ok_def upstreams_ok_def

named_theorems keep "steps that keep the server's invariant"

lemma bindS_keep:
  assumes "P (fst m)" "\<And>s x. m = (s, Ok x) \<Longrightarrow> P s \<Longrightarrow> P (fst (f s x))"
  shows "P (fst (bindS m f))"
proof -
  obtain s r where m: "m = (s, r)" by (cases m)
  with assms show ?thesis by (cases r) auto
qed

text \<open>Updates of fields the invariant does not look at, or not closely.\<close>

lemma inv_simps [simp]:
  "server_inv (s\<lparr>database := db\<rparr>) = server_inv s"
  "server_inv (s\<lparr>roundShares := n\<rparr>) = server_inv s"
  "server_inv (s\<lparr>blockStats := b\<rparr>) = server_inv s"
  "server_inv (set_endpoint e v s) = server_inv s"
  "server_inv (set_upstream i r s) = server_inv s"
  by (simp_all add: inv_defs set_endpoint_def set_upstream_def)

lemma inv_set_session [simp]:
  "server_inv s \<Longrightarrow> length (validJobs v) \<le> 4 \<Longrightarrow> (validJobs v \<noteq> [] \<longrightarrow> blockTemplate s \<noteq> None) \<Longrightarrow>
   server_inv (set_session cs v s)"
  by (auto simp: inv_defs set_session_def)

lemma inv_bump_miner [simp]:
  "server_inv s \<Longrightarrow> (\<And>m. Miner_id (f m) = Miner_id m \<and> startedAt (f m) = startedAt m) \<Longrightarrow> server_inv (bump_miner m f s)"
  by (auto simp: inv_defs bump_miner_def set_miner_def)

lemma inv_sessions [simp]:
  "server_inv s \<Longrightarrow> server_inv (registerSession cs s)"
  "server_inv s \<Longrightarrow> server_inv (removeSession cs s)"
  by (auto simp: inv_defs registerSession_def removeSession_def)

lemma inv_template [simp]: "server_inv s \<Longrightarrow> server_inv (s\<lparr>blockTemplate := Some t\<rparr>)"
  by (auto simp: inv_defs)

lemma on_db_fst [simp]: "fst (on_db s f) = s\<lparr>database := snd (f (database s))\<rparr>"
  by (simp add: on_db_def Let_def split_beta)

lemma Miner_id_updates [simp]:
  "Miner_id (heartbeat now m) = Miner_id m" "Miner_id (inc_invalid m) = Miner_id m"
  "Miner_id (inc_stale m) = Miner_id m" "Miner_id (storeShare now d m) = Miner_id m"
  "startedAt (heartbeat now m) = startedAt m" "startedAt (inc_invalid m) = startedAt m"
  "startedAt (inc_stale m) = startedAt m" "startedAt (storeShare now d m) = startedAt m"
  by (simp_all add: heartbeat_def inc_invalid_def inc_stale_def storeShare_def Let_def)

lemma template_updates [simp]:
  "blockTemplate (set_session cs v s) = blockTemplate s"
  "blockTemplate (set_endpoint e ep s) = blockTemplate s"
  "blockTemplate (set_upstream i r s) = blockTemplate s"
  "blockTemplate (bump_miner m f s) = blockTemplate s"
  "blockTemplate (removeSession cs s) = blockTemplate s"
  "blockTemplate (registerSession cs s) = blockTemplate s"
  by (simp_all add: set_session_def set_endpoint_def set_upstream_def bump_miner_def set_miner_def
      removeSession_def registerSession_def)

lemma sessionStore_simps [simp]:
  "sessionStore (set_session cs v s) = (sessionStore s)(cs := v)"
  "sessionStore (set_endpoint e ep s) = sessionStore s"
  "sessionStore (bump_miner m f s) = sessionStore s"
  by (simp_all add: set_session_def set_endpoint_def bump_miner_def set_miner_def)

lemma inv_jobs: "server_inv s \<Longrightarrow> length (validJobs (sessionStore s cs)) \<le> 4"
  by (simp add: inv_defs)

lemma inv_job_template: "server_inv s \<Longrightarrow> validJobs (sessionStore s cs) \<noteq> [] \<Longrightarrow> blockTemplate s \<noteq> None"
  by (auto simp: inv_defs)

subsection \<open>Jobs and templates\<close>

lemma getJob_template [simp]: "blockTemplate (fst (getJob c cs t s)) = blockTemplate s"
  by (auto simp: getJob_def Let_def split: go.splits)

lemma getJob_keep [keep]:
  assumes "server_inv s" "blockTemplate s \<noteq> None"
  shows "server_inv (fst (getJob c cs t s))"
  using assms inv_jobs [OF assms(1)]
  by (auto simp: getJob_def Let_def length_pushJob split: go.splits)

definition ready :: "'db StratumServer \<Rightarrow> bool" where
  "ready s \<longleftrightarrow> server_inv s \<and> blockTemplate s \<noteq> None"

lemma getJob_ready: "ready s \<Longrightarrow> ready (fst (getJob c cs t s))"
  by (simp add: ready_def getJob_keep)

lemma broadcast_ready:
  fixes s :: "'db StratumServer"
  shows "ready s \<Longrightarrow> ready (fst (broadcast_to env t css s))"
proof (induction css arbitrary: s)
  case (Cons cs css)
  show ?case unfolding broadcast_to.simps
  proof (rule bindS_keep [where P = ready])
    fix s1 :: "'db StratumServer" and reply
    assume "ready s1"
    then have "ready (if push_ok env cs then s1 else removeSession cs s1)" by (simp add: ready_def)
    then have "ready (fst (broadcast_to env t css (if push_ok env cs then s1 else removeSession cs s1)))"
      by (rule Cons.IH)
    then show "ready (fst (let s = if push_ok env cs then s1 else removeSession cs s1
        in bindS (broadcast_to env t css s) (\<lambda>s msgs. (s, Ok ((cs, reply) # msgs)))))"
      unfolding Let_def by (rule bindS_keep) simp
  qed (rule getJob_ready [OF Cons.prems])
qed simp

lemma fetch_keep [keep]:
  assumes "server_inv s" shows "server_inv (fst (fetchBlockTemplate env s))"
  using assms
  by (auto simp: fetchBlockTemplate_def currentBlockTemplate_def Let_def
      split: go.splits prod.splits option.splits)

lemma refresh_keep [keep]:
  assumes "server_inv s" shows "server_inv (fst (refreshBlockTemplate env b s))"
  unfolding refreshBlockTemplate_def
proof (rule bindS_keep [where P = server_inv])
  fix s1 newBlock
  assume f: "fetchBlockTemplate env s = (s1, Ok newBlock)" "server_inv s1"
  show "server_inv (fst (if newBlock \<and> b then broadcastNewJobs env s1 else (s1, Ok [])))"
    using f(2) broadcast_ready [of s1]
    by (auto simp: broadcastNewJobs_def currentBlockTemplate_def ready_def split: option.splits)
qed (rule fetch_keep [OF assms])


subsection \<open>Shares\<close>

lemma write_repeated_keep [simp]: "server_inv s \<Longrightarrow> server_inv (write_repeated env now cs s)"
  by (simp add: write_repeated_def Let_def)

lemma count_share_keep [simp]: "server_inv s \<Longrightarrow> server_inv (count_share now cs m s)"
  by (simp add: count_share_def Let_def)

lemma pure_keep: "server_inv s \<Longrightarrow> (\<And>x. r = Ok x \<Longrightarrow> server_inv (fst (f s x))) \<Longrightarrow> server_inv (fst (bindS (s, r) f))"
  by (cases r) auto

lemma record_block_keep [keep]:
  fixes s :: "'db StratumServer"
  assumes "server_inv s" shows "server_inv (fst (record_block env now cs m t h paramIn r s))"
  unfolding record_block_def Let_def
proof (rule bindS_keep [where P = server_inv])
  fix s1 :: "'db StratumServer" and x
  assume "server_inv s1"
  then show "server_inv (fst (case x of (exist, err) \<Rightarrow>
      if exist then (write_repeated env now cs s1, Ok False)
      else bindS (refreshBlockTemplate env True s1) (\<lambda>s _. (s, Ok True))))"
    by (auto split: prod.splits intro!: bindS_keep [where P = server_inv] refresh_keep)
qed (simp add: assms)

lemma submit_block_keep [keep]:
  assumes "server_inv s" shows "server_inv (fst (submit_block env now cs m t shareBuff cb paramIn s))"
  unfolding submit_block_def
proof (rule pure_keep [OF assms])
  fix r
  assume "rpc s = Ok r"
  obtain r' out where sb: "SubmitBlock (Net (Daemon env)) r (hex_encode shareBuff) = (r', out)"
    by (metis prod.exhaust)
  show "server_inv (fst (case SubmitBlock (Net (Daemon env)) r (hex_encode shareBuff) of
         (r, Panic p) \<Rightarrow> (set_upstream (upstream s) r s, Panic p)
       | (r, Fail e) \<Rightarrow>
           (bump_miner m (\<lambda>m. m\<lparr>rejects := wrap64 (rejects m + 1)\<rparr>)
             (set_upstream (upstream s) (r\<lparr>Rejects := wrap64 (Rejects r + 1)\<rparr>) s), Ok True)
       | (r, Ok _) \<Rightarrow>
           bindS (s, if cb = [] then ConvertBlob (CLib env) shareBuff else Ok cb) (\<lambda>s convertedBlob.
           bindS (s, FastHash (CLib env) convertedBlob) (\<lambda>s fastHash.
           record_block env now cs m t (hex_encode fastHash) paramIn r s))))"
    unfolding sb using assms
    by (cases out) (auto intro!: pure_keep record_block_keep)
qed

lemma processShare_keep [keep]:
  assumes "server_inv s" shows "server_inv (fst (processShare env now cs m job t nonce result s))"
  unfolding processShare_def Let_def
  by (intro pure_keep assms)
    (auto simp: assms on_db_def Let_def split: option.splits prod.splits if_splits bool.splits
      intro!: bindS_keep [where P = server_inv] submit_block_keep)

subsection \<open>Handlers\<close>

lemma miners_get:
  assumes "server_inv s"
  shows "MinersMap_Get (miners s) k = Ok (mmap_abs (miners s) k)"
  using assms by (simp add: inv_defs Get_spec)

lemma new_miner_ready:
  assumes "ready s" "mmap_abs (miners s) k = None"
  shows "ready (fst (bindS (registerMiner (minerNext s) (fst (allocMiner (NewMiner k ip n) s)))
      (\<lambda>s _. (s, Ok m))))"
proof -
  let ?s = "fst (allocMiner (NewMiner k ip n) s)"
  have wf: "wf_mmap (miners s)" using assms(1) by (simp add: ready_def inv_defs)
  have s: "miners ?s = miners s" "Miner_id (minerStore ?s (minerNext s)) = k"
    by (simp_all add: allocMiner_def set_miner_def NewMiner_def)
  obtain mm where mm: "MinersMap_Set (miners s) k (minerNext s) = Ok mm" "wf_mmap mm"
      "mmap_abs mm = (mmap_abs (miners s))(k \<mapsto> minerNext s)"
    using Set_spec [OF wf] by blast
  then have "registerMiner (minerNext s) ?s = (?s\<lparr>miners := mm\<rparr>, Ok ())"
    using s by (simp add: registerMiner_def)
  moreover have "ready (?s\<lparr>miners := mm\<rparr>)"
    using assms mm(2,3)
    by (auto simp: ready_def inv_defs allocMiner_def set_miner_def NewMiner_def less_Suc_eq)
  ultimately show ?thesis by simp
qed

lemma handleLogin_keep [keep]:
  assumes "server_inv s" shows "server_inv (fst (handleLoginRPC env now cs params s))"
proof -
  obtain address wid where w: "extractWorkerId (Login params) = (address, wid)" by (metis prod.exhaust)
  show ?thesis
  proof (cases "(\<not> BypassAddressValidation env \<and> \<not> ValidateAddress (CLib env) address) \<or> blockTemplate s = None")
    case True
    with assms w show ?thesis by (auto simp: handleLoginRPC_def currentBlockTemplate_def split: option.splits)
  next
    case False
    then obtain t where t: "blockTemplate s = Some t" by blast
    define s1 where "s1 = set_session cs ((sessionStore s cs)\<lparr>Ses_login := address, Ses_id := wid\<rparr>) s"
    have r1: "ready s1" using assms inv_jobs [OF assms] t by (auto simp: s1_def ready_def)
    let ?find = "case mmap_abs (miners s1) wid of Some m \<Rightarrow> (s1, Ok m)
       | None \<Rightarrow> let (s, m) = allocMiner (NewMiner wid (Ses_ip (sessionStore s1 cs)) (Threads env)) s1
                 in bindS (registerMiner m s) (\<lambda>s _. (s, Ok m))"
    have find: "ready (fst ?find)"
    proof (cases "mmap_abs (miners s1) wid")
      case None
      then have "?find = bindS (registerMiner (minerNext s1)
          (fst (allocMiner (NewMiner wid (Ses_ip (sessionStore s1 cs)) (Threads env)) s1)))
          (\<lambda>s _. (s, Ok (minerNext s1)))"
        by (simp add: allocMiner_def)
      then show ?thesis using new_miner_ready [OF r1 None] by simp
    qed (use r1 in simp)
    have "ready (fst (bindS ?find (\<lambda>s m.
        let s = registerSession cs s; s = bump_miner m (heartbeat now) s
        in bindS (getJob (CLib env) cs t s) (\<lambda>s job.
           (s, Ok (Inr \<lparr>Reply_Id = wid, Reply_Job = job, Reply_Status = ''OK''\<rparr> :: ErrorReply + JobReply))))))"
      unfolding Let_def
      by (rule bindS_keep [where P = ready, OF find [unfolded Let_def]], rule bindS_keep [where P = ready], rule getJob_ready)
        (simp_all add: ready_def)
    moreover have "handleLoginRPC env now cs params s = bindS ?find (\<lambda>s m.
        let s = registerSession cs s; s = bump_miner m (heartbeat now) s
        in bindS (getJob (CLib env) cs t s) (\<lambda>s job.
           (s, Ok (Inr \<lparr>Reply_Id = wid, Reply_Job = job, Reply_Status = ''OK''\<rparr>))))"
      using False w t miners_get [of s1 wid] r1
      by (simp add: handleLoginRPC_def currentBlockTemplate_def Let_def ready_def flip: s1_def) auto
    ultimately show ?thesis by (simp add: ready_def)
  qed
qed

lemma handleGetJob_keep [keep]:
  assumes "server_inv s" shows "server_inv (fst (handleGetJobRPC env now cs params s))"
  unfolding handleGetJobRPC_def
  by (intro pure_keep assms)
    (auto simp: assms currentBlockTemplate_def split: option.splits
      intro!: bindS_keep [where P = server_inv] getJob_keep)

lemma inv_update_job:
  assumes "server_inv s" "findJob (sessionStore s cs) jid = Some i"
  shows "server_inv (set_session cs ((sessionStore s cs)\<lparr>validJobs := (validJobs (sessionStore s cs))[i := job]\<rparr>) s)"
    and "blockTemplate s \<noteq> None"
proof -
  have "validJobs (sessionStore s cs) \<noteq> []" using assms(2) by (auto simp: findJob_def)
  then show "blockTemplate s \<noteq> None" by (rule inv_job_template [OF assms(1)])
  then show "server_inv (set_session cs ((sessionStore s cs)\<lparr>validJobs := (validJobs (sessionStore s cs))[i := job]\<rparr>) s)"
    using inv_jobs [OF assms(1)] by (intro inv_set_session assms(1)) auto
qed

lemma handleSubmit_keep [keep]:
  assumes "server_inv s" shows "server_inv (fst (handleSubmitRPC env now cs params s))"
  unfolding handleSubmitRPC_def
proof (intro pure_keep assms)
  fix found
  show "server_inv (fst (case found of None \<Rightarrow> (s, Ok (Inl (err_reply ''Unauthenticated'')))
     | Some m \<Rightarrow> let s = bump_miner m (heartbeat now) s; ses = sessionStore s cs
       in case findJob ses (SP_JobId params) of None \<Rightarrow> (s, Ok (Inl (err_reply ''Invalid job id'')))
        | Some i \<Rightarrow>
          if \<not> noncePattern (SP_Nonce params) then (s, Ok (Inl (err_reply ''Malformed nonce'')))
          else let nonce = to_lower (SP_Nonce params); (job, exist) = Job_submit (validJobs ses ! i) nonce;
                 s = set_session cs (ses\<lparr>validJobs := (validJobs ses)[i := job]\<rparr>) s
               in if exist then (bump_miner m inc_invalid s, Ok (Inl (err_reply ''Duplicate share'')))
                  else case currentBlockTemplate s of None \<Rightarrow> (s, Panic ''nil pointer dereference'')
                    | Some t \<Rightarrow>
                      if Job_height job \<noteq> Tpl_height t
                      then (bump_miner m inc_stale s, Ok (Inl (err_reply ''Block expired'')))
                      else bindS (processShare env now cs m job t nonce (SP_Result params) s)
                        (\<lambda>s valid. if valid then (s, Ok (Inr ''OK''))
                           else (s, Ok (Inl (err_reply ''Low difficulty share''))))))"
    using assms inv_update_job(1) [of "bump_miner m (heartbeat now) s" cs for m]
    by (auto simp: Let_def split: option.splits prod.splits
        intro!: bindS_keep [where P = server_inv] processShare_keep)
qed

lemma answer_fst [simp]: "fst (answer sent d f out) = fst out"
  by (cases out; cases "snd out") (auto simp: answer_def)

lemma handleMessage_keep [keep]:
  assumes "server_inv s" shows "server_inv (fst (handleMessage env dec sent now cs req s))"
  using assms
  by (auto simp: handleMessage_def decoded_def split: option.splits go.splits intro: keep)

subsection \<open>Upstreams\<close>

lemma check_all_bound:
  "check_all check vs i (candidate, b) = (us, Ok (c, b')) \<Longrightarrow> candidate < i + length vs \<Longrightarrow> c < i + length vs"
  by (induction check vs i "(candidate, b)" arbitrary: candidate b us rule: check_all.induct)
    (fastforce split: prod.splits go.splits if_splits)+

lemma checkUpstreams_keep [keep]:
  assumes "server_inv s" shows "server_inv (fst (checkUpstreams env s))"
proof -
  let ?c = "\<lambda>v. Check (Net (Daemon env)) (DecTemplate (Daemon env)) v 8 (Address env)"
  obtain us out where c: "check_all ?c (upstreams s) 0 (0, False) = (us, out)" by (metis prod.exhaust)
  have len: "length us = length (upstreams s)" by (rule length_check_all [OF c])
  have up: "upstream s < length (upstreams s)" "length (upstreamsStates s) \<le> 60"
    using assms by (auto simp: inv_defs)
  have s1: "server_inv (s\<lparr>upstreams := us\<rparr>)" using assms len by (simp add: inv_defs)
  show ?thesis
    unfolding checkUpstreams_def c prod.case Let_def
  proof (rule pure_keep [OF s1])
    fix x
    assume x: "out = Ok x"
    obtain cand b where cb: "x = (cand, b)" by (cases x)
    have cand: "cand < length us" using check_all_bound [OF c [unfolded x cb]] up(1) len by force
    let ?s2 = "s\<lparr>upstreams := us, upstream := cand\<rparr>"
    have "server_inv (?s2\<lparr>upstreamsStates := fst (note_states (upstreamsStates s) q)\<rparr>)" for q
      using s1 cand length_note_states [OF up(2)] by (simp add: inv_defs)
    moreover have "s\<lparr>upstreams := us\<rparr> = ?s2" if "upstream s = cand" using that by simp
    ultimately show "server_inv (fst (case x of (candidate, _) \<Rightarrow>
        bindS (if upstream (s\<lparr>upstreams := us\<rparr>) \<noteq> candidate
               then case index_go (upstreams (s\<lparr>upstreams := us\<rparr>)) candidate of
                      Ok _ \<Rightarrow> (s\<lparr>upstreams := us, upstream := candidate\<rparr>, Ok ())
                    | Fail e \<Rightarrow> (s\<lparr>upstreams := us\<rparr>, Fail e) | Panic p \<Rightarrow> (s\<lparr>upstreams := us\<rparr>, Panic p)
               else (s\<lparr>upstreams := us\<rparr>, Ok ()))
          (\<lambda>s _. case note_states (upstreamsStates s) (list_all Sick (upstreams s)) of
             (states, fatal) \<Rightarrow> (s\<lparr>upstreamsStates := states\<rparr>, Ok fatal))))"
      using cand cb by (auto simp: index_go_def split_beta)
  qed
qed

subsection \<open>The status page\<close>

lemma collect_keep [keep]:
  assumes "server_inv s" shows "server_inv (snd (collectMinersStats rngm rng cfg now s))"
proof -
  obtain a b n rows s1
    where "collect_miners rng cfg now (MinersMap_Iter rngm (miners s)) (Fin 0, Fin 0, 0, []) s = ((a, b, n, rows), s1)"
    by (metis prod.exhaust)
  moreover from collect_miners_rows [OF this] have "server_inv s1"
    using assms by (auto simp: inv_defs forget_def)
  ultimately show ?thesis by (simp add: collectMinersStats_def)
qed

lemma StatsIndex_keep [keep]:
  assumes "server_inv s" shows "server_inv (fst (StatsIndex rngm rng rngb cfg now s))"
proof -
  obtain hr hr24 online rows s1
    where c: "collectMinersStats rngm rng cfg now s = ((hr, hr24, online, rows), s1)" by (metis prod.exhaust)
  then have "server_inv s1" using collect_keep [OF assms, of rngm rng cfg now] by simp
  then show ?thesis
    by (auto simp: StatsIndex_def c Let_def getLuckStats_def getBlocksStats_def split_beta
        intro!: bindS_keep [where P = server_inv])
qed

subsection \<open>Reachable states\<close>

text \<open>
  \<open>NewStratum\<close>: the clients of the configured upstreams, no miners, no sessions and no template.
  The stores hold whatever; nothing points into them yet but the endpoints of the listeners.
\<close>

definition NewStratum :: "RPCClient list \<Rightarrow> (nat \<Rightarrow> Endpoint) \<Rightarrow> Miner \<Rightarrow> 'db \<Rightarrow> 'db StratumServer go" where
  "NewStratum clients eps m db =
     (let s = \<lparr>roundShares = 0, blockStats = fmempty, miners = NewMinersMap, blockTemplate = None,
               upstream = 0, upstreams = clients, upstreamsStates = [], sessions = [],
               sessionStore = (\<lambda>cs. NewSession [] 0), endpointStore = eps, minerStore = (\<lambda>_. m),
               minerNext = 0, database = db\<rparr>
      in bindG (rpc s) (\<lambda>_. Ok s))"

text \<open>
  A step of the server: a message of a session, a session that ends or connects, a refresh of the
  template, a check of the upstreams, a status page, or another process changing the database.  \<open>envs\<close> are the
  surroundings a step may meet: the daemon's answers, the backend's and which pushes succeed change
  from step to step.
\<close>

inductive server_step ::
  "('raw, 'db) server_env set \<Rightarrow> 'j param_decoder \<Rightarrow> 'db StratumServer \<Rightarrow> 'db StratumServer \<Rightarrow> bool" for envs dec where
  message: "env \<in> envs \<Longrightarrow> handleMessage env dec sent now cs req s = (s', Ok out) \<Longrightarrow> server_step envs dec s s'"
| leave: "server_step envs dec s (removeSession cs s)"
| connect: "server_step envs dec s (set_session cs (NewSession ip e) s)"
| refresh: "env \<in> envs \<Longrightarrow> refreshBlockTemplate env b s = (s', Ok msgs) \<Longrightarrow> server_step envs dec s s'"
| check: "env \<in> envs \<Longrightarrow> checkUpstreams env s = (s', Ok False) \<Longrightarrow> server_step envs dec s s'"
| status: "StatsIndex rngm rng rngb cfg now s = (s', Ok page) \<Longrightarrow> server_step envs dec s s'"
| database: "server_step envs dec s (s\<lparr>database := db\<rparr>)"

lemma server_inv_init: "NewStratum clients eps m db = Ok s \<Longrightarrow> server_inv s"
  by (auto simp: NewStratum_def rpc_def inv_defs NewSession_def bindG_Ok_iff Let_def index_go_def split: if_splits)

lemma server_step_keep: "server_step envs dec s s' \<Longrightarrow> server_inv s \<Longrightarrow> server_inv s'"
proof (induction rule: server_step.induct)
  case (message env sent now cs req s s' out)
  then show ?case using handleMessage_keep [of s env dec sent now cs req] by simp
next
  case (refresh env b s s' msgs)
  then show ?case using refresh_keep [of s env b] by simp
next
  case (check env s s')
  then show ?case using checkUpstreams_keep [of s env] by simp
next
  case (status rngm rng rngb cfg now s s' page)
  then show ?case using StatsIndex_keep [of s rngm rng rngb cfg now] by simp
qed (auto simp: NewSession_def)

lemma server_steps_keep: "(server_step envs dec)\<^sup>*\<^sup>* s s' \<Longrightarrow> server_inv s \<Longrightarrow> server_inv s'"
  by (induction rule: rtranclp_induct) (auto intro: server_step_keep)

end
