(* ===== verification/Login.thy ===== *)
theory Login
  imports ServerInv Samples
begin

text \<open>
  Logging in: what a session holds and what is registered afterwards, and a run of the server that
  starts with one upstream, fetches a template and lets a session connect and log in.
\<close>

subsection \<open>A session's new job\<close>

lemma nextBlob_Ok:
  assumes "wf_template t" "length inst = 4"
  shows "\<exists>blob. nextBlob c t n inst = Ok blob"
proof -
  obtain buf where buf: "reserve t n inst = Ok buf" using reserve_eq [OF assms] by blast
  then have "buf \<noteq> []" using length_reserve [OF buf] assms(1) by (auto simp: wf_template_def)
  then show ?thesis using buf by (simp add: nextBlob_def ConvertBlob_def c_call_def)
qed

lemma getJob_new:
  assumes "wf_template t" "length (instanceId (endpoint_of s cs)) = 4"
    and "lastBlockHeight (sessionStore s cs) \<noteq> Tpl_height t"
  obtains s' reply job where "getJob c cs t s = (s', Ok reply)"
    "sessionStore s' = (sessionStore s)(cs := pushJob ((sessionStore s cs)\<lparr>lastBlockHeight := Tpl_height t\<rparr>) job)"
    "Job_id job = JobId reply" "Job_height job = Tpl_height t" "JR_Height reply = Tpl_height t"
    "Target reply = targetHex (endpoint_of s cs)"
    "miners s' = miners s" "minerStore s' = minerStore s" "sessions s' = sessions s"
    "\<And>e. instanceId (endpointStore s' e) = instanceId (endpointStore s e)"
proof -
  let ?ep = "endpoint_of s cs"
  let ?job = "\<lparr>Job_height = Tpl_height t, Job_id = show_nat (unat (jobSequence ?ep + 1)),
    Job_extraNonce = Ep_extraNonce ?ep + 1, submissions = {||}\<rparr>"
  obtain blob where blob: "nextBlob c t (Ep_extraNonce ?ep + 1) (instanceId ?ep) = Ok blob"
    using nextBlob_Ok [OF assms(1,2)] by blast
  have ep: "endpoint_of (set_session cs ((sessionStore s cs)\<lparr>lastBlockHeight := h\<rparr>) s) cs = ?ep" for h
    by (simp add: endpoint_of_def set_session_def)
  obtain s' reply where run: "getJob c cs t s = (s', Ok reply)"
    using blob assms(3) by (auto simp: getJob_def Let_def ep)
  note eq = run [unfolded getJob_def Let_def ep, symmetric] blob assms(3)
  show ?thesis
  proof (rule that [OF run, of ?job])
    show "sessionStore s' = (sessionStore s)(cs := pushJob ((sessionStore s cs)\<lparr>lastBlockHeight := Tpl_height t\<rparr>) ?job)"
      using eq by (auto simp: set_session_def set_endpoint_def)
  qed (use eq in \<open>auto simp: set_session_def set_endpoint_def endpoint_of_def\<close>)
qed

lemma pushJob_found: "findJob (pushJob ses job) (Job_id job) \<noteq> None"
proof -
  have "job \<in> set (validJobs (pushJob ses job))"
    by (cases "validJobs ses") (auto simp: pushJob_def Let_def)
  then show ?thesis by (auto simp: findJob_def find_job_None)
qed

subsection \<open>The worker's miner\<close>

lemma find_or_register:
  assumes "server_inv s"
  obtains s' m where
    "(case mmap_abs (miners s) w of None \<Rightarrow> (case allocMiner (NewMiner w ip n) s of
        (s, m) \<Rightarrow> bindS (registerMiner m s) (\<lambda>s _. (s, Ok m))) | Some m \<Rightarrow> (s, Ok m)) = (s', Ok m)"
    "mmap_abs (miners s') = (mmap_abs (miners s))(w \<mapsto> m)" "wf_mmap (miners s')"
    "sessionStore s' = sessionStore s" "endpointStore s' = endpointStore s" "sessions s' = sessions s" "blockTemplate s' = blockTemplate s"
    "mmap_abs (miners s) w = None \<Longrightarrow> minerStore s' m = NewMiner w ip n"
    "mmap_abs (miners s) w \<noteq> None \<Longrightarrow> minerStore s' = minerStore s"
proof (cases "mmap_abs (miners s) w")
  case (Some m)
  then show ?thesis
    using miners_get [OF assms, of w] assms by (intro that [of s m]) (auto simp: inv_defs)
next
  case None
  define s1 where "s1 = fst (allocMiner (NewMiner w ip n) s)"
  have wf: "wf_mmap (miners s)" using assms by (simp add: inv_defs)
  obtain mm where mm: "MinersMap_Set (miners s) w (minerNext s) = Ok mm" "wf_mmap mm"
      "mmap_abs mm = (mmap_abs (miners s))(w \<mapsto> minerNext s)"
    using Set_spec [OF wf] by blast
  have s1: "allocMiner (NewMiner w ip n) s = (s1, minerNext s)" "miners s1 = miners s"
      "minerStore s1 (minerNext s) = NewMiner w ip n" "Miner_id (NewMiner w ip n) = w"
      "sessionStore s1 = sessionStore s" "endpointStore s1 = endpointStore s" "sessions s1 = sessions s"
      "blockTemplate s1 = blockTemplate s"
    by (simp_all add: s1_def allocMiner_def set_miner_def NewMiner_def)
  then show ?thesis
    using None mm by (intro that [of "s1\<lparr>miners := mm\<rparr>" "minerNext s"]) (simp_all add: registerMiner_def)
qed

lemma login_run:
  assumes inv: "server_inv s" and tpl: "currentBlockTemplate s = Some t" "wf_template t"
    and adr: "extractWorkerId (Login params) = (address, w)"
      "BypassAddressValidation env \<or> ValidateAddress (CLib env) address"
    and ses: "length (instanceId (endpoint_of s cs)) = 4" "lastBlockHeight (sessionStore s cs) \<noteq> Tpl_height t"
  shows "\<exists>s' job m. handleLoginRPC env now cs params s =
      (s', Ok (Inr \<lparr>Reply_Id = w, Reply_Job = job, Reply_Status = ''OK''\<rparr>)) \<and>
    JR_Height job = Tpl_height t \<and> Target job = targetHex (endpoint_of s cs) \<and>
    findJob (sessionStore s' cs) (JobId job) \<noteq> None \<and>
    Ses_login (sessionStore s' cs) = address \<and> Ses_id (sessionStore s' cs) = w \<and> cs \<in> set (sessions s') \<and>
    MinersMap_Get (miners s') w = Ok (Some m) \<and> getLastBeat (minerStore s' m) = now \<and>
    (\<forall>k. k \<noteq> w \<longrightarrow> MinersMap_Get (miners s') k = MinersMap_Get (miners s) k) \<and>
    currentBlockTemplate s' = currentBlockTemplate s \<and>
    sessions s' = sessions (registerSession cs s) \<and> (\<forall>c. c \<noteq> cs \<longrightarrow> sessionStore s' c = sessionStore s c) \<and>
    Ses_endpoint (sessionStore s' cs) = Ses_endpoint (sessionStore s cs) \<and>
    (\<forall>e. instanceId (endpointStore s' e) = instanceId (endpointStore s e))"
proof -
  define s1 where "s1 = set_session cs ((sessionStore s cs)\<lparr>Ses_login := address, Ses_id := w\<rparr>) s"
  have inv1: "server_inv s1"
    using inv inv_jobs [OF inv] tpl(1) by (simp add: s1_def currentBlockTemplate_def)
  have s1: "miners s1 = miners s" "endpoint_of s1 cs = endpoint_of s cs"
      "sessionStore s1 cs = (sessionStore s cs)\<lparr>Ses_login := address, Ses_id := w\<rparr>"
    by (simp_all add: s1_def set_session_def endpoint_of_def)
  obtain s2 m where find: "(case mmap_abs (miners s1) w of
        None \<Rightarrow> (case allocMiner (NewMiner w (Ses_ip (sessionStore s1 cs)) (Threads env)) s1 of
          (s, m) \<Rightarrow> bindS (registerMiner m s) (\<lambda>s _. (s, Ok m))) | Some m \<Rightarrow> (s1, Ok m)) = (s2, Ok m)"
    and s2: "mmap_abs (miners s2) = (mmap_abs (miners s1))(w \<mapsto> m)" "wf_mmap (miners s2)"
      "sessionStore s2 = sessionStore s1" "endpointStore s2 = endpointStore s1"
      "blockTemplate s2 = blockTemplate s1" "sessions s2 = sessions s1"
    by (rule find_or_register [OF inv1, of w "Ses_ip (sessionStore s1 cs)" "Threads env"]) blast
  let ?s3 = "bump_miner m (heartbeat now) (registerSession cs s2)"
  have s3: "sessionStore ?s3 = sessionStore s1" "endpoint_of ?s3 cs = endpoint_of s cs" "miners ?s3 = miners s2"
      "cs \<in> set (sessions ?s3)" "lastBeat (minerStore ?s3 m) = now"
    using s2 s1 by (simp_all add: bump_miner_def set_miner_def registerSession_def endpoint_of_def heartbeat_def)
  obtain s4 job jb where g: "getJob (CLib env) cs t ?s3 = (s4, Ok job)"
      "sessionStore s4 = (sessionStore ?s3)(cs := pushJob ((sessionStore ?s3 cs)\<lparr>lastBlockHeight := Tpl_height t\<rparr>) jb)"
      "Job_id jb = JobId job" "JR_Height job = Tpl_height t" "Target job = targetHex (endpoint_of s cs)"
      "miners s4 = miners s2" "minerStore s4 = minerStore ?s3" "sessions s4 = sessions ?s3"
      "\<And>e. instanceId (endpointStore s4 e) = instanceId (endpointStore ?s3 e)"
    using getJob_new [of t ?s3 cs "CLib env" thesis] tpl(2) ses s3 s1(3) by auto
  have frame: "sessions s4 = sessions (registerSession cs s)" "sessionStore s4 c = sessionStore s c"
      "instanceId (endpointStore s4 e) = instanceId (endpointStore s e)" if "c \<noteq> cs" for c e
    using g(2,8,9) s3(1) s2(4,6) that
    by (simp_all add: s1_def set_session_def registerSession_def bump_miner_def set_miner_def)
  have tpl': "currentBlockTemplate s4 = currentBlockTemplate s"
    using getJob_template [of "CLib env" cs t ?s3] g(1) s2(5) by (simp add: currentBlockTemplate_def s1_def)
  have "handleLoginRPC env now cs params s =
      (s4, Ok (Inr \<lparr>Reply_Id = w, Reply_Job = job, Reply_Status = ''OK''\<rparr>))"
    unfolding handleLoginRPC_def adr(1) tpl(1) Let_def prod.case option.case s1_def [symmetric] miners_get [OF inv1]
      bindS_simps
    using find g(1) adr(2) by simp
  moreover have "findJob (sessionStore s4 cs) (JobId job) \<noteq> None"
    using g(2) pushJob_found [of _ jb] by (simp add: g(3))
  moreover have "Ses_login (sessionStore s4 cs) = address" "Ses_id (sessionStore s4 cs) = w"
      "Ses_endpoint (sessionStore s4 cs) = Ses_endpoint (sessionStore s cs)"
    using g(2) s3(1) s1(3) by (simp_all add: pushJob_def Let_def)
  moreover have "MinersMap_Get (miners s4) k = Ok (((mmap_abs (miners s))(w \<mapsto> m)) k)" for k
    using g(6) s2(1,2) s1(1) by (simp add: Get_spec)
  moreover have "MinersMap_Get (miners s) k = Ok (mmap_abs (miners s) k)" for k by (rule miners_get [OF inv])
  ultimately show ?thesis
    using g(1,4,5,7,8) s3(4,5) tpl' frame [of "Suc cs"] frame(2)
    by (intro exI [of _ s4] exI [of _ job] exI [of _ m]) (simp add: getLastBeat_def)
qed


subsection \<open>A run\<close>

definition run_template :: BlockTemplate where
  "run_template = \<lparr>diffInt64 = 1000, Tpl_height = 100, Tpl_difficulty = 1000, reservedOffset = 60, prevHash = ''previous'',
     buffer = enc_block le_utility (sample_block []), seedHash = [1, 2], blockReward = 600000000000,
     txTotalFee = 10, nextSeedHash = []\<rparr>"

definition run_start :: "mem StratumServer" where
  "run_start = sample_server\<lparr>upstreams := [NewRPCClient ''b'' ''up''], sessionStore := (\<lambda>cs. NewSession [] 0)\<rparr>"

definition run_connected :: "mem StratumServer" where
  "run_connected = set_session 0 (NewSession ''10.0.0.1'' 0) (run_start\<lparr>blockTemplate := Some run_template\<rparr>)"

definition run_decoder :: "unit param_decoder" where
  "run_decoder = \<lparr>dec_login = (\<lambda>_. Ok \<lparr>Login = ''a.w'', Pass = [], Agent = []\<rparr>),
     dec_getjob = (\<lambda>_. Ok \<lparr>GJ_Id = ''w''\<rparr>),
     dec_submit = (\<lambda>_. Ok \<lparr>SP_Id = ''w'', SP_JobId = ''1'', SP_Nonce = ''00000000'', SP_Result = []\<rparr>)\<rparr>"

lemma run_new: "NewStratum [NewRPCClient ''b'' ''up''] (\<lambda>_. sample_endpoint) (NewMiner [] [] 1) fmempty = Ok run_start"
  by (simp add: NewStratum_def rpc_def run_start_def sample_server_def Let_def)

lemma run_unpack: "BlockTemplateBlob_UnPack le_utility zero_btb (enc_block le_utility (sample_block [])) =
    Ok (\<lparr>BTB_Block = sample_block []\<rparr>, [])"
  using Block_UnPack_enc [OF btc_laws_le_utility _ wf_sample_block, of zero_block "[]" "[]"]
  by (simp add: BlockTemplateBlob_UnPack_def zero_btb_def zero_block_def zero_header_def wf_header_def max_alloc_def)

lemma run_fetch: "refreshBlockTemplate sample_env False run_start = (run_start\<lparr>blockTemplate := Some run_template\<rparr>, Ok [])"
proof -
  have "rpc run_start = Ok (NewRPCClient ''b'' ''up'')" by (simp add: rpc_def run_start_def sample_server_def)
  moreover have "GetBlockTemplate (Net (Daemon sample_env)) (DecTemplate (Daemon sample_env)) (NewRPCClient ''b'' ''up'') 8
      (Address sample_env) = (NewRPCClient ''b'' ''up'', Ok (Some sample_reply))"
    by (simp add: GetBlockTemplate_def doPost_def sample_defs NewRPCClient_def unmarshal_result_def)
  moreover have "new_template (Btc sample_env) sample_reply = Ok (Some run_template)"
  proof -
    have "Vout (MinerTx (sample_block [])) = [sample_txout]" "Amount sample_txout = 600000000000"
      by (simp_all add: sample_block_def sample_txout_def)
    then show ?thesis
      by (simp add: new_template_def sample_reply_def sample_env_def run_unpack run_template_def
          int_of_u64_small Let_def wrap64_id in_i64_def)
  qed
  moreover have "is_new (currentBlockTemplate run_start) sample_reply" "set_upstream (upstream run_start) (NewRPCClient ''b'' ''up'') run_start = run_start"
    by (simp_all add: is_new_def currentBlockTemplate_def run_start_def sample_server_def set_upstream_def)
  ultimately show ?thesis by (simp add: refreshBlockTemplate_def fetchBlockTemplate_def)
qed

text \<open>The login: its reply carries a job, the session holds it and the worker's miner is registered.\<close>

definition login_message :: "unit JSONRpcReq" where
  "login_message = \<lparr>Req_Id = Some (), Method = ''login'', Params = Some ()\<rparr>"

lemma wf_run_template: "wf_template run_template"
proof -
  have "68 \<le> length (enc_block le_utility (sample_block []))"
    by (simp add: enc_block_def sample_block_def enc_header_def enc_minertx_def enc_txout_def sample_txout_def
        zero_hash_def zero_pubkey_def CRYPTOHASHSIZE_def CRYPTOPUBKEYSIZE_def)
  moreover have "length (enc_block le_utility (sample_block [])) < 2 ^ 63"
    using length_varint_le [of 16] length_varint_le [of 1700000000] length_varint_le [of 2] length_varint_le [of 60]
      length_varint_le [of 1] length_varint_le [of 3000000] length_varint_le [of 600000000000]
      length_varint_le [of 3] length_varint_le [of 0]
    by (simp add: enc_block_def sample_block_def enc_header_def enc_minertx_def enc_txin_def enc_txout_def
        sample_txout_def zero_hash_def zero_pubkey_def enc_u32_def le_utility_def le_bytes32_def
        CRYPTOHASHSIZE_def CRYPTOPUBKEYSIZE_def)
  ultimately show ?thesis by (simp add: wf_template_def run_template_def)
qed

lemma run_ready:
  "(server_step {sample_env} run_decoder)\<^sup>*\<^sup>* run_start run_connected"
proof -
  have "server_step {sample_env} run_decoder run_start (run_start\<lparr>blockTemplate := Some run_template\<rparr>)"
    by (rule server_step.refresh [OF _ run_fetch]) simp
  then show ?thesis
    unfolding run_connected_def by (meson r_into_rtranclp rtranclp.rtrancl_into_rtrancl server_step.connect)
qed

lemma run_connected_facts:
  "currentBlockTemplate run_connected = Some run_template" "length (instanceId (endpoint_of run_connected 0)) = 4"
  "lastBlockHeight (sessionStore run_connected 0) \<noteq> Tpl_height run_template"
  "extractWorkerId (Login \<lparr>Login = ''a.w'', Pass = [], Agent = []\<rparr>) = (''a'', ''w'')"
  "BypassAddressValidation sample_env \<or> ValidateAddress (CLib sample_env) ''a''"
  by (simp_all add: currentBlockTemplate_def run_connected_def set_session_def endpoint_of_def run_start_def
      sample_server_def sample_endpoint_def NewSession_def run_template_def extractWorkerId_def sample_env_def
      ValidateAddress_def sample_c_def)


text \<open>A state with a miner at work, reached from the start.\<close>

lemma run_working:
  obtains s m jid where "(server_step {sample_env} run_decoder)\<^sup>*\<^sup>* run_start s"
    "MinersMap_Get (miners s) ''w'' = Ok (Some m)" "currentBlockTemplate s = Some run_template"
    "findJob (sessionStore s 0) jid \<noteq> None" "sessions s \<noteq> []"
proof -
  note f = run_connected_facts
  let ?msg = "\<lparr>Req_Id = Some (), Method = ''login'', Params = Some ()\<rparr> :: unit JSONRpcReq"
  let ?p = "\<lparr>Login = ''a.w'', Pass = [], Agent = []\<rparr>"
  have inv: "server_inv run_connected" by (rule server_steps_keep [OF run_ready server_inv_init [OF run_new]])
  obtain s job m where s: "handleLoginRPC sample_env 1700000000000 0 ?p run_connected =
        (s, Ok (Inr \<lparr>Reply_Id = ''w'', Reply_Job = job, Reply_Status = ''OK''\<rparr>))"
      "MinersMap_Get (miners s) ''w'' = Ok (Some m)" "currentBlockTemplate s = Some run_template"
      "findJob (sessionStore s 0) (JobId job) \<noteq> None" "0 \<in> set (sessions s)"
    using login_run [OF inv f(1) wf_run_template f(4,5,2,3), of 1700000000000] f(1) by auto
  have "\<exists>out. handleMessage sample_env run_decoder None 1700000000000 0 ?msg run_connected = (s, Ok out)"
    using s(1) by (simp add: handleMessage_def run_decoder_def decoded_def answer_def)
  then have "server_step {sample_env} run_decoder run_connected s"
    by (blast intro: server_step.message)
  then have "(server_step {sample_env} run_decoder)\<^sup>*\<^sup>* run_start s"
    using run_ready by (rule rtranclp.rtrancl_into_rtrancl [rotated])
  then show ?thesis using s by (intro that) auto
qed

end
