(* ===== verification/Stratum_Correct.thy ===== *)
theory Stratum_Correct
  imports Login
begin

text \<open>
  The properties of the stratum server: what holds in every reachable state, which shares count, what
  a refused submission leaves alone, how a job's blob is made up, and when a template is installed and
  sent out.
\<close>

subsection \<open>Reachable states\<close>

text \<open>C2: In every state the server can reach from its start, a session holds at most four jobs; a
  session that holds a job implies that there is a template, so a submission never finds none; the
  current upstream exists; and the map of miners is well formed, its entries pointing to miners of
  that id.\<close>

theorem server_reachable:
  assumes "NewStratum clients eps m db = Ok s0" "(server_step envs dec)\<^sup>*\<^sup>* s0 s"
  shows "length (validJobs (sessionStore s cs)) \<le> 4 \<and>
    (findJob (sessionStore s cs) jid \<noteq> None \<longrightarrow> currentBlockTemplate s \<noteq> None) \<and>
    (\<exists>r. rpc s = Ok r) \<and>
    (\<exists>found. MinersMap_Get (miners s) k = Ok found \<and>
       (\<forall>p. found = Some p \<longrightarrow> Miner_id (minerStore s p) = k))"
proof -
  have inv: "server_inv s" by (rule server_steps_keep [OF assms(2) server_inv_init [OF assms(1)]])
  then have "upstream s < length (upstreams s)" by (simp add: inv_defs)
  then have "\<exists>r. rpc s = Ok r" by (simp add: rpc_def index_go_def)
  moreover have "currentBlockTemplate s \<noteq> None" if "findJob (sessionStore s cs) jid \<noteq> None"
  proof -
    have "validJobs (sessionStore s cs) \<noteq> []" using that by (auto simp: findJob_def)
    then show ?thesis using inv_job_template [OF inv] by (simp add: currentBlockTemplate_def)
  qed
  ultimately show ?thesis
    using inv_jobs [OF inv] miners_get [OF inv] inv by (simp add: inv_defs)
qed

lemma server_reachable_witness:
  "\<exists>(s :: mem StratumServer) jid. findJob (sessionStore s 0) jid \<noteq> None \<and>
     length (validJobs (sessionStore s 0)) \<le> 4 \<and> currentBlockTemplate s \<noteq> None"
proof -
  obtain s m jid where s: "(server_step {sample_env} run_decoder)\<^sup>*\<^sup>* run_start s"
      "findJob (sessionStore s 0) jid \<noteq> None"
    by (rule run_working)
  show ?thesis using server_reachable [OF run_new s(1), of 0 jid "[]"] s(2) by blast
qed

subsection \<open>A server with one miner at work\<close>

definition sample_template :: BlockTemplate where
  "sample_template = \<lparr>diffInt64 = 1000, Tpl_height = 100, Tpl_difficulty = 2 ^ 255, reservedOffset = 60,
     prevHash = ''prev'', buffer = replicate 80 0, seedHash = [1], blockReward = 600, txTotalFee = 10,
     nextSeedHash = []\<rparr>"

definition sample_job :: Job where
  "sample_job = \<lparr>Job_height = 100, Job_id = ''7'', Job_extraNonce = 1, submissions = {|''01000000''|}\<rparr>"

text \<open>A server with one miner, whose session holds one job.\<close>

definition mining_server :: "mem StratumServer" where
  "mining_server = sample_server\<lparr>blockTemplate := Some sample_template,
     miners := replicate SHARD_COUNT (fmupd ''w'' 0 fmempty),
     sessionStore := (\<lambda>_. (NewSession ''10.0.0.1'' 0)\<lparr>Ses_login := ''a'', Ses_id := ''w'', lastBlockHeight := 100,
        validJobs := [sample_job]\<rparr>)\<rparr>"


lemma mining_get: "MinersMap_Get (miners mining_server) ''w'' = Ok (Some 0)"
  using shard_index_less [of "''w''"]
  by (simp add: mining_server_def MinersMap_Get_def GetShard_def)

lemma mining_find: "findJob (sessionStore mining_server 0) ''7'' = Some 0"
  by (simp add: mining_server_def findJob_def sample_job_def)






subsection \<open>Shares\<close>



text \<open>C33: A submission that is refused before its share is judged (unknown miner, unknown job, malformed
  nonce, repeated nonce, stale height) writes nothing to the database and does not count for the round.\<close>

theorem refused_submission_frame:
  assumes "handleSubmitRPC env now cs params s = (s', Ok (Inl e))" "Message e \<noteq> ''Low difficulty share''"
  shows "database s' = database s \<and> roundShares s' = roundShares s \<and> upstreams s' = upstreams s"
proof -
  have [simp]: "database (bump_miner m f x) = database x" "roundShares (bump_miner m f x) = roundShares x"
    "upstreams (bump_miner m f x) = upstreams x" "database (set_session c v x) = database x"
    "roundShares (set_session c v x) = roundShares x" "upstreams (set_session c v x) = upstreams x"
    for m f x c v
    by (simp_all add: bump_miner_def set_miner_def set_session_def)
  obtain found where found: "MinersMap_Get (miners s) (SP_Id params) = Ok found"
    using assms(1) by (auto simp: handleSubmitRPC_def bindS_Ok_iff)
  show ?thesis
  proof (cases found)
    case None
    with assms(1) found show ?thesis by (simp add: handleSubmitRPC_def)
  next
    case (Some m)
    let ?s1 = "bump_miner m (heartbeat now) s"
    show ?thesis
    proof (cases "findJob (sessionStore ?s1 cs) (SP_JobId params)")
      case None
      with assms(1) found Some show ?thesis by (auto simp: handleSubmitRPC_def Let_def)
    next
      case job: (Some i)
      let ?ses = "sessionStore ?s1 cs"
      obtain job exist where js: "Job_submit (validJobs ?ses ! i) (to_lower (SP_Nonce params)) = (job, exist)"
        by (metis prod.exhaust)
      let ?s2 = "set_session cs (?ses\<lparr>validJobs := (validJobs ?ses)[i := job]\<rparr>) ?s1"
      show ?thesis
      proof (cases "noncePattern (SP_Nonce params) \<and> \<not> exist \<and>
          (\<exists>t. currentBlockTemplate ?s2 = Some t \<and> Job_height job = Tpl_height t)")
        case True
        then obtain t where "currentBlockTemplate ?s2 = Some t" "Job_height job = Tpl_height t" by blast
        then have "bindS (processShare env now cs m job t (to_lower (SP_Nonce params)) (SP_Result params) ?s2)
            (\<lambda>s valid. if valid then (s, Ok (Inr ''OK'')) else (s, Ok (Inl (err_reply ''Low difficulty share'')))) =
            (s', Ok (Inl e))"
          using assms(1) found Some job js True by (simp add: handleSubmitRPC_def Let_def)
        then have False using assms(2) by (auto simp: bindS_Ok_iff err_reply_def split: if_splits)
        then show ?thesis ..
      next
        case False
        with assms(1) found Some job js show ?thesis
          by (auto simp: handleSubmitRPC_def Let_def split: option.splits if_splits)
      qed
    qed
  qed
qed

lemma refused_submission_frame_witness:
  "database (fst (handleSubmitRPC sample_env 5000 0 \<lparr>SP_Id = ''w'', SP_JobId = ''7'', SP_Nonce = ''zz'', SP_Result = []\<rparr>
     mining_server)) = fmempty"
proof -
  obtain s' where run: "handleSubmitRPC sample_env 5000 0 \<lparr>SP_Id = ''w'', SP_JobId = ''7'', SP_Nonce = ''zz'', SP_Result = []\<rparr>
      mining_server = (s', Ok (Inl (err_reply ''Malformed nonce'')))"
    using mining_find by (simp add: handleSubmitRPC_def mining_get noncePattern_def Let_def bump_miner_def set_miner_def)
  have "database mining_server = fmempty" by (simp add: mining_server_def sample_server_def)
  with refused_submission_frame [OF run] run show ?thesis by (simp add: err_reply_def)
qed



subsection \<open>Blobs and templates\<close>

text \<open>C21: A job's blob is the template with the extra nonce (big-endian) and the instance id in the
  eight reserved bytes and nothing else changed, and the blob a share of the job is judged by differs
  from it in the four bytes of the nonce only.\<close>

theorem job_blob_layout:
  assumes "wf_template t" "length inst = 4" "length nonceBuff = 4" "43 \<le> length (buffer t)"
  shows "\<exists>jb. reserve t n inst = Ok jb \<and> length jb = length (buffer t) \<and>
    take 8 (drop (nat (reservedOffset t)) jb) = big_endian32 n @ inst \<and>
    (\<forall>i < length jb. i < nat (reservedOffset t) \<or> nat (reservedOffset t) + 8 \<le> i \<longrightarrow> jb ! i = buffer t ! i) \<and>
    share_blob t n inst nonceBuff = Ok (take 39 jb @ nonceBuff @ drop 43 jb)"
proof -
  define k where "k = nat (reservedOffset t)"
  let ?jb = "take k (buffer t) @ big_endian32 n @ inst @ drop (k + 8) (buffer t)"
  have k: "k + 8 \<le> length (buffer t)" using assms(1) by (auto simp: wf_template_def k_def)
  have jb: "reserve t n inst = Ok ?jb" using reserve_eq [OF assms(1,2)] by (simp add: k_def)
  have len: "length ?jb = length (buffer t)" using k assms(2) by simp
  have "?jb ! i = buffer t ! i" if "i < length ?jb" "i < k \<or> k + 8 \<le> i" for i
    using that k assms(2) by (auto simp: nth_append)
  moreover have "copy_from xs 39 nonceBuff = Ok (take 39 xs @ nonceBuff @ drop 43 xs)" if "43 \<le> length xs" for xs
    using that assms(3) by (simp add: copy_from_def go_copy_def)
  from this [of ?jb] have "copy_from ?jb 39 nonceBuff = Ok (take 39 ?jb @ nonceBuff @ drop 43 ?jb)"
    using len assms(4) by (simp only:)
  ultimately show ?thesis
    using jb len k assms(2) by (auto simp: share_blob_def k_def [symmetric] intro!: exI [of _ ?jb])
qed

lemma job_blob_layout_witness:
  "\<exists>jb. reserve sample_template 1 [9, 8, 7, 6] = Ok jb \<and>
     share_blob sample_template 1 [9, 8, 7, 6] [5, 0, 0, 0] = Ok (take 39 jb @ [5, 0, 0, 0] @ drop 43 jb)"
  using job_blob_layout [of sample_template "[9, 8, 7, 6]" "[5, 0, 0, 0]" 1]
  by (auto simp: wf_template_def sample_template_def)

text \<open>C22: A well-formed template for a new previous block, whose expected reward covers its first
  output, is installed: it carries the reply's height and bytes, the first output's amount is the block
  reward and the rest of the expected reward are the fees.\<close>

theorem template_installed:
  assumes "rpc s = Ok r"
    and "GetBlockTemplate (Net (Daemon env)) (DecTemplate (Daemon env)) r 8 (Address env) = (r', Ok (Some reply))"
    and "is_new (blockTemplate s) reply" "btc_laws (Btc env)" "wf_block b"
    and "Reply_Blob reply = hex_encode (enc_block (Btc env) b @ rest)" "Vout (MinerTx b) = out # outs"
    and "uint (Amount out) < 2 ^ 63" "uint (Amount out) \<le> Reply_ExpectedReward reply"
    and "in_i64 (Reply_ExpectedReward reply)"
  shows "\<exists>s' t. fetchBlockTemplate env s = (s', Ok True) \<and> blockTemplate s' = Some t \<and>
    Tpl_height t = Reply_Height reply \<and> buffer t = enc_block (Btc env) b @ rest \<and>
    blockReward t = uint (Amount out) \<and> blockReward t + txTotalFee t = Reply_ExpectedReward reply"
proof -
  have "BlockTemplateBlob_UnPack (Btc env) zero_btb (enc_block (Btc env) b @ rest) = Ok (\<lparr>BTB_Block = b\<rparr>, rest)"
    using Block_UnPack_enc [OF assms(4) _ assms(5), of zero_block rest]
    by (simp add: BlockTemplateBlob_UnPack_def zero_btb_def zero_block_def zero_header_def wf_header_def)
  moreover have "int_of_u64 (Amount out) = uint (Amount out)" by (rule int_of_u64_small [OF assms(8)])
  moreover have "in_i64 (Reply_ExpectedReward reply - uint (Amount out))"
    using assms(8,9,10) uint_ge_0 [of "Amount out"] unfolding in_i64_def by linarith
  ultimately obtain t where t: "new_template (Btc env) reply = Ok (Some t)" "blockReward t = uint (Amount out)"
      "blockReward t + txTotalFee t = Reply_ExpectedReward reply" "Tpl_height t = Reply_Height reply"
      "buffer t = enc_block (Btc env) b @ rest"
    using assms(6,7,9) by (simp add: new_template_def Let_def)
  then show ?thesis
    using assms(1,2,3) by (simp add: fetchBlockTemplate_def currentBlockTemplate_def set_upstream_def)
qed

lemma template_installed_witness:
  "\<exists>s' t. fetchBlockTemplate sample_env (sample_server\<lparr>upstream := 1\<rparr>) = (s', Ok True) \<and>
     blockTemplate s' = Some t \<and> Tpl_height t = 100 \<and> blockReward t + txTotalFee t = 600000000010"
proof -
  have r: "rpc (sample_server\<lparr>upstream := 1\<rparr>) = Ok (NewRPCClient ''b'' ''up'')"
    by (simp add: rpc_def sample_server_def)
  have g: "GetBlockTemplate (Net (Daemon sample_env)) (DecTemplate (Daemon sample_env)) (NewRPCClient ''b'' ''up'') 8
      (Address sample_env) = (NewRPCClient ''b'' ''up'', Ok (Some sample_reply))"
    by (simp add: GetBlockTemplate_def doPost_def sample_defs NewRPCClient_def unmarshal_result_def)
  have n: "is_new (blockTemplate (sample_server\<lparr>upstream := 1\<rparr>)) sample_reply"
    by (simp add: is_new_def sample_server_def)
  have b: "btc_laws (Btc sample_env)" "wf_block (sample_block [])"
    by (simp_all add: sample_env_def btc_laws_le_utility wf_sample_block max_alloc_def)
  have blob: "Reply_Blob sample_reply = hex_encode (enc_block (Btc sample_env) (sample_block []) @ [])"
    by (simp add: sample_reply_def sample_env_def)
  have out: "Vout (MinerTx (sample_block [])) = sample_txout # []"
    "uint (Amount sample_txout) < 2 ^ 63" "uint (Amount sample_txout) \<le> Reply_ExpectedReward sample_reply"
    "in_i64 (Reply_ExpectedReward sample_reply)"
    by (simp_all add: sample_block_def sample_txout_def sample_reply_def in_i64_def)
  show ?thesis
    using template_installed [OF r g n b blob out] by (auto simp: sample_reply_def)
qed

lemma sessionStore_removeSession [simp]: "sessionStore (removeSession cs s) = sessionStore s"
  by (simp add: removeSession_def)

lemma pushJob_height [simp]: "lastBlockHeight (pushJob ses job) = lastBlockHeight ses"
  by (simp add: pushJob_def Let_def)

lemma getJob_session:
  assumes "getJob c cs t s = (s1, Ok reply)"
  shows "lastBlockHeight (sessionStore s1 cs) = Tpl_height t"
    and "cs' \<noteq> cs \<Longrightarrow> sessionStore s1 cs' = sessionStore s cs'"
    and "lastBlockHeight (sessionStore s cs) = Tpl_height t \<Longrightarrow> reply = empty_reply"
  using assms by (auto simp: getJob_def Let_def split: if_splits go.splits)

lemma broadcast_to_all:
  "broadcast_to env t css s = (s', Ok msgs) \<Longrightarrow> distinct css \<Longrightarrow>
   map fst msgs = css \<and>
   (\<forall>cs \<in> set css. lastBlockHeight (sessionStore s' cs) = Tpl_height t) \<and>
   (\<forall>cs. cs \<notin> set css \<longrightarrow> sessionStore s' cs = sessionStore s cs) \<and>
   (\<forall>(cs, reply) \<in> set msgs. lastBlockHeight (sessionStore s cs) = Tpl_height t \<longrightarrow> reply = empty_reply)"
proof (induction css arbitrary: s msgs)
  case (Cons cs css)
  obtain s1 reply msgs' where g: "getJob (CLib env) cs t s = (s1, Ok reply)"
      "broadcast_to env t css (if push_ok env cs then s1 else removeSession cs s1) = (s', Ok msgs')"
      "msgs = (cs, reply) # msgs'"
    using Cons.prems(1) by (auto simp: bindS_Ok_iff Let_def)
  let ?s2 = "if push_ok env cs then s1 else removeSession cs s1"
  have s2: "sessionStore ?s2 = sessionStore s1" by simp
  have IH: "map fst msgs' = css" "\<forall>cs \<in> set css. lastBlockHeight (sessionStore s' cs) = Tpl_height t"
      "\<forall>cs. cs \<notin> set css \<longrightarrow> sessionStore s' cs = sessionStore s1 cs"
      "\<forall>(cs, reply) \<in> set msgs'. lastBlockHeight (sessionStore s1 cs) = Tpl_height t \<longrightarrow> reply = empty_reply"
    using Cons.IH [OF g(2)] Cons.prems(2) s2 by auto
  have in_css: "c \<in> set css" if "(c, r) \<in> set msgs'" for c r
    using that IH(1) by (metis fst_conv image_eqI list.set_map)
  have new: "lastBlockHeight (sessionStore s' cs) = Tpl_height t"
    using IH(3) Cons.prems(2) getJob_session(1) [OF g(1)] by simp
  have frame: "sessionStore s' x = sessionStore s x" if "x \<notin> set (cs # css)" for x
    using IH(3) getJob_session(2) [OF g(1), of x] that by simp
  have empty: "r = empty_reply"
    if "(x, r) \<in> set msgs'" "lastBlockHeight (sessionStore s x) = Tpl_height t" for x r
  proof -
    have "x \<noteq> cs" using in_css [OF that(1)] Cons.prems(2) by auto
    then have "lastBlockHeight (sessionStore s1 x) = Tpl_height t"
      using that(2) getJob_session(2) [OF g(1), of x] by simp
    then show ?thesis using IH(4) that(1) by blast
  qed
  show ?case
    using g(3) IH(1,2) new frame empty getJob_session(3) [OF g(1)] by auto
qed simp

text \<open>C23: A broadcast that does not panic sends exactly one message to each registered session, in
  their order, and afterwards each of them works on the template's height; a session that was there
  already gets an empty job, also when the template is a new one for the same height.\<close>

theorem broadcast_reaches_all:
  assumes "broadcastNewJobs env s = (s', Ok msgs)" "blockTemplate s = Some t" "distinct (sessions s)"
  shows "map fst msgs = sessions s \<and>
    (\<forall>cs \<in> set (sessions s). lastBlockHeight (sessionStore s' cs) = Tpl_height t) \<and>
    (\<forall>(cs, reply) \<in> set msgs. lastBlockHeight (sessionStore s cs) = Tpl_height t \<longrightarrow> reply = empty_reply)"
  using broadcast_to_all [of env t "sessions s" s s' msgs] assms
  by (simp add: broadcastNewJobs_def currentBlockTemplate_def)

lemma broadcast_reaches_all_witness:
  "map fst [(3 :: nat, empty_reply)] = sessions (mining_server\<lparr>sessions := [3]\<rparr>)"
proof -
  let ?s = "mining_server\<lparr>sessions := [3]\<rparr>"
  have "\<exists>s'. broadcastNewJobs sample_env ?s = (s', Ok [(3, empty_reply)])"
    by (simp add: broadcastNewJobs_def currentBlockTemplate_def mining_server_def getJob_def sample_template_def
        sample_env_def Let_def set_session_def)
  then obtain s' where "broadcastNewJobs sample_env ?s = (s', Ok [(3, empty_reply)])" by blast
  from broadcast_reaches_all [OF this, of sample_template] show ?thesis
    by (simp add: mining_server_def)
qed

end
