(* ===== verification/Ae64.thy ===== *)
theory Ae64
  imports GoStd
begin

unbundle bit_operations_syntax

text \<open>
  \<open>util/ae64.go\<close>: the encryption of configuration values, AES in CBC mode with PKCS#7 padding, the
  key as the initialisation vector, and base64.  The block cipher is a parameter with the law that
  decryption under the same key undoes encryption; padding, chaining, base64 and the panics of the
  library on malformed input are modelled.
\<close>

subsection \<open>Base64\<close>

definition b64_alphabet :: string where
  "b64_alphabet = ''ABCDEFGHIJKLMNOPQRSTUVWXYZabcdefghijklmnopqrstuvwxyz0123456789+/''"

fun index_of :: "char \<Rightarrow> string \<Rightarrow> nat option" where
  "index_of c [] = None"
| "index_of c (x # xs) = (if x = c then Some 0 else map_option Suc (index_of c xs))"

definition b64_char :: "nat \<Rightarrow> char" where
  "b64_char n = b64_alphabet ! n"

definition b64_value :: "char \<Rightarrow> nat option" where
  "b64_value c = index_of c b64_alphabet"

fun base64_encode :: "bytes \<Rightarrow> string" where
  "base64_encode [] = []"
| "base64_encode [a] =
     (let n = unat a * 16 in [b64_char (n div 64), b64_char (n mod 64), CHR ''='', CHR ''=''])"
| "base64_encode [a, b] =
     (let n = (unat a * 256 + unat b) * 4
      in [b64_char (n div 4096), b64_char (n div 64 mod 64), b64_char (n mod 64), CHR ''=''])"
| "base64_encode (a # b # c # bs) =
     (let n = (unat a * 256 + unat b) * 256 + unat c
      in b64_char (n div 262144) # b64_char (n div 4096 mod 64) # b64_char (n div 64 mod 64) #
         b64_char (n mod 64) # base64_encode bs)"

definition corrupt :: "'a go" where
  "corrupt = Fail (ErrMsg ''illegal base64 data'')"

text \<open>Groups of four characters; padding is allowed in the last one only, its spare bits are ignored.\<close>

fun b64_groups :: "string \<Rightarrow> bytes go" where
  "b64_groups [] = Ok []"
| "b64_groups (a # b # c # d # cs) =
     (case (b64_value a, b64_value b) of
        (Some va, Some vb) \<Rightarrow>
          if c = CHR ''='' then
            (if d = CHR ''='' \<and> cs = [] then Ok [of_nat ((va * 64 + vb) div 16)] else corrupt)
          else (case b64_value c of
              None \<Rightarrow> corrupt
            | Some vc \<Rightarrow>
                if d = CHR ''='' then
                  (if cs = [] then
                     let n = ((va * 64 + vb) * 64 + vc) div 4 in Ok [of_nat (n div 256), of_nat (n mod 256)]
                   else corrupt)
                else (case b64_value d of
                    None \<Rightarrow> corrupt
                  | Some vd \<Rightarrow>
                      let n = ((va * 64 + vb) * 64 + vc) * 64 + vd
                      in bindG (b64_groups cs) (\<lambda>bs.
                         Ok (of_nat (n div 65536) # of_nat (n div 256 mod 256) # of_nat (n mod 256) # bs))))
      | _ \<Rightarrow> corrupt)"
| "b64_groups _ = corrupt"

text \<open>Line breaks are skipped.\<close>

definition base64_decode :: "string \<Rightarrow> bytes go" where
  "base64_decode s = b64_groups (filter (\<lambda>c. c \<noteq> CHR 0x0A \<and> c \<noteq> CHR 0x0D) s)"

subsection \<open>Padding\<close>

definition padding :: "bytes \<Rightarrow> nat \<Rightarrow> bytes" where
  "padding src blockSize =
     (let padNum = blockSize - length src mod blockSize in src @ replicate padNum (of_nat padNum))"

definition unpadding :: "bytes \<Rightarrow> bytes go" where
  "unpadding src =
     (let n = length src
      in if n = 0 then Panic ''index out of range''
         else let unPadNum = unat (src ! (n - 1))
              in if n < unPadNum then Panic ''slice bounds out of range'' else Ok (take (n - unPadNum) src))"

subsection \<open>The cipher\<close>

record block_cipher =
  encrypt_block :: "bytes \<Rightarrow> bytes \<Rightarrow> bytes"
  decrypt_block :: "bytes \<Rightarrow> bytes \<Rightarrow> bytes"

text \<open>AES: blocks of sixteen bytes, and decryption undoes encryption.\<close>

definition cipher_laws :: "block_cipher \<Rightarrow> bool" where
  "cipher_laws c \<longleftrightarrow>
     (\<forall>k b. length k = 16 \<longrightarrow> length b = 16 \<longrightarrow>
        length (encrypt_block c k b) = 16 \<and> length (decrypt_block c k b) = 16 \<and>
        decrypt_block c k (encrypt_block c k b) = b)"

definition xor_bytes :: "bytes \<Rightarrow> bytes \<Rightarrow> bytes" where
  "xor_bytes as bs = map2 (XOR) as bs"

text \<open>\<open>CryptBlocks\<close> on whole blocks, with the previous cipher text block (at first the vector).\<close>

fun cbc_encrypt :: "block_cipher \<Rightarrow> bytes \<Rightarrow> bytes \<Rightarrow> nat \<Rightarrow> bytes \<Rightarrow> bytes" where
  "cbc_encrypt c k iv 0 src = []"
| "cbc_encrypt c k iv (Suc n) src =
     (let b = encrypt_block c k (xor_bytes (take 16 src) iv) in b @ cbc_encrypt c k b n (drop 16 src))"

fun cbc_decrypt :: "block_cipher \<Rightarrow> bytes \<Rightarrow> bytes \<Rightarrow> nat \<Rightarrow> bytes \<Rightarrow> bytes" where
  "cbc_decrypt c k iv 0 src = []"
| "cbc_decrypt c k iv (Suc n) src =
     xor_bytes (decrypt_block c k (take 16 src)) iv @ cbc_decrypt c k (take 16 src) n (drop 16 src)"

definition crypt_blocks :: "(nat \<Rightarrow> bytes \<Rightarrow> bytes) \<Rightarrow> bytes \<Rightarrow> bytes go" where
  "crypt_blocks f src =
     (if length src mod 16 \<noteq> 0 then Panic ''crypto/cipher: input not full blocks''
      else Ok (f (length src div 16) src))"

text \<open>\<open>aes.NewCipher\<close> takes three key sizes and the CBC mode demands a vector of one block.\<close>

definition new_cipher :: "bytes \<Rightarrow> unit go" where
  "new_cipher key =
     (if length key \<in> {16, 24, 32} then Ok () else Fail (ErrMsg ''crypto/aes: invalid key size''))"

definition new_cbc :: "bytes \<Rightarrow> unit go" where
  "new_cbc iv =
     (if length iv = 16 then Ok () else Panic ''cipher: IV length must equal block size'')"

definition encryptAES :: "block_cipher \<Rightarrow> bytes \<Rightarrow> bytes \<Rightarrow> bytes go" where
  "encryptAES c src key =
     bindG (new_cipher key) (\<lambda>_.
     let src = padding src 16 in
     bindG (new_cbc key) (\<lambda>_. crypt_blocks (cbc_encrypt c key key) src))"

definition decryptAES :: "block_cipher \<Rightarrow> bytes \<Rightarrow> bytes \<Rightarrow> bytes go" where
  "decryptAES c src key =
     bindG (new_cipher key) (\<lambda>_.
     bindG (new_cbc key) (\<lambda>_.
     bindG (crypt_blocks (cbc_decrypt c key key) src) unpadding))"

text \<open>A key of at most sixteen bytes is filled with spaces, a longer one is cut.\<close>

definition pad_key :: "bytes \<Rightarrow> bytes" where
  "pad_key key = (if length key \<le> 16 then key @ replicate (16 - length key) 0x20 else take 16 key)"

definition Ae64Encode :: "block_cipher \<Rightarrow> bytes \<Rightarrow> bytes \<Rightarrow> string go" where
  "Ae64Encode c src key =
     bindG (encryptAES c src (pad_key key)) (\<lambda>encryptBytes. Ok (base64_encode encryptBytes))"

definition Ae64Decode :: "block_cipher \<Rightarrow> string \<Rightarrow> bytes \<Rightarrow> bytes go" where
  "Ae64Decode c str key =
     bindG (base64_decode str) (\<lambda>decoded. decryptAES c decoded (pad_key key))"

subsection \<open>Base64 is read back\<close>

lemma index_of_nth: "distinct xs \<Longrightarrow> n < length xs \<Longrightarrow> index_of (xs ! n) xs = Some n"
  by (induction xs arbitrary: n) (auto simp: nth_Cons split: nat.splits)

lemma b64_alphabet_facts: "distinct b64_alphabet" "length b64_alphabet = 64"
  by (simp_all add: b64_alphabet_def)

lemma b64_value_char [simp]: "n < 64 \<Longrightarrow> b64_value (b64_char n) = Some n"
  using index_of_nth b64_alphabet_facts by (simp add: b64_value_def b64_char_def)

lemma b64_char_plain [simp]:
  assumes "n < 64"
  shows "b64_char n \<noteq> CHR ''=''" "b64_char n \<noteq> CHR 0x0A" "b64_char n \<noteq> CHR 0x0D"
proof -
  have "b64_char n \<in> set b64_alphabet" using assms b64_alphabet_facts(2) by (simp add: b64_char_def)
  moreover have "{CHR ''='', CHR 0x0A, CHR 0x0D} \<inter> set b64_alphabet = {}" by (simp add: b64_alphabet_def)
  ultimately show "b64_char n \<noteq> CHR ''=''" "b64_char n \<noteq> CHR 0x0A" "b64_char n \<noteq> CHR 0x0D" by auto
qed

lemma sextets:
  fixes n :: nat
  shows "n div 64 * 64 + n mod 64 = n"
    and "(n div 4096 * 64 + n div 64 mod 64) * 64 + n mod 64 = n"
    and "((n div 262144 * 64 + n div 4096 mod 64) * 64 + n div 64 mod 64) * 64 + n mod 64 = n"
proof -
  have "n div 4096 = n div 64 div 64" "n div 262144 = n div 64 div 64 div 64"
    by (simp_all add: div_mult2_eq [symmetric])
  then show "n div 64 * 64 + n mod 64 = n" "(n div 4096 * 64 + n div 64 mod 64) * 64 + n mod 64 = n"
    "((n div 262144 * 64 + n div 4096 mod 64) * 64 + n div 64 mod 64) * 64 + n mod 64 = n"
    by (simp_all only: div_mult_mod_eq)
qed

lemma unat_byte_less [simp]: "unat (a :: u8) < 256"
  using unsigned_less [of a] by simp

lemma last_octet: "(x * 256 + unat (c :: u8)) div 256 = x" "(x * 256 + unat c) mod 256 = unat c"
  by simp_all

lemma octets:
  fixes a b c :: u8
  assumes "n = (unat a * 256 + unat b) * 256 + unat c"
  shows "n div 65536 = unat a" "n div 256 mod 256 = unat b" "n mod 256 = unat c" "n div 262144 < 64"
proof -
  have d: "n div 256 = unat a * 256 + unat b" and "n mod 256 = unat c"
    unfolding assms by (rule last_octet)+
  then show "n div 256 mod 256 = unat b" "n mod 256 = unat c" by simp_all
  have "n div 65536 = n div 256 div 256" by (simp add: div_mult2_eq [symmetric])
  then show a: "n div 65536 = unat a" by (simp add: d)
  have "n div 262144 = n div 65536 div 4" by (simp add: div_mult2_eq [symmetric])
  then show "n div 262144 < 64" by (simp add: a less_mult_imp_div_less)
qed

text \<open>The number a group of characters stands for.\<close>

lemma base64_encode1:
  obtains n where "base64_encode [a] = [b64_char (n div 64), b64_char (n mod 64), CHR ''='', CHR ''='']"
    "n div 64 < 64" "n div 16 = unat a"
  by (rule that [of "unat a * 16"]) (simp_all add: Let_def less_mult_imp_div_less)

lemma base64_encode2:
  obtains n where
    "base64_encode [a, b] = [b64_char (n div 4096), b64_char (n div 64 mod 64), b64_char (n mod 64), CHR ''='']"
    "n div 4096 < 64" "n div 4 = unat a * 256 + unat b"
proof
  let ?n = "(unat a * 256 + unat b) * 4"
  show "base64_encode [a, b] = [b64_char (?n div 4096), b64_char (?n div 64 mod 64), b64_char (?n mod 64), CHR ''='']"
    by (simp only: base64_encode.simps Let_def)
  show d: "?n div 4 = unat a * 256 + unat b" by simp
  have "?n div 4096 = ?n div 4 div 256 div 4" by (simp only: div_mult2_eq [symmetric]) simp
  then show "?n div 4096 < 64" unfolding d by (simp add: less_mult_imp_div_less)
qed

lemma base64_encode3:
  obtains n where "base64_encode (a # b # c # bs) = b64_char (n div 262144) # b64_char (n div 4096 mod 64) #
      b64_char (n div 64 mod 64) # b64_char (n mod 64) # base64_encode bs"
    "n = (unat a * 256 + unat b) * 256 + unat c"
  by (rule that [OF _ refl]) (simp only: base64_encode.simps Let_def)

lemma b64_groups_encode: "b64_groups (base64_encode bs) = Ok bs"
proof (induction bs rule: base64_encode.induct)
  case (2 a)
  obtain n where n: "base64_encode [a] = [b64_char (n div 64), b64_char (n mod 64), CHR ''='', CHR ''='']"
    "n div 64 < 64" "n div 16 = unat a" by (rule base64_encode1)
  show ?case unfolding n(1) by (simp add: n(2,3) sextets(1))
next
  case (3 a b)
  obtain n where n:
    "base64_encode [a, b] = [b64_char (n div 4096), b64_char (n div 64 mod 64), b64_char (n mod 64), CHR ''='']"
    "n div 4096 < 64" "n div 4 = unat a * 256 + unat b" by (rule base64_encode2)
  have "((n div 4096 * 64 + n div 64 mod 64) * 64 + n mod 64) div 4 = unat a * 256 + unat b"
    by (simp only: sextets(2) n(3))
  then show ?case unfolding n(1) by (simp add: n(2) Let_def)
next
  case (4 a b c bs)
  obtain n where n: "base64_encode (a # b # c # bs) = b64_char (n div 262144) # b64_char (n div 4096 mod 64) #
      b64_char (n div 64 mod 64) # b64_char (n mod 64) # base64_encode bs"
    "n = (unat a * 256 + unat b) * 256 + unat c" by (rule base64_encode3)
  let ?m = "((n div 262144 * 64 + n div 4096 mod 64) * 64 + n div 64 mod 64) * 64 + n mod 64"
  have "?m div 65536 = unat a" "?m div 256 mod 256 = unat b" "?m mod 256 = unat c"
    by (simp_all only: sextets(3) octets [OF n(2)])
  then show ?case unfolding n(1) by (simp add: octets(4) [OF n(2)] Let_def 4)
qed simp

lemma base64_encode_plain: "{CHR 0x0A, CHR 0x0D} \<inter> set (base64_encode bs) = {}"
proof (induction bs rule: base64_encode.induct)
  case (2 a)
  obtain n where "base64_encode [a] = [b64_char (n div 64), b64_char (n mod 64), CHR ''='', CHR ''='']"
    "n div 64 < 64" "n div 16 = unat a" by (rule base64_encode1)
  then show ?case by simp
next
  case (3 a b)
  obtain n where
    "base64_encode [a, b] = [b64_char (n div 4096), b64_char (n div 64 mod 64), b64_char (n mod 64), CHR ''='']"
    "n div 4096 < 64" "n div 4 = unat a * 256 + unat b" by (rule base64_encode2)
  then show ?case by simp
next
  case (4 a b c bs)
  obtain n where n: "base64_encode (a # b # c # bs) = b64_char (n div 262144) # b64_char (n div 4096 mod 64) #
      b64_char (n div 64 mod 64) # b64_char (n mod 64) # base64_encode bs"
    "n = (unat a * 256 + unat b) * 256 + unat c" by (rule base64_encode3)
  show ?case unfolding n(1) using 4 octets(4) [OF n(2)] by simp
qed simp

lemma base64_roundtrip: "base64_decode (base64_encode bs) = Ok bs"
proof -
  have "filter (\<lambda>c. c \<noteq> CHR 0x0A \<and> c \<noteq> CHR 0x0D) (base64_encode bs) = base64_encode bs"
    using base64_encode_plain [of bs] by (auto simp: filter_id_conv)
  then show ?thesis by (simp add: base64_decode_def b64_groups_encode)
qed

subsection \<open>Padding and chaining are undone\<close>

lemma length_padding: "length (padding src 16) mod 16 = 0" "0 < length (padding src 16)"
proof -
  have m: "length src mod 16 < 16" by simp
  have "length (padding src 16) = length src div 16 * 16 + 16"
    using m div_mult_mod_eq [of "length src" 16]
    unfolding padding_def Let_def length_append length_replicate by linarith
  then show "length (padding src 16) mod 16 = 0" "0 < length (padding src 16)" by simp_all
qed

lemma unpadding_padding: "unpadding (padding src 16) = Ok src"
proof -
  define k where "k = 16 - length src mod 16"
  have k: "0 < k" "k \<le> 16" by (simp_all add: k_def)
  have p: "padding src 16 = src @ replicate k (of_nat k)" by (simp add: padding_def k_def Let_def)
  have "unat (of_nat k :: u8) = k" using k by (simp add: unat_of_nat)
  moreover have "(src @ replicate k (of_nat k :: u8)) ! (length src + k - 1) = of_nat k"
  proof -
    have "\<not> length src + k - 1 < length src" using k by simp
    moreover have "length src + k - 1 - length src < k" using k by simp
    ultimately show ?thesis by (simp only: nth_append if_False nth_replicate)
  qed
  ultimately show ?thesis using k by (simp add: p unpadding_def Let_def)
qed

lemma length_xor_bytes [simp]: "length (xor_bytes as bs) = min (length as) (length bs)"
  by (simp add: xor_bytes_def)

lemma xor_bytes_twice: "length bs = length as \<Longrightarrow> xor_bytes (xor_bytes as bs) bs = as"
  by (rule nth_equalityI) (simp_all add: xor_bytes_def xor.assoc)

lemma cbc_roundtrip:
  assumes "cipher_laws c" "length k = 16"
  shows "length src = n * 16 \<Longrightarrow> length iv = 16 \<Longrightarrow>
    length (cbc_encrypt c k iv n src) = n * 16 \<and> cbc_decrypt c k iv n (cbc_encrypt c k iv n src) = src"
proof (induction n arbitrary: src iv)
  case (Suc n)
  let ?x = "xor_bytes (take 16 src) iv" and ?b = "encrypt_block c k (xor_bytes (take 16 src) iv)"
  have l: "length (take 16 src) = 16" "length ?x = 16" using Suc.prems by simp_all
  then have b: "length ?b = 16" "decrypt_block c k ?b = ?x" using assms by (auto simp: cipher_laws_def)
  have "xor_bytes ?x iv = take 16 src" using l Suc.prems by (simp add: xor_bytes_twice)
  moreover have "length (drop 16 src) = n * 16" using Suc.prems by simp
  ultimately show ?case using Suc.IH [of "drop 16 src" ?b] b by (simp add: Let_def)
qed simp

lemma length_cbc_decrypt:
  "cipher_laws c \<Longrightarrow> length k = 16 \<Longrightarrow> length src = n * 16 \<Longrightarrow> length iv = 16 \<Longrightarrow>
   length (cbc_decrypt c k iv n src) = n * 16"
  by (induction n arbitrary: src iv) (auto simp: cipher_laws_def)

lemma length_pad_key [simp]: "length (pad_key key) = 16"
  by (simp add: pad_key_def)

lemma Ae64Encode_Ok:
  "Ae64Encode c src key =
    Ok (base64_encode (cbc_encrypt c (pad_key key) (pad_key key) (length (padding src 16) div 16) (padding src 16)))"
  using length_padding(1) [of src]
  by (simp add: Ae64Encode_def encryptAES_def new_cipher_def new_cbc_def crypt_blocks_def Let_def)

lemma Ae64_undone:
  assumes "cipher_laws c" "pad_key key' = pad_key key" "Ae64Encode c src key = Ok s"
  shows "Ae64Decode c s key' = Ok src"
proof -
  let ?p = "padding src 16" and ?k = "pad_key key"
  let ?e = "cbc_encrypt c ?k ?k (length ?p div 16) ?p"
  have l: "length ?p = length ?p div 16 * 16" using length_padding(1) [of src] by auto
  have e: "length ?e = length ?p div 16 * 16" "cbc_decrypt c ?k ?k (length ?p div 16) ?e = ?p"
    using cbc_roundtrip [OF assms(1) _ l, of ?k ?k] by simp_all
  have n: "length ?e div 16 = length ?p div 16" "length ?e mod 16 = 0" by (simp_all add: e(1))
  have "s = base64_encode ?e" using assms(3) by (simp add: Ae64Encode_Ok)
  then show ?thesis
    using assms(2) n e(2)
    by (simp add: Ae64Decode_def base64_roundtrip decryptAES_def new_cipher_def new_cbc_def crypt_blocks_def
        unpadding_padding)
qed

end
