(* ===== verification/Config.thy ===== *)
theory Config
  imports Ae64 Hashing Rewards
begin

text \<open>
  The configuration (\<open>pool/pool.go\<close>) and the decryption of its secrets (\<open>main.go\<close>).
\<close>

subsection \<open>Records\<close>

record StorageConfig =
  St_Enabled :: bool
  Endpoint_addr :: string
  PasswordEncrypted :: string
  Password :: string
  Database :: int
  PoolSize :: int

record StorageConfigFailover =
  Fo_Enabled :: bool
  MasterName :: string
  SentinelEndpoints :: "string list"
  Fo_PasswordEncrypted :: string
  Fo_Password :: string
  Fo_Database :: int
  Fo_PoolSize :: int

text \<open>The unlocker's configuration has, besides the amounts and depths, where and when it works.\<close>

record UnlockerSettings = UnlockerConfig +
  Ul_Enabled :: bool
  Interval :: string
  DaemonName :: string
  DaemonHost :: string
  DaemonPort :: int
  Ul_Timeout :: string

record Port =
  Po_Difficulty :: int
  Po_Host :: string
  Po_Port :: int
  Po_MaxConn :: int

record Stratum =
  Sm_Enabled :: bool
  Sm_Timeout :: string
  Sm_Ports :: "Port list"

record StratumTls =
  Tls_Enabled :: bool
  Tls_Timeout :: string
  Tls_Ports :: "Port list"
  TlsCert :: string
  TlsKey :: string

record Upstream =
  Us_Name :: string
  Us_Host :: string
  Us_Port :: int
  Us_Timeout :: string

record Frontend =
  Fr_Enabled :: bool
  Fr_Listen :: string
  Fr_Login :: string
  Fr_Password :: string
  HideIP :: bool

record PoolConfig =
  AddressEncrypted :: string
  Cfg_Address :: string
  Cfg_BypassAddressValidation :: bool
  Cfg_BypassShareValidation :: bool
  LogSetLevel :: int
  Cfg_Stratum :: Stratum
  Cfg_StratumTls :: StratumTls
  BlockRefreshInterval :: string
  UpstreamCheckInterval :: string
  Cfg_Upstream :: "Upstream list"
  EstimationWindow :: string
  LuckWindow :: string
  LargeLuckWindow :: string
  HashRateExpiration :: string
  PurgeInterval :: string
  HashrateWindow :: string
  HashrateLargeWindow :: string
  Cfg_Threads :: int
  Cfg_Frontend :: Frontend
  Coin :: string
  Cfg_Redis :: StorageConfig
  RedisFailover :: StorageConfigFailover
  BlockUnlockerCfg :: UnlockerSettings

subsection \<open>Secrets\<close>

text \<open>\<open>string(b)\<close>: the bytes of a slice as a string.\<close>

definition go_string :: "bytes \<Rightarrow> string" where
  "go_string bs = map (\<lambda>b. char_of (unat b)) bs"

definition decryptPoolConfigure ::
  "block_cipher \<Rightarrow> c_library \<Rightarrow> bytes \<Rightarrow> PoolConfig \<Rightarrow> PoolConfig \<times> unit go" where
  "decryptPoolConfigure ci lib passBytes cfg =
     bindS (cfg, Ae64Decode ci (AddressEncrypted cfg) passBytes) (\<lambda>cfg b.
     let cfg = cfg\<lparr>Cfg_Address := go_string b\<rparr>
     in if \<not> ValidateAddress lib (Cfg_Address cfg)
        then (cfg, Fail (ErrMsg ''decryptPoolConfigure: ValidateAddress''))
        else
          bindS
            (if St_Enabled (Cfg_Redis cfg)
             then bindS (cfg, Ae64Decode ci (PasswordEncrypted (Cfg_Redis cfg)) passBytes) (\<lambda>cfg b.
               (cfg\<lparr>Cfg_Redis := (Cfg_Redis cfg)\<lparr>Password := go_string b\<rparr>\<rparr>, Ok ()))
             else (cfg, Ok ()))
            (\<lambda>cfg _.
               if Fo_Enabled (RedisFailover cfg)
               then bindS (cfg, Ae64Decode ci (Fo_PasswordEncrypted (RedisFailover cfg)) passBytes) (\<lambda>cfg b.
                 (cfg\<lparr>RedisFailover := (RedisFailover cfg)\<lparr>Fo_Password := go_string b\<rparr>\<rparr>, Ok ()))
               else (cfg, Ok ())))"

end
