(* ===== verification/Duration.thy ===== *)
theory Duration
  imports Float64
begin

text \<open>
  Go's \<open>time.ParseDuration\<close>, with which the server reads its timeouts and windows: a sign, then numbers
  with a unit, each possibly with a fraction.  The result is in nanoseconds; \<open>None\<close> is an error.
\<close>

definition is_digit :: "char \<Rightarrow> bool" where
  "is_digit c \<longleftrightarrow> digit_value c \<noteq> None"

text \<open>The digits before the point; \<open>None\<close> when the value does not fit.\<close>

fun leading_int :: "nat \<Rightarrow> string \<Rightarrow> nat option" where
  "leading_int x [] = Some x"
| "leading_int x (c # cs) =
     (if 2 ^ 63 div 10 < x then None
      else let y = x * 10 + the (digit_value c) in if 2 ^ 63 < y then None else leading_int y cs)"

text \<open>The digits after the point and the power of ten they are divided by; those that do not fit are dropped.\<close>

fun leading_fraction :: "nat \<Rightarrow> nat \<Rightarrow> bool \<Rightarrow> string \<Rightarrow> nat \<times> nat" where
  "leading_fraction x scale overflow [] = (x, scale)"
| "leading_fraction x scale overflow (c # cs) =
     (if overflow \<or> (2 ^ 63 - 1) div 10 < x then leading_fraction x scale True cs
      else let y = x * 10 + the (digit_value c)
           in if 2 ^ 63 < y then leading_fraction x scale True cs else leading_fraction y (scale * 10) False cs)"

definition unit_of :: "string \<Rightarrow> nat option" where
  "unit_of u =
     map_of [(''ns'', 1), (''us'', 1000), ([char_of (194 :: nat), char_of (181 :: nat), CHR ''s''], 1000),
             ([char_of (206 :: nat), char_of (188 :: nat), CHR ''s''], 1000), (''ms'', 1000000),
             (''s'', 1000000000), (''m'', 60000000000), (''h'', 3600000000000)] u"

text \<open>\<open>uint64(float64(f) * (float64(unit) / scale))\<close>.\<close>

definition fraction_of :: "nat \<Rightarrow> nat \<Rightarrow> nat \<Rightarrow> nat" where
  "fraction_of f scale unit =
     nat \<lfloor>f64_rat (f64_rat (of_nat f) * f64_rat (f64_rat (of_nat unit) / of_nat scale))\<rfloor>"

definition in_unit :: "char \<Rightarrow> bool" where
  "in_unit c \<longleftrightarrow> c \<noteq> CHR ''.'' \<and> \<not> is_digit c"

text \<open>One number with its unit: the nanoseconds and what follows.\<close>

definition duration_term :: "string \<Rightarrow> (nat \<times> string) option" where
  "duration_term s =
     (let digits = takeWhile is_digit s; s = dropWhile is_digit s;
          (fs, s) = (if s \<noteq> [] \<and> hd s = CHR ''.'' then (takeWhile is_digit (tl s), dropWhile is_digit (tl s)) else ([], s));
          (f, scale) = leading_fraction 0 1 False fs;
          u = takeWhile in_unit s; s = dropWhile in_unit s
      in if digits = [] \<and> fs = [] \<or> u = [] then None
         else case (leading_int 0 digits, unit_of u) of
             (Some v, Some unit) \<Rightarrow>
               if 2 ^ 63 div unit < v then None
               else let v = v * unit + (if 0 < f then fraction_of f scale unit else 0)
                    in if 2 ^ 63 < v then None else Some (v, s)
           | _ \<Rightarrow> None)"

lemma duration_term_shorter: "duration_term s = Some (v, r) \<Longrightarrow> length r < length s"
proof -
  assume t: "duration_term s = Some (v, r)"
  define a where "a = dropWhile is_digit s"
  define b where "b = (if a \<noteq> [] \<and> hd a = CHR ''.'' then dropWhile is_digit (tl a) else a)"
  have r: "r = dropWhile in_unit b" "takeWhile in_unit b \<noteq> []"
    using t by (auto simp: duration_term_def Let_def a_def b_def split: prod.splits option.splits if_splits)
  have "length b = length (takeWhile in_unit b) + length (dropWhile in_unit b)"
    by (metis length_append takeWhile_dropWhile_id)
  then have "length r < length b" using r by simp
  also have "length b \<le> length a"
    using length_dropWhile_le [of is_digit "tl a"] by (auto simp: b_def)
  also have "length a \<le> length s" by (simp add: a_def length_dropWhile_le)
  finally show ?thesis .
qed

function duration_loop :: "nat \<Rightarrow> string \<Rightarrow> nat option" where
  "duration_loop d s =
     (if s = [] then Some d
      else case duration_term s of
          None \<Rightarrow> None
        | Some (v, r) \<Rightarrow>
            let e = (d + v) mod 2 ^ 64 in if 2 ^ 63 < e then None else duration_loop e r)"
  by auto

termination
  by (relation "measure (\<lambda>(d, s). length s)") (auto dest: duration_term_shorter)

declare duration_loop.simps [simp del]

definition parse_duration :: "string \<Rightarrow> int option" where
  "parse_duration s =
     (let neg = (s \<noteq> [] \<and> hd s = CHR ''-'');
          s = (if s \<noteq> [] \<and> (hd s = CHR ''-'' \<or> hd s = CHR ''+'') then tl s else s)
      in if s = ''0'' then Some 0
         else if s = [] then None
         else case duration_loop 0 s of
             None \<Rightarrow> None
           | Some d \<Rightarrow>
               if neg then Some (wrap64 (- int d)) else if 2 ^ 63 - 1 < d then None else Some (int d))"

text \<open>\<open>value, _ := time.ParseDuration(s)\<close>.\<close>

definition duration_or_zero :: "string \<Rightarrow> int" where
  "duration_or_zero s = (case parse_duration s of None \<Rightarrow> 0 | Some d \<Rightarrow> d)"

definition MustParseDuration :: "string \<Rightarrow> int go" where
  "MustParseDuration s =
     (case parse_duration s of None \<Rightarrow> Panic ''util: Can't parse duration'' | Some d \<Rightarrow> Ok d)"

subsection \<open>A whole number of a unit\<close>

lemma digit_value_dec [simp]: "d < 10 \<Longrightarrow> digit_value (dec_digit d) = Some d"
  by (auto simp: digit_value_def dec_digit_def Let_def)

lemma leading_int_snoc:
  "leading_int x (cs @ [c]) =
     (case leading_int x cs of
        None \<Rightarrow> None
      | Some y \<Rightarrow> if 2 ^ 63 div 10 < y \<or> 2 ^ 63 < y * 10 + the (digit_value c) then None
                else Some (y * 10 + the (digit_value c)))"
  by (induction x cs rule: leading_int.induct) (auto simp: Let_def)

lemma leading_int_show_nat: "n \<le> 2 ^ 63 \<Longrightarrow> leading_int 0 (show_nat n) = Some n"
proof (induction n rule: show_nat.induct)
  case (1 n)
  show ?case
  proof (cases "n < 10")
    case False
    have "leading_int 0 (show_nat (n div 10)) = Some (n div 10)" using 1 False by simp
    moreover have "n div 10 * 10 + n mod 10 = n" by simp
    moreover have "n div 10 \<le> 2 ^ 63 div 10" using 1(2) by (rule div_le_mono)
    ultimately show ?thesis using 1(2) False by (simp add: show_nat.simps [of n] leading_int_snoc)
  qed (simp add: show_nat.simps [of n])
qed

lemma is_digit_show_nat: "c \<in> set (show_nat n) \<Longrightarrow> is_digit c"
  using set_show_nat by (force simp: is_digit_def)

lemma parse_duration_whole:
  assumes "unit_of u = Some k" "list_all in_unit u" "n * k < 2 ^ 63" "0 < k"
  shows "parse_duration (show_nat n @ u) = Some (int (n * k))"
proof -
  have u: "u \<noteq> []" using assms(1) by (auto simp: unit_of_def)
  then have hu: "in_unit (hd u)" "u = hd u # tl u" using assms(2) by (auto simp: list_all_iff)
  have nd: "\<not> is_digit (hd u)" "hd u \<noteq> CHR ''.''" using hu(1) by (auto simp: in_unit_def)
  have t: "takeWhile is_digit (show_nat n @ u) = show_nat n" "dropWhile is_digit (show_nat n @ u) = u"
    using is_digit_show_nat [of _ n] nd(1) hu(2)
    by (metis takeWhile_append2 takeWhile.simps(2) append_Nil2, metis dropWhile_append2 dropWhile.simps(2))
  have w: "takeWhile in_unit u = u" "dropWhile in_unit u = []"
    using assms(2) by (auto simp: list_all_iff takeWhile_eq_all_conv)
  have "n \<le> n * k" using assms(4) by simp
  then have n: "n \<le> 2 ^ 63" using assms(3) by linarith
  have "n \<le> 2 ^ 63 div k" using assms(3,4) by (simp add: less_eq_div_iff_mult_less_eq)
  then have "duration_term (show_nat n @ u) = Some (n * k, [])"
    using assms(1,3) n u nd(2) by (simp add: duration_term_def t w leading_int_show_nat Let_def)
  then have "duration_loop 0 (show_nat n @ u) = Some (n * k)"
    using assms(3) by (simp add: duration_loop.simps [of 0] duration_loop.simps [of _ "[]"] Let_def)
  moreover have "hd (show_nat n @ u) \<noteq> CHR ''-''" "hd (show_nat n @ u) \<noteq> CHR ''+''"
    using hd_show_nat [of n] by simp_all
  moreover have "show_nat n @ u \<noteq> ''0''"
    using t(2) u by (auto simp: is_digit_def digit_value_def)
  ultimately show ?thesis using assms(3) by (simp add: parse_duration_def Let_def)
qed

lemma parse_10m: "parse_duration ''10m'' = Some 600000000000"
proof -
  have "parse_duration (show_nat 10 @ ''m'') = Some (int (10 * 60000000000))"
    by (rule parse_duration_whole) (simp_all add: unit_of_def in_unit_def is_digit_def digit_value_def)
  moreover have "show_nat 10 = ''10''" by code_simp
  ultimately show ?thesis by simp
qed

end
