(* ===== verification/Settings.thy ===== *)
theory Settings
  imports Config Duration Api
begin

text \<open>
  The timeouts, windows and intervals \<open>NewStratum\<close> (\<open>stratum/stratum.go\<close>) reads from the configuration,
  and what the status page takes from them.  All but the purge interval are read with
  \<open>time.ParseDuration\<close> and the error ignored, so an absent or mistyped one is 0; the purge interval
  makes the process panic.  Durations are in nanoseconds, the luck windows in milliseconds.
\<close>

record StratumSettings =
  Set_timeout :: int
  Set_estimationWindow :: int
  Set_hashrateExpiration :: int
  Set_hashrateWindow :: int
  Set_hashrateLargeWindow :: int
  Set_luckWindow :: int
  Set_luckLargeWindow :: int
  Set_refreshIntv :: int
  Set_purgeIntv :: int
  Set_checkIntv :: int

definition stratum_settings :: "PoolConfig \<Rightarrow> StratumSettings go" where
  "stratum_settings cfg =
     (let timeout = duration_or_zero (Sm_Timeout (Cfg_Stratum cfg));
          estimationWindow = duration_or_zero (EstimationWindow cfg);
          hashrateExpiration = duration_or_zero (HashRateExpiration cfg);
          hashrateWindow = duration_or_zero (HashrateWindow cfg);
          hashrateLargeWindow = duration_or_zero (HashrateLargeWindow cfg);
          luckWindow = go_quot (duration_or_zero (LuckWindow cfg)) 1000000;
          luckLargeWindow = go_quot (duration_or_zero (LargeLuckWindow cfg)) 1000000;
          refreshIntv = duration_or_zero (BlockRefreshInterval cfg)
      in bindG (MustParseDuration (PurgeInterval cfg)) (\<lambda>purgeIntv.
         Ok \<lparr>Set_timeout = timeout, Set_estimationWindow = estimationWindow,
            Set_hashrateExpiration = hashrateExpiration, Set_hashrateWindow = hashrateWindow,
            Set_hashrateLargeWindow = hashrateLargeWindow, Set_luckWindow = luckWindow,
            Set_luckLargeWindow = luckLargeWindow, Set_refreshIntv = refreshIntv, Set_purgeIntv = purgeIntv,
            Set_checkIntv = duration_or_zero (UpstreamCheckInterval cfg)\<rparr>))"

definition api_of :: "PoolConfig \<Rightarrow> StratumSettings \<Rightarrow> api_config" where
  "api_of cfg st =
     \<lparr>Api_timeout = Set_timeout st, Api_estimationWindow = Set_estimationWindow st,
      Api_luckWindow = Set_luckWindow st, Api_luckLargeWindow = Set_luckLargeWindow st,
      Api_LuckWindow = LuckWindow cfg, Api_LargeLuckWindow = LargeLuckWindow cfg,
      Api_HideIP = HideIP (Cfg_Frontend cfg)\<rparr>"

lemma settings_estimation:
  "stratum_settings cfg = Ok st \<Longrightarrow> Set_estimationWindow st = duration_or_zero (EstimationWindow cfg)"
  by (auto simp: stratum_settings_def bindG_Ok_iff)

text \<open>The server starts exactly when the purge interval can be parsed; a window that is a whole
  number of a unit is that many nanoseconds, and one that cannot be parsed is silently 0.\<close>

lemma settings_read:
  assumes "EstimationWindow cfg = show_nat n @ u" "unit_of u = Some k" "list_all in_unit u" "0 < k" "n * k < 2 ^ 63"
    and "parse_duration (HashrateWindow cfg) = None"
  shows "(case parse_duration (PurgeInterval cfg) of
      None \<Rightarrow> \<exists>msg. stratum_settings cfg = Panic msg
    | Some d \<Rightarrow> \<exists>st. stratum_settings cfg = Ok st \<and> Set_purgeIntv st = d \<and>
        Set_estimationWindow st = int (n * k) \<and> Set_hashrateWindow st = 0)"
  using parse_duration_whole [OF assms(2,3,5,4)] assms(1,6)
  by (auto simp: stratum_settings_def MustParseDuration_def duration_or_zero_def split: option.splits)

end
