(* ===== verification/Config_Correct.thy ===== *)
theory Config_Correct
  imports Config
begin

text \<open>
  The secrets of the configuration, proved: what was encrypted under a passphrase is decrypted by
  every passphrase with the same padded key, and what makes the decryption panic.
\<close>

text \<open>C26: What was encrypted under a passphrase is read back under it, whatever its bytes and however
  many: padding, chaining and base64 are undone.  The passphrase only counts up to sixteen bytes and
  up to trailing spaces: any other with the same padded key opens the secret as well.\<close>

theorem ae64_roundtrip:
  assumes "cipher_laws c" "pad_key key' = pad_key key"
  shows "\<exists>s. Ae64Encode c src key = Ok s \<and> Ae64Decode c s key' = Ok src"
  using Ae64Encode_Ok [of c src key] Ae64_undone [OF assms] by blast

text \<open>A cipher with the law, for the witnesses: exclusive or with the key.\<close>

definition xor_cipher :: block_cipher where
  "xor_cipher = \<lparr>encrypt_block = (\<lambda>k b. xor_bytes b k), decrypt_block = (\<lambda>k b. xor_bytes b k)\<rparr>"

lemma xor_cipher_laws: "cipher_laws xor_cipher"
  by (simp add: cipher_laws_def xor_cipher_def xor_bytes_twice)

lemma ae64_roundtrip_witness:
  "\<exists>s. Ae64Encode xor_cipher [1, 2, 3] [49, 50] = Ok s \<and> Ae64Decode xor_cipher s [49, 50, 0x20] = Ok [1, 2, 3]"
  by (rule ae64_roundtrip [OF xor_cipher_laws])
    (simp add: pad_key_def numeral_eq_Suc)

text \<open>C35: Decryption never reports an error for a secret whose base64 text is well formed: it either
  gives bytes or panics, and it panics exactly when the text is empty or no whole number of blocks, or
  when the last decrypted byte, which is taken for the number of padding bytes, is larger than the
  length, as it may well be under a wrong passphrase.\<close>

theorem ae64_decode_panics:
  assumes "cipher_laws c" "base64_decode str = Ok bs"
  shows "(is_panic (Ae64Decode c str key) \<longleftrightarrow>
      length bs mod 16 \<noteq> 0 \<or> bs = [] \<or>
      length bs < unat (last (cbc_decrypt c (pad_key key) (pad_key key) (length bs div 16) bs))) \<and>
    (\<forall>e. Ae64Decode c str key \<noteq> Fail e)"
proof (cases "length bs mod 16 = 0")
  case True
  let ?d = "cbc_decrypt c (pad_key key) (pad_key key) (length bs div 16) bs"
  have d: "length ?d = length bs"
    using length_cbc_decrypt [OF assms(1), of "pad_key key" bs "length bs div 16"] True by auto
  then have "?d = [] \<longleftrightarrow> bs = []" by (metis length_0_conv)
  with d True assms(2) show ?thesis
    by (cases "?d = []") (auto simp: Ae64Decode_def decryptAES_def new_cipher_def new_cbc_def crypt_blocks_def
        unpadding_def Let_def last_conv_nth)
next
  case False
  with assms(2) show ?thesis
    by (simp add: Ae64Decode_def decryptAES_def new_cipher_def new_cbc_def crypt_blocks_def)
qed

lemma ae64_decode_panics_witness: "is_panic (Ae64Decode xor_cipher [] [49, 50])"
  using ae64_decode_panics [OF xor_cipher_laws, of "[]" "[]" "[49, 50]"] by (simp add: base64_decode_def)

text \<open>Starting the pool with secrets that were encrypted under the passphrase that is entered: a
  valid address and the passwords of the enabled backends are decrypted to what they were and nothing
  else of the configuration changes; with an invalid address the start stops with an error.\<close>

theorem decrypt_config:
  assumes "cipher_laws ci" "Ae64Encode ci address pass = Ok (AddressEncrypted cfg)"
    and "Ae64Encode ci pw pass = Ok (PasswordEncrypted (Cfg_Redis cfg))"
    and "Ae64Encode ci fpw pass = Ok (Fo_PasswordEncrypted (RedisFailover cfg))"
  shows "decryptPoolConfigure ci lib pass cfg =
    (if ValidateAddress lib (go_string address) then
       (cfg\<lparr>Cfg_Address := go_string address,
          Cfg_Redis := (if St_Enabled (Cfg_Redis cfg) then (Cfg_Redis cfg)\<lparr>Password := go_string pw\<rparr> else Cfg_Redis cfg),
          RedisFailover := (if Fo_Enabled (RedisFailover cfg)
             then (RedisFailover cfg)\<lparr>Fo_Password := go_string fpw\<rparr> else RedisFailover cfg)\<rparr>, Ok ())
     else (cfg\<lparr>Cfg_Address := go_string address\<rparr>, Fail (ErrMsg ''decryptPoolConfigure: ValidateAddress'')))"
proof -
  have dec: "Ae64Decode ci (AddressEncrypted cfg) pass = Ok address"
      "Ae64Decode ci (PasswordEncrypted (Cfg_Redis cfg)) pass = Ok pw"
      "Ae64Decode ci (Fo_PasswordEncrypted (RedisFailover cfg)) pass = Ok fpw"
    using assms(2-4) by (auto intro: Ae64_undone [OF assms(1) refl])
  show ?thesis by (cases cfg) (use dec in \<open>simp add: decryptPoolConfigure_def Let_def\<close>)
qed

definition sealed :: "bytes \<Rightarrow> string" where
  "sealed src = (case Ae64Encode xor_cipher src [49, 50] of Ok s \<Rightarrow> s | _ \<Rightarrow> [])"

definition sample_pool :: PoolConfig where
  "sample_pool = \<lparr>AddressEncrypted = sealed [52, 56], Cfg_Address = [], Cfg_BypassAddressValidation = False,
     Cfg_BypassShareValidation = False, LogSetLevel = 10,
     Cfg_Stratum = \<lparr>Sm_Enabled = True, Sm_Timeout = ''15m'', Sm_Ports = []\<rparr>,
     Cfg_StratumTls = \<lparr>Tls_Enabled = False, Tls_Timeout = [], Tls_Ports = [], TlsCert = [], TlsKey = []\<rparr>,
     BlockRefreshInterval = ''1s'', UpstreamCheckInterval = ''5s'', Cfg_Upstream = [], EstimationWindow = ''15m'',
     LuckWindow = ''24h'', LargeLuckWindow = ''72h'', HashRateExpiration = ''3h'', PurgeInterval = ''10m'',
     HashrateWindow = ''30m'', HashrateLargeWindow = ''3h'', Cfg_Threads = 4,
     Cfg_Frontend = \<lparr>Fr_Enabled = False, Fr_Listen = [], Fr_Login = [], Fr_Password = [], HideIP = False\<rparr>,
     Coin = ''xmr'',
     Cfg_Redis = \<lparr>St_Enabled = True, Endpoint_addr = ''127.0.0.1:6379'', PasswordEncrypted = sealed [112],
        Password = [], Database = 0, PoolSize = 10\<rparr>,
     RedisFailover = \<lparr>Fo_Enabled = False, MasterName = [], SentinelEndpoints = [], Fo_PasswordEncrypted = sealed [],
        Fo_Password = [], Fo_Database = 0, Fo_PoolSize = 10\<rparr>,
     BlockUnlockerCfg = \<lparr>PoolFee = 1, PoolFeeAddress = [], Donate = False, Depth = 60, ImmatureDepth = 20,
        KeepTxFees = False, Ul_Enabled = True, Interval = ''1m'', DaemonName = [], DaemonHost = [], DaemonPort = 18081,
        Ul_Timeout = ''10s''\<rparr>\<rparr>"

lemma sealed_eq: "Ae64Encode xor_cipher src [49, 50] = Ok (sealed src)"
  by (simp add: sealed_def Ae64Encode_Ok)

lemma decrypt_config_witness:
  "let (cfg, out) = decryptPoolConfigure xor_cipher
       \<lparr>convert_blob = take 76, validate_address = (\<lambda>a. a = ''48''), cryptonight_hash = (\<lambda>b h. b),
        cryptonight_fast_hash = take 32, randomx_slow_hash = (\<lambda>seed b. b)\<rparr> [49, 50] sample_pool
   in out = Ok () \<and> Cfg_Address cfg = ''48'' \<and> Password (Cfg_Redis cfg) = ''p''"
  by (subst decrypt_config [OF xor_cipher_laws, of "[52, 56]" "[49, 50]" sample_pool "[112]" "[]"])
    (simp_all add: sample_pool_def sealed_eq ValidateAddress_def go_string_def char_of_def bit_0)

end
