(* ===== verification/Api_Correct.thy ===== *)
theory Api_Correct
  imports Login Settings Config_Correct
begin

text \<open>
  What the status page shows: the rates of the miners, the rows of the registered miners and the luck
  of the blocks, and when no page goes out at all.
\<close>

subsection \<open>The rate of a miner\<close>

text \<open>A miner object never records when it started, so its rate is the sum of its shares of the
  window, and of the last day, over the whole window, however short the miner has been there.\<close>

theorem miner_rate:
  assumes "range_law rng" "startedAt m = 0" "0 \<le> window" "window \<le> now div 1000" "now < 2 ^ 63"
    and "in_i64 (\<Sum>k \<in> {k. k |\<in>| fmdom (minerShares m) \<and> now div 1000 - min window 86400 \<le> k}. the (fmlookup (minerShares m) k))"
  shows "snd (hashrate rng now window m) =
    fl_div (fl_of_int (\<Sum>k \<in> {k. k |\<in>| fmdom (minerShares m) \<and> now div 1000 - min window 86400 \<le> k}.
      the (fmlookup (minerShares m) k))) (fl_of_int window)"
proof -
  let ?sec = "now div 1000" and ?f = "minerShares m"
  let ?in = "\<lambda>k. \<not> k < ?sec - 86400 \<and> ?sec - window \<le> k"
  have "sum_list (map snd (filter (\<lambda>(k, _). ?in k) (rng ?f))) =
      (\<Sum>(k, v) \<leftarrow> rng ?f. if ?in k then v else 0)"
    by (simp add: sum_list_map_filter' case_prod_unfold)
  also have "\<dots> = (\<Sum>k \<in> fset (fmdom ?f). if ?in k then the (fmlookup ?f k) else 0)"
    by (rule range_sum [OF assms(1)])
  also have "\<dots> = (\<Sum>k \<in> {k \<in> fset (fmdom ?f). ?in k}. the (fmlookup ?f k))"
    by (simp add: sum.inter_filter)
  also have "{k \<in> fset (fmdom ?f). ?in k} = {k. k |\<in>| fmdom ?f \<and> ?sec - min window 86400 \<le> k}" by auto
  finally have tot: "sum_list (map snd (filter (\<lambda>(k, _). ?in k) (rng ?f))) =
    (\<Sum>k \<in> {k. k |\<in>| fmdom ?f \<and> ?sec - min window 86400 \<le> k}. the (fmlookup ?f k))" .
  have "in_i64 ?sec" using assms(3,4,5) by (auto simp: in_i64_def)
  then have "(if window < wrap64 (?sec - startedAt m) then window else wrap64 (?sec - startedAt m)) = window"
    using assms(2,4) by (simp add: wrap64_id)
  then show ?thesis using assms(6) by (simp add: hashrate_def Let_def sum64_eq tot wrap64_id)
qed

lemma miner_rate_witness:
  "snd (hashrate ascending 1700000000000 900 ((NewMiner ''w'' ''ip'' 1)\<lparr>minerShares := fmupd 1699999999 9000 fmempty\<rparr>)) =
     fl_div (fl_of_int 9000) (fl_of_int 900)"
  by (subst miner_rate) (simp_all add: range_law_ascending NewMiner_def Collect_conv_if in_i64_def)

subsection \<open>The rows of the miners\<close>


text \<open>A server with one miner, and the page it shows.\<close>

definition page_config :: api_config where
  "page_config = \<lparr>Api_timeout = 120000000000, Api_estimationWindow = 900000000000, Api_luckWindow = 86400000,
     Api_luckLargeWindow = 2592000000, Api_LuckWindow = ''24h'', Api_LargeLuckWindow = ''720h'', Api_HideIP = True\<rparr>"


subsection \<open>The blocks found\<close>

text \<open>The luck of a window is counted over exactly the blocks found in it; the list of blocks shows
  exactly those of the large window, each once; and both leave only these in the server's record.\<close>

theorem status_blocks:
  assumes "range_law rngb" and large: "large = wrap64 (now - Api_luckLargeWindow cfg)"
    and luck: "getLuckStats rngb cfg now s = (s1, luck)" and rows: "getBlocksStats rngb cfg now s = (s2, rows)"
  shows "Luck_blocksCount luck =
      int (card {k. k |\<in>| fmdom (blockStats s) \<and> wrap64 (now - Api_luckWindow cfg) \<le> k}) \<and>
    Luck_totalBlocksCount luck = int (card {k. k |\<in>| fmdom (blockStats s) \<and> large \<le> k}) \<and>
    s1 = s\<lparr>blockStats := fmfilter (\<lambda>k. large \<le> k) (blockStats s)\<rparr> \<and> s2 = s1 \<and>
    set rows = {block_row (k, v) | k v. fmlookup (blockStats s) k = Some v \<and> large \<le> k} \<and>
    int (length rows) = Luck_totalBlocksCount luck"
proof -
  have l: "s1 = s\<lparr>blockStats := fmfilter (\<lambda>k. large \<le> k) (blockStats s)\<rparr>"
      "Luck_blocksCount luck = int (card {k. k |\<in>| fmdom (blockStats s) \<and> wrap64 (now - Api_luckWindow cfg) \<le> k})"
      "Luck_totalBlocksCount luck = int (card {k. k |\<in>| fmdom (blockStats s) \<and> large \<le> k})"
    using luck by (auto simp: getLuckStats_def luck_blocks_eq range_drop [OF assms(1)] range_count [OF assms(1)] Let_def large)
  moreover have r: "s2 = s\<lparr>blockStats := fmfilter (\<lambda>k. large \<le> k) (blockStats s)\<rparr>"
      "rows = map block_row (filter (\<lambda>x. large \<le> fst x) (rngb (blockStats s)))"
    using rows by (auto simp: getBlocksStats_def block_rows_eq range_drop [OF assms(1)] Let_def large)
  moreover have "int (length rows) = Luck_totalBlocksCount luck"
    using l(3) r(2) range_count [OF assms(1), of "\<lambda>k. large \<le> k"] by simp
  moreover have "set rows = {block_row (k, v) | k v. fmlookup (blockStats s) k = Some v \<and> large \<le> k}"
    unfolding r(2) by (force simp: range_law_set [OF assms(1)])
  ultimately show ?thesis using l by simp
qed

lemma status_blocks_witness:
  "Luck_blocksCount (snd (getLuckStats ascending page_config 1700000000000
     (sample_server\<lparr>blockStats := fmupd 1699999000000 \<lparr>Be_height = 7, Be_variance = Fin 1, Be_hash = ''b''\<rparr> fmempty\<rparr>))) = 1"
  using status_blocks [where now = 1700000000000 and cfg = page_config and
      s = "sample_server\<lparr>blockStats := fmupd 1699999000000
        \<lparr>Be_height = 7, Be_variance = Fin 1, Be_hash = ''b''\<rparr> fmempty\<rparr>",
      OF range_law_ascending refl surjective_pairing surjective_pairing, THEN conjunct1]
  by (simp add: page_config_def sample_server_def Collect_conv_if wrap64_id in_i64_def)

subsection \<open>Pages that cannot be shown\<close>

lemma no_rate:
  "startedAt v = 0 \<Longrightarrow> 0 \<le> now \<Longrightarrow> now < 2 ^ 63 \<Longrightarrow> \<not> is_finite (snd (hashrate rng now 0 v))"
proof -
  assume "startedAt v = 0" "0 \<le> now" "now < 2 ^ 63"
  moreover have "\<not> is_finite (fl_div (fl_of_int x) (Fin 0))" for x
    by (cases "fl_of_int x") auto
  ultimately show ?thesis by (simp add: hashrate_def Let_def wrap64_id in_i64_def)
qed

text \<open>C31: When the estimation window of the configuration cannot be parsed, for instance because it is
  absent, the server starts all the same, but no status page goes out in any reachable state with a
  registered miner (and a template hash of at least eight characters): the miner's rate is infinite or
  NaN, the encoder refuses it and its error is ignored.\<close>

theorem no_page:
  assumes "stratum_settings pc = Ok st" "parse_duration (EstimationWindow pc) = None" "cfg = api_of pc st"
    and "NewStratum clients eps m0 db = Ok s0" "(server_step envs dec)\<^sup>*\<^sup>* s0 s" "range_law rngm"
    and miner: "MinersMap_Get (miners s) k = Ok (Some m)" and now: "0 \<le> now" "now < 2 ^ 63"
    and tpl: "\<And>t. currentBlockTemplate s = Some t \<Longrightarrow> 8 \<le> length (prevHash t)"
  shows "snd (StatsIndex rngm rng rngb cfg now s) = Ok None"
proof -
  have inv: "server_inv s" by (rule server_steps_keep [OF assms(5) server_inv_init [OF assms(4)]])
  have w0: "seconds (Api_estimationWindow cfg) = 0"
    using settings_estimation [OF assms(1)] assms(2,3)
    by (simp add: api_of_def duration_or_zero_def seconds_def go_quot_def)
  from inv have wf: "wf_mmap (miners s)" by (simp add: inv_defs)
  obtain hr hr24 online rows s1
    where c: "collectMinersStats rngm rng cfg now s = ((hr, hr24, online, rows), s1)" by (metis prod.exhaust)
  note run = c [unfolded collectMinersStats_def]
  have entries: "(k, v) \<in> set (MinersMap_Iter rngm (miners s)) \<longleftrightarrow> mmap_abs (miners s) k = Some v" for k v
    by (rule Iter_entries [OF wf assms(6)])
  then have "\<forall>m \<in> snd ` set (MinersMap_Iter rngm (miners s)). startedAt (minerStore s m) = 0"
    using inv by (fastforce simp: inv_defs)
  then have rates: "\<forall>r \<in> set rows. \<not> is_finite (Row_hashrate r)"
    using collect_miners_rates [where Q = "\<lambda>x. \<not> is_finite x", OF _ run] no_rate [OF _ now]
    by (simp add: w0)
  have "(k, m) \<in> set (MinersMap_Iter rngm (miners s))"
    using miner miners_get [OF inv] entries by simp
  then have "rows \<noteq> []" using collect_miners_rows [OF run] by auto
  then have bad: "\<exists>r \<in> set rows. \<not> is_finite (Row_hashrate r)" using rates by (metis list.set_intros(1) neq_Nil_conv)
  have s1: "server_inv s1" "blockTemplate s1 = blockTemplate s"
    using collect_keep [OF inv, of rngm rng cfg now] c collect_miners_rows [OF run] by auto
  then obtain r where "rpc s1 = Ok r" by (auto simp: rpc_def index_go_def inv_defs)
  moreover have "\<exists>x. template_row (s1\<lparr>blockStats := st\<rparr>) = Ok x" for st
    using tpl s1(2) by (auto simp: template_row_def currentBlockTemplate_def not_less split: option.splits)
  ultimately show ?thesis
    using bad
    by (auto simp: StatsIndex_def c Let_def getLuckStats_def getBlocksStats_def split_beta encodable_def list_all_iff
        bindS_def split: go.splits) (metis go.distinct)+
qed

definition bare_config :: PoolConfig where
  "bare_config = sample_pool\<lparr>EstimationWindow := [], PurgeInterval := ''10m''\<rparr>"

lemma bare_start: "stratum_settings bare_config \<noteq> Panic p" "\<exists>st. stratum_settings bare_config = Ok st"
  using parse_10m by (simp_all add: stratum_settings_def bare_config_def MustParseDuration_def Let_def)

lemma no_page_witness:
  "\<exists>(s :: mem StratumServer) st. stratum_settings bare_config = Ok st \<and>
     snd (StatsIndex ascending ascending ascending (api_of bare_config st) 1700000000000 s) = Ok None"
proof -
  obtain st where st: "stratum_settings bare_config = Ok st" using bare_start(2) by blast
  obtain s m jid where s: "(server_step {sample_env} run_decoder)\<^sup>*\<^sup>* run_start s"
      "MinersMap_Get (miners s) ''w'' = Ok (Some m)" "currentBlockTemplate s = Some run_template"
    by (rule run_working)
  have "snd (StatsIndex ascending ascending ascending (api_of bare_config st) 1700000000000 s) = Ok None"
  proof (rule no_page [OF st _ refl run_new s(1) range_law_ascending s(2)])
    show "8 \<le> length (prevHash t)" if "currentBlockTemplate s = Some t" for t
      using that s(3) by (auto simp: run_template_def)
  qed (simp_all add: bare_config_def parse_duration_def)
  then show ?thesis using st by blast
qed

end
