(* ===== verification/Work.thy ===== *)
theory Work
  imports ServerInv
begin

text \<open>
  The work the sessions are given.  Each job takes the next extra nonce and the next number of its
  session's endpoint, so the jobs that the sessions of an endpoint hold are apart until the 32-bit
  counter wraps around.  \<open>work_of\<close> is all that matters of a server's state: the endpoints, and each
  session's endpoint and jobs by their extra nonce and id.
\<close>

type_synonym job_keys = "u32 \<times> string"

definition job_key :: "Job \<Rightarrow> job_keys" where
  "job_key job = (Job_extraNonce job, Job_id job)"

definition work_of :: "'db StratumServer \<Rightarrow> (nat \<Rightarrow> Endpoint) \<times> (nat \<Rightarrow> nat \<times> job_keys list)" where
  "work_of s = (endpointStore s, \<lambda>cs. (Ses_endpoint (sessionStore s cs), map job_key (validJobs (sessionStore s cs))))"

text \<open>The jobs carry a number \<open>h\<close> that their endpoint counts (\<open>c\<close>) and no two share one.\<close>

definition labelled ::
  "(job_keys \<Rightarrow> nat) \<Rightarrow> (Endpoint \<Rightarrow> nat) \<Rightarrow> (nat \<Rightarrow> Endpoint) \<times> (nat \<Rightarrow> nat \<times> job_keys list) \<Rightarrow> bool" where
  "labelled h c w \<longleftrightarrow>
     (\<forall>cs. distinct (map h (snd (snd w cs))) \<and> (\<forall>x \<in> set (snd (snd w cs)). h x \<le> c (fst w (fst (snd w cs))))) \<and>
     (\<forall>cs cs'. cs \<noteq> cs' \<longrightarrow> fst (snd w cs) = fst (snd w cs') \<longrightarrow>
        h ` set (snd (snd w cs)) \<inter> h ` set (snd (snd w cs')) = {})"

definition nonce_number :: "job_keys \<Rightarrow> nat" where
  "nonce_number x = unat (fst x)"

definition id_number :: "job_keys \<Rightarrow> nat" where
  "id_number x = fst (parse_uint_loop 0 (snd x))"

lemma id_number_show: "n < 2 ^ 64 \<Longrightarrow> id_number (x, show_nat n) = n"
  by (simp add: id_number_def parse_uint_loop_show_nat)

text \<open>\<open>k\<close> more jobs can be given without a wrap of an extra nonce.\<close>

definition work_ok :: "nat \<Rightarrow> 'db StratumServer \<Rightarrow> bool" where
  "work_ok k s \<longleftrightarrow>
     labelled nonce_number (\<lambda>ep. unat (Ep_extraNonce ep)) (work_of s) \<and>
     labelled id_number (\<lambda>ep. unat (jobSequence ep)) (work_of s) \<and>
     (\<forall>e. unat (jobSequence (fst (work_of s) e)) \<le> unat (Ep_extraNonce (fst (work_of s) e)) \<and>
        unat (Ep_extraNonce (fst (work_of s) e)) + k < 2 ^ 32)"

lemma work_ok_mono: "work_ok k s \<Longrightarrow> k' \<le> k \<Longrightarrow> work_ok k' s"
  unfolding work_ok_def by (meson add_left_mono le_less_trans)

lemma work_ok_cong: "work_of s' = work_of s \<Longrightarrow> work_ok k s' = work_ok k s"
  by (simp add: work_ok_def)

subsection \<open>Steps that leave the work alone\<close>

lemma work_of_same [simp]:
  "work_of (s\<lparr>database := db\<rparr>) = work_of s"
  "work_of (s\<lparr>roundShares := n\<rparr>) = work_of s"
  "work_of (s\<lparr>blockStats := b\<rparr>) = work_of s"
  "work_of (s\<lparr>blockTemplate := t\<rparr>) = work_of s"
  "work_of (s\<lparr>upstreams := us\<rparr>) = work_of s"
  "work_of (s\<lparr>upstream := u\<rparr>) = work_of s"
  "work_of (s\<lparr>upstreamsStates := st\<rparr>) = work_of s"
  "work_of (s\<lparr>miners := mm\<rparr>) = work_of s"
  "work_of (s\<lparr>minerNext := mn\<rparr>) = work_of s"
  "work_of (set_upstream i r s) = work_of s"
  "work_of (set_miner m v s) = work_of s"
  "work_of (bump_miner m f s) = work_of s"
  "work_of (registerSession cs s) = work_of s"
  "work_of (removeSession cs s) = work_of s"
  "work_of (fst (allocMiner mi s)) = work_of s"
  by (simp_all add: work_of_def set_upstream_def set_miner_def bump_miner_def registerSession_def
      removeSession_def allocMiner_def)

lemma sessions_same [simp]:
  "sessions (set_upstream i r s) = sessions s"
  "sessions (set_miner m v s) = sessions s"
  "sessions (bump_miner m f s) = sessions s"
  "sessions (set_session cs ses s) = sessions s"
  "sessions (set_endpoint e ep s) = sessions s"
  by (simp_all add: set_upstream_def set_miner_def bump_miner_def set_session_def set_endpoint_def)

text \<open>A session that changes in other fields, or that starts anew.\<close>

lemma work_of_set_session:
  assumes "Ses_endpoint v = Ses_endpoint (sessionStore s cs)" "map job_key (validJobs v) = map job_key (validJobs (sessionStore s cs))"
  shows "work_of (set_session cs v s) = work_of s"
  using assms by (auto simp: work_of_def set_session_def)

lemma labelled_no_jobs:
  assumes "labelled h c w" shows "labelled h c (fst w, (snd w)(cs := (e, [])))"
  using assms by (auto simp: labelled_def)

lemma work_ok_connect: "work_ok k s \<Longrightarrow> work_ok k (set_session cs (NewSession ip e) s)"
proof -
  have "work_of (set_session cs (NewSession ip e) s) = (fst (work_of s), (snd (work_of s))(cs := (e, [])))"
    by (auto simp: work_of_def set_session_def NewSession_def)
  then show "work_ok k s \<Longrightarrow> work_ok k (set_session cs (NewSession ip e) s)"
    by (simp add: work_ok_def labelled_no_jobs)
qed

subsection \<open>A new job\<close>

text \<open>A job with a number above the endpoint's count, and the count moved up to it.\<close>

lemma labelledD:
  assumes "labelled h c w"
  shows "distinct (map h (snd (snd w cs)))"
    and "y \<in> set (snd (snd w cs)) \<Longrightarrow> h y \<le> c (fst w (fst (snd w cs)))"
    and "cs \<noteq> cs' \<Longrightarrow> fst (snd w cs) = fst (snd w cs') \<Longrightarrow> y \<in> set (snd (snd w cs)) \<Longrightarrow> z \<in> set (snd (snd w cs')) \<Longrightarrow> h y \<noteq> h z"
  using assms by (simp_all add: labelled_def) (metis IntI empty_iff image_eqI)

lemma labelledI:
  assumes "\<And>cs. distinct (map h (snd (js cs)))" "\<And>cs y. y \<in> set (snd (js cs)) \<Longrightarrow> h y \<le> c (eps (fst (js cs)))"
    and "\<And>cs cs' y z. cs \<noteq> cs' \<Longrightarrow> fst (js cs) = fst (js cs') \<Longrightarrow> y \<in> set (snd (js cs)) \<Longrightarrow> z \<in> set (snd (js cs')) \<Longrightarrow> h y \<noteq> h z"
  shows "labelled h c (eps, js)"
  using assms by (auto simp: labelled_def)

lemma labelled_count:
  assumes w: "labelled h c w" and "c (fst w e) \<le> c ep'"
  shows "labelled h c ((fst w)(e := ep'), snd w)"
proof (rule labelledI)
  fix cs y
  assume "y \<in> set (snd (snd w cs))"
  from labelledD(2) [OF w this] assms(2) show "h y \<le> c (((fst w)(e := ep')) (fst (snd w cs)))"
    by (cases "fst (snd w cs) = e") simp_all
qed (rule labelledD(1) [OF w] labelledD(3) [OF w]; assumption)+

lemma labelled_new_job:
  assumes w: "labelled h c w" and n: "c (fst w e) < h x" "h x \<le> c ep'"
    and e: "fst (snd w cs) = e" and xs: "xs = snd (snd w cs) @ [x] \<or> xs = drop 1 (snd (snd w cs) @ [x])"
  shows "labelled h c ((fst w)(e := ep'), (snd w)(cs := (e, xs)))"
proof -
  have below: "h y < h x" if "fst (snd w cs') = e" "y \<in> set (snd (snd w cs'))" for cs' y
    using labelledD(2) [OF w that(2)] n(1) that(1) by simp
  have "set xs \<subseteq> set (snd (snd w cs) @ [x])" using xs set_drop_subset by (metis subset_refl)
  then have sub: "y = x \<or> y \<in> set (snd (snd w cs))" if "y \<in> set xs" for y
    using that by auto
  have "h x \<notin> h ` set (snd (snd w cs))" using below [OF e] by fastforce
  then have "distinct (map h (snd (snd w cs) @ [x]))" using labelledD(1) [OF w, of cs] by simp
  moreover from this have "distinct (map h (drop 1 (snd (snd w cs) @ [x])))"
    unfolding drop_map [symmetric] by (rule distinct_drop)
  ultimately have d: "distinct (map h xs)" using xs by blast
  show ?thesis
  proof (rule labelledI)
    fix cs'
    show "distinct (map h (snd (((snd w)(cs := (e, xs))) cs')))" using d labelledD(1) [OF w, of cs'] by simp
    fix y
    assume y: "y \<in> set (snd (((snd w)(cs := (e, xs))) cs'))"
    show "h y \<le> c (((fst w)(e := ep')) (fst (((snd w)(cs := (e, xs))) cs')))"
    proof (cases "fst (((snd w)(cs := (e, xs))) cs') = e")
      case True
      then have "h y \<le> h x" using y sub [of y] below [of cs' y] below [OF e, of y] by (cases "cs' = cs") auto
      then show ?thesis using True n(2) by simp
    next
      case False
      then show ?thesis using y labelledD(2) [OF w, of y cs'] by (cases "cs' = cs") auto
    qed
  next
    fix cs1 cs2 y z
    assume a: "cs1 \<noteq> cs2" "fst (((snd w)(cs := (e, xs))) cs1) = fst (((snd w)(cs := (e, xs))) cs2)"
      "y \<in> set (snd (((snd w)(cs := (e, xs))) cs1))" "z \<in> set (snd (((snd w)(cs := (e, xs))) cs2))"
    have other: "h u \<noteq> h v" if "cs' \<noteq> cs" "fst (snd w cs') = e" "u \<in> set xs" "v \<in> set (snd (snd w cs'))" for cs' u v
      using sub [OF that(3)] below [OF that(2,4)] labelledD(3) [OF w, of cs cs' u v] that e by auto
    show "h y \<noteq> h z"
      using a other [of cs2 y z] other [of cs1 z y] labelledD(3) [OF w, of cs1 cs2 y z]
      by (cases "cs1 = cs"; cases "cs2 = cs") auto
  qed
qed

text \<open>\<open>getJob\<close> uses up one extra nonce at most.\<close>

lemma work_of_getJob:
  assumes "getJob c cs t s = (s', out)"
  defines "e \<equiv> Ses_endpoint (sessionStore s cs)"
  defines "ep \<equiv> endpointStore s e"
  obtains (same) "work_of s' = work_of s"
  | (counted) "work_of s' = ((fst (work_of s))(e := ep\<lparr>Ep_extraNonce := Ep_extraNonce ep + 1\<rparr>), snd (work_of s))"
  | (job) xs where "xs = snd (snd (work_of s) cs) @ [(Ep_extraNonce ep + 1, show_nat (unat (jobSequence ep + 1)))] \<or>
      xs = drop 1 (snd (snd (work_of s) cs) @ [(Ep_extraNonce ep + 1, show_nat (unat (jobSequence ep + 1)))])"
    "work_of s' = ((fst (work_of s))(e := ep\<lparr>Ep_extraNonce := Ep_extraNonce ep + 1, jobSequence := jobSequence ep + 1\<rparr>),
       (snd (work_of s))(cs := (e, xs)))"
proof -
  let ?s1 = "set_session cs ((sessionStore s cs)\<lparr>lastBlockHeight := Tpl_height t\<rparr>) s"
  let ?ep = "ep\<lparr>Ep_extraNonce := Ep_extraNonce ep + 1\<rparr>"
  let ?s2 = "set_endpoint e ?ep ?s1"
  have w1: "work_of ?s1 = work_of s" by (rule work_of_set_session) simp_all
  have ep1: "endpoint_of ?s1 cs = ep" by (simp add: endpoint_of_def set_session_def e_def ep_def)
  have w2: "work_of (set_endpoint e ep' s0) = ((fst (work_of s0))(e := ep'), snd (work_of s0))" for ep' and s0 :: "'a StratumServer"
    by (simp add: work_of_def set_endpoint_def)
  show ?thesis
  proof (cases "lastBlockHeight (sessionStore s cs) = Tpl_height t")
    case True
    then have "s' = ?s1" using assms(1) by (auto simp: getJob_def Let_def)
    then show ?thesis using same w1 by simp
  next
    case False
    show ?thesis
    proof (cases "nextBlob c t (Ep_extraNonce ep + 1) (instanceId ep)")
      case (Ok blob)
      let ?s3 = "set_endpoint e (?ep\<lparr>jobSequence := jobSequence ep + 1\<rparr>) ?s2"
      let ?job = "\<lparr>Job_height = Tpl_height t, Job_id = show_nat (unat (jobSequence ep + 1)),
        Job_extraNonce = Ep_extraNonce ep + 1, submissions = {||}\<rparr>"
      have s': "s' = set_session cs (pushJob (sessionStore ?s3 cs) ?job) ?s3"
        using assms(1) False Ok ep1 by (auto simp: getJob_def Let_def e_def)
      define xs where "xs = map job_key (validJobs (pushJob (sessionStore ?s3 cs) ?job))"
      have "validJobs (sessionStore ?s3 cs) = validJobs (sessionStore s cs)" "Ses_endpoint (sessionStore ?s3 cs) = e"
        by (simp_all add: e_def)
      then have xs: "xs = snd (snd (work_of s) cs) @ [job_key ?job] \<or> xs = drop 1 (snd (snd (work_of s) cs) @ [job_key ?job])"
        "Ses_endpoint (pushJob (sessionStore ?s3 cs) ?job) = e"
        by (auto simp: xs_def pushJob_def Let_def work_of_def drop_map [symmetric])
      have "work_of s' = (fst (work_of ?s3), (snd (work_of ?s3))(cs := (e, xs)))"
        unfolding s' using xs(2) by (auto simp: work_of_def set_session_def xs_def)
      also have "\<dots> = ((fst (work_of s))(e := ep\<lparr>Ep_extraNonce := Ep_extraNonce ep + 1, jobSequence := jobSequence ep + 1\<rparr>),
          (snd (work_of s))(cs := (e, xs)))"
        unfolding w2 w1 by simp
      finally show ?thesis using job xs(1) by (simp add: job_key_def)
    next
      case (Fail x)
      then have "s' = ?s2" using assms(1) False ep1 by (auto simp: getJob_def Let_def e_def)
      then show ?thesis using counted w1 w2 by simp
    next
      case (Panic x)
      then have "s' = ?s2" using assms(1) False ep1 by (auto simp: getJob_def Let_def e_def)
      then show ?thesis using counted w1 w2 by simp
    qed
  qed
qed

lemma unat_add1: "unat x + 1 < 2 ^ LENGTH('a) \<Longrightarrow> unat (x + 1 :: 'a :: len word) = unat x + 1"
  by (simp add: unat_word_ariths)

lemma getJob_work:
  assumes "work_ok (Suc k) s"
  shows "work_ok k (fst (getJob c cs t s))"
proof -
  let ?e = "Ses_endpoint (sessionStore s cs)"
  let ?ep = "endpointStore s ?e"
  obtain s' out where g: "getJob c cs t s = (s', out)" by (metis prod.exhaust)
  have w: "labelled nonce_number (\<lambda>ep. unat (Ep_extraNonce ep)) (work_of s)" "labelled id_number (\<lambda>ep. unat (jobSequence ep)) (work_of s)"
    and le: "unat (jobSequence (endpointStore s e)) \<le> unat (Ep_extraNonce (endpointStore s e))"
      "unat (Ep_extraNonce (endpointStore s e)) + Suc k < 2 ^ 32" for e
    using assms by (auto simp: work_ok_def work_of_def)
  have nx: "unat (Ep_extraNonce ?ep + 1) = unat (Ep_extraNonce ?ep) + 1"
    using le(2) [of ?e] by (intro unat_add1) simp
  have "unat (jobSequence ?ep) + 1 < 2 ^ 64" using le [of ?e] by simp
  then have nj: "unat (jobSequence ?ep + 1) = unat (jobSequence ?ep) + 1" by (intro unat_add1) simp
  have fst_e: "fst (work_of s) ?e = ?ep" "fst (snd (work_of s) cs) = ?e" by (simp_all add: work_of_def)
  have same_jobs: "(fst (work_of s), snd (work_of s)) = work_of s" by simp
  from g show ?thesis
  proof (cases rule: work_of_getJob)
    case same
    then show ?thesis using assms work_ok_mono [of "Suc k" s k] work_ok_cong [of s' s] g by simp
  next
    case counted
    let ?ep' = "?ep\<lparr>Ep_extraNonce := Ep_extraNonce ?ep + 1\<rparr>"
    have "labelled nonce_number (\<lambda>ep. unat (Ep_extraNonce ep)) (work_of s')"
      unfolding counted by (rule labelled_count [OF w(1)]) (use nx fst_e in simp)
    moreover have "labelled id_number (\<lambda>ep. unat (jobSequence ep)) (work_of s')"
      unfolding counted by (rule labelled_count [OF w(2)]) (use fst_e in simp)
    moreover have "unat (jobSequence (fst (work_of s') e)) \<le> unat (Ep_extraNonce (fst (work_of s') e))"
        "unat (Ep_extraNonce (fst (work_of s') e)) + k < 2 ^ 32" for e
      unfolding counted using le [of e] nx by (cases "e = ?e"; simp add: work_of_def)+
    ultimately show ?thesis unfolding g fst_conv work_ok_def by blast
  next
    case (job xs)
    let ?x = "(Ep_extraNonce ?ep + 1, show_nat (unat (jobSequence ?ep + 1)))"
    let ?ep' = "?ep\<lparr>Ep_extraNonce := Ep_extraNonce ?ep + 1, jobSequence := jobSequence ?ep + 1\<rparr>"
    have h: "nonce_number ?x = unat (Ep_extraNonce ?ep) + 1" "id_number ?x = unat (jobSequence ?ep) + 1"
      using nx nj le [of ?e] id_number_show [of "unat (jobSequence ?ep + 1)"] by (simp_all add: nonce_number_def)
    have "labelled nonce_number (\<lambda>ep. unat (Ep_extraNonce ep)) (work_of s')"
      unfolding job(2) by (rule labelled_new_job [OF w(1) _ _ fst_e(2) job(1)]) (use h nx fst_e in simp_all)
    moreover have "labelled id_number (\<lambda>ep. unat (jobSequence ep)) (work_of s')"
      unfolding job(2) by (rule labelled_new_job [OF w(2) _ _ fst_e(2) job(1)]) (use h nj fst_e in simp_all)
    moreover have "unat (jobSequence (fst (work_of s') e)) \<le> unat (Ep_extraNonce (fst (work_of s') e))"
        "unat (Ep_extraNonce (fst (work_of s') e)) + k < 2 ^ 32" for e
      unfolding job(2) using le [of e] nx nj by (cases "e = ?e"; simp add: work_of_def)+
    ultimately show ?thesis unfolding g fst_conv work_ok_def by blast
  qed
qed

subsection \<open>The operations\<close>

lemma bindS_work:
  assumes "work_ok k (fst m)" "k' \<le> k" "\<And>s x. m = (s, Ok x) \<Longrightarrow> work_ok k s \<Longrightarrow> work_ok k' (fst (f s x))"
  shows "work_ok k' (fst (bindS m f))"
proof -
  obtain s r where m: "m = (s, r)" by (cases m)
  with assms show ?thesis by (cases r) (auto intro: work_ok_mono)
qed

lemma pure_work:
  "work_ok k s \<Longrightarrow> k' \<le> k \<Longrightarrow> (\<And>x. r = Ok x \<Longrightarrow> work_ok k' (fst (f s x))) \<Longrightarrow> work_ok k' (fst (bindS (s, r) f))"
  by (rule bindS_work) auto

lemma work_same [simp]:
  "work_ok k (s\<lparr>database := db\<rparr>) = work_ok k s"
  "work_ok k (s\<lparr>roundShares := n\<rparr>) = work_ok k s"
  "work_ok k (s\<lparr>blockStats := b\<rparr>) = work_ok k s"
  "work_ok k (s\<lparr>blockTemplate := t\<rparr>) = work_ok k s"
  "work_ok k (s\<lparr>upstreams := us\<rparr>) = work_ok k s"
  "work_ok k (s\<lparr>upstream := u\<rparr>) = work_ok k s"
  "work_ok k (s\<lparr>upstreamsStates := st\<rparr>) = work_ok k s"
  "work_ok k (s\<lparr>miners := mm\<rparr>) = work_ok k s"
  "work_ok k (set_upstream i r s) = work_ok k s"
  "work_ok k (bump_miner m f s) = work_ok k s"
  "work_ok k (registerSession cs s) = work_ok k s"
  "work_ok k (removeSession cs s) = work_ok k s"
  "work_ok k (fst (allocMiner mi s)) = work_ok k s"
  by (rule work_ok_cong; simp)+

lemma broadcast_work:
  fixes s :: "'db StratumServer"
  shows "work_ok (length css + k) s \<Longrightarrow> work_ok k (fst (broadcast_to env t css s))"
proof (induction css arbitrary: s)
  case (Cons cs css)
  show ?case unfolding broadcast_to.simps
  proof (rule bindS_work [where k = "length css + k"])
    show "work_ok (length css + k) (fst (getJob (CLib env) cs t s))"
      by (rule getJob_work) (use Cons.prems in simp)
    fix s1 :: "'db StratumServer" and reply
    assume "work_ok (length css + k) s1"
    then have "work_ok k (fst (broadcast_to env t css (if push_ok env cs then s1 else removeSession cs s1)))"
      by (intro Cons.IH) simp
    then show "work_ok k (fst (let s = if push_ok env cs then s1 else removeSession cs s1
        in bindS (broadcast_to env t css s) (\<lambda>s msgs. (s, Ok ((cs, reply) # msgs)))))"
      unfolding Let_def by (rule bindS_work) simp_all
  qed simp
qed simp

lemma fetch_work:
  assumes "work_ok k s"
  shows "work_ok k (fst (fetchBlockTemplate env s))" "sessions (fst (fetchBlockTemplate env s)) = sessions s"
  using assms
  by (auto simp: fetchBlockTemplate_def Let_def split: go.splits prod.splits option.splits)

lemma refresh_work:
  assumes "work_ok (length (sessions s) + k) s"
  shows "work_ok k (fst (refreshBlockTemplate env b s))"
  unfolding refreshBlockTemplate_def
proof (rule bindS_work [where k = "length (sessions s) + k"])
  fix s1 newBlock
  assume f: "fetchBlockTemplate env s = (s1, Ok newBlock)" "work_ok (length (sessions s) + k) s1"
  have "sessions s1 = sessions s" using fetch_work(2) [OF assms, of env] f(1) by simp
  then show "work_ok k (fst (if newBlock \<and> b then broadcastNewJobs env s1 else (s1, Ok [])))"
    using f(2) broadcast_work [of "sessions s" k s1] work_ok_mono [OF f(2), of k]
    by (auto simp: broadcastNewJobs_def split: option.splits)
qed (use fetch_work(1) [OF assms] in simp_all)

text \<open>A step with the sessions as they were: \<open>room k s\<close> leaves \<open>k\<close> after a broadcast to all of them.\<close>

definition room :: "nat \<Rightarrow> 'db StratumServer \<Rightarrow> bool" where
  "room k s \<longleftrightarrow> work_ok (length (sessions s) + k) s"

lemma room_same [simp]:
  "room k (s\<lparr>database := db\<rparr>) = room k s"
  "room k (s\<lparr>roundShares := n\<rparr>) = room k s"
  "room k (s\<lparr>blockStats := b\<rparr>) = room k s"
  "room k (set_upstream i r s) = room k s"
  "room k (bump_miner m f s) = room k s"
  by (simp_all add: room_def)

lemma room_work: "room k s \<Longrightarrow> work_ok k s"
  by (simp add: room_def work_ok_mono)

lemma bindS_room:
  assumes "room k (fst m)" "\<And>s x. m = (s, Ok x) \<Longrightarrow> room k s \<Longrightarrow> work_ok k (fst (f s x))"
  shows "work_ok k (fst (bindS m f))"
proof -
  obtain s r where m: "m = (s, r)" by (cases m)
  with assms show ?thesis by (cases r) (auto intro: room_work)
qed

lemma pure_room:
  "room k s \<Longrightarrow> (\<And>x. r = Ok x \<Longrightarrow> work_ok k (fst (f s x))) \<Longrightarrow> work_ok k (fst (bindS (s, r) f))"
  by (rule bindS_room) auto

lemma keep_work:
  assumes "work_ok k (fst m)" "\<And>s x. m = (s, Ok x) \<Longrightarrow> work_ok k s \<Longrightarrow> work_ok k (fst (f s x))"
  shows "work_ok k (fst (bindS m f))"
  by (rule bindS_work [OF assms(1) order_refl]) (use assms(2) in auto)

lemma write_repeated_work [simp]:
  "work_ok k (write_repeated env now cs s) = work_ok k s"
  by (simp add: write_repeated_def Let_def)

lemma count_share_work [simp]: "work_ok k (count_share now cs m s) = work_ok k s"
  by (simp add: count_share_def Let_def)

lemma record_block_work:
  fixes s :: "'db StratumServer"
  assumes "room k s" shows "work_ok k (fst (record_block env now cs m t h paramIn r s))"
  unfolding record_block_def Let_def
proof (rule bindS_room)
  fix s1 :: "'db StratumServer" and x :: "bool \<times> go_error option"
  assume r: "room k s1"
  obtain exist err where x: "x = (exist, err)" by (cases x)
  have "work_ok k (fst (bindS (refreshBlockTemplate env True s1) (\<lambda>s _. (s, Ok True))))"
    by (rule keep_work) (use refresh_work r in \<open>auto simp: room_def\<close>)
  then show "work_ok k (fst (case x of (exist, err) \<Rightarrow>
      if exist then (write_repeated env now cs s1, Ok False)
      else bindS (refreshBlockTemplate env True s1) (\<lambda>s _. (s, Ok True))))"
    using room_work [OF r] x by simp
qed (simp add: assms)

lemma submit_block_work:
  assumes "room k s"
  shows "work_ok k (fst (submit_block env now cs m t shareBuff cb paramIn s))"
  unfolding submit_block_def
proof (rule pure_room [OF assms])
  fix r
  obtain r' out where sb: "SubmitBlock (Net (Daemon env)) r (hex_encode shareBuff) = (r', out)"
    by (metis prod.exhaust)
  show "work_ok k (fst (case SubmitBlock (Net (Daemon env)) r (hex_encode shareBuff) of
         (r, Panic p) \<Rightarrow> (set_upstream (upstream s) r s, Panic p)
       | (r, Fail e) \<Rightarrow>
           (bump_miner m (\<lambda>m. m\<lparr>rejects := wrap64 (rejects m + 1)\<rparr>)
             (set_upstream (upstream s) (r\<lparr>Rejects := wrap64 (Rejects r + 1)\<rparr>) s), Ok True)
       | (r, Ok _) \<Rightarrow>
           bindS (s, if cb = [] then ConvertBlob (CLib env) shareBuff else Ok cb) (\<lambda>s convertedBlob.
           bindS (s, FastHash (CLib env) convertedBlob) (\<lambda>s fastHash.
           record_block env now cs m t (hex_encode fastHash) paramIn r s))))"
    unfolding sb using assms room_work [OF assms]
    by (cases out) (auto intro!: pure_room record_block_work)
qed

lemma processShare_work:
  assumes "room k s" shows "work_ok k (fst (processShare env now cs m job t nonce result s))"
  unfolding processShare_def Let_def
  by (intro pure_room assms)
    (auto simp: assms room_work on_db_def Let_def split: option.splits prod.splits if_splits bool.splits
      intro!: keep_work submit_block_work)

lemma handleGetJob_work:
  assumes "work_ok (Suc k) s" shows "work_ok k (fst (handleGetJobRPC env now cs params s))"
  unfolding handleGetJobRPC_def
  by (rule pure_work [OF assms])
    (auto intro!: keep_work getJob_work simp: assms work_ok_mono [OF assms] split: option.splits)

lemma registerMiner_work: "work_ok k s \<Longrightarrow> work_ok k (fst (registerMiner m s))"
  by (auto simp: registerMiner_def split: go.splits)

lemma handleLogin_work:
  fixes s :: "'db StratumServer"
  assumes "work_ok (Suc k) s" shows "work_ok k (fst (handleLoginRPC env now cs params s))"
proof -
  have k: "work_ok k s" by (rule work_ok_mono [OF assms]) simp
  have ses: "work_ok (Suc k) (set_session cs ((sessionStore s cs)\<lparr>Ses_login := a, Ses_id := w\<rparr>) s)" for a w
    using assms by (subst work_ok_cong [OF work_of_set_session]) simp_all
  have job: "work_ok k (fst (bindS (getJob (CLib env) cs t s1) (\<lambda>s job. (s, Ok (f job)))))"
    if "work_ok (Suc k) s1" for t and s1 :: "'db StratumServer" and f :: "JobReplyData \<Rightarrow> 'b"
    by (rule keep_work) (use getJob_work [OF that] in simp_all)
  have new: "work_ok (Suc k) (fst (bindS (registerMiner n (fst (allocMiner mi s1))) (\<lambda>s _. (s, Ok n))))"
    if "work_ok (Suc k) s1" for n mi and s1 :: "'db StratumServer"
    by (rule keep_work) (simp_all add: registerMiner_work that)
  have rest: "work_ok k (fst (bindS (s1, r) (\<lambda>s found. bindS
        (case found of Some m \<Rightarrow> (s, Ok m)
         | None \<Rightarrow> let (s, m) = allocMiner (mi s) s in bindS (registerMiner m s) (\<lambda>s _. (s, Ok m)))
        (\<lambda>s m. let s = registerSession cs s; s = bump_miner m (heartbeat now) s
          in bindS (getJob (CLib env) cs t s) (\<lambda>s job. (s, Ok (f job)))))))"
    if "work_ok (Suc k) s1" for r mi t and s1 :: "'db StratumServer" and f :: "JobReplyData \<Rightarrow> ErrorReply + JobReply"
  proof (rule pure_work [OF that])
    fix found
    show "work_ok k (fst (bindS
        (case found of Some m \<Rightarrow> (s1, Ok m)
         | None \<Rightarrow> let (s, m) = allocMiner (mi s1) s1 in bindS (registerMiner m s) (\<lambda>s _. (s, Ok m)))
        (\<lambda>s m. let s = registerSession cs s; s = bump_miner m (heartbeat now) s
          in bindS (getJob (CLib env) cs t s) (\<lambda>s job. (s, Ok (f job))))))"
      by (rule bindS_work [where k = "Suc k"]; cases found) (use that new [OF that] in \<open>simp_all add: split_beta Let_def job\<close>)
  qed simp
  obtain address wid where w: "extractWorkerId (Login params) = (address, wid)" by (metis prod.exhaust)
  show ?thesis
  proof (cases "(\<not> BypassAddressValidation env \<and> \<not> ValidateAddress (CLib env) address) \<or> blockTemplate s = None")
    case True
    with k w show ?thesis by (auto simp: handleLoginRPC_def currentBlockTemplate_def split: option.splits)
  next
    case False
    then obtain t where "currentBlockTemplate s = Some t" "\<not> (\<not> BypassAddressValidation env \<and> \<not> ValidateAddress (CLib env) address)"
      by (auto simp: currentBlockTemplate_def)
    then show ?thesis
      unfolding handleLoginRPC_def w Let_def prod.case
      by (simp only: option.case if_False) (rule rest [OF ses, unfolded Let_def])
  qed
qed

lemma handleSubmit_work:
  fixes s :: "'db StratumServer"
  assumes "room k s" shows "work_ok k (fst (handleSubmitRPC env now cs params s))"
proof -
  have submitted: "room k (set_session cs ((sessionStore s cs)\<lparr>validJobs := (validJobs (sessionStore s cs))[i := job]\<rparr>)
      (bump_miner m f s))"
    if "findJob (sessionStore s cs) jid = Some i" "Job_submit (validJobs (sessionStore s cs) ! i) nonce = (job, ex)"
    for i job ex nonce jid m f
  proof -
    have "job_key job = job_key (validJobs (sessionStore s cs) ! i)"
      using that(2) by (auto simp: Job_submit_def job_key_def Let_def split: if_splits)
    then have keys: "map job_key ((validJobs (sessionStore s cs))[i := job]) = map job_key (validJobs (sessionStore s cs))"
      by (cases "i < length (validJobs (sessionStore s cs))") (simp_all add: map_update list_update_same_conv list_update_beyond)
    have "work_of (set_session cs ((sessionStore s cs)\<lparr>validJobs := (validJobs (sessionStore s cs))[i := job]\<rparr>)
        (bump_miner m f s)) = work_of (bump_miner m f s)"
      by (rule work_of_set_session) (simp_all add: keys)
    then show ?thesis using assms by (simp add: room_def work_ok_def)
  qed
  show ?thesis
    unfolding handleSubmitRPC_def
    by (rule pure_room [OF assms])
      (auto simp: Let_def assms room_work room_work [OF submitted] split: option.splits prod.splits
        intro!: keep_work processShare_work submitted)
qed

lemma handleMessage_work:
  assumes "work_ok (length (sessions s) + Suc k) s"
  shows "work_ok k (fst (handleMessage env dec sent now cs req s))"
proof -
  have "work_ok (Suc k) s" "room k s" "work_ok k s"
    using assms work_ok_mono [OF assms] by (simp_all add: room_def)
  then show ?thesis
    by (auto simp: handleMessage_def decoded_def split: option.splits go.splits
        intro: handleLogin_work handleGetJob_work handleSubmit_work)
qed

lemma bindS_same:
  assumes "work_of (fst m) = w" "\<And>s x. work_of s = w \<Longrightarrow> work_of (fst (f s x)) = w"
  shows "work_of (fst (bindS m f)) = w"
  by (rule bindS_keep [where P = "\<lambda>s. work_of s = w"]) (use assms in auto)

lemma checkUpstreams_work: "work_of (fst (checkUpstreams env s)) = work_of s"
  unfolding checkUpstreams_def Let_def split_beta
  by (rule bindS_same) (auto intro!: bindS_same split: go.splits)

lemma StatsIndex_work: "work_of (fst (StatsIndex rngm rng rngb cfg now s)) = work_of s"
proof -
  obtain a b n rows s1
    where c: "collect_miners rng cfg now (MinersMap_Iter rngm (miners s)) (Fin 0, Fin 0, 0, []) s = ((a, b, n, rows), s1)"
    by (metis prod.exhaust)
  from collect_miners_rows [OF this] have "work_of s1 = work_of s" by (auto simp: work_of_def)
  then show ?thesis
    by (auto simp: StatsIndex_def collectMinersStats_def c Let_def getLuckStats_def getBlocksStats_def split_beta
        intro!: bindS_same)
qed

subsection \<open>Runs\<close>

text \<open>
  A state with room for the jobs of one more step.  The counters are 32 and 64 bits wide, so that is
  a bound on how many jobs an endpoint has given, not on the length of the run.
\<close>

definition spare :: "'db StratumServer \<Rightarrow> bool" where
  "spare s \<longleftrightarrow> (\<forall>e. unat (Ep_extraNonce (endpointStore s e)) + length (sessions s) + 1 < 2 ^ 32)"

lemma spare_work: "work_ok 0 s \<Longrightarrow> spare s \<Longrightarrow> work_ok (length (sessions s) + Suc 0) s"
  by (simp add: work_ok_def spare_def work_of_def)

lemma server_step_work:
  assumes "server_step envs dec s s'" "work_ok 0 s" "spare s"
  shows "work_ok 0 s'"
  using assms(1)
proof (cases rule: server_step.cases)
  case (message env sent now cs req out)
  then show ?thesis using handleMessage_work [OF spare_work [OF assms(2,3)], of env dec sent now cs req] by simp
next
  case (refresh env b msgs)
  have "work_ok (length (sessions s) + 0) s" by (rule work_ok_mono [OF spare_work [OF assms(2,3)]]) simp
  then show ?thesis using refresh(2) refresh_work [of s 0 env b] by simp
next
  case (check env)
  then show ?thesis using checkUpstreams_work [of env s] work_ok_cong [of s' s 0] assms(2) by simp
next
  case (status rngm rng rngb cfg now page)
  then show ?thesis using StatsIndex_work [of rngm rng rngb cfg now s] work_ok_cong [of s' s 0] assms(2) by simp
qed (simp_all add: assms(2) work_ok_connect)

lemma NewStratum_work:
  assumes "NewStratum clients eps m db = Ok s" "\<And>e. Ep_extraNonce (eps e) = 0 \<and> jobSequence (eps e) = 0"
  shows "k < 2 ^ 32 \<Longrightarrow> work_ok k s"
  using assms by (auto simp: NewStratum_def bindG_Ok_iff Let_def work_ok_def labelled_def work_of_def NewSession_def)

inductive spare_steps ::
  "('raw, 'db) server_env set \<Rightarrow> 'j param_decoder \<Rightarrow> 'db StratumServer \<Rightarrow> 'db StratumServer \<Rightarrow> bool" for envs dec where
  here: "spare_steps envs dec s s"
| step: "spare_steps envs dec s s' \<Longrightarrow> spare s' \<Longrightarrow> server_step envs dec s' s'' \<Longrightarrow> spare_steps envs dec s s''"

lemma spare_steps_work: "spare_steps envs dec s s' \<Longrightarrow> work_ok 0 s \<Longrightarrow> work_ok 0 s'"
  by (induction rule: spare_steps.induct) (auto intro: server_step_work)

lemma labelled_apart:
  assumes "labelled h c w" "fst (snd w cs) = fst (snd w cs')" "(cs, i) \<noteq> (cs', j)"
    and "i < length (snd (snd w cs))" "j < length (snd (snd w cs'))"
  shows "h (snd (snd w cs) ! i) \<noteq> h (snd (snd w cs') ! j)"
proof (cases "cs = cs'")
  case True
  then show ?thesis using labelledD(1) [OF assms(1), of cs] assms(3-5) by (auto simp: distinct_conv_nth)
next
  case False
  then show ?thesis using labelledD(3) [OF assms(1) False assms(2)] assms(4,5) by simp
qed

end
