(* ===== verification/Work_Correct.thy ===== *)
theory Work_Correct
  imports Work Login
begin

text \<open>
  The work the sessions of a port are given: that no two of them share it, on a run in which two
  sessions get a job each.
\<close>

subsection \<open>Two sessions at work\<close>

text \<open>A second session asks for a job of the worker that has logged in.\<close>

definition getjob_message :: "unit JSONRpcReq" where
  "getjob_message = \<lparr>Req_Id = Some (), Method = ''getjob'', Params = Some ()\<rparr>"

lemma run_fresh: "Ep_extraNonce sample_endpoint = 0 \<and> jobSequence sample_endpoint = 0"
  by (simp add: sample_endpoint_def)

lemma spare_room:
  assumes "work_ok k s" "Suc (length (sessions s)) \<le> k" shows "spare s"
  unfolding spare_def
proof
  fix e
  have "unat (Ep_extraNonce (endpointStore s e)) + k < 2 ^ 32" using assms(1) by (simp add: work_ok_def work_of_def)
  then show "unat (Ep_extraNonce (endpointStore s e)) + length (sessions s) + 1 < 2 ^ 32" using assms(2) by linarith
qed

lemma two_sessions:
  obtains s where "spare_steps {sample_env} run_decoder run_start s"
    "validJobs (sessionStore s 0) \<noteq> []" "validJobs (sessionStore s 1) \<noteq> []"
    "Ses_endpoint (sessionStore s 0) = Ses_endpoint (sessionStore s 1)"
proof -
  note f = run_connected_facts
  let ?p = "\<lparr>Login = ''a.w'', Pass = [], Agent = []\<rparr>"
  have inv: "server_inv run_connected" by (rule server_steps_keep [OF run_ready server_inv_init [OF run_new]])
  have no_sessions: "sessions run_start = []" "sessions run_connected = []"
    by (simp_all add: run_connected_def run_start_def sample_server_def)
  have w0: "work_ok 10 run_start" by (rule NewStratum_work [OF run_new run_fresh]) simp
  then have w1: "work_ok 10 run_connected"
    unfolding run_connected_def by (intro work_ok_connect) simp
  obtain s job m where s: "handleLoginRPC sample_env 1700000000000 0 ?p run_connected =
        (s, Ok (Inr \<lparr>Reply_Id = ''w'', Reply_Job = job, Reply_Status = ''OK''\<rparr>))"
      "MinersMap_Get (miners s) ''w'' = Ok (Some m)" "currentBlockTemplate s = Some run_template"
      "findJob (sessionStore s 0) (JobId job) \<noteq> None" "sessions s = sessions (registerSession 0 run_connected)"
      "\<forall>c. c \<noteq> 0 \<longrightarrow> sessionStore s c = sessionStore run_connected c"
      "Ses_endpoint (sessionStore s 0) = Ses_endpoint (sessionStore run_connected 0)"
      "\<forall>e. instanceId (endpointStore s e) = instanceId (endpointStore run_connected e)"
    using login_run [OF inv f(1) wf_run_template f(4,5,2,3), of 1700000000000] f(1) by auto
  let ?s = "bump_miner m (heartbeat 1700000000000) s"
  have "length (instanceId (endpoint_of ?s 1)) = 4" "lastBlockHeight (sessionStore ?s 1) \<noteq> Tpl_height run_template"
    using s(6,8)
    by (simp_all add: endpoint_of_def bump_miner_def set_miner_def run_connected_def set_session_def run_start_def
        sample_server_def sample_endpoint_def NewSession_def run_template_def)
  then obtain s' reply jb where g: "getJob (CLib sample_env) 1 run_template ?s = (s', Ok reply)"
      "sessionStore s' = (sessionStore ?s)(1 := pushJob ((sessionStore ?s 1)\<lparr>lastBlockHeight := Tpl_height run_template\<rparr>) jb)"
    using getJob_new [OF wf_run_template, of ?s 1 "CLib sample_env" thesis] by blast
  have login: "server_step {sample_env} run_decoder run_connected s"
  proof -
    have "\<exists>out. handleMessage sample_env run_decoder None 1700000000000 0 login_message run_connected = (s, Ok out)"
      using s(1) by (simp add: handleMessage_def run_decoder_def decoded_def answer_def login_message_def)
    then show ?thesis by (blast intro: server_step.message)
  qed
  have getjob: "server_step {sample_env} run_decoder s s'"
  proof -
    have "\<exists>out. handleMessage sample_env run_decoder None 1700000000000 1 getjob_message s = (s', Ok out)"
      using s(2,3) g(1)
      by (simp add: handleMessage_def run_decoder_def decoded_def answer_def getjob_message_def handleGetJobRPC_def)
    then show ?thesis by (blast intro: server_step.message)
  qed
  have w2: "work_ok 8 s"
    using handleLogin_work [of 8 run_connected sample_env 1700000000000 0 ?p] work_ok_mono [OF w1, of 9] s(1) by simp
  have "server_step {sample_env} run_decoder run_start (run_start\<lparr>blockTemplate := Some run_template\<rparr>)"
    by (rule server_step.refresh [OF _ run_fetch]) simp
  moreover have "server_step {sample_env} run_decoder (run_start\<lparr>blockTemplate := Some run_template\<rparr>) run_connected"
    unfolding run_connected_def by (rule server_step.connect)
  moreover have "spare run_start" "spare (run_start\<lparr>blockTemplate := Some run_template\<rparr>)" "spare run_connected" "spare s"
    using w0 w1 w2 no_sessions s(5) by (auto intro!: spare_room simp: registerSession_def)
  ultimately have "spare_steps {sample_env} run_decoder run_start s'"
    by (meson spare_steps.intros login getjob)
  moreover have "validJobs (sessionStore s' 0) \<noteq> []" "validJobs (sessionStore s' 1) \<noteq> []"
    using g(2) s(4) pushJob_found [of _ jb] by (auto simp: findJob_def pushJob_def Let_def)
  moreover have "Ses_endpoint (sessionStore s' 0) = Ses_endpoint (sessionStore s' 1)"
    using g(2) s(6,7)
    by (simp add: pushJob_def Let_def run_connected_def run_start_def sample_server_def NewSession_def)
  ultimately show thesis by (rule that)
qed

subsection \<open>No two jobs share their work\<close>

lemma reserve_inject:
  assumes "wf_template t" "length inst = 4" "reserve t n inst = reserve t n' inst" shows "n = n'"
  using assms(3) by (simp add: reserve_eq [OF assms(1,2)])

text \<open>C7: On a run from the server's start with fresh endpoints, each of whose steps starts with room
  for its jobs in the 32-bit extra nonces, any two jobs that sessions of one endpoint hold (the same
  session or different ones, up to four each) differ in their ids and in their extra nonces, so that
  from no template they are given the same blob: no two miners of a port search the same work, and a
  submission's job id names at most one job of its session.\<close>

theorem jobs_are_apart:
  assumes "NewStratum clients eps m db = Ok s0" "\<And>e. Ep_extraNonce (eps e) = 0 \<and> jobSequence (eps e) = 0"
    and "spare_steps envs dec s0 s"
    and "i < length (validJobs (sessionStore s cs))" "j < length (validJobs (sessionStore s cs'))" "(cs, i) \<noteq> (cs', j)"
    and "Ses_endpoint (sessionStore s cs) = Ses_endpoint (sessionStore s cs')"
    and "a = validJobs (sessionStore s cs) ! i" "b = validJobs (sessionStore s cs') ! j"
    and "wf_template t" "length inst = 4"
  shows "Job_id a \<noteq> Job_id b \<and> reserve t (Job_extraNonce a) inst \<noteq> reserve t (Job_extraNonce b) inst"
proof -
  have "work_ok 0 s" by (rule spare_steps_work [OF assms(3) NewStratum_work [OF assms(1,2)]]) simp
  then have "labelled nonce_number (\<lambda>ep. unat (Ep_extraNonce ep)) (work_of s)"
      "labelled id_number (\<lambda>ep. unat (jobSequence ep)) (work_of s)"
    by (simp_all add: work_ok_def)
  from this [THEN labelled_apart, of cs cs' i j] have "nonce_number (job_key a) \<noteq> nonce_number (job_key b)"
      "id_number (job_key a) \<noteq> id_number (job_key b)"
    using assms(4-9) by (simp_all add: work_of_def)
  then have "Job_extraNonce a \<noteq> Job_extraNonce b" "Job_id a \<noteq> Job_id b"
    by (auto simp: nonce_number_def id_number_def job_key_def)
  then show ?thesis using reserve_inject [OF assms(10,11)] by metis
qed

lemma jobs_are_apart_witness:
  "\<exists>(s :: mem StratumServer) inst. length inst = 4 \<and>
     Job_id (validJobs (sessionStore s 0) ! 0) \<noteq> Job_id (validJobs (sessionStore s 1) ! 0) \<and>
     reserve run_template (Job_extraNonce (validJobs (sessionStore s 0) ! 0)) inst \<noteq>
     reserve run_template (Job_extraNonce (validJobs (sessionStore s 1) ! 0)) inst"
proof -
  obtain s where s: "spare_steps {sample_env} run_decoder run_start s"
    "validJobs (sessionStore s 0) \<noteq> []" "validJobs (sessionStore s 1) \<noteq> []"
    "Ses_endpoint (sessionStore s 0) = Ses_endpoint (sessionStore s 1)"
    by (rule two_sessions)
  have inst: "length (instanceId sample_endpoint) = 4" by (simp add: sample_endpoint_def)
  show ?thesis
    using jobs_are_apart [OF run_new run_fresh s(1), of 0 0 0 1 _ _ run_template "instanceId sample_endpoint"] s inst wf_run_template
    by (intro exI [of _ s] exI [of _ "instanceId sample_endpoint"]) simp
qed

end
