(* ===== verification/Listener.thy ===== *)
theory Listener
  imports Server Stats
begin

text \<open>
  \<open>stratum/stratum.go\<close>: the accept loops and the purge timer.  The channel \<open>accept\<close> of capacity
  \<open>MaxConn\<close> bounds the sessions that are handled at a time: the loop sends before it starts a handler
  and the handler receives when it has returned.  Go serves the operations of a channel one by one,
  so the loop and the handlers are steps on one state.
\<close>

record listener =
  capacity :: nat
  tokens :: nat
  waiting :: "nat option"
  handled :: "nat list"
  returned :: "nat list"

text \<open>\<open>make(chan int, MaxConn)\<close> panics when the size is negative.\<close>

definition listen_start :: "int \<Rightarrow> listener go" where
  "listen_start maxConn =
     (if maxConn < 0 then Panic ''makechan: size out of range''
      else Ok \<lparr>capacity = nat maxConn, tokens = 0, waiting = None, handled = [], returned = []\<rparr>)"

text \<open>The loop accepts a connection when it does not hold one; an accept error changes nothing.\<close>

definition listen_accept :: "nat \<Rightarrow> listener \<Rightarrow> listener option" where
  "listen_accept cs l = (if waiting l = None then Some (l\<lparr>waiting := Some cs\<rparr>) else None)"

text \<open>The send goes through while the channel has room; then the handler runs.\<close>

definition listen_admit :: "listener \<Rightarrow> listener option" where
  "listen_admit l =
     (case waiting l of
        None \<Rightarrow> None
      | Some cs \<Rightarrow>
          if tokens l < capacity l
          then Some (l\<lparr>tokens := tokens l + 1, waiting := None, handled := handled l @ [cs]\<rparr>)
          else None)"

text \<open>A handler returns, and then it takes a token back.\<close>

definition listen_return :: "nat \<Rightarrow> listener \<Rightarrow> listener option" where
  "listen_return cs l =
     (if cs \<in> set (handled l) then Some (l\<lparr>handled := remove1 cs (handled l), returned := returned l @ [cs]\<rparr>)
      else None)"

definition listen_release :: "nat \<Rightarrow> listener \<Rightarrow> listener option" where
  "listen_release cs l =
     (if cs \<in> set (returned l) \<and> 0 < tokens l
      then Some (l\<lparr>tokens := tokens l - 1, returned := remove1 cs (returned l)\<rparr>) else None)"

text \<open>On a channel without a buffer the send meets the receive of a handler that has returned.\<close>

definition listen_meet :: "nat \<Rightarrow> listener \<Rightarrow> listener option" where
  "listen_meet cs l =
     (case waiting l of
        None \<Rightarrow> None
      | Some new \<Rightarrow>
          if capacity l = 0 \<and> cs \<in> set (returned l)
          then Some (l\<lparr>waiting := None, handled := handled l @ [new], returned := remove1 cs (returned l)\<rparr>)
          else None)"

inductive listen_step :: "listener \<Rightarrow> listener \<Rightarrow> bool" where
  "listen_accept cs l = Some l' \<Longrightarrow> listen_step l l'"
| "listen_admit l = Some l' \<Longrightarrow> listen_step l l'"
| "listen_return cs l = Some l' \<Longrightarrow> listen_step l l'"
| "listen_release cs l = Some l' \<Longrightarrow> listen_step l l'"
| "listen_meet cs l = Some l' \<Longrightarrow> listen_step l l'"

inductive_cases listen_stepE: "listen_step l l'"

text \<open>Each token stands for a handler that runs or is about to take it back.\<close>

definition listen_inv :: "nat \<Rightarrow> listener \<Rightarrow> bool" where
  "listen_inv c l \<longleftrightarrow>
     capacity l = c \<and> tokens l = length (handled l) + length (returned l) \<and> tokens l \<le> c"

lemma length_remove1_Suc: "x \<in> set xs \<Longrightarrow> length xs = Suc (length (remove1 x xs))"
  by (induction xs) auto

lemma listen_step_inv: "listen_step l l' \<Longrightarrow> listen_inv c l \<Longrightarrow> listen_inv c l'"
  by (erule listen_stepE)
    (auto simp: listen_inv_def listen_accept_def listen_admit_def listen_return_def listen_release_def
        listen_meet_def dest: length_remove1_Suc split: if_splits option.splits)

lemma listen_steps_inv: "listen_step\<^sup>*\<^sup>* l l' \<Longrightarrow> listen_inv c l \<Longrightarrow> listen_inv c l'"
  by (induction rule: rtranclp_induct) (auto intro: listen_step_inv)

lemma listen_start_inv: "listen_start n = Ok l \<Longrightarrow> listen_inv (nat n) l"
  by (auto simp: listen_start_def listen_inv_def split: if_splits)

text \<open>C18: On every run of an accept loop whose channel could be made, at most \<open>MaxConn\<close> sessions are
  handled or about to take their token back; a handler that has returned always finds its token, a
  waiting connection is admitted as long as there is room, and with \<open>MaxConn = 0\<close> no connection is
  ever handled.\<close>

theorem listener_limit:
  assumes "listen_start n = Ok l0" and run: "listen_step\<^sup>*\<^sup>* l0 l"
  shows "int (length (handled l) + length (returned l)) \<le> n \<and>
    (\<forall>cs \<in> set (returned l). listen_release cs l \<noteq> None) \<and>
    (\<forall>new. waiting l = Some new \<longrightarrow> int (length (handled l) + length (returned l)) < n \<longrightarrow>
      (\<exists>l'. listen_admit l = Some l' \<and> new \<in> set (handled l'))) \<and>
    (n = 0 \<longrightarrow> handled l = [])"
proof -
  have inv: "listen_inv (nat n) l" and n: "0 \<le> n"
    using assms listen_start_inv [of n l0] listen_steps_inv [OF run]
    by (auto simp: listen_start_def split: if_splits)
  have "int (length (handled l) + length (returned l)) \<le> n" using inv n unfolding listen_inv_def by linarith
  moreover have "listen_release cs l \<noteq> None" if "cs \<in> set (returned l)" for cs
    using inv length_pos_if_in_set [OF that] that by (simp add: listen_inv_def listen_release_def)
  moreover have "\<exists>l'. listen_admit l = Some l' \<and> new \<in> set (handled l')"
    if "waiting l = Some new" "int (length (handled l) + length (returned l)) < n" for new
    using inv n that by (simp add: listen_inv_def listen_admit_def)
  moreover have "handled l = []" if "n = 0" using inv that by (auto simp: listen_inv_def)
  ultimately show ?thesis by blast
qed

text \<open>A loop for one connection: one session is handled, and the next one waits.\<close>

definition busy_listener :: listener where
  "busy_listener = \<lparr>capacity = 1, tokens = 1, waiting = Some 2, handled = [1], returned = []\<rparr>"

lemma busy_listener_reached:
  "listen_step\<^sup>*\<^sup>* \<lparr>capacity = 1, tokens = 0, waiting = None, handled = [], returned = []\<rparr> busy_listener"
proof -
  let ?l0 = "\<lparr>capacity = 1, tokens = 0, waiting = None, handled = [], returned = []\<rparr> :: listener"
  let ?l1 = "?l0\<lparr>waiting := Some 1\<rparr>" and ?l2 = "?l0\<lparr>tokens := 1, handled := [1]\<rparr>"
  have "listen_step ?l0 ?l1" by (rule listen_step.intros(1) [of 1]) (simp add: listen_accept_def)
  moreover have "listen_step ?l1 ?l2" by (rule listen_step.intros(2)) (simp add: listen_admit_def)
  moreover have "listen_step ?l2 busy_listener"
    by (rule listen_step.intros(1) [of 2]) (simp add: listen_accept_def busy_listener_def)
  ultimately show ?thesis by (meson converse_rtranclp_into_rtranclp rtranclp.rtrancl_refl)
qed

lemma listener_limit_witness:
  "waiting busy_listener = Some 2 \<and> int (length (handled busy_listener) + length (returned busy_listener)) \<le> 1"
  using listener_limit [OF _ busy_listener_reached, of 1] by (simp add: listen_start_def busy_listener_def)

subsection \<open>The purge timer\<close>

text \<open>
  \<open>purgeStale\<close>: the storage layer's purge; the count or the error is only logged.  It may not return
  when the server never ends the scan.
\<close>

definition purgeStale ::
  "('raw, 'db) server_env \<Rightarrow> int \<Rightarrow> int \<Rightarrow> int \<Rightarrow> 'db StratumServer \<Rightarrow> ('db StratumServer \<times> unit go) option" where
  "purgeStale env now window large s =
     map_option (\<lambda>(out, db). (s\<lparr>database := db\<rparr>, bindG out (\<lambda>_. Ok ())))
       (FlushStaleStats (Rd (Backend env)) (Prefix (Backend env)) now (database s) window large)"

end
