(* ===== verification/Log.thy ===== *)
theory Log
  imports GoStd
begin

text \<open>
  How the process ends and what it logs: \<open>util/log.go\<close> and \<open>util/platform_linux.go\<close>.  A logger
  writes to a list of files in turn; the stamp of a line (date, time and, for four of the loggers, the
  place of the call) and which files can be written are the surroundings.  The operands of a call are
  given as the texts the format package makes of them.
\<close>

subsection \<open>Runs of the process\<close>

text \<open>A part of the program returns, ends the process with a status, or panics.\<close>

datatype 'a run = Returns 'a | Exits int | Crashes string

primrec bindR :: "'a run \<Rightarrow> ('a \<Rightarrow> 'b run) \<Rightarrow> 'b run" where
  "bindR (Returns x) f = f x"
| "bindR (Exits n) f = Exits n"
| "bindR (Crashes p) f = Crashes p"

lemma bindR_Returns_iff: "bindR m f = Returns y \<longleftrightarrow> (\<exists>x. m = Returns x \<and> f x = Returns y)"
  by (cases m) auto

lemma bindR_Exits_iff: "bindR m f = Exits n \<longleftrightarrow> m = Exits n \<or> (\<exists>x. m = Returns x \<and> f x = Exits n)"
  by (cases m) auto

lemma bindR_Crashes_iff: "bindR m f = Crashes p \<longleftrightarrow> m = Crashes p \<or> (\<exists>x. m = Returns x \<and> f x = Crashes p)"
  by (cases m) auto

text \<open>An error that the code hands to \<open>Fatal\<close>.\<close>

definition fatal_on_error :: "'a go \<Rightarrow> 'a run" where
  "fatal_on_error r = (case r of Ok x \<Rightarrow> Returns x | Fail e \<Rightarrow> Exits 1 | Panic p \<Rightarrow> Crashes p)"

lemma fatal_on_error_simps [simp]:
  "fatal_on_error (Ok x) = Returns x" "fatal_on_error (Fail e) = Exits 1" "fatal_on_error (Panic p) = Crashes p"
  by (simp_all add: fatal_on_error_def)

subsection \<open>Loggers\<close>

datatype sink = Stdout | Stderr | LogFile string

record PoolLogger =
  sinks :: "sink list"
  lg_prefix :: string
  shortfile :: bool
  logLevel :: int

definition DEBUG :: int where "DEBUG = 10"
definition INFO :: int where "INFO = 20"
definition WARN :: int where "WARN = 30"
definition ERROR :: int where "ERROR = 40"
definition SHARE :: int where "SHARE = 100"
definition BLOCK :: int where "BLOCK = 101"

lemmas level_defs = DEBUG_def INFO_def WARN_def ERROR_def SHARE_def BLOCK_def

record loggers =
  Debug :: PoolLogger
  Info :: PoolLogger
  Warn :: PoolLogger
  Error :: PoolLogger
  ShareLog :: PoolLogger
  BlockLog :: PoolLogger

text \<open>The level that is set, the stamp of a line and the files that cannot be written.\<close>

record log_env =
  logSetLevel :: int
  stamp :: "bool \<Rightarrow> string"
  broken :: "sink \<Rightarrow> bool"

type_synonym log_lines = "(sink \<times> string) list"

text \<open>A multi-writer writes to each of its writers in turn and stops at the first that fails.\<close>

fun multi_write :: "(sink \<Rightarrow> bool) \<Rightarrow> sink list \<Rightarrow> string \<Rightarrow> log_lines" where
  "multi_write bad [] x = []"
| "multi_write bad (k # ks) x = (if bad k then [] else (k, x) # multi_write bad ks x)"

definition newline :: char where "newline = CHR 0x0A"

definition end_line :: "string \<Rightarrow> string" where
  "end_line s = (if s = [] \<or> last s \<noteq> newline then s @ [newline] else s)"

text \<open>\<open>log.Logger.Output\<close>: the prefix, the stamp and the text, ended by a newline if it is not.\<close>

definition Output :: "log_env \<Rightarrow> PoolLogger \<Rightarrow> string \<Rightarrow> log_lines \<Rightarrow> log_lines" where
  "Output env l s out = out @ multi_write (broken env) (sinks l) (lg_prefix l @ stamp env (shortfile l) @ end_line s)"

text \<open>\<open>fmt.Sprintln\<close>: the operands' texts with blanks between them, and a newline.\<close>

definition sprintln :: "string list \<Rightarrow> string" where
  "sprintln vs = join_on CHR '' '' vs @ [newline]"

definition Log_Print :: "log_env \<Rightarrow> PoolLogger \<Rightarrow> string \<Rightarrow> log_lines \<Rightarrow> log_lines" where
  "Log_Print env l s out = (if logSetLevel env \<le> logLevel l then Output env l s out else out)"

definition Log_Println :: "log_env \<Rightarrow> PoolLogger \<Rightarrow> string list \<Rightarrow> log_lines \<Rightarrow> log_lines" where
  "Log_Println env l vs out = (if logSetLevel env \<le> logLevel l then Output env l (sprintln vs) out else out)"

text \<open>\<open>s\<close> is the formatted text.\<close>

definition Log_Printf :: "log_env \<Rightarrow> PoolLogger \<Rightarrow> string \<Rightarrow> log_lines \<Rightarrow> log_lines" where
  "Log_Printf env l s out = (if logSetLevel env \<le> logLevel l then Output env l s out else out)"

text \<open>The fatal and panicking calls write whatever the level.\<close>

definition Log_Fatal :: "log_env \<Rightarrow> PoolLogger \<Rightarrow> string \<Rightarrow> log_lines \<Rightarrow> log_lines \<times> 'a run" where
  "Log_Fatal env l s out = (Output env l s out, Exits 1)"

definition Log_Fatalln :: "log_env \<Rightarrow> PoolLogger \<Rightarrow> string list \<Rightarrow> log_lines \<Rightarrow> log_lines \<times> 'a run" where
  "Log_Fatalln env l vs out = (Output env l (sprintln vs) out, Exits 1)"

definition Log_Fatalf :: "log_env \<Rightarrow> PoolLogger \<Rightarrow> string \<Rightarrow> log_lines \<Rightarrow> log_lines \<times> 'a run" where
  "Log_Fatalf env l s out = (Output env l s out, Exits 1)"

definition Log_Panic :: "log_env \<Rightarrow> PoolLogger \<Rightarrow> string \<Rightarrow> log_lines \<Rightarrow> log_lines \<times> 'a run" where
  "Log_Panic env l s out = (Output env l s out, Crashes s)"

definition Log_Panicln :: "log_env \<Rightarrow> PoolLogger \<Rightarrow> string list \<Rightarrow> log_lines \<Rightarrow> log_lines \<times> 'a run" where
  "Log_Panicln env l vs out = (let s = sprintln vs in (Output env l s out, Crashes s))"

definition Log_Panicf :: "log_env \<Rightarrow> PoolLogger \<Rightarrow> string \<Rightarrow> log_lines \<Rightarrow> log_lines \<times> 'a run" where
  "Log_Panicf env l s out = (Output env l s out, Crashes s)"

text \<open>
  \<open>InitLog\<close>: the four files are opened in turn (\<open>open_log\<close> tells whether it works) and the six loggers
  are made; the level is kept for all of them.
\<close>

definition open_or_exit :: "(string \<Rightarrow> go_error option) \<Rightarrow> string \<Rightarrow> sink run" where
  "open_or_exit open_log f = (case open_log f of None \<Rightarrow> Returns (LogFile f) | Some e \<Rightarrow> Exits 1)"

definition InitLog ::
  "(string \<Rightarrow> go_error option) \<Rightarrow> string \<Rightarrow> string \<Rightarrow> string \<Rightarrow> string \<Rightarrow> int \<Rightarrow> (int \<times> loggers) run" where
  "InitLog open_log infoFile errorFile shareFile blockFile setLevel =
     bindR (open_or_exit open_log infoFile) (\<lambda>infoFd.
     bindR (open_or_exit open_log errorFile) (\<lambda>errorFd.
     bindR (open_or_exit open_log shareFile) (\<lambda>shareFd.
     bindR (open_or_exit open_log blockFile) (\<lambda>blockFd.
     Returns (setLevel,
       \<lparr>Debug = \<lparr>sinks = [Stdout, infoFd], lg_prefix = ''[D] '', shortfile = True, logLevel = DEBUG\<rparr>,
        Info = \<lparr>sinks = [Stdout, infoFd], lg_prefix = ''[I] '', shortfile = True, logLevel = INFO\<rparr>,
        Warn = \<lparr>sinks = [Stderr, infoFd, errorFd], lg_prefix = ''[W] '', shortfile = True, logLevel = WARN\<rparr>,
        Error = \<lparr>sinks = [Stderr, infoFd, errorFd], lg_prefix = ''[E] '', shortfile = True, logLevel = ERROR\<rparr>,
        ShareLog = \<lparr>sinks = [shareFd, Stdout], lg_prefix = ''[S]'', shortfile = False, logLevel = SHARE\<rparr>,
        BlockLog = \<lparr>sinks = [blockFd, Stdout], lg_prefix = ''[B]'', shortfile = False, logLevel = BLOCK\<rparr>\<rparr>)))))"

subsection \<open>What reaches a file\<close>

lemma multi_write_all: "\<forall>k \<in> set ks. \<not> bad k \<Longrightarrow> multi_write bad ks x = map (\<lambda>k. (k, x)) ks"
  by (induction ks) auto

lemma multi_write_set: "(k, y) \<in> set (multi_write bad ks x) \<longleftrightarrow>
    y = x \<and> (\<exists>as bs. ks = as @ k # bs \<and> (\<forall>a \<in> set (as @ [k]). \<not> bad a))"
proof (induction ks)
  case (Cons c ks)
  have "(\<exists>as bs. c # ks = as @ k # bs \<and> (\<forall>a \<in> set (as @ [k]). \<not> bad a)) \<longleftrightarrow>
      \<not> bad c \<and> (c = k \<or> (\<exists>as bs. ks = as @ k # bs \<and> (\<forall>a \<in> set (as @ [k]). \<not> bad a)))" (is "?L \<longleftrightarrow> ?R")
  proof
    assume ?L
    then obtain as bs where "c # ks = as @ k # bs" "\<forall>a \<in> set (as @ [k]). \<not> bad a" by blast
    then show ?R by (cases as) auto
  next
    assume R: ?R
    show ?L
    proof (cases "c = k")
      case True
      with R show ?thesis by (intro exI [of _ "[]"] exI [of _ ks]) auto
    next
      case False
      with R obtain as bs where "ks = as @ k # bs" "\<forall>a \<in> set (as @ [k]). \<not> bad a" by blast
      with R show ?thesis by (intro exI [of _ "c # as"] exI [of _ bs]) auto
    qed
  qed
  with Cons show ?case by auto
qed simp

lemma InitLog_Returns:
  "InitLog open_log i e s b lev = Returns (lev', ls) \<longleftrightarrow>
     open_log i = None \<and> open_log e = None \<and> open_log s = None \<and> open_log b = None \<and> lev' = lev \<and>
     ls = \<lparr>Debug = \<lparr>sinks = [Stdout, LogFile i], lg_prefix = ''[D] '', shortfile = True, logLevel = 10\<rparr>,
        Info = \<lparr>sinks = [Stdout, LogFile i], lg_prefix = ''[I] '', shortfile = True, logLevel = 20\<rparr>,
        Warn = \<lparr>sinks = [Stderr, LogFile i, LogFile e], lg_prefix = ''[W] '', shortfile = True, logLevel = 30\<rparr>,
        Error = \<lparr>sinks = [Stderr, LogFile i, LogFile e], lg_prefix = ''[E] '', shortfile = True, logLevel = 40\<rparr>,
        ShareLog = \<lparr>sinks = [LogFile s, Stdout], lg_prefix = ''[S]'', shortfile = False, logLevel = 100\<rparr>,
        BlockLog = \<lparr>sinks = [LogFile b, Stdout], lg_prefix = ''[B]'', shortfile = False, logLevel = 101\<rparr>\<rparr>"
  by (auto simp: InitLog_def open_or_exit_def level_defs bindR_Returns_iff split: option.splits)

subsection \<open>The limit of open files\<close>

record Rlimit =
  Cur :: "64 word"
  Max :: "64 word"

text \<open>The two system calls, on the state of the kernel.\<close>

record 'k syscalls =
  Getrlimit :: "'k \<Rightarrow> go_error + Rlimit"
  Setrlimit :: "'k \<Rightarrow> Rlimit \<Rightarrow> go_error option \<times> 'k"

definition SetRLimit :: "'k syscalls \<Rightarrow> 64 word \<Rightarrow> 'k \<Rightarrow> 'k \<times> unit run" where
  "SetRLimit sys v k =
     (case Getrlimit sys k of
        Inl e \<Rightarrow> (k, Exits 1)
      | Inr rLimit \<Rightarrow>
          if v \<le> Cur rLimit then (k, Returns ())
          else
            (case Setrlimit sys k (rLimit\<lparr>Cur := v, Max := 999999\<rparr>) of
               (Some e, k) \<Rightarrow> (k, Exits 1)
             | (None, k) \<Rightarrow>
                 (case Getrlimit sys k of Inl e \<Rightarrow> (k, Exits 1) | Inr rLimit \<Rightarrow> (k, Returns ()))))"

text \<open>On Windows nothing is done.\<close>

definition SetRLimit_windows :: "64 word \<Rightarrow> 'k \<Rightarrow> 'k \<times> unit run" where
  "SetRLimit_windows v k = (k, Returns ())"

text \<open>
  The documented behaviour of the calls: a new limit is taken when the soft limit is at most the hard
  one, the hard one is not raised without the privilege to do so and stays below the system's bound;
  otherwise nothing changes.
\<close>

definition rlimit_laws :: "'k syscalls \<Rightarrow> bool \<Rightarrow> 64 word \<Rightarrow> bool" where
  "rlimit_laws sys priv bound \<longleftrightarrow>
     (\<forall>k old new. Getrlimit sys k = Inr old \<longrightarrow>
        (let (e, k') = Setrlimit sys k new
         in if Cur new \<le> Max new \<and> Max new \<le> bound \<and> (Max new \<le> Max old \<or> priv)
            then e = None \<and> Getrlimit sys k' = Inr new
            else e \<noteq> None \<and> k' = k))"

lemma SetRLimit_eq:
  assumes "rlimit_laws sys priv bound" "Getrlimit sys k = Inr old" "Cur old < v" "v \<le> 999999"
  shows "if 999999 \<le> bound \<and> (999999 \<le> Max old \<or> priv)
     then \<exists>k'. SetRLimit sys v k = (k', Returns ()) \<and> Getrlimit sys k' = Inr \<lparr>Cur = v, Max = 999999\<rparr>
     else SetRLimit sys v k = (k, Exits 1)"
proof -
  define new where "new = old\<lparr>Cur := v, Max := 999999\<rparr>"
  have new: "new = \<lparr>Cur = v, Max = 999999\<rparr>" by (cases old) (simp add: new_def)
  obtain e k' where s: "Setrlimit sys k new = (e, k')" by (metis prod.exhaust)
  have law: "if 999999 \<le> bound \<and> (999999 \<le> Max old \<or> priv)
      then e = None \<and> Getrlimit sys k' = Inr new else e \<noteq> None \<and> k' = k"
    using assms(1) [unfolded rlimit_laws_def, rule_format, OF assms(2), of new] s assms(4) by (simp add: new)
  have run: "SetRLimit sys v k =
      (case e of Some x \<Rightarrow> (k', Exits 1) | None \<Rightarrow>
         (case Getrlimit sys k' of Inl x \<Rightarrow> (k', Exits 1) | Inr r \<Rightarrow> (k', Returns ())))"
    using assms(2,3) s by (auto simp: SetRLimit_def simp flip: new_def split: option.splits)
  show ?thesis
  proof (cases "999999 \<le> bound \<and> (999999 \<le> Max old \<or> priv)")
    case True
    with law have "e = None" "Getrlimit sys k' = Inr new" by simp_all
    with True run new show ?thesis by simp
  next
    case False
    with law obtain x where "e = Some x" "k' = k" by auto
    with False run show ?thesis by auto
  qed
qed

end
