(* ===== verification/Startup.thy ===== *)
theory Startup
  imports Settings Unlocker ServerInv Listener Log
begin

text \<open>
  \<open>main.go\<close>: from the command line to the tasks that run.  The command line, the files, the terminal,
  the sockets and the system calls are the surroundings; what the decoder of the configuration and
  the parser of URLs make of their input is given with them.
\<close>

subsection \<open>The command line\<close>

datatype flag_result = Flags bool "string list" | FlagExit int

text \<open>The value of a boolean flag.\<close>

definition flag_bool :: "string \<Rightarrow> bool option" where
  "flag_bool s =
     (if s \<in> {''1'', ''t'', ''T'', ''TRUE'', ''true'', ''True''} then Some True
      else if s \<in> {''0'', ''f'', ''F'', ''FALSE'', ''false'', ''False''} then Some False
      else None)"

text \<open>
  \<open>flag.Parse\<close> with the one flag \<open>v\<close>: flags are read up to the first argument that is none or after
  \<open>--\<close>; a flag that is not known or has no proper value ends the process with status 2, \<open>-h\<close> with 0.
\<close>

fun flag_parse :: "bool \<Rightarrow> string list \<Rightarrow> flag_result" where
  "flag_parse v [] = Flags v []"
| "flag_parse v (s # args) =
     (if length s < 2 \<or> hd s \<noteq> CHR ''-'' then Flags v (s # args)
      else if s = ''--'' then Flags v args
      else
        let flag = (if s ! 1 = CHR ''-'' then drop 2 s else drop 1 s);
            name = takeWhile (\<lambda>c. c \<noteq> CHR ''='') flag;
            val = drop (length name) flag
        in if flag = [] \<or> hd flag = CHR ''-'' \<or> hd flag = CHR ''='' then FlagExit 2
           else if name = ''v'' then
             (if val = [] then flag_parse True args
              else case flag_bool (tl val) of None \<Rightarrow> FlagExit 2 | Some b \<Rightarrow> flag_parse b args)
           else FlagExit (if name \<in> {''h'', ''help''} then 0 else 2))"

text \<open>\<open>args\<close> is \<open>os.Args\<close>, the program's name first.\<close>

definition OptionParse :: "string list \<Rightarrow> unit run" where
  "OptionParse args =
     (case flag_parse False (drop 1 args) of
        FlagExit n \<Rightarrow> Exits n
      | Flags showVer rest \<Rightarrow> if showVer then Exits 0 else Returns ())"

subsection \<open>The configuration and the passphrase\<close>

record 'f files =
  Abs :: "string \<Rightarrow> string"
  Open :: "string \<Rightarrow> go_error + 'f"
  Decode :: "'f \<Rightarrow> go_error + PoolConfig"

definition config_file_name :: "string list \<Rightarrow> string" where
  "config_file_name args = (if 1 < length args then args ! 1 else ''config.json'')"

definition readConfig :: "'f files \<Rightarrow> string list \<Rightarrow> PoolConfig run" where
  "readConfig fs args =
     (case Open fs (Abs fs (config_file_name args)) of
        Inl e \<Rightarrow> Exits 1
      | Inr f \<Rightarrow> (case Decode fs f of Inl e \<Rightarrow> Exits 1 | Inr cfg \<Rightarrow> Returns cfg))"

record terminal =
  StdinIsTerminal :: bool
  OpenTty :: "go_error option"
  ReadStdin :: "go_error + bytes"
  ReadTty :: "go_error + bytes"

definition readSecurityPass :: "terminal \<Rightarrow> go_error + bytes" where
  "readSecurityPass t =
     (if StdinIsTerminal t then ReadStdin t
      else case OpenTty t of
             Some e \<Rightarrow> Inl (ErrMsg ''error allocating terminal'')
           | None \<Rightarrow> ReadTty t)"

subsection \<open>The storage backend\<close>

datatype redis_options =
    NodeOptions string string int int
  | FailoverOptions string "string list" string int int

record RedisClient =
  redis_client :: redis_options
  Rc_prefix :: string

definition NewRedisClient :: "StorageConfig \<Rightarrow> string \<Rightarrow> RedisClient" where
  "NewRedisClient cfg pre =
     \<lparr>redis_client = NodeOptions (Endpoint_addr cfg) (Password cfg) (Database cfg) (PoolSize cfg),
      Rc_prefix = pre\<rparr>"

definition NewRedisFailoverClient :: "StorageConfigFailover \<Rightarrow> string \<Rightarrow> RedisClient" where
  "NewRedisFailoverClient cfg pre =
     \<lparr>redis_client = FailoverOptions (MasterName cfg) (SentinelEndpoints cfg) (Fo_Password cfg)
        (Fo_Database cfg) (Fo_PoolSize cfg),
      Rc_prefix = pre\<rparr>"

definition Client :: "RedisClient \<Rightarrow> redis_options" where
  "Client r = redis_client r"

definition Redis_Check :: "'db redis \<Rightarrow> 'db \<Rightarrow> (string \<times> go_error option) \<times> 'db" where
  "Redis_Check rd db = (let (r, db) = Do rd db Ping in ((str_val r, reply_err r), db))"

definition Redis_BgSave :: "'db redis \<Rightarrow> 'db \<Rightarrow> (string \<times> go_error option) \<times> 'db" where
  "Redis_BgSave rd db = (let (r, db) = Do rd db BgSave in ((str_val r, reply_err r), db))"

text \<open>Which backend is opened, under the coin's name as the key prefix; none stops the process.\<close>

definition choose_backend :: "PoolConfig \<Rightarrow> RedisClient option" where
  "choose_backend cfg =
     (if St_Enabled (Cfg_Redis cfg) then Some (NewRedisClient (Cfg_Redis cfg) (Coin cfg))
      else if Fo_Enabled (RedisFailover cfg) then Some (NewRedisFailoverClient (RedisFailover cfg) (Coin cfg))
      else None)"

subsection \<open>The server and its tasks\<close>

text \<open>\<open>parse_url\<close> is \<open>url.Parse\<close> followed by printing the URL.\<close>

definition rpc_url :: "string \<Rightarrow> int \<Rightarrow> string" where
  "rpc_url host port = ''http://'' @ host @ '':'' @ format_int port @ ''/json_rpc''"

text \<open>The client of one upstream; its HTTP timeout is part of the transport.\<close>

definition new_rpc_client :: "(string \<Rightarrow> string option) \<Rightarrow> Upstream \<Rightarrow> RPCClient go" where
  "new_rpc_client parse_url cfg =
     (case parse_url (rpc_url (Us_Host cfg) (Us_Port cfg)) of
        None \<Rightarrow> Fail (ErrMsg ''parse'')
      | Some url \<Rightarrow> Ok (NewRPCClient (Us_Name cfg) url))"

fun upstream_clients :: "(string \<Rightarrow> string option) \<Rightarrow> Upstream list \<Rightarrow> RPCClient list run" where
  "upstream_clients parse_url [] = Returns []"
| "upstream_clients parse_url (v # vs) =
     bindR (fatal_on_error (new_rpc_client parse_url v)) (\<lambda>client.
     bindR (upstream_clients parse_url vs) (\<lambda>cs. Returns (client # cs)))"

text \<open>The whole of \<open>NewStratum\<close>; \<open>eps\<close> and \<open>m\<close> fill the stores nothing points into yet.\<close>

definition new_server ::
  "(string \<Rightarrow> string option) \<Rightarrow> (nat \<Rightarrow> Endpoint) \<Rightarrow> Miner \<Rightarrow> 'db \<Rightarrow> PoolConfig \<Rightarrow>
   ('db StratumServer \<times> StratumSettings) run" where
  "new_server parse_url eps m db cfg =
     bindR (upstream_clients parse_url (Cfg_Upstream cfg)) (\<lambda>clients.
     bindR (fatal_on_error (NewStratum clients eps m db)) (\<lambda>s.
     bindR (fatal_on_error (stratum_settings cfg)) (\<lambda>st.
     Returns (s, st))))"

text \<open>
  What \<open>main\<close> and \<open>startStratum\<close> start, in their order: the unlocker, the status page, the TLS
  listeners and the plain ones, one task for each port.  \<open>ncpu\<close> is the number of processors.
\<close>

datatype task =
    UnlockerTask UnlockerSettings
  | FrontendTask Frontend
  | TlsTask Port
  | TcpTask Port

definition stratum_tasks :: "PoolConfig \<Rightarrow> task list" where
  "stratum_tasks cfg =
     (if Fr_Enabled (Cfg_Frontend cfg) then [FrontendTask (Cfg_Frontend cfg)] else []) @
     (if Tls_Enabled (Cfg_StratumTls cfg) then map TlsTask (Tls_Ports (Cfg_StratumTls cfg)) else []) @
     (if Sm_Enabled (Cfg_Stratum cfg) then map TcpTask (Sm_Ports (Cfg_Stratum cfg)) else [])"

definition startStratum ::
  "(string \<Rightarrow> string option) \<Rightarrow> (nat \<Rightarrow> Endpoint) \<Rightarrow> Miner \<Rightarrow> 'db \<Rightarrow> nat \<Rightarrow> PoolConfig \<Rightarrow>
   (int \<times> 'db StratumServer \<times> StratumSettings \<times> task list) run" where
  "startStratum parse_url eps m db ncpu cfg =
     (let threads = (if 0 < Cfg_Threads cfg then Cfg_Threads cfg else int ncpu)
      in bindR (new_server parse_url eps m db cfg) (\<lambda>(s, st).
         Returns (threads, s, st, stratum_tasks cfg)))"

subsection \<open>The whole start\<close>

text \<open>A panic after the deferred function is set up: it is logged, and \<open>main\<close> returns.\<close>

definition recovered :: "'a run \<Rightarrow> 'a run" where
  "recovered r = (case r of Crashes p \<Rightarrow> Exits 0 | _ \<Rightarrow> r)"

record ('f, 'k) host =
  Args :: "string list"
  Files :: "'f files"
  Terminal :: terminal
  open_log :: "string \<Rightarrow> go_error option"
  Syscalls :: "'k syscalls"
  Ciphers :: block_cipher
  Clib :: c_library
  ParseUrl :: "string \<Rightarrow> string option"
  NumCPU :: nat

record 'db running =
  Run_config :: PoolConfig
  Run_loggers :: loggers
  Run_backend :: RedisClient
  Run_threads :: int
  Run_server :: "'db StratumServer"
  Run_settings :: StratumSettings
  Run_tasks :: "task list"

text \<open>
  \<open>main\<close> once the configuration is read.  The reply of the backend's check is only logged, and the
  log lines of the start are left out.
\<close>

definition main_start ::
  "('f, 'k) host \<Rightarrow> (nat \<Rightarrow> Endpoint) \<Rightarrow> Miner \<Rightarrow> 'db \<Rightarrow> loggers \<Rightarrow> PoolConfig \<Rightarrow> 'db running run" where
  "main_start h eps m db logs cfg =
     (case readSecurityPass (Terminal h) of
        Inl e \<Rightarrow> Exits 1
      | Inr secPassBytes \<Rightarrow>
          (let (cfg, out) = decryptPoolConfigure (Ciphers h) (Clib h) secPassBytes cfg
           in bindR (fatal_on_error out) (\<lambda>_.
              case choose_backend cfg of
                None \<Rightarrow> Exits 1
              | Some be \<Rightarrow>
                  (let unlocker = (if Ul_Enabled (BlockUnlockerCfg cfg) then [UnlockerTask (BlockUnlockerCfg cfg)] else [])
                   in recovered
                        (bindR (startStratum (ParseUrl h) eps m db (NumCPU h) cfg) (\<lambda>(threads, s, st, tasks).
                           Returns \<lparr>Run_config = cfg, Run_loggers = logs, Run_backend = be, Run_threads = threads,
                             Run_server = s, Run_settings = st, Run_tasks = unlocker @ tasks\<rparr>))))))"

definition main ::
  "('f, 'k) host \<Rightarrow> (nat \<Rightarrow> Endpoint) \<Rightarrow> Miner \<Rightarrow> 'k \<Rightarrow> 'db \<Rightarrow> 'db running run" where
  "main h eps m k db =
     bindR (OptionParse (Args h)) (\<lambda>_.
     bindR (readConfig (Files h) (Args h)) (\<lambda>cfg.
     bindR (InitLog (open_log h) ''logs/info.log'' ''logs/error.log'' ''logs/share.log'' ''logs/block.log''
         (LogSetLevel cfg)) (\<lambda>(_, logs).
     bindR (snd (SetRLimit (Syscalls h) 800000 k)) (\<lambda>_.
     main_start h eps m db logs cfg))))"

end
