(* ===== verification/Tasks.thy ===== *)
theory Tasks
  imports Startup
begin

text \<open>
  The tasks of the running pool: the listeners of the ports, plain and TLS, the block unlocker, the
  status page's server and the timers of the stratum server.  Each is a goroutine: what exits or
  panics in one of them ends the whole process.
\<close>

subsection \<open>Listeners\<close>

text \<open>Which addresses can be resolved and bound, and whether the certificate can be loaded.\<close>

record sockets =
  Resolve :: "string \<Rightarrow> go_error option"
  ListenTCP :: "string \<Rightarrow> go_error option"
  LoadCert :: "string \<Rightarrow> string \<Rightarrow> go_error option"
  ListenTls :: "string \<Rightarrow> go_error option"

definition no_error :: "go_error option \<Rightarrow> unit run" where
  "no_error e = (case e of None \<Rightarrow> Returns () | Some e \<Rightarrow> Exits 1)"

lemma no_error_Returns [simp]: "no_error e = Returns u \<longleftrightarrow> e = None"
  by (simp add: no_error_def split: option.splits)

definition bindAddr :: "Port \<Rightarrow> string" where
  "bindAddr p = Po_Host p @ '':'' @ format_int (Po_Port p)"

text \<open>The random source fills the instance id or fails.\<close>

definition new_endpoint :: "go_error + bytes \<Rightarrow> Port \<Rightarrow> Endpoint run" where
  "new_endpoint rand p =
     (case rand of Inl e \<Rightarrow> Exits 1 | Inr bs \<Rightarrow> fatal_on_error (NewEndpoint bs (Po_Difficulty p)))"

definition endpoint_listen :: "sockets \<Rightarrow> Port \<Rightarrow> listener run" where
  "endpoint_listen net p =
     bindR (no_error (Resolve net (bindAddr p))) (\<lambda>_.
     bindR (no_error (ListenTCP net (bindAddr p))) (\<lambda>_.
     fatal_on_error (listen_start (Po_MaxConn p))))"

definition endpoint_listen_tls :: "sockets \<Rightarrow> StratumTls \<Rightarrow> Port \<Rightarrow> listener run" where
  "endpoint_listen_tls net t p =
     bindR (no_error (LoadCert net (TlsCert t) (TlsKey t))) (\<lambda>_.
     bindR (no_error (ListenTls net (bindAddr p))) (\<lambda>_.
     fatal_on_error (listen_start (Po_MaxConn p))))"

text \<open>A port's goroutine up to its accept loop; \<open>Listen\<close> and \<open>ListenTLS\<close> start one for each port.\<close>

definition tcp_port :: "sockets \<Rightarrow> go_error + bytes \<Rightarrow> Port \<Rightarrow> (Endpoint \<times> listener) run" where
  "tcp_port net rand p =
     bindR (new_endpoint rand p) (\<lambda>e. bindR (endpoint_listen net p) (\<lambda>l. Returns (e, l)))"

definition tls_port :: "sockets \<Rightarrow> StratumTls \<Rightarrow> go_error + bytes \<Rightarrow> Port \<Rightarrow> (Endpoint \<times> listener) run" where
  "tls_port net t rand p =
     bindR (new_endpoint rand p) (\<lambda>e. bindR (endpoint_listen_tls net t p) (\<lambda>l. Returns (e, l)))"

definition Listen :: "sockets \<Rightarrow> (nat \<Rightarrow> go_error + bytes) \<Rightarrow> Stratum \<Rightarrow> (Endpoint \<times> listener) run list" where
  "Listen net rand cfg = map (\<lambda>(i, p). tcp_port net (rand i) p) (enumerate 0 (Sm_Ports cfg))"

definition ListenTLS :: "sockets \<Rightarrow> (nat \<Rightarrow> go_error + bytes) \<Rightarrow> StratumTls \<Rightarrow> (Endpoint \<times> listener) run list" where
  "ListenTLS net rand cfg = map (\<lambda>(i, p). tls_port net cfg (rand i) p) (enumerate 0 (Tls_Ports cfg))"

text \<open>
  The TLS loop takes a connection only if it is one of the TLS package; the peer's certificates are
  logged.  The address's host part, or nothing if it has none, is kept with the session.
\<close>

definition listen_accept_tls :: "bool \<Rightarrow> nat \<Rightarrow> listener \<Rightarrow> listener option" where
  "listen_accept_tls is_tls cs l =
     (if is_tls then listen_accept cs l else if waiting l = None then Some l else None)"

lemma listen_accept_tls_step: "listen_accept_tls is_tls cs l = Some l' \<Longrightarrow> l' = l \<or> listen_step l l'"
  by (auto simp: listen_accept_tls_def intro: listen_step.intros split: if_splits)

text \<open>A port's target depends on its difficulty only, and there is none for difficulty 0.\<close>

lemma GetTargetHex_zero: "GetTargetHex 0 = Panic ''division by zero''"
  by (simp add: GetTargetHex_def big_div_def)

lemma GetTargetHex_pos: "0 < d \<Longrightarrow> \<exists>t. GetTargetHex d = Ok t"
  by (metis GetTargetHex_bytes)

lemma endpoint_listen_Returns:
  "endpoint_listen net p = Returns l \<longleftrightarrow>
     Resolve net (bindAddr p) = None \<and> ListenTCP net (bindAddr p) = None \<and> listen_start (Po_MaxConn p) = Ok l"
  by (auto simp: endpoint_listen_def bindR_Returns_iff fatal_on_error_def split: go.splits)

lemma endpoint_listen_tls_Returns:
  "endpoint_listen_tls net t p = Returns l \<longleftrightarrow>
     LoadCert net (TlsCert t) (TlsKey t) = None \<and> ListenTls net (bindAddr p) = None \<and>
     listen_start (Po_MaxConn p) = Ok l"
  by (auto simp: endpoint_listen_tls_def bindR_Returns_iff fatal_on_error_def split: go.splits)

lemma new_endpoint_Returns:
  assumes "0 < Po_Difficulty p"
  shows "(\<exists>e. new_endpoint rand p = Returns e) \<longleftrightarrow> (\<exists>bs. rand = Inr bs)"
  using GetTargetHex_pos [OF assms] by (auto simp: new_endpoint_def NewEndpoint_def split: sum.splits)

lemma new_endpoint_zero:
  "Po_Difficulty p = 0 \<Longrightarrow> new_endpoint (Inr bs) p = Crashes ''division by zero''"
  by (simp add: new_endpoint_def NewEndpoint_def GetTargetHex_zero)

subsection \<open>The unlocker\<close>

text \<open>
  \<open>NewBlockUnlocker\<close> gives nil for a daemon address that is no URL; \<open>Start\<close> then reads a field of it.
  Otherwise the interval is read and the rounds begin.
\<close>

definition new_unlocker ::
  "c_library \<Rightarrow> (string \<Rightarrow> string option) \<Rightarrow> UnlockerSettings \<Rightarrow> BlockUnlocker option run" where
  "new_unlocker c parse_url cfg =
     (if PoolFeeAddress cfg \<noteq> [] \<and> \<not> ValidateAddress c (PoolFeeAddress cfg) then Exits 1
      else case parse_url (rpc_url (DaemonHost cfg) (DaemonPort cfg)) of
             None \<Rightarrow> Returns None
           | Some url \<Rightarrow>
               Returns (start_unlocker c (UnlockerConfig.truncate cfg) (NewRPCClient (DaemonName cfg) url)))"

definition Start ::
  "UnlockerSettings \<Rightarrow> BlockUnlocker option \<Rightarrow> (BlockUnlocker \<times> int) run" where
  "Start cfg u =
     (case u of
        None \<Rightarrow> Crashes nil_panic
      | Some u \<Rightarrow> bindR (fatal_on_error (MustParseDuration (Interval cfg))) (\<lambda>intv. Returns (u, intv)))"

definition startBlockUnlocker ::
  "c_library \<Rightarrow> (string \<Rightarrow> string option) \<Rightarrow> UnlockerSettings \<Rightarrow> (BlockUnlocker \<times> int) run" where
  "startBlockUnlocker c parse_url cfg = bindR (new_unlocker c parse_url cfg) (Start cfg)"

lemma start_unlocker_truncate:
  "start_unlocker c (UnlockerConfig.truncate cfg) client =
     (if PoolFeeAddress cfg \<noteq> [] \<and> \<not> ValidateAddress c (PoolFeeAddress cfg) then None
      else Some (NewBlockUnlocker (UnlockerConfig.truncate cfg) client))"
  by (simp add: start_unlocker_def UnlockerConfig.truncate_def)

subsection \<open>The status page's server\<close>

datatype frontend_handler = StatsHandler | FileServer string

datatype route = HandleFunc string frontend_handler | PathPrefix string frontend_handler

record http_server =
  routes :: "route list"
  basic_auth :: "(string \<times> string) option"
  address :: string

text \<open>The routes in their order; a password puts all of them behind the basic authentication.\<close>

definition frontend_server :: "Frontend \<Rightarrow> http_server" where
  "frontend_server cfg =
     \<lparr>routes = [HandleFunc ''/stats'' StatsHandler, PathPrefix ''/'' (FileServer ''./www/'')],
      basic_auth = (if 0 < length (Fr_Password cfg) then Some (Fr_Login cfg, Fr_Password cfg) else None),
      address = Fr_Listen cfg\<rparr>"

text \<open>\<open>serve\<close> is \<open>http.ListenAndServe\<close>: it blocks, or returns an error.\<close>

definition startFrontend :: "(http_server \<Rightarrow> go_error option) \<Rightarrow> Frontend \<Rightarrow> unit run" where
  "startFrontend serve cfg = no_error (serve (frontend_server cfg))"

subsection \<open>Timers\<close>

text \<open>
  A timer's goroutine: it waits for the timer, runs the handler, and only then sets the timer again.
  \<open>now\<close> is when the timer was set, \<open>tooks\<close> how long the runs of the handler take; a handler that does
  not return stops the loop (\<open>None\<close>), one that panics ends the process.  The result has the times at
  which the handler was started.
\<close>

fun timer_loop ::
  "int \<Rightarrow> (int \<Rightarrow> 's \<Rightarrow> ('s \<times> unit go) option) \<Rightarrow> int \<Rightarrow> int list \<Rightarrow> 's \<Rightarrow> ('s \<times> int list go) option" where
  "timer_loop intv f now [] s = Some (s, Ok [])"
| "timer_loop intv f now (took # tooks) s =
     (let t = now + max 0 intv
      in case f t s of
           Some (s, Ok _) \<Rightarrow>
             (case timer_loop intv f (t + took) tooks s of
                Some (s, Ok ts) \<Rightarrow> Some (s, Ok (t # ts))
              | r \<Rightarrow> r)
         | Some (s, Fail e) \<Rightarrow> Some (s, Fail e)
         | Some (s, Panic p) \<Rightarrow> Some (s, Panic p)
         | None \<Rightarrow> None)"

definition refresh_timer ::
  "('raw, 'db) server_env \<Rightarrow> StratumSettings \<Rightarrow> int \<Rightarrow> int list \<Rightarrow> 'db StratumServer \<Rightarrow>
   ('db StratumServer \<times> int list go) option" where
  "refresh_timer env st = timer_loop (Set_refreshIntv st)
     (\<lambda>t s. Some (bindS (refreshBlockTemplate env True s) (\<lambda>s _. (s, Ok ()))))"

text \<open>The times are in nanoseconds, the purge is given the time in milliseconds.\<close>

definition purge_timer ::
  "('raw, 'db) server_env \<Rightarrow> StratumSettings \<Rightarrow> int \<Rightarrow> int list \<Rightarrow> 'db StratumServer \<Rightarrow>
   ('db StratumServer \<times> int list go) option" where
  "purge_timer env st = timer_loop (Set_purgeIntv st)
     (\<lambda>t s. purgeStale env (t div 1000000) (Set_hashrateWindow st) (Set_hashrateLargeWindow st) s)"

text \<open>A check that finds every upstream sick for too long ends the process.\<close>

definition check_timer ::
  "('raw, 'db) server_env \<Rightarrow> StratumSettings \<Rightarrow> int \<Rightarrow> int list \<Rightarrow> 'db StratumServer \<Rightarrow>
   ('db StratumServer \<times> int list go) option" where
  "check_timer env st = timer_loop (Set_checkIntv st)
     (\<lambda>t s. Some (bindS (checkUpstreams env s) (\<lambda>s fatal.
        (s, if fatal then Fail (ErrMsg ''all upstreams status were sick in the latest 5 minutes'') else Ok ()))))"

text \<open>Between two starts of a handler lie its run and the interval, or only its run.\<close>

lemma timer_loop_cases:
  assumes "timer_loop intv f now (took # tooks) s = Some (s', Ok ts)"
  obtains s1 ts1 where "f (now + max 0 intv) s = Some (s1, Ok ())" "ts = (now + max 0 intv) # ts1"
    "timer_loop intv f (now + max 0 intv + took) tooks s1 = Some (s', Ok ts1)"
  using assms by (auto simp: Let_def split: option.splits prod.splits go.splits)

lemma timer_loop_length:
  "timer_loop intv f now tooks s = Some (s', Ok ts) \<Longrightarrow> length ts = length tooks"
proof (induction tooks arbitrary: now s ts)
  case (Cons took tooks)
  from Cons.prems show ?case by (rule timer_loop_cases) (use Cons.IH in auto)
qed simp

lemma timer_loop_start:
  assumes "timer_loop intv f now tooks s = Some (s', Ok ts)" "tooks \<noteq> []"
  shows "ts ! 0 = now + max 0 intv"
proof -
  obtain took rest where "tooks = took # rest" using assms(2) by (cases tooks) auto
  from assms(1) [unfolded this] show ?thesis by (rule timer_loop_cases) simp
qed

lemma timer_loop_pace:
  "timer_loop intv f now tooks s = Some (s', Ok ts) \<Longrightarrow> Suc i < length tooks \<Longrightarrow>
   ts ! Suc i = ts ! i + tooks ! i + max 0 intv"
proof (induction tooks arbitrary: now s ts i)
  case (Cons took tooks)
  obtain s1 ts1 where t: "ts = (now + max 0 intv) # ts1"
      "timer_loop intv f (now + max 0 intv + took) tooks s1 = Some (s', Ok ts1)"
    using Cons.prems(1) by (rule timer_loop_cases)
  show ?case
  proof (cases i)
    case 0
    with t timer_loop_start [OF t(2)] Cons.prems(2) show ?thesis by auto
  next
    case (Suc j)
    with t Cons.IH [OF t(2), of j] Cons.prems(2) show ?thesis by simp
  qed
qed simp

text \<open>An invariant of the handler is one of the timer.\<close>

lemma timer_loop_keep:
  assumes "\<And>t s s' u. P s \<Longrightarrow> f t s = Some (s', Ok u) \<Longrightarrow> P s'"
  shows "timer_loop intv f now tooks s = Some (s', Ok ts) \<Longrightarrow> P s \<Longrightarrow> P s'"
proof (induction tooks arbitrary: now s ts)
  case (Cons took tooks)
  from Cons.prems(1) show ?case by (rule timer_loop_cases) (use Cons.IH Cons.prems(2) assms in blast)
qed simp

end
