(* ===== verification/Connection.thy ===== *)
theory Connection
  imports Handlers Settings Log
begin

text \<open>
  The connection of a session (\<open>stratum/stratum.go\<close>, \<open>proto.go\<close>): the messages as they go out and the
  deadline of the reads.  Times are in nanoseconds.
\<close>

subsection \<open>Messages\<close>

record 'raw JSONRpcResp =
  Resp_Id :: "'raw option"
  Resp_Version :: string
  Resp_Result :: "reply option"
  Resp_Error :: "ErrorReply option"

record JSONPushMessage =
  Push_Version :: string
  Push_Method :: string
  Push_Params :: JobReplyData

text \<open>What \<open>sendResult\<close> and \<open>sendError\<close> encode for a reply.\<close>

definition response :: "'raw option \<Rightarrow> reply \<Rightarrow> 'raw JSONRpcResp" where
  "response rid r =
     (case r of
        ErrorResult e \<Rightarrow> \<lparr>Resp_Id = rid, Resp_Version = ''2.0'', Resp_Result = None, Resp_Error = Some e\<rparr>
      | _ \<Rightarrow> \<lparr>Resp_Id = rid, Resp_Version = ''2.0'', Resp_Result = Some r, Resp_Error = None\<rparr>)"

text \<open>A message of the server's own, and the error of writing it (\<open>sent\<close>).\<close>

definition pushMessage :: "go_error option \<Rightarrow> string \<Rightarrow> JobReplyData \<Rightarrow> JSONPushMessage \<times> go_error option" where
  "pushMessage sent meth params = (\<lparr>Push_Version = ''2.0'', Push_Method = meth, Push_Params = params\<rparr>, sent)"

lemma response_one: "Resp_Result (response rid r) = None \<longleftrightarrow> Resp_Error (response rid r) \<noteq> None"
  by (cases r) (simp_all add: response_def)

text \<open>The errors and results a method can have.\<close>

definition method_errors :: "string \<Rightarrow> string set" where
  "method_errors m =
     (if m = ''login'' then {''Invalid address used for login'', ''Job not ready''}
      else if m = ''getjob'' then {''Unauthenticated'', ''Job not ready''}
      else if m = ''submit'' then {''Unauthenticated'', ''Invalid job id'', ''Malformed nonce'', ''Duplicate share'',
        ''Block expired'', ''Low difficulty share''}
      else if m = ''keepalived'' then {}
      else {''Invalid method''})"

fun reply_typed :: "string \<Rightarrow> reply \<Rightarrow> bool" where
  "reply_typed m (LoginResult r) \<longleftrightarrow> m = ''login'' \<and> Reply_Status r = ''OK''"
| "reply_typed m (JobResult r) \<longleftrightarrow> m = ''getjob''"
| "reply_typed m (StatusResult st) \<longleftrightarrow> m = ''submit'' \<and> st = ''OK'' \<or> m = ''keepalived'' \<and> st = ''KEEPALIVED''"
| "reply_typed m (ErrorResult e) \<longleftrightarrow> Code e = -1 \<and> Message e \<in> method_errors m"

lemma err_reply_fields [simp]: "Code (err_reply msg) = -1" "Message (err_reply msg) = msg"
  by (simp_all add: err_reply_def)

lemma bindS_OkE:
  assumes "bindS m f = (s', Ok r)"
  obtains s x where "m = (s, Ok x)" "f s x = (s', Ok r)"
  using assms by (auto simp: bindS_Ok_iff)

lemma login_typed:
  assumes "handleLoginRPC env now cs params s = (s', Ok r)"
  shows "reply_typed ''login'' (case r of Inl e \<Rightarrow> ErrorResult e | Inr x \<Rightarrow> LoginResult x)"
  using assms
  by (auto simp: handleLoginRPC_def Let_def bindS_Ok_iff method_errors_def split: prod.splits option.splits if_splits)

lemma getjob_typed:
  assumes "handleGetJobRPC env now cs params s = (s', Ok r)"
  shows "reply_typed ''getjob'' (case r of Inl e \<Rightarrow> ErrorResult e | Inr x \<Rightarrow> JobResult x)"
  using assms
  unfolding handleGetJobRPC_def
  by (elim bindS_OkE) (auto simp: method_errors_def elim!: bindS_OkE split: option.splits)

lemma submit_typed:
  assumes "handleSubmitRPC env now cs params s = (s', Ok r)"
  shows "reply_typed ''submit'' (case r of Inl e \<Rightarrow> ErrorResult e | Inr x \<Rightarrow> StatusResult x)"
  using assms
  unfolding handleSubmitRPC_def
  by (elim bindS_OkE) (auto simp: Let_def method_errors_def elim!: bindS_OkE
      split: option.splits if_splits prod.splits)

lemma answer_Ok:
  "answer sent hangup f h = (s', Ok o') \<Longrightarrow>
   \<exists>v. h = (s', Ok v) \<and> o' = (case v of Inl e \<Rightarrow> sendError sent e hangup | Inr x \<Rightarrow> sendResult sent (f x))"
  by (auto simp: answer_def bindS_Ok_iff)

lemma message_typed:
  assumes "handleMessage env dec sent now cs req s = (s', Ok (out, err))"
  shows "length out \<le> 1 \<and> (\<forall>r \<in> set out. reply_typed (Method req) r) \<and>
    (err = None \<longleftrightarrow> sent = None \<and>
       (\<exists>r. out = [r] \<and> ((\<exists>e. r = ErrorResult e) \<longrightarrow> Method req = ''submit'')))"
proof -
  consider (none) "out = []" "err \<noteq> None"
    | (login) p v where "Method req = ''login''" "handleLoginRPC env now cs p s = (s', Ok v)"
        "(out, err) = (case v of Inl e \<Rightarrow> sendError sent e True | Inr x \<Rightarrow> sendResult sent (LoginResult x))"
    | (getjob) p v where "Method req = ''getjob''" "handleGetJobRPC env now cs p s = (s', Ok v)"
        "(out, err) = (case v of Inl e \<Rightarrow> sendError sent e True | Inr x \<Rightarrow> sendResult sent (JobResult x))"
    | (submit) p v where "Method req = ''submit''" "handleSubmitRPC env now cs p s = (s', Ok v)"
        "(out, err) = (case v of Inl e \<Rightarrow> sendError sent e False | Inr x \<Rightarrow> sendResult sent (StatusResult x))"
    | (keepalived) "Method req = ''keepalived''" "(out, err) = sendResult sent (StatusResult ''KEEPALIVED'')"
    | (unknown) "Method req \<notin> {''login'', ''getjob'', ''submit'', ''keepalived''}"
        "(out, err) = sendError sent (err_reply ''Invalid method'') True"
    using assms unfolding handleMessage_def decoded_def
    by (auto split: option.splits if_splits go.splits dest!: answer_Ok)
  then show ?thesis
  proof cases
    case login
    then show ?thesis using login_typed [OF login(2)]
      by (cases v) (auto simp: sendError_def sendResult_def split: option.splits)
  next
    case getjob
    then show ?thesis using getjob_typed [OF getjob(2)]
      by (cases v) (auto simp: sendError_def sendResult_def split: option.splits)
  next
    case submit
    then show ?thesis using submit_typed [OF submit(2)]
      by (cases v) (auto simp: sendError_def sendResult_def split: option.splits)
  qed (auto simp: sendError_def sendResult_def method_errors_def split: option.splits)
qed

subsection \<open>Lines\<close>

text \<open>
  What the buffered reader makes of the bytes on the connection: lines without their ends, a flood when
  no line ends within \<open>MaxReqSize\<close> bytes, and what is left at the end of the stream as a last line.
\<close>

datatype raw_read = TooLong | End | Bytes string

definition MaxReqSize :: nat where
  "MaxReqSize = 10 * 1024"

definition strip_cr :: "string \<Rightarrow> string" where
  "strip_cr s = (if s \<noteq> [] \<and> last s = CHR 0x0D then butlast s else s)"

function read_lines :: "string \<Rightarrow> raw_read list" where
  "read_lines s =
     (let line = takeWhile (\<lambda>c. c \<noteq> newline) s
      in if MaxReqSize \<le> length line then [TooLong]
         else if s = [] then [End]
         else case drop (length line) s of
                [] \<Rightarrow> [Bytes line, End]
              | _ # rest \<Rightarrow> Bytes (strip_cr line) # read_lines rest)"
  by auto
termination
  by (relation "measure length") (auto dest: arg_cong [where f = length])

declare read_lines.simps [simp del]

text \<open>What \<open>handleClient\<close> takes a read for; \<open>decode\<close> is the JSON decoder.\<close>

fun client_event :: "(string \<Rightarrow> 'j JSONRpcReq go) \<Rightarrow> go_error option \<Rightarrow> int \<Rightarrow> raw_read \<Rightarrow> 'j client_read" where
  "client_event decode sent now TooLong = Flood"
| "client_event decode sent now End = Eof"
| "client_event decode sent now (Bytes data) =
     (if 1 < length data then Line (decode data) sent now else ShortLine)"

definition end_lines :: "string list \<Rightarrow> string" where
  "end_lines ms = concat (map (\<lambda>m. m @ [newline]) ms)"

definition plain_line :: "string \<Rightarrow> bool" where
  "plain_line m \<longleftrightarrow> newline \<notin> set m \<and> length m < MaxReqSize \<and> (m = [] \<or> last m \<noteq> CHR 0x0D)"

lemma takeWhile_line: "newline \<notin> set m \<Longrightarrow> takeWhile (\<lambda>c. c \<noteq> newline) (m @ newline # rest) = m"
  by (auto simp: takeWhile_append)

lemma read_lines_line:
  assumes "plain_line m"
  shows "read_lines (m @ newline # rest) = Bytes m # read_lines rest"
proof -
  have "strip_cr m = m" "takeWhile (\<lambda>c. c \<noteq> newline) (m @ newline # rest) = m"
    using assms takeWhile_line by (auto simp: plain_line_def strip_cr_def)
  then show ?thesis using assms by (subst read_lines.simps) (simp add: plain_line_def)
qed

lemma read_lines_lines: "list_all plain_line ms \<Longrightarrow> read_lines (end_lines ms @ rest) = map Bytes ms @ read_lines rest"
  by (induction ms) (simp_all add: end_lines_def read_lines_line)

lemma read_lines_flood:
  assumes "newline \<notin> set m" "MaxReqSize \<le> length m"
  shows "read_lines (m @ rest) = [TooLong]"
proof -
  have "\<And>c. c \<in> set m \<Longrightarrow> c \<noteq> newline" using assms(1) by auto
  then have "takeWhile (\<lambda>c. c \<noteq> newline) (m @ rest) = m @ takeWhile (\<lambda>c. c \<noteq> newline) rest"
    by (rule takeWhile_append2)
  then show ?thesis using assms(2) by (subst read_lines.simps) simp
qed

lemma read_lines_nil: "read_lines [] = [End]"
  by (subst read_lines.simps) (simp add: MaxReqSize_def)

subsection \<open>Deadlines\<close>

text \<open>
  \<open>SetDeadline(time.Now().Add(s.timeout))\<close>.  The timeout is \<open>Stratum.Timeout\<close> on both kinds of
  connection.
\<close>

definition setDeadline :: "int \<Rightarrow> int \<Rightarrow> int" where
  "setDeadline timeout now = now + timeout"

definition setTLSDeadline :: "int \<Rightarrow> int \<Rightarrow> int" where
  "setTLSDeadline timeout now = now + timeout"

text \<open>
  What a client sends, with when a read of the socket can give it; what is in the reader's buffer
  already needs no read.  \<open>handled_at\<close> is when a request has been decoded.
\<close>

record 'j arrival =
  arrives :: int
  in_buffer :: bool
  handled_at :: int
  event :: "'j client_read"

definition io_timeout :: go_error where
  "io_timeout = ErrMsg ''i/o timeout''"

fun is_request :: "'j client_read \<Rightarrow> bool" where
  "is_request (Line (Ok req) sent now) \<longleftrightarrow> True"
| "is_request _ \<longleftrightarrow> False"

definition next_deadline :: "int \<Rightarrow> int \<Rightarrow> 'j arrival \<Rightarrow> int" where
  "next_deadline timeout dl a = (if is_request (event a) then setDeadline timeout (handled_at a) else dl)"

text \<open>A read of the socket fails once the deadline has passed; only a request sets it anew.\<close>

fun timed_reads :: "int \<Rightarrow> int \<Rightarrow> 'j arrival list \<Rightarrow> 'j client_read list" where
  "timed_reads timeout dl [] = []"
| "timed_reads timeout dl (a # as) =
     (if \<not> in_buffer a \<and> dl \<le> arrives a then [ReadError io_timeout]
      else event a # timed_reads timeout (next_deadline timeout dl a) as)"

definition timed_client ::
  "('raw, 'db) server_env \<Rightarrow> 'j param_decoder \<Rightarrow> int \<Rightarrow> nat \<Rightarrow> int \<Rightarrow> 'j arrival list \<Rightarrow> 'db StratumServer \<Rightarrow>
   'db StratumServer \<times> reply list go" where
  "timed_client env dec timeout cs start as s =
     handleClient env dec cs (timed_reads timeout (setDeadline timeout start) as) s"

definition timed_tls_client ::
  "('raw, 'db) server_env \<Rightarrow> 'j param_decoder \<Rightarrow> int \<Rightarrow> nat \<Rightarrow> int \<Rightarrow> 'j arrival list \<Rightarrow> 'db StratumServer \<Rightarrow>
   'db StratumServer \<times> reply list go" where
  "timed_tls_client env dec timeout cs start as s =
     handleTLSClient env dec cs (timed_reads timeout (setTLSDeadline timeout start) as) s"

lemma timed_tls_client_eq: "timed_tls_client = timed_client"
  by (intro ext) (simp add: timed_tls_client_def timed_client_def handleTLSClient_eq setDeadline_def setTLSDeadline_def)

text \<open>The deadline that holds after some arrivals, were they all read.\<close>

fun deadline_after :: "int \<Rightarrow> int \<Rightarrow> 'j arrival list \<Rightarrow> int" where
  "deadline_after timeout dl [] = dl"
| "deadline_after timeout dl (a # as) = deadline_after timeout (next_deadline timeout dl a) as"

lemma timed_reads_late:
  "\<not> in_buffer a \<Longrightarrow> deadline_after timeout dl as \<le> arrives a \<Longrightarrow>
   \<exists>rs e. timed_reads timeout dl (as @ a # bs) = rs @ [ReadError e] \<and> length rs \<le> length as"
proof (induction as arbitrary: dl)
  case Nil
  then show ?case by (intro exI [of _ "[]"]) simp
next
  case (Cons c as)
  show ?case
  proof (cases "\<not> in_buffer c \<and> dl \<le> arrives c")
    case True
    then show ?thesis by (intro exI [of _ "[]"]) simp
  next
    case False
    obtain rs e where "timed_reads timeout (next_deadline timeout dl c) (as @ a # bs) = rs @ [ReadError e]"
        "length rs \<le> length as"
      using Cons.IH [of "next_deadline timeout dl c"] Cons.prems by auto
    with False show ?thesis by (intro exI [of _ "event c # rs"] exI [of _ e]) auto
  qed
qed

lemma timed_reads_take:
  "\<not> in_buffer a \<Longrightarrow> deadline_after timeout dl as \<le> arrives a \<Longrightarrow>
   timed_reads timeout dl (as @ a # bs) = timed_reads timeout dl (as @ [a])"
  by (induction as arbitrary: dl) auto

text \<open>A session whose reads end with an error is not registered any more.\<close>

lemma inactive_removed [simp]: "\<not> isActive cs (removeSession cs s)"
  by (simp add: isActive_def removeSession_def)

lemma handleClient_error_ends:
  "handleClient env dec cs (rs @ [ReadError e]) s = (s', Ok out) \<Longrightarrow> \<not> isActive cs s'"
proof (induction rs arbitrary: s out)
  case (Cons r rs)
  show ?case
  proof (cases "r = ShortLine \<or> (\<exists>req sent now. r = Line (Ok req) sent now)")
    case True
    then show ?thesis
      using Cons by (auto simp: bindS_Ok_iff split: option.splits)
  next
    case False
    with Cons.prems have "s' = removeSession cs s" by (auto split: client_read.splits go.splits)
    then show ?thesis by simp
  qed
qed auto

lemma handleClient_replies:
  "handleClient env dec cs rs s = (s', Ok out) \<Longrightarrow> length out \<le> length (filter is_request rs)"
proof (induction rs arbitrary: s out)
  case (Cons r rs)
  show ?case
  proof (cases "r = ShortLine \<or> (\<exists>req sent now. r = Line (Ok req) sent now)")
    case True
    then show ?thesis
    proof
      assume "\<exists>req sent now. r = Line (Ok req) sent now"
      then obtain req sent now where r: "r = Line (Ok req) sent now" by blast
      obtain s1 o1 err where m: "handleMessage env dec sent now cs req s = (s1, Ok (o1, err))"
          "(case err of Some e \<Rightarrow> (removeSession cs s1, Ok o1)
             | None \<Rightarrow> bindS (handleClient env dec cs rs s1) (\<lambda>s out'. (s, Ok (o1 @ out')))) = (s', Ok out)"
        using Cons.prems r by (auto elim!: bindS_OkE)
      have "length o1 \<le> 1" using message_typed [OF m(1)] by simp
      moreover have "length out \<le> length o1 + length (filter is_request rs)"
      proof (cases err)
        case None
        then obtain o2 where "handleClient env dec cs rs s1 = (s', Ok o2)" "out = o1 @ o2"
          using m(2) by (auto elim!: bindS_OkE)
        with Cons.IH [OF this(1)] show ?thesis by simp
      qed (use m(2) in simp)
      ultimately show ?thesis using r by simp
    qed (use Cons in fastforce)
  next
    case False
    with Cons.prems show ?thesis by (auto split: client_read.splits go.splits)
  qed
qed simp

lemma handleClient_error_replies:
  assumes "handleClient env dec cs (rs @ [ReadError e]) s = (s', Ok out)"
  shows "length out \<le> length rs"
proof -
  have "length out \<le> length (filter is_request rs)" using handleClient_replies [OF assms] by simp
  also have "\<dots> \<le> length rs" by (rule length_filter_le)
  finally show ?thesis .
qed

end
