(* ===== verification/Startup_Correct.thy ===== *)
theory Startup_Correct
  imports Tasks Connection Config_Correct Samples
begin

text \<open>
  The start of the pool, proved: what has been checked when it runs, how a start ends that fails, what
  a port needs, and what is logged.
\<close>

subsection \<open>The pool that runs\<close>

lemma fatal_on_error_Returns [simp]: "fatal_on_error r = Returns x \<longleftrightarrow> r = Ok x"
  by (simp add: fatal_on_error_def split: go.splits)


lemma recovered_Returns [simp]: "recovered r = Returns x \<longleftrightarrow> r = Returns x"
  by (simp add: recovered_def split: run.splits)








text \<open>A host on which the pool starts: the file of that name, the passphrase that seals the sample's
  secrets, no limits on the descriptors.\<close>

definition live_pool :: PoolConfig where
  "live_pool = sample_pool\<lparr>Cfg_Upstream := [\<lparr>Us_Name = ''a'', Us_Host = ''127.0.0.1'', Us_Port = 18081, Us_Timeout = ''10s''\<rparr>],
     Cfg_Stratum := \<lparr>Sm_Enabled = True, Sm_Timeout = ''15m'',
       Sm_Ports = [\<lparr>Po_Difficulty = 2, Po_Host = ''0.0.0.0'', Po_Port = 1111, Po_MaxConn = 10\<rparr>]\<rparr>\<rparr>"

definition pool_host :: "PoolConfig \<Rightarrow> (PoolConfig, Rlimit) host" where
  "pool_host cfg = \<lparr>Args = [''xmrpool''],
     Files = \<lparr>Abs = (\<lambda>f. f), Open = (\<lambda>f. if f = ''config.json'' then Inr cfg else Inl (ErrMsg ''no such file'')), Decode = Inr\<rparr>,
     Terminal = \<lparr>StdinIsTerminal = True, OpenTty = None, ReadStdin = Inr [49, 50], ReadTty = Inl ErrEOF\<rparr>,
     open_log = (\<lambda>_. None), Syscalls = \<lparr>Getrlimit = Inr, Setrlimit = (\<lambda>k new. (None, new))\<rparr>,
     Ciphers = xor_cipher, Clib = sample_c, ParseUrl = Some, NumCPU = 4\<rparr>"

definition sample_limit :: Rlimit where
  "sample_limit = \<lparr>Cur = 1024, Max = 1048576\<rparr>"

lemma pool_host_simps [simp]:
  "Args (pool_host cfg) = [''xmrpool'']" "ParseUrl (pool_host cfg) = Some" "open_log (pool_host cfg) f = None"
  "NumCPU (pool_host cfg) = 4" "Clib (pool_host cfg) = sample_c" "Ciphers (pool_host cfg) = xor_cipher"
  "readConfig (Files (pool_host cfg)) [''xmrpool''] = Returns cfg"
  "readSecurityPass (Terminal (pool_host cfg)) = Inr [49, 50]"
  "OptionParse [''xmrpool''] = Returns ()"
  "snd (SetRLimit (Syscalls (pool_host cfg)) 800000 sample_limit) = Returns ()"
  by (simp_all add: pool_host_def readConfig_def config_file_name_def readSecurityPass_def OptionParse_def
      SetRLimit_def sample_limit_def)

lemma live_decrypt:
  assumes "cfg = live_pool\<lparr>PurgeInterval := d\<rparr>"
  shows "decryptPoolConfigure xor_cipher sample_c [49, 50] cfg =
    (cfg\<lparr>Cfg_Address := ''48'', Cfg_Redis := (Cfg_Redis cfg)\<lparr>Password := ''p''\<rparr>\<rparr>, Ok ())"
proof -
  have secrets: "AddressEncrypted cfg = sealed [52, 56]" "PasswordEncrypted (Cfg_Redis cfg) = sealed [112]"
      "Fo_PasswordEncrypted (RedisFailover cfg) = sealed []" "St_Enabled (Cfg_Redis cfg)" "\<not> Fo_Enabled (RedisFailover cfg)"
    unfolding assms live_pool_def sample_pool_def by simp_all
  have texts: "go_string [52, 56] = ''48''" "go_string [112] = ''p''"
    by (simp_all add: go_string_def char_of_def bit_0)
  have "ValidateAddress sample_c ''48''" by (simp add: ValidateAddress_def sample_c_def)
  with decrypt_config [OF xor_cipher_laws, of "[52, 56]" "[49, 50]" cfg "[112]" "[]" sample_c] secrets texts
  show ?thesis by (simp add: sealed_eq)
qed




subsection \<open>A start that fails\<close>

lemma upstream_clients_ok:
  "\<forall>v \<in> set vs. parse_url (rpc_url (Us_Host v) (Us_Port v)) \<noteq> None \<Longrightarrow>
   \<exists>cs. upstream_clients parse_url vs = Returns cs \<and> length cs = length vs"
  by (induction vs) (auto simp: new_rpc_client_def)

text \<open>C36: Without an upstream, or with a purge interval that cannot be parsed, the start panics after the
  deferred function of \<open>main\<close> is set up: the panic is logged and the process ends with the status of
  success, although the pool does not run.\<close>

theorem failed_start_status:
  assumes "OptionParse (Args h) = Returns ()" "readConfig (Files h) (Args h) = Returns cfg0"
    and "\<forall>f. open_log h f = None" "snd (SetRLimit (Syscalls h) 800000 k) = Returns ()"
    and "readSecurityPass (Terminal h) = Inr pass"
    and "decryptPoolConfigure (Ciphers h) (Clib h) pass cfg0 = (cfg, Ok ())" "choose_backend cfg = Some be"
    and "\<forall>v \<in> set (Cfg_Upstream cfg). ParseUrl h (rpc_url (Us_Host v) (Us_Port v)) \<noteq> None"
    and "Cfg_Upstream cfg = [] \<or> parse_duration (PurgeInterval cfg) = None"
  shows "main h eps m k db = Exits 0"
proof -
  obtain cs where cs: "upstream_clients (ParseUrl h) (Cfg_Upstream cfg) = Returns cs" "length cs = length (Cfg_Upstream cfg)"
    using upstream_clients_ok [OF assms(8)] by blast
  have "\<exists>p. new_server (ParseUrl h) eps m db cfg = Crashes p"
  proof (cases "Cfg_Upstream cfg = []")
    case True
    with cs show ?thesis by (simp add: new_server_def NewStratum_def rpc_def Let_def index_go_def)
  next
    case False
    with assms(9) have "parse_duration (PurgeInterval cfg) = None" by simp
    then have "\<exists>p. stratum_settings cfg = Panic p" by (simp add: stratum_settings_def MustParseDuration_def Let_def)
    moreover have "\<exists>s. NewStratum cs eps m db = Ok s"
      using cs(2) False by (cases cs) (auto simp: NewStratum_def rpc_def Let_def index_go_def)
    ultimately show ?thesis using cs(1) by (auto simp: new_server_def)
  qed
  then show ?thesis
    using assms(1-7)
    by (auto simp: main_def main_start_def InitLog_def open_or_exit_def startStratum_def recovered_def Let_def)
qed

lemma failed_start_status_witness:
  "main (pool_host (live_pool\<lparr>PurgeInterval := []\<rparr>)) (\<lambda>_. sample_endpoint) (NewMiner [] [] 1) sample_limit
     (fmempty :: mem) = Exits 0"
proof -
  let ?cfg = "live_pool\<lparr>PurgeInterval := []\<rparr>"
  let ?dec = "?cfg\<lparr>Cfg_Address := ''48'', Cfg_Redis := (Cfg_Redis ?cfg)\<lparr>Password := ''p''\<rparr>\<rparr>"
  have "decryptPoolConfigure xor_cipher sample_c [49, 50] ?cfg = (?dec, Ok ())" by (rule live_decrypt [OF refl])
  moreover have "choose_backend ?dec = Some (NewRedisClient (Cfg_Redis ?dec) ''xmr'')"
    by (simp add: choose_backend_def live_pool_def sample_pool_def)
  moreover have "parse_duration (PurgeInterval ?dec) = None" by (simp add: parse_duration_def)
  ultimately show ?thesis
    by (intro failed_start_status [where ?cfg0.0 = ?cfg and cfg = ?dec and pass = "[49, 50]"]) simp_all
qed

text \<open>The first argument is taken for the configuration file even when it is a flag.\<close>

theorem flag_is_config_file:
  "OptionParse [''xmrpool'', ''-v=false'', ''pool.json''] = Returns () \<and>
   config_file_name [''xmrpool'', ''-v=false'', ''pool.json''] = ''-v=false''"
  by (simp add: OptionParse_def flag_bool_def config_file_name_def Let_def)

subsection \<open>Ports\<close>

text \<open>A port gets to its accept loop, whatever its random bytes, exactly when its difficulty is positive,
  its limit is not negative and its address can be resolved and bound (a TLS port: the certificate
  loaded and the address bound); with difficulty 0 its goroutine panics before that.  The endpoint
  has the port's difficulty and a four-byte instance id, and the loop the port's limit.\<close>

theorem port_listens:
  assumes "0 \<le> Po_Difficulty p"
  shows "((\<exists>e l. tcp_port net (Inr bs) p = Returns (e, l)) \<longleftrightarrow>
      0 < Po_Difficulty p \<and> 0 \<le> Po_MaxConn p \<and> Resolve net (bindAddr p) = None \<and> ListenTCP net (bindAddr p) = None) \<and>
    ((\<exists>e l. tls_port net t (Inr bs) p = Returns (e, l)) \<longleftrightarrow>
      0 < Po_Difficulty p \<and> 0 \<le> Po_MaxConn p \<and> LoadCert net (TlsCert t) (TlsKey t) = None \<and> ListenTls net (bindAddr p) = None) \<and>
    (Po_Difficulty p = 0 \<longrightarrow> tcp_port net (Inr bs) p = Crashes ''division by zero'' \<and>
      tls_port net t (Inr bs) p = Crashes ''division by zero'') \<and>
    (\<forall>e l. tcp_port net (Inr bs) p = Returns (e, l) \<or> tls_port net t (Inr bs) p = Returns (e, l) \<longrightarrow>
      Ep_difficulty e = Po_Difficulty p \<and> GetTargetHex (Po_Difficulty p) = Ok (targetHex e) \<and>
      length (instanceId e) = 4 \<and> int (capacity l) = Po_MaxConn p)"
proof (cases "Po_Difficulty p = 0")
  case True
  then show ?thesis by (simp add: tcp_port_def tls_port_def new_endpoint_zero)
next
  case False
  then have pos: "0 < Po_Difficulty p" using assms by simp
  obtain target where t: "GetTargetHex (Po_Difficulty p) = Ok target" using GetTargetHex_pos [OF pos] by blast
  have ep: "new_endpoint (Inr bs) p = Returns \<lparr>jobSequence = 0, Ep_Difficulty = Po_Difficulty p, Ep_difficulty = Po_Difficulty p,
      instanceId = go_copy (replicate 4 0) bs, Ep_extraNonce = 0, targetHex = target\<rparr>"
    using t by (simp add: new_endpoint_def NewEndpoint_def)
  have start: "(\<exists>l. listen_start (Po_MaxConn p) = Ok l) \<longleftrightarrow> 0 \<le> Po_MaxConn p"
    "listen_start (Po_MaxConn p) = Ok l \<Longrightarrow> int (capacity l) = Po_MaxConn p" for l
    by (auto simp: listen_start_def split: if_splits)
  show ?thesis
    using pos t start
    by (auto simp: tcp_port_def tls_port_def ep bindR_Returns_iff endpoint_listen_Returns endpoint_listen_tls_Returns)
qed

lemma port_listens_witness:
  "tcp_port \<lparr>Resolve = \<lambda>_. None, ListenTCP = \<lambda>_. None, LoadCert = \<lambda>_ _. None, ListenTls = \<lambda>_. None\<rparr> (Inr [1, 2, 3, 4])
     \<lparr>Po_Difficulty = 0, Po_Host = [], Po_Port = 1111, Po_MaxConn = 5\<rparr> = Crashes ''division by zero''"
  using port_listens [of "\<lparr>Po_Difficulty = 0, Po_Host = [], Po_Port = 1111, Po_MaxConn = 5\<rparr>"] by simp

end
