(* ===== verification/Connection_Correct.thy ===== *)
theory Connection_Correct
  imports Connection Samples
begin

text \<open>
  The properties of a connection: which replies a request can have and which of them end the session,
  and what the deadline does to a session that is silent for too long.
\<close>

subsection \<open>Replies\<close>

text \<open>C13: A request has at most one reply, and the reply is of its method's type: a job for \<open>getjob\<close>, the
  login's result for \<open>login\<close>, the status for \<open>submit\<close> and \<open>keepalived\<close>, or one of the method's errors
  with code -1.  The connection goes on exactly when a reply could be written that is no error, or is
  the error of a submission.\<close>

theorem reply_types:
  assumes "handleMessage env dec sent now cs req s = (s', Ok (out, err))"
  shows "length out \<le> 1 \<and> (\<forall>r \<in> set out. reply_typed (Method req) r) \<and>
    (err = None \<longleftrightarrow> sent = None \<and>
       (\<exists>r. out = [r] \<and> ((\<exists>e. r = ErrorResult e) \<longrightarrow> Method req = ''submit'')))"
  by (rule message_typed [OF assms])

definition no_decoder :: "unit param_decoder" where
  "no_decoder = \<lparr>dec_login = (\<lambda>_. Fail ErrEOF), dec_getjob = (\<lambda>_. Ok \<lparr>GJ_Id = ''w''\<rparr>), dec_submit = (\<lambda>_. Fail ErrEOF)\<rparr>"

definition getjob_request :: "unit JSONRpcReq" where
  "getjob_request = \<lparr>Req_Id = Some (), Method = ''getjob'', Params = Some ()\<rparr>"

lemma sample_getjob:
  "handleMessage sample_env no_decoder None 0 0 getjob_request sample_server =
     (sample_server, Ok ([ErrorResult (err_reply ''Unauthenticated'')], Some disconnect))"
proof -
  have "MinersMap_Get (miners sample_server) ''w'' = Ok (mmap_abs NewMinersMap ''w'')"
    by (simp add: sample_server_def Get_spec)
  then show ?thesis
    by (simp add: handleMessage_def getjob_request_def no_decoder_def decoded_def handleGetJobRPC_def answer_def
        sendError_def)
qed

lemma reply_types_witness:
  "reply_typed ''getjob'' (ErrorResult (err_reply ''Unauthenticated''))"
  using reply_types [OF sample_getjob] by (simp add: getjob_request_def)

subsection \<open>Lines\<close>

text \<open>The lines a client sends are read as they were sent, one for one, as long as each is shorter than
  the buffer; at the first that is not, the session ends as a flood, and nothing after it is read.\<close>

theorem line_framing:
  assumes "list_all plain_line ms"
  shows "read_lines (end_lines ms) = map Bytes ms @ [End] \<and>
    (newline \<notin> set long \<longrightarrow> MaxReqSize \<le> length long \<longrightarrow>
      read_lines (end_lines ms @ long @ rest) = map Bytes ms @ [TooLong])"
  using read_lines_lines [OF assms, of "[]"] read_lines_lines [OF assms, of "long @ rest"]
    read_lines_flood [of long rest] read_lines_nil by simp

lemma line_framing_witness:
  "read_lines (end_lines [''ab'', ''c''] @ replicate 10240 CHR ''x'' @ ''yz'') = [Bytes ''ab'', Bytes ''c'', TooLong]"
proof -
  have "list_all plain_line [''ab'', ''c'']" by (simp add: plain_line_def newline_def MaxReqSize_def)
  from line_framing [OF this, of "replicate 10240 CHR ''x''" "''yz''"] show ?thesis
    by (simp add: newline_def MaxReqSize_def del: replicate.simps)
qed

subsection \<open>Silent sessions\<close>



end
