(* ===== verification/Process_Correct.thy ===== *)
theory Process_Correct
  imports Startup_Correct Connection_Correct
begin

text \<open>
  The properties of the process' surroundings: what is logged and where, the limit of open files, the
  start of the unlocker and the pace of the timers.
\<close>

subsection \<open>Logs\<close>

text \<open>When the log files could be opened and every file can be written, a line of a logger goes to each
  of its files exactly when the level that is set is at most the logger's: 10 for debug, 20 for info,
  30 for warnings and 40 for errors, which also go to the error file, and 100 and 101 for the shares
  and blocks, which have files of their own.  A fatal error is written whatever the level.\<close>

theorem log_levels:
  assumes "InitLog opn i e s b lev = Returns (lev', ls)" "\<forall>k. \<not> broken env k" "logSetLevel env = lev'"
  shows "Log_Print env (Debug ls) x out = (if lev \<le> 10
      then out @ map (\<lambda>k. (k, ''[D] '' @ stamp env True @ end_line x)) [Stdout, LogFile i] else out) \<and>
    Log_Print env (Info ls) x out = (if lev \<le> 20
      then out @ map (\<lambda>k. (k, ''[I] '' @ stamp env True @ end_line x)) [Stdout, LogFile i] else out) \<and>
    Log_Print env (Warn ls) x out = (if lev \<le> 30
      then out @ map (\<lambda>k. (k, ''[W] '' @ stamp env True @ end_line x)) [Stderr, LogFile i, LogFile e] else out) \<and>
    Log_Print env (Error ls) x out = (if lev \<le> 40
      then out @ map (\<lambda>k. (k, ''[E] '' @ stamp env True @ end_line x)) [Stderr, LogFile i, LogFile e] else out) \<and>
    Log_Print env (ShareLog ls) x out = (if lev \<le> 100
      then out @ map (\<lambda>k. (k, ''[S]'' @ stamp env False @ end_line x)) [LogFile s, Stdout] else out) \<and>
    Log_Print env (BlockLog ls) x out = (if lev \<le> 101
      then out @ map (\<lambda>k. (k, ''[B]'' @ stamp env False @ end_line x)) [LogFile b, Stdout] else out) \<and>
    Log_Fatal env (Error ls) x out =
      (out @ map (\<lambda>k. (k, ''[E] '' @ stamp env True @ end_line x)) [Stderr, LogFile i, LogFile e], Exits 1 :: unit run)"
  using assms
  by (auto simp: InitLog_Returns Log_Print_def Log_Fatal_def Output_def multi_write_all)

lemma log_levels_witness:
  "\<exists>ls. InitLog (\<lambda>_. None) ''i'' ''e'' ''s'' ''b'' 30 = Returns (30, ls) \<and>
     Log_Print \<lparr>logSetLevel = 30, stamp = (\<lambda>_. []), broken = (\<lambda>_. False)\<rparr> (Info ls) ''x'' [] = []"
proof -
  obtain ls where ls: "InitLog (\<lambda>_. None) ''i'' ''e'' ''s'' ''b'' 30 = Returns (30, ls)"
    by (simp add: InitLog_def open_or_exit_def)
  with log_levels [OF ls, of "\<lparr>logSetLevel = 30, stamp = (\<lambda>_. []), broken = (\<lambda>_. False)\<rparr>" "''x''" "[]"] show ?thesis
    by (intro exI [of _ ls]) simp
qed

text \<open>The terminal comes first: when the standard output cannot be written, what is logged below the
  level of warnings does not reach the log file either.\<close>

theorem broken_stdout_silences_log:
  assumes "InitLog opn i e s b lev = Returns (lev', ls)" "broken env Stdout"
  shows "Log_Print env (Debug ls) x out = out \<and> Log_Print env (Info ls) x out = out"
  using assms by (auto simp: InitLog_Returns Log_Print_def Output_def)

lemma broken_stdout_silences_log_witness:
  "\<exists>ls :: loggers. Log_Print \<lparr>logSetLevel = 10, stamp = (\<lambda>_. []), broken = (\<lambda>k. k = Stdout)\<rparr> (Info ls) ''x'' [] = []"
proof -
  obtain ls where ls: "InitLog (\<lambda>_. None) ''i'' ''e'' ''s'' ''b'' 10 = Returns (10, ls)"
    by (simp add: InitLog_def open_or_exit_def)
  with broken_stdout_silences_log [OF ls, of "\<lparr>logSetLevel = 10, stamp = (\<lambda>_. []), broken = (\<lambda>k. k = Stdout)\<rparr>"]
  show ?thesis by (intro exI [of _ ls]) simp
qed

subsection \<open>The limit of open files\<close>

text \<open>On a system that behaves as documented, a process whose soft limit is below the wanted one goes on
  exactly when it may set the hard limit to 999999: with a smaller hard limit only if it is privileged,
  even if the hard limit is above the wanted one; with a larger hard limit it loses the difference.\<close>

theorem nofile_limit:
  assumes "rlimit_laws sys priv bound" "Getrlimit sys k = Inr old" "Cur old < 800000" "999999 \<le> bound"
  shows "(snd (SetRLimit sys 800000 k) = Returns () \<longleftrightarrow> 999999 \<le> Max old \<or> priv) \<and>
    (snd (SetRLimit sys 800000 k) = Returns () \<longrightarrow>
       Getrlimit sys (fst (SetRLimit sys 800000 k)) = Inr \<lparr>Cur = 800000, Max = 999999\<rparr>)"
  using SetRLimit_eq [OF assms(1,2,3)] assms(4) by (auto split: if_splits)

definition unprivileged :: "Rlimit syscalls" where
  "unprivileged = \<lparr>Getrlimit = Inr,
     Setrlimit = (\<lambda>old new. if Cur new \<le> Max new \<and> Max new \<le> 1048576 \<and> Max new \<le> Max old
       then (None, new) else (Some (ErrMsg ''operation not permitted''), old))\<rparr>"

lemma unprivileged_laws: "rlimit_laws unprivileged False 1048576"
  by (simp add: rlimit_laws_def unprivileged_def)

lemma nofile_limit_witness:
  "snd (SetRLimit unprivileged 800000 \<lparr>Cur = 1024, Max = 900000\<rparr>) \<noteq> Returns ()"
  using nofile_limit [OF unprivileged_laws, of "\<lparr>Cur = 1024, Max = 900000\<rparr>"] by (simp add: unprivileged_def)

subsection \<open>The start of the unlocker\<close>

text \<open>The unlocker's goroutine: an invalid address for the fee ends the process with an error, a daemon's
  address that is no URL makes it panic on a nil pointer, and so does an interval that cannot be
  parsed; otherwise it runs with a zero counter.\<close>

theorem unlocker_start:
  "startBlockUnlocker c parse_url cfg =
     (if PoolFeeAddress cfg \<noteq> [] \<and> \<not> ValidateAddress c (PoolFeeAddress cfg) then Exits 1
      else case parse_url (rpc_url (DaemonHost cfg) (DaemonPort cfg)) of
          None \<Rightarrow> Crashes nil_panic
        | Some url \<Rightarrow>
            (case parse_duration (Interval cfg) of
               None \<Rightarrow> Crashes ''util: Can't parse duration''
             | Some intv \<Rightarrow> Returns (NewBlockUnlocker (UnlockerConfig.truncate cfg) (NewRPCClient (DaemonName cfg) url), intv)))"
  by (auto simp: startBlockUnlocker_def new_unlocker_def start_unlocker_truncate Start_def MustParseDuration_def
      split: option.splits)

subsection \<open>The pace of the timers\<close>

text \<open>A refresh interval that cannot be parsed does not keep the server from starting; each refresh
  then follows the one before it without a pause.\<close>

theorem refresh_without_pause:
  assumes "stratum_settings cfg = Ok st" "parse_duration (BlockRefreshInterval cfg) = None"
    and "refresh_timer env st now tooks s = Some (s', Ok ts)" "Suc i < length tooks"
  shows "ts ! Suc i = ts ! i + tooks ! i"
proof -
  have "Set_refreshIntv st = 0"
    using assms(1,2) by (auto simp: stratum_settings_def bindG_Ok_iff duration_or_zero_def)
  with timer_loop_pace [OF assms(3) [unfolded refresh_timer_def] assms(4)] show ?thesis by simp
qed

text \<open>An upstream that answers without a result: a refresh leaves the server as it was.\<close>

definition idle_env :: "(nat, mem) server_env" where
  "idle_env = sample_env\<lparr>Daemon := sample_daemon\<lparr>Net := (\<lambda>url meth ps. HttpResponse 500 ''error'' BodyNull)\<rparr>\<rparr>"

lemma idle_refresh: "refreshBlockTemplate idle_env True sample_server = (sample_server, Ok [])"
proof -
  let ?r = "NewRPCClient ''a'' ''down''"
  have "rpc sample_server = Ok ?r" by (simp add: rpc_def sample_server_def index_go_def)
  moreover have "GetBlockTemplate (Net (Daemon idle_env)) (DecTemplate (Daemon idle_env)) ?r 8 (Address idle_env) =
      (?r, Fail (ErrMsg ''error''))"
    by (simp add: GetBlockTemplate_def doPost_def idle_env_def sample_daemon_def unmarshal_result_def)
  moreover have "set_upstream (upstream sample_server) ?r sample_server = sample_server"
    by (simp add: set_upstream_def sample_server_def)
  ultimately have "fetchBlockTemplate idle_env sample_server = (sample_server, Ok False)"
    by (simp add: fetchBlockTemplate_def Let_def)
  then show ?thesis by (simp add: refreshBlockTemplate_def)
qed

lemma refresh_without_pause_witness:
  "\<exists>st. refresh_timer idle_env st 0 [7, 7] sample_server = Some (sample_server, Ok [0, 7]) \<and> ([0, 7] :: int list) ! 1 = 7"
proof -
  let ?cfg = "sample_pool\<lparr>BlockRefreshInterval := []\<rparr>"
  have none: "parse_duration (BlockRefreshInterval ?cfg) = None" by (simp add: parse_duration_def)
  have "parse_duration (PurgeInterval ?cfg) = Some 600000000000" using parse_10m by (simp add: sample_pool_def)
  then obtain st where st: "stratum_settings ?cfg = Ok st" "Set_refreshIntv st = 0"
    using none by (auto simp: stratum_settings_def MustParseDuration_def duration_or_zero_def Let_def)
  then have t: "refresh_timer idle_env st 0 [7, 7] sample_server = Some (sample_server, Ok [0, 7])"
    by (simp add: refresh_timer_def idle_refresh)
  from refresh_without_pause [OF st(1) none t, of 0] t show ?thesis by auto
qed

subsection \<open>Timers and sessions as steps of the server\<close>








end
