(* ===== verification/Spec2Isabelle.thy ===== *)
theory Spec2Isabelle
  imports Format_Correct Core_Correct Ledger_Correct Stats_Correct Round_Correct Stratum_Correct
    Api_Correct Work_Correct Process_Correct
begin

text \<open>
  A verification development for xmrpool, a Monero mining pool in Go.

  \<^bold>\<open>The program.\<close>  Miners connect to the stratum server (\<open>stratum/\<close>), log in, receive jobs cut
  from a block template and submit shares.  The server fetches templates from one of several upstream
  daemons through the JSON-RPC client (\<open>rpc/\<close>), reads the template's miner transaction with the codec
  of \<open>blocktemplate/\<close>, judges a share by its hash (\<open>hashing/\<close>, \<open>cnutil/\<close>, \<open>util/\<close>) and records shares
  and blocks in Redis (\<open>storage/\<close>).  The block unlocker (\<open>payouts/\<close>) later reads the
  candidates back, compares them with the daemon's chain and credits the miners of their rounds.
  \<open>main.go\<close> reads and decrypts the configuration and starts these parts and a status page as
  goroutines of one process.

  \<^bold>\<open>Conventions\<close> (\<open>Prelude\<close>, \<open>GoStd\<close>, \<open>Float64\<close>, \<open>GoBig\<close>).  A fallible function returns
  \<open>'a go\<close>: a value, an error or a panic; state is passed explicitly and returned with the result
  (\<open>bindS\<close>).  Go's fixed-width unsigned integers are words; \<open>int64\<close> values are integers with the
  wrap-around written out (\<open>wrap64\<close>); \<open>big.Int\<close> and \<open>big.Rat\<close> are exact; \<open>float64\<close> is modelled by
  correctly rounded rationals with infinities and NaN.  Slices and strings are lists; an index out
  of range is a panic.  The order in which Go ranges over a map is a parameter constrained only by
  \<open>range_law\<close>.  A mutex makes an operation one step; goroutines that touch separate objects are run
  one after the other.  The clock is a parameter.

  \<^bold>\<open>Theories.\<close>
  \<^item> \<open>Serialize\<close>, \<open>Transaction\<close>, \<open>Block\<close>: \<open>blocktemplate/*.go\<close>, hashes, variable-length integers,
    miner transactions, headers and blobs with \<open>Pack\<close> and \<open>UnPack\<close>.  Packing is proved against any
    writer (locale \<open>io_writer\<close>) and unpacking against the encoding functions \<open>enc_\<dots>\<close>.
  \<^item> \<open>Util\<close>: \<open>util/util.go\<close>, targets and difficulties.  \<open>Ae64\<close>: \<open>util/ae64.go\<close>, the encryption of
    configuration values, over a block cipher given as a parameter (record \<open>block_cipher\<close>, hypothesis
    \<open>cipher_laws\<close>).  \<open>Duration\<close>: \<open>time.ParseDuration\<close>, with which windows are read.
  \<^item> \<open>Hashing\<close>: the Go side of \<open>cnutil\<close> and \<open>hashing\<close>; the C functions are a parameter.
  \<^item> \<open>MinersMap\<close>: \<open>stratum/mmap.go\<close>, the sharded map, an implementation of the locale \<open>finite_dict\<close>.
  \<^item> \<open>RpcClient\<close>: \<open>rpc/rpc.go\<close>, the calls and the health record of an upstream; the network and the
    JSON decoder are parameters.
  \<^item> \<open>Redis\<close>, \<open>Storage\<close>, \<open>Readers\<close>, \<open>Stats\<close>: \<open>storage/redis.go\<close>, keys, the writers, the readers and
    the statistics.  Redis is a record of functions over an abstract database.  \<open>Ledger\<close> states what
    the accounting needs of it (locale \<open>ledger_store\<close>); \<open>MemRedis\<close> is an executable Redis that
    satisfies it and on which witnesses run.
  \<^item> \<open>Rewards\<close>, \<open>Unlocker\<close>: \<open>payouts/unlocker.go\<close>, the arithmetic, the two sessions and the rounds.
    \<open>Bookkeeping\<close> makes a session a list of storage operations (\<open>run_ops\<close>), each with the obligations
    of the ledger (\<open>ops_ok\<close>).
  \<^item> \<open>Server\<close>, \<open>Template\<close>, \<open>Shares\<close>, \<open>Handlers\<close>, \<open>Upstreams\<close>, \<open>ServerInv\<close>, \<open>Login\<close>: \<open>stratum/*.go\<close>.
    Sessions, endpoints and miners are objects behind pointers and live in stores; \<open>server_step\<close> is a
    message, a refresh, a check of the upstreams, a status page, a connect or a disconnect, under any of
    the surroundings a step may meet.  \<open>Work\<close> follows the jobs through these steps (\<open>work_ok\<close>: the
    numbers that the sessions' jobs carry are counted by their endpoints).
  \<^item> \<open>Api\<close>: \<open>stratum/api.go\<close>, the status page.  \<open>Listener\<close>: the accept loop of \<open>stratum/stratum.go\<close> with
    its channel of tokens, a step relation, and the purge.  \<open>Connection\<close>: the messages on the wire, the
    framing of lines and the deadlines of a connection (\<open>stratum.go\<close>, \<open>proto.go\<close>); times are in
    nanoseconds, and a read gets what the client sent only before the deadline.
  \<^item> \<open>Config\<close>, \<open>Settings\<close>: the types of \<open>pool/pool.go\<close>, the decryption of the configuration and the
    windows \<open>NewStratum\<close> reads.  \<open>Log\<close>: \<open>util/log.go\<close> and \<open>util/platform_*.go\<close>, the loggers, the limit of
    open files, and \<open>'a run\<close>, a part of the process that returns, exits with a status or crashes.
  \<^item> \<open>Startup\<close>: \<open>main.go\<close> from the command line to the list of tasks that run (\<open>main\<close>), and
    \<open>NewStratum\<close> as a whole.  \<open>Tasks\<close>: the goroutines it starts: the set-up of each port
    (\<open>stratum.go\<close>), the unlocker's start, the routes of the status page, and the timers (\<open>timer_loop\<close>).
  \<^item> \<open>Samples\<close>: concrete surroundings for the witnesses; \<open>Login\<close> ends with a run of the server from its
    start to a working miner.  The properties C1 to C40 stand in the theories \<open>\<dots>_Correct\<close>, \<open>Login\<close> and
    \<open>Listener\<close>, each after a text block with its number and followed by its witness; the theorems there
    without a number are weaker or narrower facts of the same kind.

  \<^bold>\<open>What the lemmas show.\<close>  Codec: packed values are read back, by any reader position and any writer;
  the bounds and panics of malformed input.  Ledger: every successful storage operation moves the
  pool's finances and the miners' accounts together (\<open>balanced\<close>, \<open>books_agree\<close>).  Unlocker: the
  candidates are told apart by the daemon's headers, rewards are conserved and rounded to the nearest
  unit; a session is a run of ledger operations, and a round that a block closes is paid to its miners
  out of the recorded total (\<open>Round_Correct\<close>, across the server's and the unlocker's storage code).
  Statistics: the rates are what a direct definition gives.  Server: the invariant \<open>server_inv\<close> is kept
  by every step; a share that counts was recomputed and reaches its difficulty; no two
  jobs of an endpoint share their work; a reply is of its method's type; a silent session ends.  Process: what has been checked when the pool runs, and that
  the timers and the sessions are runs of the server's steps, so that the invariant is theirs.  Several properties state what the code does where that is not what it
  means to do (a panic instead of an error, a suspension that never happens, a status page that is
  never sent, a failed start that exits with success); they are the findings of the manifest.

  \<^bold>\<open>Termination and fuel.\<close>  All loops are structural or have a measure, except the two scans of the
  key space (\<open>GetPayees\<close>, \<open>FlushStaleStats\<close>), which end only when the server answers cursor 0: they
  are partial functions into \<open>option\<close>, with theorems that say when they return.  The endless loops of
  the timers and of the unlocker run for a given list of rounds, those of a connection for a given
  list of reads, and the accept loops are step relations: what is proved holds for every length.

  \<^bold>\<open>Not modelled.\<close>  The calls of the loggers are not threaded through the other components (except
  where computing their arguments can panic).  Files, sockets, certificates, the terminal, the kernel's
  limits and the HTTP server of the status page are parameters: what they answer is given, what the
  code makes of it is modelled.  The parsers of JSON and of URLs are parameters as well.  The C and
  C++ glue, the Monero libraries, the web page and the tests are not part of the Go program.  AES on
  a block and the Redis server are parameters with their documented laws.
\<close>

end
